(* ===== verification/Prelude.thy ===== *)
theory Prelude
  imports Main "HOL-Library.Word" "HOL-Library.Multiset"
begin

text \<open>
  Shared vocabulary of the development: the outcome of a C++ call that may throw, the
  operations of \<^verbatim>\<open>std::string\<close> that the program uses, the row-set operations an SQL
  statement performs on a table, and the conversions between the clocks of the program and
  of the database. Nothing here belongs to a single component.
\<close>

named_theorems row_simps \<open>equations for the row-set operations of SQL statements\<close>
named_theorems wf_intros \<open>preservation of table invariants by single statements\<close>

section \<open>Calls that may throw\<close>

text \<open>
  \<open>Return v\<close> is a normal return, \<open>Throw\<close> an exception that leaves the function.
\<close>

datatype 'a outcome = Return 'a | Throw

section \<open>Operations of std::string\<close>

type_synonym byte = "8 word"

fun index_of :: "('a \<Rightarrow> bool) \<Rightarrow> 'a list \<Rightarrow> nat option" where
  "index_of p [] = None"
| "index_of p (x # xs) = (if p x then Some 0 else map_option Suc (index_of p xs))"

lemma index_of_None [simp]: "index_of p xs = None \<longleftrightarrow> (\<forall>x\<in>set xs. \<not> p x)"
  by (induction xs) auto

lemma index_of_SomeD:
  "index_of p xs = Some i \<Longrightarrow> i < length xs \<and> p (xs ! i) \<and> (\<forall>j<i. \<not> p (xs ! j))"
proof (induction xs arbitrary: i)
  case Nil
  then show ?case by simp
next
  case (Cons x xs)
  show ?case
  proof (cases "p x")
    case True
    with Cons.prems show ?thesis by simp
  next
    case False
    with Cons.prems obtain k where k: "index_of p xs = Some k" "i = Suc k"
      by auto
    with Cons.IH[of k] False show ?thesis
      by (auto simp: nth_Cons split: nat.splits)
  qed
qed

lemma index_of_append:
  "\<forall>x\<in>set xs. \<not> p x \<Longrightarrow> index_of p (xs @ ys) = map_option ((+) (length xs)) (index_of p ys)"
proof (induction xs)
  case Nil
  show ?case by (simp add: option.map_ident del: index_of_None)
next
  case (Cons x xs)
  then have "index_of p (xs @ ys) = map_option ((+) (length xs)) (index_of p ys)" by simp
  with Cons.prems show ?case
    by (cases "index_of p ys") (simp_all del: index_of_None)
qed

text \<open>
  \<^verbatim>\<open>s.find(c, pos)\<close>: the first position at or after \<open>pos\<close>, with \<open>None\<close> for
  \<^verbatim>\<open>npos\<close>; \<^verbatim>\<open>s.substr(pos, n)\<close>; \<^verbatim>\<open>s.rfind(prefix, 0) == 0\<close>, the program's idiom for
  "starts with"; and \<^verbatim>\<open>s.find(t) != npos\<close>.
\<close>

definition str_find :: "char \<Rightarrow> nat \<Rightarrow> string \<Rightarrow> nat option" where
  "str_find c pos s = map_option ((+) pos) (index_of ((=) c) (drop pos s))"

definition substr :: "nat \<Rightarrow> nat \<Rightarrow> string \<Rightarrow> string" where
  "substr pos n s = take n (drop pos s)"

definition starts_with :: "string \<Rightarrow> string \<Rightarrow> bool" where
  "starts_with p s \<longleftrightarrow> take (length p) s = p"

fun contains_str :: "string \<Rightarrow> string \<Rightarrow> bool" where
  "contains_str t [] \<longleftrightarrow> t = []"
| "contains_str t (c # s) \<longleftrightarrow> starts_with t (c # s) \<or> contains_str t s"

lemma starts_with_append [simp]: "starts_with p (p @ s)"
  by (simp add: starts_with_def)

lemma str_find_SomeD:
  assumes "str_find c pos s = Some i"
  shows "pos \<le> i \<and> i < length s \<and> s ! i = c \<and> (\<forall>j. pos \<le> j \<longrightarrow> j < i \<longrightarrow> s ! j \<noteq> c)"
proof -
  from assms obtain k where k: "index_of ((=) c) (drop pos s) = Some k" "i = pos + k"
    by (auto simp: str_find_def)
  note d = index_of_SomeD[OF k(1)]
  have "s ! j \<noteq> c" if "pos \<le> j" "j < i" for j
  proof -
    have "j - pos < k" using that k(2) by simp
    with d have "drop pos s ! (j - pos) \<noteq> c" by auto
    moreover have "drop pos s ! (j - pos) = s ! j"
      using that d k(2) by (subst nth_drop) auto
    ultimately show ?thesis by simp
  qed
  with d k(2) show ?thesis by auto
qed

text \<open>
  \<^verbatim>\<open>std::isspace\<close> in the C locale, and the character set the program lists itself as
  \<^verbatim>\<open>" \t\n\r"\<close>, which lacks the vertical tab and the form feed.
\<close>

definition isspace :: "char \<Rightarrow> bool" where
  "isspace c \<longleftrightarrow> c \<in> {CHR '' '', CHR 0x09, CHR 0x0A, CHR 0x0B, CHR 0x0C, CHR 0x0D}"

definition is_blank_char :: "char \<Rightarrow> bool" where
  "is_blank_char c \<longleftrightarrow> c \<in> {CHR '' '', CHR 0x09, CHR 0x0A, CHR 0x0D}"

lemma is_blank_isspace: "is_blank_char c \<Longrightarrow> isspace c"
  by (auto simp: is_blank_char_def isspace_def)

text \<open>\<^verbatim>\<open>tolower\<close> in the C locale.\<close>

definition tolower :: "char \<Rightarrow> char" where
  "tolower c =
     (let n = of_char c :: nat in if 65 \<le> n \<and> n \<le> 90 then char_of (n + 32) else c)"

text \<open>\<^verbatim>\<open>std::to_string\<close> and the default integer format of \<^verbatim>\<open>std::format\<close>.\<close>

definition digit_char :: "nat \<Rightarrow> char" where
  "digit_char n = char_of (48 + n)"

fun string_of_nat :: "nat \<Rightarrow> string" where
  "string_of_nat n =
     (if n < 10 then [digit_char n] else string_of_nat (n div 10) @ [digit_char (n mod 10)])"

declare string_of_nat.simps [simp del]

definition string_of_int :: "int \<Rightarrow> string" where
  "string_of_int i = (if i < 0 then CHR ''-'' # string_of_nat (nat (- i)) else string_of_nat (nat i))"

text \<open>A value between single quotes, as the program's messages print names.\<close>

definition quoted :: "string \<Rightarrow> string" where
  "quoted s = CHR 0x27 # s @ [CHR 0x27]"

definition is_digit :: "char \<Rightarrow> bool" where
  "is_digit c \<longleftrightarrow> 48 \<le> (of_char c :: nat) \<and> (of_char c :: nat) \<le> 57"

lemma of_char_digit_char: "n < 10 \<Longrightarrow> (of_char (digit_char n) :: nat) = 48 + n"
  by (simp add: digit_char_def)

lemma is_digit_digit_char [simp]: "n < 10 \<Longrightarrow> is_digit (digit_char n)"
  by (simp add: is_digit_def of_char_digit_char)

lemma string_of_nat_digits: "\<forall>c\<in>set (string_of_nat n). is_digit c"
proof (induction n rule: string_of_nat.induct)
  case (1 n)
  then show ?case by (subst string_of_nat.simps) auto
qed

lemma string_of_nat_nonempty [simp]: "string_of_nat n \<noteq> []"
  by (subst string_of_nat.simps) simp

text \<open>The value of a decimal digit string, the number \<^verbatim>\<open>std::stoi\<close> reads.\<close>

definition digits_value :: "string \<Rightarrow> nat" where
  "digits_value s = foldl (\<lambda>a c. 10 * a + (of_char c - 48)) 0 s"

lemma digits_value_string_of_nat [simp]: "digits_value (string_of_nat n) = n"
proof (induction n rule: string_of_nat.induct)
  case (1 n)
  show ?case
  proof (cases "n < 10")
    case True
    then show ?thesis
      by (subst string_of_nat.simps) (simp add: digits_value_def of_char_digit_char)
  next
    case False
    with 1 have "digits_value (string_of_nat (n div 10)) = n div 10" by simp
    with False show ?thesis
      by (subst string_of_nat.simps) (simp add: digits_value_def of_char_digit_char)
  qed
qed

section \<open>Row sets: what an SQL statement does to a table\<close>

text \<open>
  A table is the list of its rows. \<^verbatim>\<open>UPDATE t SET .. WHERE p\<close> maps the rows that satisfy
  \<open>p\<close>, \<^verbatim>\<open>DELETE FROM t WHERE p\<close> keeps the others, and \<^verbatim>\<open>affected_rows()\<close> counts the
  matches. A \<^verbatim>\<open>SELECT\<close> whose caller reads \<^verbatim>\<open>rows[0]\<close> is the library's \<open>find\<close>.
\<close>

definition update_where :: "('r \<Rightarrow> bool) \<Rightarrow> ('r \<Rightarrow> 'r) \<Rightarrow> 'r list \<Rightarrow> 'r list" where
  "update_where p f rows = map (\<lambda>r. if p r then f r else r) rows"

definition delete_where :: "('r \<Rightarrow> bool) \<Rightarrow> 'r list \<Rightarrow> 'r list" where
  "delete_where p rows = filter (\<lambda>r. \<not> p r) rows"

definition affected :: "('r \<Rightarrow> bool) \<Rightarrow> 'r list \<Rightarrow> nat" where
  "affected p rows = length (filter p rows)"

lemma update_where_Nil [simp]: "update_where p f [] = []"
  and update_where_Cons [simp]:
    "update_where p f (r # rs) = (if p r then f r else r) # update_where p f rs"
  by (simp_all add: update_where_def)

lemma update_where_append [row_simps]:
  "update_where p f (xs @ ys) = update_where p f xs @ update_where p f ys"
  by (simp add: update_where_def)

lemma length_update_where [simp]: "length (update_where p f rows) = length rows"
  by (simp add: update_where_def)

lemma set_update_where: "set (update_where p f rows) = (\<lambda>r. if p r then f r else r) ` set rows"
  by (simp add: update_where_def)

lemma update_where_keeps: "x \<in> set rows \<Longrightarrow> \<not> p x \<Longrightarrow> x \<in> set (update_where p f rows)"
  by (auto simp: set_update_where)

lemma map_update_where:
  assumes "\<And>r. p r \<Longrightarrow> g (f r) = g r"
  shows "map g (update_where p f rows) = map g rows"
  using assms by (simp add: update_where_def)

lemma update_where_id: "\<forall>r\<in>set rows. \<not> p r \<Longrightarrow> update_where p f rows = rows"
  by (induction rows) auto

lemma affected_zero [row_simps]: "affected p rows = 0 \<longleftrightarrow> (\<forall>r\<in>set rows. \<not> p r)"
  by (simp add: affected_def filter_empty_conv)

lemma affected_pos [row_simps]: "0 < affected p rows \<longleftrightarrow> (\<exists>r\<in>set rows. p r)"
  using affected_zero[of p rows] by (metis gr0I less_nat_zero_code)

lemma set_delete_where [simp]: "set (delete_where p rows) = {r \<in> set rows. \<not> p r}"
  by (simp add: delete_where_def)

lemma distinct_map_delete_where:
  "distinct (map g rows) \<Longrightarrow> distinct (map g (delete_where p rows))"
  by (simp add: delete_where_def distinct_map_filter)

lemma length_delete_where: "length (delete_where p rows) + affected p rows = length rows"
  by (simp add: delete_where_def affected_def sum_length_filter_compl add.commute)

lemma find_SomeD: "find p xs = Some x \<Longrightarrow> x \<in> set xs \<and> p x"
  by (induction xs) (auto split: if_splits)

lemma find_NoneD: "find p xs = None \<Longrightarrow> x \<in> set xs \<Longrightarrow> \<not> p x"
  by (auto simp: find_None_iff)

lemma find_unique:
  assumes "x \<in> set xs" and "p x" and "\<And>y. y \<in> set xs \<Longrightarrow> p y \<Longrightarrow> y = x"
  shows "find p xs = Some x"
proof (cases "find p xs")
  case None
  with assms(1,2) show ?thesis by (auto dest: find_NoneD)
next
  case (Some y)
  then have "y \<in> set xs" "p y" by (auto dest: find_SomeD)
  with assms(3) Some show ?thesis by simp
qed

lemma find_key:
  assumes "distinct (map k xs)" and "x \<in> set xs"
  shows "find (\<lambda>y. k y = k x) xs = Some x"
  using assms by (intro find_unique) (auto simp: distinct_map inj_on_def)

lemma find_append [row_simps]:
  "find p (xs @ ys) = (case find p xs of None \<Rightarrow> find p ys | Some x \<Rightarrow> Some x)"
  by (induction xs) auto

lemma find_update_where:
  assumes "\<And>r. q (f r) = q r"
  shows "find q (update_where p f rows) = map_option (\<lambda>r. if p r then f r else r) (find q rows)"
  using assms by (induction rows) auto

text \<open>Row lists keyed by an attribute, read as finite maps.\<close>

lemma map_of_find:
  "map_of (map (\<lambda>t. (k t, v t)) ts) i = map_option v (find (\<lambda>t. k t = i) ts)"
  by (induction ts) auto

lemma map_of_list_update:
  "index_of (\<lambda>t. k t = i) ts = Some n \<Longrightarrow> k t' = i \<Longrightarrow>
     map_of (map (\<lambda>t. (k t, v t)) (ts[n := t'])) = (map_of (map (\<lambda>t. (k t, v t)) ts))(i \<mapsto> v t')"
proof (induction ts arbitrary: n)
  case Nil
  then show ?case by simp
next
  case (Cons t ts)
  show ?case
  proof (cases "k t = i")
    case True
    with Cons.prems show ?thesis by (auto simp: fun_eq_iff)
  next
    case False
    with Cons.prems(1) obtain m where "index_of (\<lambda>t. k t = i) ts = Some m" "n = Suc m" by auto
    with False Cons.IH[of m] Cons.prems(2) show ?thesis by (auto simp: fun_upd_twist)
  qed
qed

lemma map_of_erase:
  "index_of (\<lambda>t. k t = i) ts = Some n \<Longrightarrow> distinct (map k ts) \<Longrightarrow>
     map_of (map (\<lambda>t. (k t, v t)) (take n ts @ drop (Suc n) ts)) =
       (map_of (map (\<lambda>t. (k t, v t)) ts))(i := None)"
proof (induction ts arbitrary: n)
  case Nil
  then show ?case by simp
next
  case (Cons t ts)
  show ?case
  proof (cases "k t = i")
    case True
    have "map_of (map (\<lambda>t. (k t, v t)) ts) i = None"
      using True Cons.prems(2) by (auto simp: map_of_eq_None_iff image_iff)
    with True Cons.prems(1) show ?thesis by (auto simp: fun_upd_idem)
  next
    case False
    with Cons.prems(1) obtain m where "index_of (\<lambda>t. k t = i) ts = Some m" "n = Suc m" by auto
    with False Cons.IH[of m] Cons.prems(2) show ?thesis by (auto simp: fun_upd_twist)
  qed
qed

lemma map_of_update_where:
  assumes "\<And>t. k (f t) = k t"
  shows "map_of (map (\<lambda>t. (k t, v t)) (update_where (\<lambda>t. k t = i) f ts)) =
    (case find (\<lambda>t. k t = i) ts of
       None \<Rightarrow> map_of (map (\<lambda>t. (k t, v t)) ts)
     | Some t \<Rightarrow> (map_of (map (\<lambda>t. (k t, v t)) ts))(i \<mapsto> v (f t)))"
proof (rule ext)
  fix j
  have "find (\<lambda>t. k t = j) (update_where (\<lambda>t. k t = i) f ts) =
      map_option (\<lambda>t. if k t = i then f t else t) (find (\<lambda>t. k t = j) ts)"
    using assms by (simp add: find_update_where)
  then show "map_of (map (\<lambda>t. (k t, v t)) (update_where (\<lambda>t. k t = i) f ts)) j =
    (case find (\<lambda>t. k t = i) ts of
       None \<Rightarrow> map_of (map (\<lambda>t. (k t, v t)) ts)
     | Some t \<Rightarrow> (map_of (map (\<lambda>t. (k t, v t)) ts))(i \<mapsto> v (f t))) j"
    by (cases "j = i"; cases "find (\<lambda>t. k t = j) ts")
      (auto simp: map_of_find dest!: find_SomeD split: option.splits)
qed

lemma map_of_delete_where:
  "map_of (map (\<lambda>t. (k t, v t)) (delete_where (\<lambda>t. k t = i) ts)) =
    (map_of (map (\<lambda>t. (k t, v t)) ts))(i := None)"
  by (induction ts) (auto simp: delete_where_def)

lemma distinct_map_sort_key: "distinct (map k (sort_key g ts)) \<longleftrightarrow> distinct (map k ts)"
  by (simp add: distinct_map)

section \<open>Tables that only grow\<close>

text \<open>
  \<open>rows_le R xs ys\<close>: every row of \<open>xs\<close> is still at its place in \<open>ys\<close>, changed at most as
  \<open>R\<close> allows, and new rows come after them.
\<close>

definition rows_le :: "('r \<Rightarrow> 'r \<Rightarrow> bool) \<Rightarrow> 'r list \<Rightarrow> 'r list \<Rightarrow> bool" where
  "rows_le R xs ys \<longleftrightarrow> list_all2 R xs (take (length xs) ys)"

lemma rows_le_nth:
  "rows_le R xs ys \<longleftrightarrow> length xs \<le> length ys \<and> (\<forall>i<length xs. R (xs ! i) (ys ! i))"
  by (auto simp: rows_le_def list_all2_conv_all_nth)

lemma rows_le_refl: "(\<And>r. R r r) \<Longrightarrow> rows_le R xs xs"
  by (simp add: rows_le_nth)

lemma rows_le_trans:
  assumes "\<And>x y z. R x y \<Longrightarrow> R y z \<Longrightarrow> R x z" and "rows_le R xs ys" and "rows_le R ys zs"
  shows "rows_le R xs zs"
  using assms(2,3) by (auto simp: rows_le_nth intro: assms(1))

lemma rows_le_append: "(\<And>r. R r r) \<Longrightarrow> rows_le R xs (xs @ ys)"
  by (simp add: rows_le_nth nth_append)

lemma rows_le_update_where:
  assumes "\<And>r. R r r" and "\<And>r. r \<in> set xs \<Longrightarrow> p r \<Longrightarrow> R r (f r)"
  shows "rows_le R xs (update_where p f xs)"
  using assms by (simp add: rows_le_nth update_where_def)

lemma rows_le_memberD:
  assumes "rows_le R xs ys" and "x \<in> set xs"
  obtains y where "y \<in> set ys" and "R x y"
proof -
  from assms(2) obtain i where i: "i < length xs" "xs ! i = x" by (auto simp: in_set_conv_nth)
  with assms(1) have "R x (ys ! i)" "i < length ys" by (auto simp: rows_le_nth)
  with that show thesis by (metis nth_mem)
qed

section \<open>Systems that move in one direction\<close>

text \<open>
  A step relation whose steps keep an invariant and respect an order: both then hold along
  every run, whatever the steps and however those of several clients are interleaved.
\<close>

locale directed_steps =
  fixes step :: "'s \<Rightarrow> 's \<Rightarrow> bool"
    and inv :: "'s \<Rightarrow> bool"
    and le :: "'s \<Rightarrow> 's \<Rightarrow> bool"
  assumes le_refl: "le s s"
    and le_trans: "\<lbrakk>le s t; le t u\<rbrakk> \<Longrightarrow> le s u"
    and step_inv: "\<lbrakk>inv s; step s t\<rbrakk> \<Longrightarrow> inv t"
    and step_le: "\<lbrakk>inv s; step s t\<rbrakk> \<Longrightarrow> le s t"
begin

lemma run: "step\<^sup>*\<^sup>* s t \<Longrightarrow> inv s \<Longrightarrow> inv t \<and> le s t"
proof (induction rule: rtranclp_induct)
  case base
  then show ?case by (simp add: le_refl)
next
  case (step t u)
  then show ?case using step_inv step_le le_trans by blast
qed

lemma stable:
  assumes "\<And>s t. \<lbrakk>le s t; p s\<rbrakk> \<Longrightarrow> p t"
  shows "\<lbrakk>step\<^sup>*\<^sup>* s t; inv s; p s\<rbrakk> \<Longrightarrow> p t"
  using run assms by blast

end

text \<open>A counter that has not reached its last value counts up.\<close>

lemma word_less_succ:
  fixes a b :: "64 word"
  assumes "b + 1 \<noteq> 0" and "a < b \<or> a = b"
  shows "a < b + 1"
proof -
  have "unat b + 1 < 2 ^ 64"
  proof (rule ccontr)
    assume "\<not> unat b + 1 < 2 ^ 64"
    with unsigned_less[of b, where ?'a = nat] have "unat b + 1 = 2 ^ 64" by simp
    then have "unat (b + 1) = 0" by (simp add: unat_word_ariths)
    with assms(1) show False by (simp add: unat_eq_zero)
  qed
  then have "unat (b + 1) = unat b + 1" by (simp add: unat_word_ariths)
  with assms(2) show ?thesis by (auto simp: word_less_nat_alt)
qed

section \<open>Time\<close>

text \<open>
  A point in time, of \<^verbatim>\<open>std::chrono::system_clock\<close> as of a \<^verbatim>\<open>TIMESTAMPTZ\<close>, is an
  \<open>int\<close>: nanoseconds since the Unix epoch. \<open>to_epoch\<close> is the truncating
  \<^verbatim>\<open>duration_cast<seconds>\<close>, \<open>from_epoch\<close> is both \<^verbatim>\<open>time_point{seconds(n)}\<close> and SQL's
  \<^verbatim>\<open>to_timestamp(n)\<close>, and \<open>epoch_bigint\<close> is \<^verbatim>\<open>extract(epoch from t)::bigint\<close>, which
  rounds to the nearest second (ties away from zero).
\<close>

type_synonym time = int

abbreviation ns_per_sec :: int where
  "ns_per_sec \<equiv> 1000000000"

definition seconds :: "int \<Rightarrow> time" where
  "seconds n = n * ns_per_sec"

definition minutes :: "int \<Rightarrow> time" where
  "minutes n = seconds (60 * n)"

definition hours :: "int \<Rightarrow> time" where
  "hours n = seconds (3600 * n)"

definition to_epoch :: "time \<Rightarrow> int" where
  "to_epoch t = (if 0 \<le> t then t div ns_per_sec else - ((- t) div ns_per_sec))"

definition from_epoch :: "int \<Rightarrow> time" where
  "from_epoch n = n * ns_per_sec"

definition epoch_bigint :: "time \<Rightarrow> int" where
  "epoch_bigint t =
     (if 0 \<le> t then (t + 500000000) div ns_per_sec else - ((- t + 500000000) div ns_per_sec))"

lemma epoch_bigint_from_epoch [simp]: "epoch_bigint (from_epoch n) = n"
proof -
  have "(500000000 + - n * ns_per_sec) div ns_per_sec = - n"
    by (subst div_mult_self1) simp_all
  then show ?thesis
    by (simp add: epoch_bigint_def from_epoch_def)
qed

lemma to_epoch_from_epoch [simp]: "to_epoch (from_epoch n) = n"
proof -
  have "(- n * ns_per_sec) div ns_per_sec = - n"
    by (rule nonzero_mult_div_cancel_right) simp
  then show ?thesis
    by (simp add: to_epoch_def from_epoch_def)
qed

lemma from_to_epoch_le: "0 \<le> t \<Longrightarrow> from_epoch (to_epoch t) \<le> t"
  by (simp add: to_epoch_def from_epoch_def)

lemma from_to_epoch_gt: "0 \<le> t \<Longrightarrow> t - ns_per_sec < from_epoch (to_epoch t)"
  by (simp add: to_epoch_def from_epoch_def)

end
