(* ===== verification/Std_Text.thy ===== *)
theory Std_Text
  imports Prelude
begin

text \<open>
  The parts of the C++ standard library that the encoders, the configuration loader and the
  controllers read text with: bytes and characters, hexadecimal digits, \<^verbatim>\<open>std::stoi\<close> and
  \<^verbatim>\<open>std::strtoul\<close>, and the splitting of a string at a delimiter.
\<close>

section \<open>Bytes and characters\<close>

text \<open>\<^verbatim>\<open>std::string\<close> and \<^verbatim>\<open>uint8_t\<close> buffers hold the same bytes.\<close>

definition char_of_byte :: "byte \<Rightarrow> char" where
  "char_of_byte b = char_of (unat b)"

definition byte_of_char :: "char \<Rightarrow> byte" where
  "byte_of_char c = word_of_nat (of_char c)"

lemma of_char_less_256: "(of_char c :: nat) < 256"
  using of_char_mod_256[of c, where ?'a = nat] by (metis mod_less_divisor zero_less_numeral)

lemma char_of_byte_of_char [simp]: "char_of_byte (byte_of_char c) = c"
  using of_char_less_256[of c] by (simp add: char_of_byte_def byte_of_char_def unat_of_nat)

lemma unat_byte_less: "unat (b :: byte) < 256"
  using unsigned_less[of b, where ?'a = nat] by simp

lemma byte_of_char_of_byte [simp]: "byte_of_char (char_of_byte b) = b"
  using unat_byte_less[of b] by (simp add: char_of_byte_def byte_of_char_def)

lemma map_char_of_byte_of_char [simp]: "map char_of_byte (map byte_of_char s) = s"
  by (simp add: map_idI)

section \<open>Sequencing\<close>

text \<open>A statement that may throw, and what comes after it.\<close>

fun obind :: "'a outcome \<Rightarrow> ('a \<Rightarrow> 'b outcome) \<Rightarrow> 'b outcome" where
  "obind (Return x) f = f x"
| "obind Throw f = Throw"

lemma obind_Return_iff: "obind m f = Return y \<longleftrightarrow> (\<exists>x. m = Return x \<and> f x = Return y)"
  by (cases m) simp_all

lemma obind_no_throw: "m \<noteq> Throw \<Longrightarrow> (\<And>x. m = Return x \<Longrightarrow> f x \<noteq> Throw) \<Longrightarrow> obind m f \<noteq> Throw"
  by (cases m) simp_all

section \<open>Hexadecimal digits\<close>

text \<open>\<^verbatim>\<open>std::hex\<close> prints lower-case digits; \<^verbatim>\<open>std::strtoul\<close> reads both cases.\<close>

definition hex_digit :: "nat \<Rightarrow> char" where
  "hex_digit n = (if n < 10 then char_of (48 + n) else char_of (87 + n))"

definition hex_value :: "char \<Rightarrow> nat option" where
  "hex_value c =
     (let n = of_char c :: nat
      in if 48 \<le> n \<and> n \<le> 57 then Some (n - 48)
         else if 97 \<le> n \<and> n \<le> 102 then Some (n - 87)
         else if 65 \<le> n \<and> n \<le> 70 then Some (n - 55) else None)"

lemma of_char_hex_digit: "n < 16 \<Longrightarrow> of_char (hex_digit n) = (if n < 10 then 48 + n else 87 + n)"
  by (simp add: hex_digit_def)

lemma hex_value_hex_digit [simp]: "n < 16 \<Longrightarrow> hex_value (hex_digit n) = Some n"
  by (auto simp: hex_value_def of_char_hex_digit Let_def)

lemma hex_value_less: "hex_value c = Some n \<Longrightarrow> n < 16"
  by (auto simp: hex_value_def Let_def split: if_splits)

text \<open>One byte as \<^verbatim>\<open>oss << std::hex << std::setw(2) << std::setfill('0')\<close> prints it.\<close>

definition hex2 :: "byte \<Rightarrow> string" where
  "hex2 b = [hex_digit (unat b div 16), hex_digit (unat b mod 16)]"

lemma length_hex2 [simp]: "length (hex2 b) = 2"
  by (simp add: hex2_def)

lemma unat_byte_bounds [simp]: "unat (b :: byte) div 16 < 16" "unat (b :: byte) mod 16 < 16"
  using unat_byte_less[of b] by simp_all

lemma hex2_hex_digits: "c \<in> set (hex2 b) \<Longrightarrow> \<exists>n < 16. c = hex_digit n"
  using unat_byte_bounds[of b] unfolding hex2_def by (metis empty_iff empty_set set_ConsD)

section \<open>Numbers\<close>

text \<open>
  What \<^verbatim>\<open>strtol\<close> and its relatives read: leading white space, a sign, and the longest
  run of digits. Of \<^verbatim>\<open>std::stoi\<close> it is known that no digit raises
  \<^verbatim>\<open>std::invalid_argument\<close> and a value that is no \<^verbatim>\<open>int\<close> raises \<^verbatim>\<open>std::out_of_range\<close>.
\<close>

definition read_sign :: "string \<Rightarrow> bool \<times> string" where
  "read_sign s =
     (case s of
        c # cs \<Rightarrow> if c = CHR ''-'' then (True, cs) else if c = CHR ''+'' then (False, cs) else (False, s)
      | [] \<Rightarrow> (False, s))"

definition stoi :: "string \<Rightarrow> int outcome" where
  "stoi s =
     (let (neg, t) = read_sign (dropWhile isspace s);
          ds = takeWhile is_digit t;
          v = (if neg then - int (digits_value ds) else int (digits_value ds))
      in if ds = [] \<or> v < - (2 ^ 31) \<or> 2 ^ 31 \<le> v then Throw else Return v)"

text \<open>\<^verbatim>\<open>static_cast<uint8_t>(std::strtoul(s, nullptr, 16))\<close>; no digits give 0.\<close>

definition hex_string_value :: "string \<Rightarrow> nat" where
  "hex_string_value s =
     foldl (\<lambda>a c. 16 * a + the (hex_value c)) 0 (takeWhile (\<lambda>c. hex_value c \<noteq> None) s)"

definition strip_0x :: "string \<Rightarrow> string" where
  "strip_0x s =
     (case s of
        a # b # c # cs \<Rightarrow>
          if a = CHR ''0'' \<and> (b = CHR ''x'' \<or> b = CHR ''X'') \<and> hex_value c \<noteq> None then c # cs else s
      | _ \<Rightarrow> s)"

definition strtoul16_byte :: "string \<Rightarrow> byte" where
  "strtoul16_byte s =
     (let (neg, t) = read_sign (dropWhile isspace s);
          v = int (hex_string_value (strip_0x t))
      in word_of_int (if neg then - v else v))"

lemma of_char_isspace: "isspace c \<Longrightarrow> (of_char c :: nat) \<le> 32"
  by (auto simp: isspace_def)

lemma stoi_string_of_nat:
  assumes "n < 2 ^ 31"
  shows "stoi (string_of_nat n) = Return (int n)"
proof -
  obtain c cs where s: "string_of_nat n = c # cs"
    using string_of_nat_nonempty[of n] by (cases "string_of_nat n") blast+
  then have d: "\<forall>x\<in>set (c # cs). is_digit x" using string_of_nat_digits[of n] by simp
  then have "is_digit c" by simp
  then have "\<not> isspace c" "c \<noteq> CHR ''-''" "c \<noteq> CHR ''+''"
    using of_char_isspace[of c] by (auto simp: is_digit_def)
  then have "read_sign (dropWhile isspace (c # cs)) = (False, c # cs)"
    by (simp add: read_sign_def)
  moreover have "takeWhile is_digit (c # cs) = c # cs"
    using d by (metis takeWhile_eq_all_conv)
  moreover have "digits_value (c # cs) = n"
    using digits_value_string_of_nat[of n] s by simp
  ultimately show ?thesis
    using assms by (simp add: stoi_def s)
qed

lemma strtoul16_byte_hex2 [simp]: "strtoul16_byte (hex2 b) = b"
proof -
  let ?h = "hex_digit (unat b div 16)" and ?l = "hex_digit (unat b mod 16)"
  have h: "of_char ?h = (if unat b div 16 < 10 then 48 + unat b div 16 else 87 + unat b div 16)"
    by (rule of_char_hex_digit) simp
  have ns: "\<not> isspace ?h"
    using of_char_isspace[of ?h] h by (auto split: if_splits)
  have "?h \<noteq> CHR ''-''" "?h \<noteq> CHR ''+''"
    using arg_cong[of ?h _ "of_char :: char \<Rightarrow> nat"] h by (auto split: if_splits)
  with ns have "read_sign (dropWhile isspace (hex2 b)) = (False, hex2 b)"
    by (simp add: read_sign_def hex2_def)
  moreover have "hex_string_value (strip_0x (hex2 b)) = unat b"
    by (simp add: strip_0x_def hex_string_value_def hex2_def)
  ultimately show ?thesis
    by (simp add: strtoul16_byte_def)
qed

section \<open>Splitting\<close>

text \<open>
  A string without the delimiter is found up to the first one. These carry the proofs about
  the password hash, whose fields \<^verbatim>\<open>$\<close> separates, and about tokens.
\<close>

lemma index_of_append_hit:
  "\<forall>x\<in>set xs. \<not> p x \<Longrightarrow> p y \<Longrightarrow> index_of p (xs @ y # ys) = Some (length xs)"
  by (induction xs) auto

lemma str_find_hit:
  assumes "pos \<le> length pre" and "c \<notin> set (drop pos pre)"
  shows "str_find c pos (pre @ c # post) = Some (length pre)"
proof -
  have "\<forall>x\<in>set (drop pos pre). \<not> c = x" using assms(2) by blast
  with assms(1) show ?thesis
    by (simp add: str_find_def index_of_append_hit)
qed

lemma str_find_None_iff: "str_find c pos s = None \<longleftrightarrow> c \<notin> set (drop pos s)"
  by (auto simp: str_find_def index_of_None)

text \<open>The pieces between the occurrences of a delimiter.\<close>

fun split_on :: "char \<Rightarrow> string \<Rightarrow> string list" where
  "split_on c [] = [[]]"
| "split_on c (x # xs) =
     (if x = c then [] # split_on c xs
      else case split_on c xs of [] \<Rightarrow> [[x]] | y # ys \<Rightarrow> (x # y) # ys)"

lemma split_on_word: "c \<notin> set a \<Longrightarrow> split_on c a = [a]"
  by (induction a) auto

lemma split_on_append: "c \<notin> set a \<Longrightarrow> split_on c (a @ c # b) = a # split_on c b"
  by (induction a) auto

section \<open>Lines and quotes\<close>

text \<open>A line feed is \<open>nl\<close>; \<open>dq\<close> puts double quotes around a text.\<close>

definition nl :: string where "nl = [CHR 0x0A]"

definition dq :: "string \<Rightarrow> string" where "dq s = CHR 0x22 # s @ [CHR 0x22]"

end
