(* ===== verification/Domain.thy ===== *)
theory Domain
  imports Prelude
begin

text \<open>
  The domain layer (\<^verbatim>\<open>Domain/\<close>): the result type and error value every use case returns,
  the permission table, the entities with their predicates, and the validation rule of a
  todo. A C++ struct is a record whose fields carry a short prefix naming the struct.
\<close>

section \<open>Result and DomainError\<close>

text \<open>
  \<^verbatim>\<open>DomainError\<close> carries a message, an HTTP status code and detail lines.
  \<^verbatim>\<open>Result<T, E>\<close> is a variant of a value and an error; \<^verbatim>\<open>Result<void, E>\<close> is its
  instance at the unit type. Reading the absent alternative throws.
\<close>

record domain_error =
  err_message :: string
  err_statusCode :: int
  err_details :: "string list"

datatype ('a, 'e) result = Ok 'a | Err 'e

type_synonym 'a dresult = "('a, domain_error) result"

fun isOk :: "('a, 'e) result \<Rightarrow> bool" where
  "isOk (Ok _) = True"
| "isOk (Err _) = False"

fun isErr :: "('a, 'e) result \<Rightarrow> bool" where
  "isErr (Ok _) = False"
| "isErr (Err _) = True"

fun result_value :: "('a, 'e) result \<Rightarrow> 'a outcome" where
  "result_value (Ok v) = Return v"
| "result_value (Err _) = Throw"

fun result_error :: "('a, 'e) result \<Rightarrow> 'e outcome" where
  "result_error (Ok _) = Throw"
| "result_error (Err e) = Return e"

lemma isErr_iff [simp]: "isErr r \<longleftrightarrow> \<not> isOk r"
  by (cases r) simp_all

lemma isOkE [elim!]: "isOk r \<Longrightarrow> (\<And>v. r = Ok v \<Longrightarrow> P) \<Longrightarrow> P"
  by (cases r) simp_all

text \<open>An error literal \<^verbatim>\<open>DomainError{.message, .statusCode, .details}\<close>.\<close>

definition mk_error :: "string \<Rightarrow> int \<Rightarrow> string list \<Rightarrow> domain_error" where
  "mk_error m c ds = \<lparr>err_message = m, err_statusCode = c, err_details = ds\<rparr>"

lemma mk_error_sel [simp]:
  "err_message (mk_error m c ds) = m"
  "err_statusCode (mk_error m c ds) = c"
  "err_details (mk_error m c ds) = ds"
  by (simp_all add: mk_error_def)

section \<open>Permissions\<close>

datatype permission =
    SessionReadSelf
  | SessionRevokeSelf
  | SessionReadAll
  | SessionRevokeAll
  | UserManage

fun permissionToString :: "permission \<Rightarrow> string" where
  "permissionToString SessionReadSelf = ''session:read:self''"
| "permissionToString SessionRevokeSelf = ''session:revoke:self''"
| "permissionToString SessionReadAll = ''session:read:all''"
| "permissionToString SessionRevokeAll = ''session:revoke:all''"
| "permissionToString UserManage = ''user:manage''"

definition getPermissionsForRole :: "string \<Rightarrow> permission list" where
  "getPermissionsForRole rl =
     (if rl = ''admin''
      then [SessionReadSelf, SessionRevokeSelf, SessionReadAll, SessionRevokeAll, UserManage]
      else [SessionReadSelf, SessionRevokeSelf])"

fun perm_scan :: "permission list \<Rightarrow> permission \<Rightarrow> bool" where
  "perm_scan [] target = False"
| "perm_scan (p # ps) target = (if p = target then True else perm_scan ps target)"

definition roleHasPermission :: "string \<Rightarrow> permission \<Rightarrow> bool" where
  "roleHasPermission rl target = perm_scan (getPermissionsForRole rl) target"

lemma perm_scan_set: "perm_scan ps t \<longleftrightarrow> t \<in> set ps"
  by (induction ps) auto

lemma roleHasPermission_iff:
  "roleHasPermission rl p \<longleftrightarrow> rl = ''admin'' \<or> p = SessionReadSelf \<or> p = SessionRevokeSelf"
  by (cases p) (auto simp: roleHasPermission_def getPermissionsForRole_def)

section \<open>Entities\<close>

record todo =
  t_id :: "64 word"
  t_title :: string
  t_description :: string
  t_completed :: bool
  t_createdAt :: time
  t_updatedAt :: time

record cache_entry =
  ce_key :: string
  ce_value :: string
  ce_ttlSeconds :: int
  ce_createdAt :: time
  ce_expiresAt :: time

record queue_message =
  qm_id :: "64 word"
  qm_topic :: string
  qm_payload :: string
  qm_status :: string
  qm_retryCount :: int
  qm_createdAt :: time
  qm_processedAt :: "time option"

record queue_metrics =
  mt_topic :: string
  mt_pendingCount :: int
  mt_processingCount :: int
  mt_completedCount :: int
  mt_failedCount :: int

record document_entity =
  de_id :: string
  de_collection :: string
  de_data :: string
  de_createdAt :: time
  de_updatedAt :: time

record user =
  u_id :: string
  u_email :: string
  u_passwordHash :: "string option"
  u_role :: string
  u_isActive :: bool
  u_failedLoginAttempts :: int
  u_lockedUntil :: "time option"
  u_createdAt :: time
  u_updatedAt :: time
  u_googleId :: "string option"
  u_authProvider :: string
  u_avatarUrl :: "string option"

record session =
  s_id :: string
  s_userId :: string
  s_jti :: string
  s_refreshTokenHash :: string
  s_createdAt :: time
  s_lastSeenAt :: time
  s_expiresAt :: time
  s_revokedAt :: "time option"
  s_revocationReason :: "string option"
  s_ipAddress :: string
  s_userAgent :: string
  s_deviceName :: string
  s_clientType :: string

record audit_log =
  a_id :: "64 word"
  a_eventType :: string
  a_userId :: "string option"
  a_adminUserId :: "string option"
  a_sessionId :: "string option"
  a_ipAddress :: string
  a_userAgent :: string
  a_reason :: string
  a_createdAt :: time

text \<open>
  The default member initialisers that designated initialisers leave in place. The clock
  reading of \<^verbatim>\<open>system_clock::now()\<close> in an initialiser is an argument.
\<close>

definition default_user :: "time \<Rightarrow> user" where
  "default_user now =
     \<lparr>u_id = '''', u_email = '''', u_passwordHash = None, u_role = ''user'', u_isActive = True,
      u_failedLoginAttempts = 0, u_lockedUntil = None, u_createdAt = now, u_updatedAt = now,
      u_googleId = None, u_authProvider = ''local'', u_avatarUrl = None\<rparr>"

definition default_audit :: "time \<Rightarrow> audit_log" where
  "default_audit now =
     \<lparr>a_id = 0, a_eventType = '''', a_userId = None, a_adminUserId = None, a_sessionId = None,
      a_ipAddress = '''', a_userAgent = '''', a_reason = '''', a_createdAt = now\<rparr>"

definition default_session :: "time \<Rightarrow> session" where
  "default_session now =
     \<lparr>s_id = '''', s_userId = '''', s_jti = '''', s_refreshTokenHash = '''', s_createdAt = now,
      s_lastSeenAt = now, s_expiresAt = now, s_revokedAt = None, s_revocationReason = None,
      s_ipAddress = '''', s_userAgent = '''', s_deviceName = '''', s_clientType = ''browser''\<rparr>"

definition cache_isExpired :: "time \<Rightarrow> cache_entry \<Rightarrow> bool" where
  "cache_isExpired now e \<longleftrightarrow> now > ce_expiresAt e"

definition s_isRevoked :: "session \<Rightarrow> bool" where
  "s_isRevoked s \<longleftrightarrow> s_revokedAt s \<noteq> None"

definition s_isExpired :: "time \<Rightarrow> session \<Rightarrow> bool" where
  "s_isExpired now s \<longleftrightarrow> now \<ge> s_expiresAt s"

definition s_isActive :: "time \<Rightarrow> session \<Rightarrow> bool" where
  "s_isActive now s \<longleftrightarrow> \<not> s_isRevoked s \<and> \<not> s_isExpired now s"

definition todo_validate :: "string \<Rightarrow> unit dresult" where
  "todo_validate title =
     (if title = [] then
        Err (mk_error ''Domain validation failed'' 400 [''Field 'title' cannot be empty''])
      else if length title > 255 then
        Err (mk_error ''Domain validation failed'' 400
               [''Field 'title' cannot exceed 255 characters''])
      else Ok ())"

lemma s_isActive_mono:
  "s_isActive now s \<Longrightarrow> now' \<le> now \<Longrightarrow> s_isActive now' s"
  by (auto simp: s_isActive_def s_isExpired_def)

lemma todo_validate_ok: "isOk (todo_validate t) \<longleftrightarrow> t \<noteq> [] \<and> length t \<le> 255"
  by (auto simp: todo_validate_def)

end
