(* ===== verification/Api.thy ===== *)
theory Api
  imports Domain
begin

text \<open>
  The response envelope and the DTOs of the application layer
  (\<^verbatim>\<open>Application/Common/ApiResponse.h\<close>, \<^verbatim>\<open>Application/DTOs/*.h\<close>): ISO 8601 timestamps,
  \<^verbatim>\<open>ApiResponse<T>\<close> with its three factories, and the \<^verbatim>\<open>fromDomain\<close> conversions. Every
  reading of the system clock is an argument named \<open>now\<close>.
\<close>

section \<open>Timestamps\<close>

text \<open>
  The civil date of a day number (days since 1970-01-01) in the proleptic Gregorian
  calendar, as the year, month and day fields of \<^verbatim>\<open>%F\<close> and \<^verbatim>\<open>%Y-%m-%d\<close> print it.
\<close>

definition civil_from_days :: "int \<Rightarrow> int \<times> int \<times> int" where
  "civil_from_days days =
     (let z = days + 719468; era = z div 146097; doe = z mod 146097;
          yoe = (doe - doe div 1460 + doe div 36524 - doe div 146096) div 365;
          doy = doe - (365 * yoe + yoe div 4 - yoe div 100);
          mp = (5 * doy + 2) div 153;
          d = doy - (153 * mp + 2) div 5 + 1;
          m = (if mp < 10 then mp + 3 else mp - 9);
          y = yoe + era * 400 + (if m \<le> 2 then 1 else 0)
      in (y, m, d))"

definition pad_left :: "nat \<Rightarrow> string \<Rightarrow> string" where
  "pad_left w s = replicate (w - length s) CHR ''0'' @ s"

definition pad_int :: "nat \<Rightarrow> int \<Rightarrow> string" where
  "pad_int w i = (if i < 0 then CHR ''-'' # pad_left w (string_of_nat (nat (- i)))
                  else pad_left w (string_of_nat (nat i)))"

text \<open>\<^verbatim>\<open>YYYY-MM-DDThh:mm:ssZ\<close> of a number of seconds since the epoch.\<close>

definition iso8601_of_seconds :: "int \<Rightarrow> string" where
  "iso8601_of_seconds sec =
     (let days = sec div 86400; tod = sec mod 86400; (y, m, d) = civil_from_days days
      in pad_int 4 y @ ''-'' @ pad_int 2 m @ ''-'' @ pad_int 2 d @ ''T'' @
         pad_int 2 (tod div 3600) @ '':'' @ pad_int 2 (tod mod 3600 div 60) @ '':'' @
         pad_int 2 (tod mod 60) @ ''Z'')"

text \<open>
  The DTOs format \<^verbatim>\<open>floor<seconds>(tp)\<close>; the auth and session use cases go through
  \<^verbatim>\<open>to_time_t\<close>, which truncates.
\<close>

definition formatTimestamp :: "time \<Rightarrow> string" where
  "formatTimestamp tp = iso8601_of_seconds (tp div ns_per_sec)"

definition currentTimestampIso8601 :: "time \<Rightarrow> string" where
  "currentTimestampIso8601 now = iso8601_of_seconds (now div ns_per_sec)"

definition formatIsoTimestamp :: "time \<Rightarrow> string" where
  "formatIsoTimestamp tp = iso8601_of_seconds (to_epoch tp)"

lemma civil_epoch: "civil_from_days 0 = (1970, 1, 1)"
  by code_simp

lemma formatIso_formatTimestamp: "0 \<le> tp \<Longrightarrow> formatIsoTimestamp tp = formatTimestamp tp"
  by (simp add: formatIsoTimestamp_def formatTimestamp_def to_epoch_def)

section \<open>ApiResponse\<close>

text \<open>
  \<^verbatim>\<open>ApiResponse<void>\<close> has no \<^verbatim>\<open>data\<close> member; it is the instance at the unit type whose
  \<open>r_data\<close> is \<open>None\<close>.
\<close>

record 'a api_response =
  r_success :: bool
  r_statusCode :: int
  r_message :: string
  r_data :: "'a option"
  r_errors :: "string list"
  r_timestamp :: string

definition api_ok :: "time \<Rightarrow> 'a \<Rightarrow> string \<Rightarrow> int \<Rightarrow> 'a api_response" where
  "api_ok now v msg code =
     \<lparr>r_success = True, r_statusCode = code, r_message = msg, r_data = Some v, r_errors = [],
      r_timestamp = currentTimestampIso8601 now\<rparr>"

definition api_created :: "time \<Rightarrow> 'a \<Rightarrow> string \<Rightarrow> 'a api_response" where
  "api_created now v msg =
     \<lparr>r_success = True, r_statusCode = 201, r_message = msg, r_data = Some v, r_errors = [],
      r_timestamp = currentTimestampIso8601 now\<rparr>"

definition api_fail :: "time \<Rightarrow> string \<Rightarrow> string list \<Rightarrow> int \<Rightarrow> 'a api_response" where
  "api_fail now msg errs code =
     \<lparr>r_success = False, r_statusCode = code, r_message = msg, r_data = None, r_errors = errs,
      r_timestamp = currentTimestampIso8601 now\<rparr>"

definition api_void_ok :: "time \<Rightarrow> string \<Rightarrow> int \<Rightarrow> unit api_response" where
  "api_void_ok now msg code =
     \<lparr>r_success = True, r_statusCode = code, r_message = msg, r_data = None, r_errors = [],
      r_timestamp = currentTimestampIso8601 now\<rparr>"

definition api_void_created :: "time \<Rightarrow> string \<Rightarrow> unit api_response" where
  "api_void_created now msg =
     \<lparr>r_success = True, r_statusCode = 201, r_message = msg, r_data = None, r_errors = [],
      r_timestamp = currentTimestampIso8601 now\<rparr>"

lemma api_sel [simp]:
  "r_data (api_ok now v msg code) = Some v"
  "r_statusCode (api_ok now v msg code) = code"
  "r_success (api_ok now v msg code)"
  "r_message (api_ok now v msg code) = msg"
  "r_data (api_created now v msg) = Some v"
  "r_statusCode (api_created now v msg) = 201"
  "r_success (api_created now v msg)"
  "r_statusCode (api_void_ok now msg code) = code"
  "r_success (api_void_ok now msg code)"
  "r_message (api_void_ok now msg code) = msg"
  "\<not> r_success (api_fail now msg errs code)"
  by (simp_all add: api_ok_def api_created_def api_void_ok_def api_fail_def)

type_synonym 'a api_result = "'a api_response dresult"

section \<open>DTOs\<close>

record user_dto =
  ud_id :: string
  ud_email :: string
  ud_role :: string
  ud_authProvider :: string
  ud_avatarUrl :: string
  ud_googleLinked :: bool

record register_request =
  rq_email :: string
  rq_password :: string
  rq_role :: string

record register_response =
  rr_id :: string
  rr_email :: string
  rr_role :: string
  rr_createdAt :: string

record login_request =
  lq_email :: string
  lq_password :: string

record token_response =
  tk_accessToken :: string
  tk_refreshToken :: string
  tk_tokenType :: string
  tk_expiresIn :: int
  tk_sessionId :: string
  tk_user :: user_dto

record session_response =
  sp_id :: string
  sp_userId :: string
  sp_device :: string
  sp_ipAddress :: string
  sp_jti :: string
  sp_createdAt :: string
  sp_lastSeenAt :: string
  sp_expiresAt :: string
  sp_current :: bool
  sp_status :: string

record google_login_request =
  gq_idToken :: string
  gq_code :: string
  gq_codeVerifier :: string
  gq_state :: string
  gq_deviceName :: string
  gq_clientType :: string

record google_auth_url_response =
  gu_authUrl :: string
  gu_state :: string
  gu_codeVerifier :: string
  gu_codeChallenge :: string

record create_todo_request =
  ct_title :: string
  ct_description :: string

record update_todo_request =
  ut_title :: "string option"
  ut_description :: "string option"
  ut_completed :: "bool option"

record todo_response =
  tr_id :: "64 word"
  tr_title :: string
  tr_description :: string
  tr_completed :: bool
  tr_createdAt :: string
  tr_updatedAt :: string

record set_cache_request =
  sc_key :: string
  sc_value :: string
  sc_ttlSeconds :: int

record cache_response =
  cr_key :: string
  cr_value :: string
  cr_ttlSeconds :: int
  cr_createdAt :: string
  cr_expiresAt :: string
  cr_isExpired :: bool

record queue_message_response =
  qr_id :: "64 word"
  qr_topic :: string
  qr_payload :: string
  qr_status :: string
  qr_retryCount :: int
  qr_createdAt :: string
  qr_processedAt :: "string option"

record queue_metrics_response =
  mr_topic :: string
  mr_pending :: int
  mr_processing :: int
  mr_completed :: int
  mr_failed :: int

record document_response =
  dr_id :: string
  dr_collection :: string
  dr_data :: string
  dr_createdAt :: string
  dr_updatedAt :: string

definition todoResponse_fromDomain :: "todo \<Rightarrow> todo_response" where
  "todoResponse_fromDomain t =
     \<lparr>tr_id = t_id t, tr_title = t_title t, tr_description = t_description t,
      tr_completed = t_completed t, tr_createdAt = formatTimestamp (t_createdAt t),
      tr_updatedAt = formatTimestamp (t_updatedAt t)\<rparr>"

definition cacheResponse_fromDomain :: "time \<Rightarrow> cache_entry \<Rightarrow> cache_response" where
  "cacheResponse_fromDomain now e =
     \<lparr>cr_key = ce_key e, cr_value = ce_value e, cr_ttlSeconds = ce_ttlSeconds e,
      cr_createdAt = formatTimestamp (ce_createdAt e),
      cr_expiresAt = formatTimestamp (ce_expiresAt e),
      cr_isExpired = cache_isExpired now e\<rparr>"

definition queueMessageResponse_fromDomain :: "queue_message \<Rightarrow> queue_message_response" where
  "queueMessageResponse_fromDomain m =
     \<lparr>qr_id = qm_id m, qr_topic = qm_topic m, qr_payload = qm_payload m,
      qr_status = qm_status m, qr_retryCount = qm_retryCount m,
      qr_createdAt = formatTimestamp (qm_createdAt m),
      qr_processedAt = map_option formatTimestamp (qm_processedAt m)\<rparr>"

definition queueMetricsResponse_fromDomain :: "queue_metrics \<Rightarrow> queue_metrics_response" where
  "queueMetricsResponse_fromDomain m =
     \<lparr>mr_topic = mt_topic m, mr_pending = mt_pendingCount m, mr_processing = mt_processingCount m,
      mr_completed = mt_completedCount m, mr_failed = mt_failedCount m\<rparr>"

definition documentResponse_fromDomain :: "document_entity \<Rightarrow> document_response" where
  "documentResponse_fromDomain d =
     \<lparr>dr_id = de_id d, dr_collection = de_collection d, dr_data = de_data d,
      dr_createdAt = formatTimestamp (de_createdAt d),
      dr_updatedAt = formatTimestamp (de_updatedAt d)\<rparr>"

text \<open>The \<^verbatim>\<open>UserDto\<close> literal the three token-issuing use cases build.\<close>

definition mk_user_dto :: "user \<Rightarrow> user_dto" where
  "mk_user_dto u =
     \<lparr>ud_id = u_id u, ud_email = u_email u, ud_role = u_role u,
      ud_authProvider = u_authProvider u,
      ud_avatarUrl = (case u_avatarUrl u of None \<Rightarrow> '''' | Some a \<Rightarrow> a),
      ud_googleLinked = (u_googleId u \<noteq> None)\<rparr>"

end
