(* ===== verification/Json.thy ===== *)
theory Json
  imports Std_Text Api
begin

text \<open>
  \<^verbatim>\<open>Presentation/src/Common/HttpResponseHelper.cpp\<close>: from request bodies to DTOs and from
  responses to JSON. The JSON library of Crow is not part of the repository. What it reads
  is the record \<open>json_api\<close> over an abstract type of parsed values; what the program builds,
  a \<^verbatim>\<open>crow::json::wvalue\<close>, is the tree of its assignments.
\<close>

section \<open>The JSON library\<close>

datatype json_kind = JNull | JFalse | JTrue | JNumber | JString | JList | JObject

datatype 'j wvalue =
    W_null
  | W_bool bool
  | W_int int
  | W_str string
  | W_list "'j wvalue list"
  | W_obj "(string \<times> 'j wvalue) list"
  | W_json 'j

text \<open>
  \<open>js_load\<close> is \<^verbatim>\<open>crow::json::load\<close>, with \<open>None\<close> for a value that is false; \<open>js_at\<close> is
  \<^verbatim>\<open>operator[]\<close>; the three readers throw when the value has another type, and
  \<open>js_i\<close> also when the number is no 64-bit integer.
\<close>

record 'j json_api =
  js_load :: "string \<Rightarrow> 'j option"
  js_kind :: "'j \<Rightarrow> json_kind"
  js_has :: "'j \<Rightarrow> string \<Rightarrow> bool"
  js_at :: "'j \<Rightarrow> string \<Rightarrow> 'j outcome"
  js_s :: "'j \<Rightarrow> string outcome"
  js_i :: "'j \<Rightarrow> int outcome"
  js_b :: "'j \<Rightarrow> bool outcome"
  js_dump :: "'j wvalue \<Rightarrow> string"

text \<open>What the parsers below rely on: the readers are total on values of their type.\<close>

definition json_laws :: "'j json_api \<Rightarrow> bool" where
  "json_laws J \<longleftrightarrow>
     (\<forall>j k. js_has J j k \<longrightarrow> js_at J j k \<noteq> Throw) \<and>
     (\<forall>j. js_kind J j = JString \<longrightarrow> js_s J j \<noteq> Throw) \<and>
     (\<forall>j. js_kind J j = JTrue \<or> js_kind J j = JFalse \<longrightarrow> js_b J j \<noteq> Throw)"

section \<open>Reading\<close>

text \<open>\<^verbatim>\<open>json.has(k) && json[k].t() == String ? std::string(json[k].s()) : dflt\<close>.\<close>

definition string_field :: "'j json_api \<Rightarrow> 'j \<Rightarrow> string \<Rightarrow> string \<Rightarrow> string outcome" where
  "string_field J j k dflt =
     (if js_has J j k then
        obind (js_at J j k) (\<lambda>v. if js_kind J v = JString then js_s J v else Return dflt)
      else Return dflt)"

text \<open>\<^verbatim>\<open>json.has(k) && json[k].t() == String\<close>.\<close>

definition has_string :: "'j json_api \<Rightarrow> 'j \<Rightarrow> string \<Rightarrow> bool outcome" where
  "has_string J j k =
     (if js_has J j k then obind (js_at J j k) (\<lambda>v. Return (js_kind J v = JString))
      else Return False)"

text \<open>\<^verbatim>\<open>json[k].s()\<close>.\<close>

definition read_string :: "'j json_api \<Rightarrow> 'j \<Rightarrow> string \<Rightarrow> string outcome" where
  "read_string J j k = obind (js_at J j k) (js_s J)"

text \<open>\<^verbatim>\<open>static_cast<int>\<close> of a 64-bit value.\<close>

definition to_int32 :: "int \<Rightarrow> int" where
  "to_int32 i = sint (word_of_int i :: 32 word)"

definition bad_request :: "string \<Rightarrow> string list \<Rightarrow> 'a dresult outcome" where
  "bad_request msg details = Return (Err (mk_error msg 400 details))"

text \<open>
  The frame that the parsers share: an empty body and one that is no JSON are refused.
\<close>

definition with_json ::
    "'j json_api \<Rightarrow> string \<Rightarrow> string \<times> string \<Rightarrow> string \<times> string \<Rightarrow> ('j \<Rightarrow> 'a dresult outcome)
     \<Rightarrow> 'a dresult outcome" where
  "with_json J body noBody noJson k =
     (if body = [] then bad_request (fst noBody) [snd noBody]
      else case js_load J body of
        None \<Rightarrow> bad_request (fst noJson) [snd noJson]
      | Some j \<Rightarrow> k j)"

definition parseCreateTodoRequest :: "'j json_api \<Rightarrow> string \<Rightarrow> create_todo_request dresult outcome" where
  "parseCreateTodoRequest J body =
     with_json J body
       (''Malformed or missing request body'', ''Request body cannot be empty.'')
       (''Invalid JSON syntax'', ''Failed to parse JSON body.'')
       (\<lambda>j. obind (has_string J j ''title'') (\<lambda>titleOk.
            obind (has_string J j ''description'') (\<lambda>descOk.
              let errors =
                    (if \<not> js_has J j ''title'' then [''Field 'title' is required.'']
                     else if \<not> titleOk then [''Field 'title' must be a string.''] else []) @
                    (if js_has J j ''description'' \<and> \<not> descOk
                     then [''Field 'description' must be a string.''] else [])
              in if errors \<noteq> [] then bad_request ''JSON payload validation failed'' errors
                 else
                   obind (read_string J j ''title'') (\<lambda>t.
                   obind (if js_has J j ''description'' then read_string J j ''description''
                          else Return []) (\<lambda>ds.
                     Return (Ok \<lparr>ct_title = t, ct_description = ds\<rparr>))))))"

text \<open>An optional string of an update: absent, of the wrong type, or read.\<close>

definition update_field ::
    "'j json_api \<Rightarrow> 'j \<Rightarrow> string \<Rightarrow> (string option \<times> string list) outcome" where
  "update_field J j k =
     (if js_has J j k then
        obind (js_at J j k) (\<lambda>v.
          if js_kind J v \<noteq> JString then Return (None, [''Field '' @ quoted k @ '' must be a string.''])
          else obind (js_s J v) (\<lambda>s. Return (Some s, [])))
      else Return (None, []))"

definition parseUpdateTodoRequest :: "'j json_api \<Rightarrow> string \<Rightarrow> update_todo_request dresult outcome" where
  "parseUpdateTodoRequest J body =
     with_json J body
       (''Malformed or missing request body'', ''Request body cannot be empty.'')
       (''Invalid JSON syntax'', ''Failed to parse JSON body.'')
       (\<lambda>j. obind (update_field J j ''title'') (\<lambda>(t, e1).
            obind (update_field J j ''description'') (\<lambda>(ds, e2).
            obind (if js_has J j ''completed'' then
                     obind (js_at J j ''completed'') (\<lambda>v.
                       if js_kind J v \<noteq> JTrue \<and> js_kind J v \<noteq> JFalse
                       then Return (None, [''Field 'completed' must be a boolean.''])
                       else obind (js_b J v) (\<lambda>b. Return (Some b, [])))
                   else Return (None, [])) (\<lambda>(c, e3).
              if e1 @ e2 @ e3 \<noteq> []
              then bad_request ''JSON payload validation failed'' (e1 @ e2 @ e3)
              else Return (Ok \<lparr>ut_title = t, ut_description = ds, ut_completed = c\<rparr>)))))"

definition parseSetCacheRequest :: "'j json_api \<Rightarrow> string \<Rightarrow> set_cache_request dresult outcome" where
  "parseSetCacheRequest J body =
     with_json J body
       (''Empty request body'', ''JSON body required.'')
       (''Invalid JSON syntax'', ''Failed to parse JSON.'')
       (\<lambda>j. obind (has_string J j ''key'') (\<lambda>keyOk.
            obind (has_string J j ''value'') (\<lambda>valueOk.
              let errors =
                    (if keyOk then [] else [''Field 'key' is required and must be a string.'']) @
                    (if valueOk then [] else [''Field 'value' is required and must be a string.''])
              in if errors \<noteq> [] then bad_request ''Validation failed for cache set'' errors
                 else
                   obind (read_string J j ''key'') (\<lambda>k.
                   obind (read_string J j ''value'') (\<lambda>v.
                   obind (if js_has J j ''ttlSeconds'' then
                            obind (js_at J j ''ttlSeconds'') (\<lambda>n.
                              if js_kind J n = JNumber
                              then obind (js_i J n) (\<lambda>i. Return (to_int32 i)) else Return 3600)
                          else Return 3600) (\<lambda>ttl.
                     Return (Ok \<lparr>sc_key = k, sc_value = v, sc_ttlSeconds = ttl\<rparr>)))))))"

text \<open>Topic and payload of a message; a payload that is no string is printed again.\<close>

definition parsePublishMessageRequest ::
    "'j json_api \<Rightarrow> string \<Rightarrow> (string \<times> string) dresult outcome" where
  "parsePublishMessageRequest J body =
     with_json J body
       (''Empty request body'', ''JSON body required.'')
       (''Invalid JSON syntax'', ''Failed to parse JSON.'')
       (\<lambda>j. obind (has_string J j ''topic'') (\<lambda>topicOk.
              let errors =
                    (if topicOk then [] else [''Field 'topic' is required and must be a string.'']) @
                    (if js_has J j ''payload'' then [] else [''Field 'payload' is required.''])
              in if errors \<noteq> [] then bad_request ''Validation failed for queue publish'' errors
                 else
                   obind (read_string J j ''topic'') (\<lambda>t.
                   obind (js_at J j ''payload'') (\<lambda>v.
                   obind (if js_kind J v = JString then js_s J v
                          else Return (js_dump J (W_json v))) (\<lambda>p.
                     Return (Ok (t, p)))))))"

definition parsePollMessageRequest :: "'j json_api \<Rightarrow> string \<Rightarrow> string dresult outcome" where
  "parsePollMessageRequest J body =
     (let refused = bad_request ''Validation failed'' [''Field 'topic' is required and must be a string.'']
      in if body = []
         then bad_request ''Empty request body'' [''JSON body required with field 'topic'.'']
         else case js_load J body of
           None \<Rightarrow> refused
         | Some j \<Rightarrow>
             obind (has_string J j ''topic'') (\<lambda>topicOk.
               if \<not> topicOk then refused
               else obind (read_string J j ''topic'') (\<lambda>t. Return (Ok t))))"

text \<open>Collection and text of a document, which is stored as it was sent.\<close>

definition parseCreateDocumentRequest ::
    "'j json_api \<Rightarrow> string \<Rightarrow> string \<Rightarrow> (string \<times> string) dresult outcome" where
  "parseCreateDocumentRequest J collection body =
     with_json J body
       (''Empty body'', ''JSON document required in body.'')
       (''Invalid JSON syntax'', ''Document must be valid JSON.'')
       (\<lambda>_. Return (Ok (collection, body)))"

definition parseQueryDocumentRequest ::
    "'j json_api \<Rightarrow> string \<Rightarrow> string \<Rightarrow> (string \<times> string) dresult outcome" where
  "parseQueryDocumentRequest J collection body =
     (let flt = (if body = [] then ''{}'' else body)
      in case js_load J flt of
           None \<Rightarrow> bad_request ''Invalid JSON query filter'' [''Query filter must be valid JSON.'']
         | Some _ \<Rightarrow> Return (Ok (collection, flt)))"

definition parseRegisterRequest :: "'j json_api \<Rightarrow> string \<Rightarrow> register_request dresult outcome" where
  "parseRegisterRequest J body =
     with_json J body
       (''Empty body'', ''JSON registration payload required.'')
       (''Invalid JSON'', ''Payload must be valid JSON.'')
       (\<lambda>j. obind (string_field J j ''email'' []) (\<lambda>email.
            obind (string_field J j ''password'' []) (\<lambda>password.
            obind (string_field J j ''role'' ''user'') (\<lambda>rl.
              Return (Ok \<lparr>rq_email = email, rq_password = password, rq_role = rl\<rparr>)))))"

definition parseLoginRequest :: "'j json_api \<Rightarrow> string \<Rightarrow> login_request dresult outcome" where
  "parseLoginRequest J body =
     with_json J body
       (''Empty body'', ''JSON login payload required.'')
       (''Invalid JSON'', ''Payload must be valid JSON.'')
       (\<lambda>j. obind (string_field J j ''email'' []) (\<lambda>email.
            obind (string_field J j ''password'' []) (\<lambda>password.
              Return (Ok \<lparr>lq_email = email, lq_password = password\<rparr>))))"

definition parseGoogleLoginRequest :: "'j json_api \<Rightarrow> string \<Rightarrow> google_login_request dresult outcome" where
  "parseGoogleLoginRequest J body =
     with_json J body
       (''Empty body'', ''JSON login payload required.'')
       (''Invalid JSON'', ''Payload must be valid JSON.'')
       (\<lambda>j. obind (string_field J j ''idToken'' []) (\<lambda>idToken.
            obind (string_field J j ''code'' []) (\<lambda>code.
            obind (string_field J j ''codeVerifier'' []) (\<lambda>codeVerifier.
            obind (string_field J j ''state'' []) (\<lambda>state.
            obind (string_field J j ''deviceName'' ''Unknown Device'') (\<lambda>deviceName.
            obind (string_field J j ''clientType'' ''browser'') (\<lambda>clientType.
              if idToken = [] \<and> code = [] then
                bad_request ''Validation failed'' [''Either 'idToken' or 'code' must be provided.'']
              else
                Return (Ok \<lparr>gq_idToken = idToken, gq_code = code, gq_codeVerifier = codeVerifier,
                            gq_state = state, gq_deviceName = deviceName,
                            gq_clientType = clientType\<rparr>))))))))"

text \<open>The two requests with one string field are that string.\<close>

definition parseSetPasswordRequest :: "'j json_api \<Rightarrow> string \<Rightarrow> string dresult outcome" where
  "parseSetPasswordRequest J body =
     with_json J body
       (''Empty body'', ''JSON payload with 'password' required.'')
       (''Invalid JSON'', ''Payload must be valid JSON.'')
       (\<lambda>j. obind (string_field J j ''password'' []) (\<lambda>password.
              if password = [] then
                bad_request ''Validation failed'' [''Field 'password' is required.'']
              else Return (Ok password)))"

definition parseRefreshTokenRequest :: "'j json_api \<Rightarrow> string \<Rightarrow> string dresult outcome" where
  "parseRefreshTokenRequest J body =
     with_json J body
       (''Empty body'', ''JSON payload with 'refreshToken' required.'')
       (''Invalid JSON'', ''Payload must be valid JSON.'')
       (\<lambda>j. obind (string_field J j ''refreshToken'' []) (\<lambda>token. Return (Ok token)))"

definition parseAdminRevokeUserSessionsRequest :: "'j json_api \<Rightarrow> string \<Rightarrow> string dresult outcome" where
  "parseAdminRevokeUserSessionsRequest J body =
     (let dflt = ''Administrative revocation''
      in if body = [] then Return (Ok dflt)
         else case js_load J body of
           None \<Rightarrow> Return (Ok dflt)
         | Some j \<Rightarrow> obind (string_field J j ''reason'' dflt) (\<lambda>r. Return (Ok r)))"

section \<open>Writing\<close>

definition serializeTodoDto :: "todo_response \<Rightarrow> 'j wvalue" where
  "serializeTodoDto t = W_obj
     [(''id'', W_int (uint (tr_id t))), (''title'', W_str (tr_title t)),
      (''description'', W_str (tr_description t)), (''completed'', W_bool (tr_completed t)),
      (''createdAt'', W_str (tr_createdAt t)), (''updatedAt'', W_str (tr_updatedAt t))]"

record health_response =
  hl_status :: string
  hl_service :: string
  hl_version :: string
  hl_uptimeSeconds :: int
  hl_timestamp :: string

definition serializeHealthDto :: "health_response \<Rightarrow> 'j wvalue" where
  "serializeHealthDto h = W_obj
     [(''status'', W_str (hl_status h)), (''service'', W_str (hl_service h)),
      (''version'', W_str (hl_version h)), (''uptimeSeconds'', W_int (hl_uptimeSeconds h)),
      (''timestamp'', W_str (hl_timestamp h))]"

definition serializeCacheDto :: "cache_response \<Rightarrow> 'j wvalue" where
  "serializeCacheDto c = W_obj
     [(''key'', W_str (cr_key c)), (''value'', W_str (cr_value c)),
      (''ttlSeconds'', W_int (cr_ttlSeconds c)), (''createdAt'', W_str (cr_createdAt c)),
      (''expiresAt'', W_str (cr_expiresAt c)), (''isExpired'', W_bool (cr_isExpired c))]"

text \<open>A stored text that is JSON again is embedded, any other is sent as a string.\<close>

definition embed_json :: "'j json_api \<Rightarrow> string \<Rightarrow> 'j wvalue" where
  "embed_json J s = (case js_load J s of Some j \<Rightarrow> W_json j | None \<Rightarrow> W_str s)"

definition serializeQueueMessageDto :: "'j json_api \<Rightarrow> queue_message_response \<Rightarrow> 'j wvalue" where
  "serializeQueueMessageDto J m = W_obj
     [(''id'', W_int (uint (qr_id m))), (''topic'', W_str (qr_topic m)),
      (''payload'', embed_json J (qr_payload m)), (''status'', W_str (qr_status m)),
      (''retryCount'', W_int (qr_retryCount m)), (''createdAt'', W_str (qr_createdAt m)),
      (''processedAt'', (case qr_processedAt m of Some t \<Rightarrow> W_str t | None \<Rightarrow> W_null))]"

definition serializeQueueMetricsDto :: "queue_metrics_response \<Rightarrow> 'j wvalue" where
  "serializeQueueMetricsDto m = W_obj
     [(''topic'', W_str (mr_topic m)), (''pending'', W_int (mr_pending m)),
      (''processing'', W_int (mr_processing m)), (''completed'', W_int (mr_completed m)),
      (''failed'', W_int (mr_failed m))]"

definition serializeDocumentDto :: "'j json_api \<Rightarrow> document_response \<Rightarrow> 'j wvalue" where
  "serializeDocumentDto J d = W_obj
     [(''id'', W_str (dr_id d)), (''collection'', W_str (dr_collection d)),
      (''data'', embed_json J (dr_data d)), (''createdAt'', W_str (dr_createdAt d)),
      (''updatedAt'', W_str (dr_updatedAt d))]"

definition serializeRegisterDto :: "register_response \<Rightarrow> 'j wvalue" where
  "serializeRegisterDto r = W_obj
     [(''id'', W_str (rr_id r)), (''email'', W_str (rr_email r)), (''role'', W_str (rr_role r)),
      (''createdAt'', W_str (rr_createdAt r))]"

definition serializeTokenDto :: "token_response \<Rightarrow> 'j wvalue" where
  "serializeTokenDto t = W_obj
     [(''accessToken'', W_str (tk_accessToken t)), (''refreshToken'', W_str (tk_refreshToken t)),
      (''tokenType'', W_str (tk_tokenType t)), (''expiresIn'', W_int (tk_expiresIn t)),
      (''sessionId'', W_str (tk_sessionId t)),
      (''user'', let u = tk_user t in W_obj
         [(''id'', W_str (ud_id u)), (''email'', W_str (ud_email u)),
          (''role'', W_str (ud_role u)), (''authProvider'', W_str (ud_authProvider u)),
          (''avatarUrl'', W_str (ud_avatarUrl u)), (''googleLinked'', W_bool (ud_googleLinked u))])]"

definition serializeGoogleAuthUrlDto :: "google_auth_url_response \<Rightarrow> 'j wvalue" where
  "serializeGoogleAuthUrlDto g = W_obj [(''authUrl'', W_str (gu_authUrl g))]"

definition serializeSessionDto :: "session_response \<Rightarrow> 'j wvalue" where
  "serializeSessionDto s = W_obj
     [(''id'', W_str (sp_id s)), (''userId'', W_str (sp_userId s)),
      (''device'', W_str (sp_device s)), (''ipAddress'', W_str (sp_ipAddress s)),
      (''jti'', W_str (sp_jti s)), (''createdAt'', W_str (sp_createdAt s)),
      (''lastSeenAt'', W_str (sp_lastSeenAt s)), (''expiresAt'', W_str (sp_expiresAt s)),
      (''current'', W_bool (sp_current s)), (''status'', W_str (sp_status s))]"

section \<open>Responses\<close>

datatype 'j body = Json_body "'j wvalue" | Text_body string

record 'j http_response =
  hr_code :: int
  hr_body :: "'j body"
  hr_headers :: "(string \<times> string) list"

text \<open>The envelope that every overload of \<^verbatim>\<open>success\<close> fills in.\<close>

definition success_envelope :: "('a api_response \<Rightarrow> 'j wvalue) \<Rightarrow> 'a api_response \<Rightarrow> 'j http_response" where
  "success_envelope payload resp =
     \<lparr>hr_code = r_statusCode resp,
      hr_body = Json_body (W_obj
        [(''success'', W_bool (r_success resp)), (''statusCode'', W_int (r_statusCode resp)),
         (''message'', W_str (r_message resp)), (''timestamp'', W_str (r_timestamp resp)),
         (''data'', payload resp), (''errors'', W_list [])]),
      hr_headers = []\<rparr>"

definition one_payload :: "('a \<Rightarrow> 'j wvalue) \<Rightarrow> 'a api_response \<Rightarrow> 'j wvalue" where
  "one_payload f resp = (case r_data resp of Some v \<Rightarrow> f v | None \<Rightarrow> W_null)"

definition list_payload :: "('a \<Rightarrow> 'j wvalue) \<Rightarrow> 'a list api_response \<Rightarrow> 'j wvalue" where
  "list_payload f resp = W_list (case r_data resp of Some vs \<Rightarrow> map f vs | None \<Rightarrow> [])"

definition success_todo :: "todo_response api_response \<Rightarrow> 'j http_response" where
  "success_todo = success_envelope (one_payload serializeTodoDto)"

definition success_todos :: "todo_response list api_response \<Rightarrow> 'j http_response" where
  "success_todos = success_envelope (list_payload serializeTodoDto)"

definition success_health :: "health_response api_response \<Rightarrow> 'j http_response" where
  "success_health = success_envelope (one_payload serializeHealthDto)"

definition success_void :: "unit api_response \<Rightarrow> 'j http_response" where
  "success_void = success_envelope (\<lambda>_. W_null)"

definition success_cache :: "cache_response api_response \<Rightarrow> 'j http_response" where
  "success_cache = success_envelope (one_payload serializeCacheDto)"

definition success_count :: "nat api_response \<Rightarrow> 'j http_response" where
  "success_count = success_envelope (one_payload (\<lambda>n. W_int (int n)))"

definition success_queue_message :: "'j json_api \<Rightarrow> queue_message_response api_response \<Rightarrow> 'j http_response" where
  "success_queue_message J = success_envelope (one_payload (serializeQueueMessageDto J))"

definition success_queue_metrics :: "queue_metrics_response list api_response \<Rightarrow> 'j http_response" where
  "success_queue_metrics = success_envelope (list_payload serializeQueueMetricsDto)"

definition success_document :: "'j json_api \<Rightarrow> document_response api_response \<Rightarrow> 'j http_response" where
  "success_document J = success_envelope (one_payload (serializeDocumentDto J))"

definition success_documents :: "'j json_api \<Rightarrow> document_response list api_response \<Rightarrow> 'j http_response" where
  "success_documents J = success_envelope (list_payload (serializeDocumentDto J))"

definition success_register :: "register_response api_response \<Rightarrow> 'j http_response" where
  "success_register = success_envelope (one_payload serializeRegisterDto)"

definition success_token :: "token_response api_response \<Rightarrow> 'j http_response" where
  "success_token = success_envelope (one_payload serializeTokenDto)"

definition success_session :: "session_response api_response \<Rightarrow> 'j http_response" where
  "success_session = success_envelope (one_payload serializeSessionDto)"

definition success_sessions :: "session_response list api_response \<Rightarrow> 'j http_response" where
  "success_sessions = success_envelope (list_payload serializeSessionDto)"

definition success_google_url :: "google_auth_url_response api_response \<Rightarrow> 'j http_response" where
  "success_google_url = success_envelope (one_payload serializeGoogleAuthUrlDto)"

definition error_response :: "time \<Rightarrow> int \<Rightarrow> string \<Rightarrow> string list \<Rightarrow> 'j http_response" where
  "error_response now code msg details =
     \<lparr>hr_code = code,
      hr_body = Json_body (W_obj
        [(''success'', W_bool False), (''statusCode'', W_int code), (''message'', W_str msg),
         (''timestamp'', W_str (currentTimestampIso8601 now)), (''data'', W_null),
         (''errors'', W_list (map W_str details))]),
      hr_headers = []\<rparr>"

definition error_of_domain :: "time \<Rightarrow> domain_error \<Rightarrow> 'j http_response" where
  "error_of_domain now e =
     error_response now (err_statusCode e) (err_message e)
       (if err_details e = [] then [err_message e] else err_details e)"

section \<open>Reading back what was written\<close>

text \<open>
  What a parsed object shows of the flat object it was printed from, and the documented
  property of the library that printing and parsing such an object loses nothing: its fields
  are strings, booleans and 64-bit integers under distinct names.
\<close>

definition int8 :: "int \<Rightarrow> bool" where
  "int8 i \<longleftrightarrow> - (2 ^ 63) \<le> i \<and> i < 2 ^ 63"

fun reads_value :: "'j json_api \<Rightarrow> 'j wvalue \<Rightarrow> 'j \<Rightarrow> bool" where
  "reads_value J (W_str s) j \<longleftrightarrow> js_kind J j = JString \<and> js_s J j = Return s"
| "reads_value J (W_int i) j \<longleftrightarrow> js_kind J j = JNumber \<and> js_i J j = Return i"
| "reads_value J (W_bool b) j \<longleftrightarrow> js_kind J j = (if b then JTrue else JFalse) \<and> js_b J j = Return b"
| "reads_value J _ j \<longleftrightarrow> False"

definition reads_object :: "'j json_api \<Rightarrow> (string \<times> 'j wvalue) list \<Rightarrow> 'j \<Rightarrow> bool" where
  "reads_object J kvs j \<longleftrightarrow>
     (\<forall>k. js_has J j k \<longleftrightarrow> map_of kvs k \<noteq> None) \<and>
     (\<forall>k v. map_of kvs k = Some v \<longrightarrow> (\<exists>x. js_at J j k = Return x \<and> reads_value J v x))"

fun flat_value :: "'j wvalue \<Rightarrow> bool" where
  "flat_value (W_str s) \<longleftrightarrow> True"
| "flat_value (W_int i) \<longleftrightarrow> int8 i"
| "flat_value (W_bool b) \<longleftrightarrow> True"
| "flat_value _ \<longleftrightarrow> False"

definition json_roundtrip :: "'j json_api \<Rightarrow> bool" where
  "json_roundtrip J \<longleftrightarrow>
     (\<forall>kvs. distinct (map fst kvs) \<and> (\<forall>v\<in>snd ` set kvs. flat_value v) \<longrightarrow>
        (\<exists>j. js_load J (js_dump J (W_obj kvs)) = Some j \<and> reads_object J kvs j))"

lemma json_roundtripE:
  assumes "json_roundtrip J" and "distinct (map fst kvs)" and "\<forall>v\<in>snd ` set kvs. flat_value v"
  obtains j where "js_load J (js_dump J (W_obj kvs)) = Some j" "reads_object J kvs j"
  using assms unfolding json_roundtrip_def by blast

lemma reads_object_string:
  assumes "reads_object J kvs j" and "map_of kvs k = Some (W_str s)"
  shows "js_has J j k" "read_string J j k = Return s" "has_string J j k = Return True"
    "string_field J j k dflt = Return s"
proof -
  obtain x where x: "js_at J j k = Return x" "reads_value J (W_str s) x" "js_has J j k"
    using assms unfolding reads_object_def by (metis option.distinct(1))
  then show "js_has J j k" "read_string J j k = Return s" "has_string J j k = Return True"
      "string_field J j k dflt = Return s"
    by (simp_all add: read_string_def has_string_def string_field_def)
qed

lemma reads_object_int:
  assumes "reads_object J kvs j" and "map_of kvs k = Some (W_int i)"
  shows "js_has J j k" "obind (js_at J j k) (js_i J) = Return i"
proof -
  obtain x where x: "js_at J j k = Return x" "reads_value J (W_int i) x" "js_has J j k"
    using assms unfolding reads_object_def by (metis option.distinct(1))
  then show "js_has J j k" "obind (js_at J j k) (js_i J) = Return i" by simp_all
qed

end
