(* ===== verification/Database.thy ===== *)
theory Database
  imports Domain "HOL-Library.Monad_Syntax"
begin

text \<open>
  The database as the program's SQL sees it: one record per row of the tables that
  \<^verbatim>\<open>migrations/001\<close> to \<^verbatim>\<open>004\<close> create, the state \<open>db\<close> of all tables, and the answers of
  the environment that one repository call receives. A statement of the source is
  translated where it occurs, as a function on these tables; what the server itself decides
  is a parameter: \<open>pg\<close> for its text, UUID and JSON conversions, \<open>site\<close> for clocks,
  generated keys, faults and random bytes.
\<close>

section \<open>What the environment supplies\<close>

text \<open>
  \<open>pg_uuid\<close> is the cast of a text to \<^verbatim>\<open>uuid\<close> and back (\<open>None\<close>: the cast fails),
  \<open>pg_jsonb\<close> the cast to \<^verbatim>\<open>jsonb\<close> and back, \<open>pg_contains\<close> the operator \<^verbatim>\<open>@>\<close>,
  \<open>pg_lower\<close> the function \<^verbatim>\<open>LOWER\<close>, \<open>pg_varchar n\<close> and \<open>pg_text\<close> the value a
  \<^verbatim>\<open>VARCHAR(n)\<close> or \<^verbatim>\<open>TEXT\<close> column stores for a text (\<open>None\<close>: it is refused),
  \<open>pg_channel\<close> says which channel names \<^verbatim>\<open>pg_notify\<close> accepts, and \<open>pg_collate\<close> sorts
  texts as \<^verbatim>\<open>ORDER BY\<close> does under the collation of the database.
\<close>

record pg =
  pg_uuid :: "string \<Rightarrow> string option"
  pg_jsonb :: "string \<Rightarrow> string option"
  pg_contains :: "string \<Rightarrow> string \<Rightarrow> bool"
  pg_lower :: "string \<Rightarrow> string"
  pg_varchar :: "nat \<Rightarrow> string \<Rightarrow> string option"
  pg_text :: "string \<Rightarrow> string option"
  pg_channel :: "string \<Rightarrow> bool"
  pg_collate :: "string list \<Rightarrow> string list"

text \<open>
  One repository call is one transaction. \<open>dbFail c = Some k\<close> says that its \<open>k\<close>-th step
  raises (step 0 takes the connection, step \<open>k\<close> is the \<open>k\<close>-th statement, the last is the
  commit); \<^verbatim>\<open>pqxx::work\<close> then rolls back, so the tables keep their rows. \<open>dbNow\<close> is
  \<^verbatim>\<open>clock_timestamp()\<close>, \<open>dbUuid\<close> the value of \<^verbatim>\<open>gen_random_uuid()\<close>, \<open>dbSeq\<close> the next
  value of a \<^verbatim>\<open>BIGSERIAL\<close>, \<open>sysNow\<close> the \<^verbatim>\<open>system_clock::now()\<close> read at that place of
  the code and \<open>rnd\<close> the bytes OpenSSL's generator delivers there. \<open>dbLocked\<close> tells the
  rows, by id, on which concurrent transactions hold locks, for \<^verbatim>\<open>SKIP LOCKED\<close>. A call
  that reads one of the clocks several times is given one reading.
\<close>

record site =
  dbFail :: "nat option"
  dbNow :: time
  dbUuid :: string
  dbSeq :: int
  sysNow :: time
  rnd :: "nat \<Rightarrow> byte"
  dbLocked :: "int \<Rightarrow> bool"

abbreviation dbOk :: "site \<Rightarrow> bool" where
  "dbOk c \<equiv> dbFail c = None"

text \<open>The calls of one use case, numbered in the order of its source text.\<close>

type_synonym sites = "nat \<Rightarrow> site"

section \<open>Rows\<close>

record user_row =
  ur_id :: string
  ur_email :: string
  ur_password_hash :: "string option"
  ur_role :: string
  ur_is_active :: bool
  ur_failed_login_attempts :: int
  ur_locked_until :: "time option"
  ur_created_at :: time
  ur_updated_at :: time
  ur_google_id :: "string option"
  ur_auth_provider :: string
  ur_avatar_url :: "string option"

record session_row =
  sr_id :: string
  sr_user_id :: string
  sr_jti :: string
  sr_refresh_token_hash :: string
  sr_previous_refresh_token_hash :: "string option"
  sr_created_at :: time
  sr_last_seen_at :: time
  sr_expires_at :: time
  sr_revoked_at :: "time option"
  sr_revocation_reason :: "string option"
  sr_ip_address :: "string option"
  sr_user_agent :: "string option"
  sr_device_name :: "string option"
  sr_client_type :: "string option"

record revocation_row =
  rv_jti :: string
  rv_session_id :: string
  rv_expires_at :: time
  rv_revoked_at :: time

record audit_row =
  ar_id :: int
  ar_event_type :: string
  ar_user_id :: "string option"
  ar_admin_user_id :: "string option"
  ar_session_id :: "string option"
  ar_ip_address :: "string option"
  ar_user_agent :: "string option"
  ar_reason :: "string option"
  ar_created_at :: time

record todo_row =
  td_id :: int
  td_title :: string
  td_description :: "string option"
  td_completed :: bool
  td_created_at :: time
  td_updated_at :: time

record cache_row =
  ck_key :: string
  ck_value :: string
  ck_ttl_seconds :: int
  ck_created_at :: time
  ck_expires_at :: time

record queue_row =
  mq_id :: int
  mq_topic :: string
  mq_payload :: string
  mq_status :: string
  mq_retry_count :: int
  mq_created_at :: time
  mq_processed_at :: "time option"

record document_row =
  dc_id :: string
  dc_collection_name :: string
  dc_data :: string
  dc_created_at :: time
  dc_updated_at :: time

text \<open>
  All tables, and the notifications that committed transactions have sent with
  \<^verbatim>\<open>pg_notify\<close>, oldest first.
\<close>

record db =
  db_users :: "user_row list"
  db_sessions :: "session_row list"
  db_revocations :: "revocation_row list"
  db_audit :: "audit_row list"
  db_todos :: "todo_row list"
  db_cache :: "cache_row list"
  db_queue :: "queue_row list"
  db_documents :: "document_row list"
  db_notifications :: "(string \<times> string) list"

definition empty_db :: db where
  "empty_db =
     \<lparr>db_users = [], db_sessions = [], db_revocations = [], db_audit = [], db_todos = [],
      db_cache = [], db_queue = [], db_documents = [], db_notifications = []\<rparr>"

section \<open>Column values\<close>

definition varchar_opt :: "pg \<Rightarrow> nat \<Rightarrow> string option \<Rightarrow> string option option" where
  "varchar_opt P n v =
     (case v of None \<Rightarrow> Some None | Some s \<Rightarrow> map_option Some (pg_varchar P n s))"

definition text_opt :: "pg \<Rightarrow> string option \<Rightarrow> string option option" where
  "text_opt P v = (case v of None \<Rightarrow> Some None | Some s \<Rightarrow> map_option Some (pg_text P s))"

definition uuid_opt :: "pg \<Rightarrow> string option \<Rightarrow> string option option" where
  "uuid_opt P v = (case v of None \<Rightarrow> Some None | Some s \<Rightarrow> map_option Some (pg_uuid P s))"

text \<open>
  The range of \<^verbatim>\<open>INT\<close>, checked by the server on every store, and of \<^verbatim>\<open>BIGINT\<close>.
\<close>

definition int4 :: "int \<Rightarrow> bool" where
  "int4 i \<longleftrightarrow> - (2 ^ 31) \<le> i \<and> i < 2 ^ 31"

definition bigserial :: "int \<Rightarrow> bool" where
  "bigserial i \<longleftrightarrow> 0 < i \<and> i < 2 ^ 63"

lemma bigserial_word: "bigserial i \<Longrightarrow> uint (word_of_int i :: 64 word) = i"
  by (simp add: bigserial_def uint_word_of_int take_bit_int_eq_self)

lemma bigserial_word_eq_iff:
  "bigserial i \<Longrightarrow> i = uint (w :: 64 word) \<longleftrightarrow> word_of_int i = w"
  using bigserial_word[of i] by auto

text \<open>
  Documented behaviour of the server that some properties rest on: a generated UUID reads
  back as itself, the empty text is no UUID, and the text form of a UUID is canonical.
\<close>

definition pg_laws :: "pg \<Rightarrow> bool" where
  "pg_laws P \<longleftrightarrow> pg_uuid P '''' = None \<and>
     (\<forall>s u. pg_uuid P s = Some u \<longrightarrow> pg_uuid P u = Some u) \<and>
     (\<forall>xs. mset (pg_collate P xs) = mset xs)"

definition site_ok :: "pg \<Rightarrow> site \<Rightarrow> bool" where
  "site_ok P c \<longleftrightarrow> pg_uuid P (dbUuid c) = Some (dbUuid c)"

text \<open>
  A server that stores any text, caps \<^verbatim>\<open>VARCHAR\<close> columns and reads every nonempty text as
  a UUID: the concrete instance at which the development's examples are evaluated.
\<close>

definition demo_pg :: pg where
  "demo_pg =
     \<lparr>pg_uuid = (\<lambda>s. if s = '''' then None else Some s), pg_jsonb = Some,
      pg_contains = (=), pg_lower = map tolower,
      pg_varchar = (\<lambda>n s. if length s \<le> n then Some s else None), pg_text = Some,
      pg_channel = (\<lambda>s. s \<noteq> '''' \<and> length s < 64), pg_collate = (\<lambda>xs. xs)\<rparr>"

definition demo_site :: "time \<Rightarrow> string \<Rightarrow> int \<Rightarrow> site" where
  "demo_site t u n =
     \<lparr>dbFail = None, dbNow = t, dbUuid = u, dbSeq = n, sysNow = t, rnd = (\<lambda>_. 0),
      dbLocked = (\<lambda>_. False)\<rparr>"

lemma demo_pg_laws: "pg_laws demo_pg"
  by (simp add: pg_laws_def demo_pg_def)

end
