(* ===== verification/Users.thy ===== *)
theory Users
  imports Database
begin

text \<open>
  \<^verbatim>\<open>PostgresUserRepository\<close> (\<^verbatim>\<open>Infrastructure/src/Persistence/PostgresUserRepository.cpp\<close>)
  on the \<^verbatim>\<open>users\<close> table of migrations 002 to 004. Every method catches all exceptions: a
  lookup then answers \<^verbatim>\<open>nullopt\<close>, an update \<^verbatim>\<open>false\<close>, and \<^verbatim>\<open>create\<close> the unchanged
  argument, whose id is empty.
\<close>

section \<open>Rows to entities\<close>

text \<open>
  \<^verbatim>\<open>mapUserRow\<close> reads columns 0 to 5 and 7 to 9. Column 6, \<^verbatim>\<open>locked_until\<close>, is selected
  but never read, so the entity's \<^verbatim>\<open>lockedUntil\<close> keeps its initialiser.
\<close>

definition mapUserRow :: "time \<Rightarrow> user_row \<Rightarrow> user" where
  "mapUserRow now r =
     (let u = (default_user now)
                \<lparr>u_id := ur_id r, u_email := ur_email r, u_passwordHash := ur_password_hash r,
                 u_role := ur_role r, u_isActive := ur_is_active r,
                 u_failedLoginAttempts := ur_failed_login_attempts r\<rparr>;
          u = (case ur_google_id r of None \<Rightarrow> u | Some g \<Rightarrow> u\<lparr>u_googleId := Some g\<rparr>);
          u = u\<lparr>u_authProvider := ur_auth_provider r\<rparr>;
          u = (case ur_avatar_url r of None \<Rightarrow> u | Some a \<Rightarrow> u\<lparr>u_avatarUrl := Some a\<rparr>)
      in u)"

lemma mapUserRow_sel [simp]:
  "u_id (mapUserRow now r) = ur_id r"
  "u_email (mapUserRow now r) = ur_email r"
  "u_passwordHash (mapUserRow now r) = ur_password_hash r"
  "u_role (mapUserRow now r) = ur_role r"
  "u_isActive (mapUserRow now r) = ur_is_active r"
  "u_failedLoginAttempts (mapUserRow now r) = ur_failed_login_attempts r"
  "u_lockedUntil (mapUserRow now r) = None"
  "u_googleId (mapUserRow now r) = ur_google_id r"
  "u_authProvider (mapUserRow now r) = ur_auth_provider r"
  "u_avatarUrl (mapUserRow now r) = ur_avatar_url r"
  by (simp_all add: mapUserRow_def default_user_def Let_def split: option.splits)

section \<open>Lookups\<close>

definition users_findById :: "pg \<Rightarrow> site \<Rightarrow> db \<Rightarrow> string \<Rightarrow> user option" where
  "users_findById P c d uid =
     (if \<not> dbOk c then None
      else case pg_uuid P uid of
        None \<Rightarrow> None
      | Some u \<Rightarrow> map_option (mapUserRow (sysNow c)) (find (\<lambda>r. ur_id r = u) (db_users d)))"

definition users_findByEmail :: "pg \<Rightarrow> site \<Rightarrow> db \<Rightarrow> string \<Rightarrow> user option" where
  "users_findByEmail P c d email =
     (if \<not> dbOk c then None
      else map_option (mapUserRow (sysNow c)) (find (\<lambda>r. ur_email r = email) (db_users d)))"

definition users_findByGoogleId :: "pg \<Rightarrow> site \<Rightarrow> db \<Rightarrow> string \<Rightarrow> user option" where
  "users_findByGoogleId P c d gid =
     (if \<not> dbOk c then None
      else map_option (mapUserRow (sysNow c)) (find (\<lambda>r. ur_google_id r = Some gid) (db_users d)))"

section \<open>Insertion\<close>

text \<open>
  The constraints of the table: the primary key, the unique columns \<^verbatim>\<open>email\<close> and
  \<^verbatim>\<open>google_id\<close>, and the unique index of migration 003 on \<^verbatim>\<open>LOWER(email)\<close>.
\<close>

definition user_conflict :: "pg \<Rightarrow> user_row \<Rightarrow> user_row list \<Rightarrow> bool" where
  "user_conflict P r rows \<longleftrightarrow>
     (\<exists>r'\<in>set rows. ur_id r' = ur_id r \<or> ur_email r' = ur_email r \<or>
        pg_lower P (ur_email r') = pg_lower P (ur_email r) \<or>
        (ur_google_id r \<noteq> None \<and> ur_google_id r' = ur_google_id r))"

definition user_row_of :: "pg \<Rightarrow> site \<Rightarrow> user \<Rightarrow> user_row option" where
  "user_row_of P c u =
     (let prov = (if u_authProvider u = [] then ''local'' else u_authProvider u)
      in do {
        em \<leftarrow> pg_varchar P 255 (u_email u);
        ph \<leftarrow> varchar_opt P 255 (u_passwordHash u);
        rl \<leftarrow> pg_varchar P 50 (u_role u);
        gid \<leftarrow> varchar_opt P 128 (u_googleId u);
        pv \<leftarrow> pg_varchar P 32 prov;
        av \<leftarrow> text_opt P (u_avatarUrl u);
        Some \<lparr>ur_id = dbUuid c, ur_email = em, ur_password_hash = ph, ur_role = rl,
              ur_is_active = u_isActive u, ur_failed_login_attempts = 0, ur_locked_until = None,
              ur_created_at = dbNow c, ur_updated_at = dbNow c, ur_google_id = gid,
              ur_auth_provider = pv, ur_avatar_url = av\<rparr>
      })"

definition users_create :: "pg \<Rightarrow> site \<Rightarrow> db \<Rightarrow> user \<Rightarrow> user \<times> db" where
  "users_create P c d u =
     (if \<not> dbOk c then (u, d)
      else case user_row_of P c u of
        None \<Rightarrow> (u, d)
      | Some r \<Rightarrow>
          if user_conflict P r (db_users d) then (u, d)
          else (u\<lparr>u_id := ur_id r\<rparr>, d\<lparr>db_users := db_users d @ [r]\<rparr>))"

section \<open>Updates by id\<close>

text \<open>
  \<^verbatim>\<open>UPDATE users SET .. WHERE id = $n::uuid\<close>: the cast, the update of the one row, and
  the number of affected rows.
\<close>

definition users_update_by_id ::
    "pg \<Rightarrow> site \<Rightarrow> db \<Rightarrow> string \<Rightarrow> (user_row \<Rightarrow> user_row) \<Rightarrow> bool \<times> db" where
  "users_update_by_id P c d uid f =
     (if \<not> dbOk c then (False, d)
      else case pg_uuid P uid of
        None \<Rightarrow> (False, d)
      | Some u \<Rightarrow>
          (0 < affected (\<lambda>r. ur_id r = u) (db_users d),
           d\<lparr>db_users := update_where (\<lambda>r. ur_id r = u) f (db_users d)\<rparr>))"

definition users_linkGoogleAccount ::
    "pg \<Rightarrow> site \<Rightarrow> db \<Rightarrow> string \<Rightarrow> string \<Rightarrow> string \<Rightarrow> bool \<times> db" where
  "users_linkGoogleAccount P c d uid gid avatar =
     (let av = (if avatar = [] then None else Some avatar)
      in case (pg_varchar P 128 gid, text_opt P av) of
        (Some g, Some av') \<Rightarrow>
          if \<exists>r\<in>set (db_users d). ur_google_id r = Some g \<and> pg_uuid P uid \<noteq> Some (ur_id r)
             \<and> (\<exists>r'\<in>set (db_users d). pg_uuid P uid = Some (ur_id r'))
          then (False, d)
          else users_update_by_id P c d uid
            (\<lambda>r. r\<lparr>ur_google_id := Some g,
                   ur_auth_provider :=
                     (if ur_password_hash r \<noteq> None \<and> ur_password_hash r \<noteq> Some ''''
                      then ''local+google'' else ''google''),
                   ur_avatar_url := (case av' of None \<Rightarrow> ur_avatar_url r | Some a \<Rightarrow> Some a),
                   ur_updated_at := dbNow c\<rparr>)
      | _ \<Rightarrow> (False, d))"

definition password_row :: "string \<Rightarrow> time \<Rightarrow> user_row \<Rightarrow> user_row" where
  "password_row h now r =
     r\<lparr>ur_password_hash := Some h,
       ur_auth_provider :=
         (if ur_google_id r \<noteq> None \<and> ur_google_id r \<noteq> Some []
          then ''local+google'' else ''local''),
       ur_updated_at := now\<rparr>"

lemma password_row_sel [simp]:
  "ur_id (password_row h now r) = ur_id r"
  "ur_email (password_row h now r) = ur_email r"
  "ur_google_id (password_row h now r) = ur_google_id r"
  "ur_created_at (password_row h now r) = ur_created_at r"
  "ur_failed_login_attempts (password_row h now r) = ur_failed_login_attempts r"
  "ur_is_active (password_row h now r) = ur_is_active r"
  "ur_password_hash (password_row h now r) = Some h"
  by (simp_all add: password_row_def)

definition users_setPassword ::
    "pg \<Rightarrow> site \<Rightarrow> db \<Rightarrow> string \<Rightarrow> string \<Rightarrow> bool \<times> db" where
  "users_setPassword P c d uid newHash =
     (case pg_varchar P 255 newHash of
        None \<Rightarrow> (False, d)
      | Some h \<Rightarrow> users_update_by_id P c d uid (password_row h (dbNow c)))"

definition users_update :: "pg \<Rightarrow> site \<Rightarrow> db \<Rightarrow> user \<Rightarrow> bool \<times> db" where
  "users_update P c d u =
     (case pg_varchar P 50 (u_role u) of
        None \<Rightarrow> (False, d)
      | Some rl \<Rightarrow>
          users_update_by_id P c d (u_id u)
            (\<lambda>r. r\<lparr>ur_role := rl, ur_is_active := u_isActive u, ur_updated_at := dbNow c\<rparr>))"

text \<open>
  The counter is an \<^verbatim>\<open>INT\<close>; an increment beyond its range raises and is swallowed.
\<close>

definition users_incrementFailedAttempts :: "pg \<Rightarrow> site \<Rightarrow> db \<Rightarrow> string \<Rightarrow> db" where
  "users_incrementFailedAttempts P c d uid =
     (if \<exists>r\<in>set (db_users d). pg_uuid P uid = Some (ur_id r)
           \<and> \<not> int4 (ur_failed_login_attempts r + 1)
      then d
      else snd (users_update_by_id P c d uid
        (\<lambda>r. r\<lparr>ur_failed_login_attempts := ur_failed_login_attempts r + 1,
               ur_updated_at := dbNow c\<rparr>)))"

definition users_resetFailedAttempts :: "pg \<Rightarrow> site \<Rightarrow> db \<Rightarrow> string \<Rightarrow> db" where
  "users_resetFailedAttempts P c d uid =
     snd (users_update_by_id P c d uid
       (\<lambda>r. r\<lparr>ur_failed_login_attempts := 0, ur_locked_until := None,
              ur_updated_at := dbNow c\<rparr>))"

definition users_lockAccount :: "pg \<Rightarrow> site \<Rightarrow> db \<Rightarrow> string \<Rightarrow> time \<Rightarrow> db" where
  "users_lockAccount P c d uid until =
     snd (users_update_by_id P c d uid
       (\<lambda>r. r\<lparr>ur_locked_until := Some (from_epoch (to_epoch until)),
              ur_updated_at := dbNow c\<rparr>))"

section \<open>The invariant of the table\<close>

text \<open>
  The uniqueness constraints the schema declares, ids that are canonical UUIDs and counters
  within the range of their column.
\<close>

definition users_wf :: "pg \<Rightarrow> user_row list \<Rightarrow> bool" where
  "users_wf P rows \<longleftrightarrow>
     distinct (map ur_id rows) \<and> distinct (map ur_email rows) \<and>
     distinct (map (pg_lower P \<circ> ur_email) rows) \<and>
     distinct (map ur_google_id (filter (\<lambda>r. ur_google_id r \<noteq> None) rows)) \<and>
     (\<forall>r\<in>set rows. pg_uuid P (ur_id r) = Some (ur_id r)) \<and>
     (\<forall>r\<in>set rows. 0 \<le> ur_failed_login_attempts r \<and> int4 (ur_failed_login_attempts r))"

lemma users_wf_Nil [simp]: "users_wf P []"
  by (simp add: users_wf_def)

lemma user_row_of_fields:
  assumes "user_row_of P c u = Some r"
  shows "ur_id r = dbUuid c" and "ur_failed_login_attempts r = 0"
    and "pg_varchar P 255 (u_email u) = Some (ur_email r)"
    and "pg_varchar P 50 (u_role u) = Some (ur_role r)"
    and "varchar_opt P 255 (u_passwordHash u) = Some (ur_password_hash r)"
    and "varchar_opt P 128 (u_googleId u) = Some (ur_google_id r)"
    and "ur_is_active r = u_isActive u" and "ur_locked_until r = None"
  using assms by (auto simp: user_row_of_def Let_def split: Option.bind_splits)

lemma users_create_wf [wf_intros]:
  assumes wf: "users_wf P (db_users d)" and c: "site_ok P c"
  shows "users_wf P (db_users (snd (users_create P c d u)))"
proof (cases "dbOk c \<and> (\<exists>r. user_row_of P c u = Some r \<and> \<not> user_conflict P r (db_users d))")
  case False
  then have "snd (users_create P c d u) = d"
    by (auto simp: users_create_def split: option.splits)
  with wf show ?thesis by simp
next
  case True
  then obtain r where r: "dbOk c" "user_row_of P c u = Some r" "\<not> user_conflict P r (db_users d)"
    by blast
  note f = user_row_of_fields[OF r(2)]
  have "db_users (snd (users_create P c d u)) = db_users d @ [r]"
    using r by (simp add: users_create_def)
  moreover have "users_wf P (db_users d @ [r])"
    using wf r(3) f(1,2) c by (auto simp: users_wf_def user_conflict_def site_ok_def int4_def image_iff)
  ultimately show ?thesis by simp
qed

text \<open>
  An update by id keeps the invariant when it writes no identifying column; linking is the
  one update that writes \<^verbatim>\<open>google_id\<close>.
\<close>

lemma users_update_by_id_wf:
  assumes wf: "users_wf P (db_users d)"
    and f: "\<And>r. ur_id (f r) = ur_id r" "\<And>r. ur_email (f r) = ur_email r"
      "\<And>r. ur_google_id (f r) = ur_google_id r"
    and n: "\<And>r. r \<in> set (db_users d) \<Longrightarrow> pg_uuid P uid = Some (ur_id r) \<Longrightarrow>
      0 \<le> ur_failed_login_attempts (f r) \<and> int4 (ur_failed_login_attempts (f r))"
  shows "users_wf P (db_users (snd (users_update_by_id P c d uid f)))"
proof (cases "dbOk c \<and> pg_uuid P uid \<noteq> None")
  case False
  with wf show ?thesis by (auto simp: users_update_by_id_def split: option.splits)
next
  case True
  then obtain u where u: "dbOk c" "pg_uuid P uid = Some u" by auto
  let ?p = "\<lambda>r. ur_id r = u" and ?g = "\<lambda>r. if ur_id r = u then f r else r"
  have m: "map ur_id (update_where ?p f (db_users d)) = map ur_id (db_users d)"
    "map ur_email (update_where ?p f (db_users d)) = map ur_email (db_users d)"
    "map (pg_lower P \<circ> ur_email) (update_where ?p f (db_users d)) =
       map (pg_lower P \<circ> ur_email) (db_users d)"
    by (simp_all add: map_update_where f)
  have gf: "map ur_google_id (filter (\<lambda>r. ur_google_id r \<noteq> None) (update_where ?p f rows)) =
      map ur_google_id (filter (\<lambda>r. ur_google_id r \<noteq> None) rows)" for rows
    by (induction rows) (auto simp: f)
  have "users_wf P (update_where ?p f (db_users d))"
    using wf n u unfolding users_wf_def m gf by (auto simp: set_update_where f)
  then show ?thesis using u by (simp add: users_update_by_id_def)
qed

lemma users_setPassword_wf [wf_intros]:
  "users_wf P (db_users d) \<Longrightarrow> users_wf P (db_users (snd (users_setPassword P c d uid h)))"
  by (auto simp: users_setPassword_def users_wf_def[of P "db_users d"]
      intro!: users_update_by_id_wf split: option.splits)

lemma users_update_wf [wf_intros]:
  "users_wf P (db_users d) \<Longrightarrow> users_wf P (db_users (snd (users_update P c d u)))"
  by (auto simp: users_update_def users_wf_def[of P "db_users d"]
      intro!: users_update_by_id_wf split: option.splits)

lemma users_incrementFailedAttempts_wf [wf_intros]:
  "users_wf P (db_users d) \<Longrightarrow> users_wf P (db_users (users_incrementFailedAttempts P c d uid))"
  by (auto simp: users_incrementFailedAttempts_def users_wf_def[of P "db_users d"]
      intro!: users_update_by_id_wf)

lemma users_resetFailedAttempts_wf [wf_intros]:
  "users_wf P (db_users d) \<Longrightarrow> users_wf P (db_users (users_resetFailedAttempts P c d uid))"
  by (auto simp: users_resetFailedAttempts_def int4_def intro!: users_update_by_id_wf)

lemma users_lockAccount_wf [wf_intros]:
  "users_wf P (db_users d) \<Longrightarrow> users_wf P (db_users (users_lockAccount P c d uid until))"
  by (auto simp: users_lockAccount_def users_wf_def[of P "db_users d"]
      intro!: users_update_by_id_wf)

lemma link_google_distinct:
  assumes ids: "distinct (map ur_id rows)"
    and goog: "distinct (map ur_google_id (filter (\<lambda>r. ur_google_id r \<noteq> None) rows))"
    and free: "\<And>r. r \<in> set rows \<Longrightarrow> ur_google_id r = Some g \<Longrightarrow> ur_id r = u"
    and f: "\<And>r. ur_id (f r) = ur_id r" "\<And>r. ur_google_id (f r) = Some g"
  shows "distinct (map ur_google_id
           (filter (\<lambda>r. ur_google_id r \<noteq> None) (update_where (\<lambda>r. ur_id r = u) f rows)))"
proof -
  let ?rows = "update_where (\<lambda>r. ur_id r = u) f rows"
  let ?some = "\<lambda>r. ur_google_id r \<noteq> None"
  have "map ur_id ?rows = map ur_id rows" by (simp add: map_update_where f)
  with ids have ids': "distinct (map ur_id ?rows)" by simp
  then have d: "distinct (filter ?some ?rows)" by (simp add: distinct_map)
  have inj: "inj_on ur_google_id (set (filter ?some rows))"
    using goog by (simp add: distinct_map)
  have "inj_on ur_google_id (set (filter ?some ?rows))"
  proof (rule inj_onI)
    fix x y
    assume x: "x \<in> set (filter ?some ?rows)" and y: "y \<in> set (filter ?some ?rows)"
      and eq: "ur_google_id x = ur_google_id y"
    from x obtain a where a: "a \<in> set rows" "x = (if ur_id a = u then f a else a)"
      by (auto simp: set_update_where)
    from y obtain b where b: "b \<in> set rows" "y = (if ur_id b = u then f b else b)"
      by (auto simp: set_update_where)
    have ab: "ur_id a = ur_id b \<Longrightarrow> a = b"
      using ids a(1) b(1) by (auto simp: distinct_map inj_on_def)
    show "x = y"
    proof (cases "ur_id a = u \<or> ur_id b = u")
      case True
      with eq a b f free[OF a(1)] free[OF b(1)] ab show ?thesis by (auto split: if_splits)
    next
      case False
      with a b x y eq inj show ?thesis by (auto simp: inj_on_def)
    qed
  qed
  with d show ?thesis by (simp add: distinct_map)
qed

lemma users_linkGoogleAccount_wf [wf_intros]:
  assumes wf: "users_wf P (db_users d)"
  shows "users_wf P (db_users (snd (users_linkGoogleAccount P c d uid gid av)))"
proof -
  let ?f = "\<lambda>g av' r. r\<lparr>ur_google_id := Some g,
                   ur_auth_provider :=
                     (if ur_password_hash r \<noteq> None \<and> ur_password_hash r \<noteq> Some ''''
                      then ''local+google'' else ''google''),
                   ur_avatar_url := (case av' of None \<Rightarrow> ur_avatar_url r | Some a \<Rightarrow> Some a),
                   ur_updated_at := dbNow c\<rparr>"
  have step: "users_wf P (update_where (\<lambda>r. ur_id r = u) (?f g av') (db_users d))"
    if "\<And>r. r \<in> set (db_users d) \<Longrightarrow> ur_google_id r = Some g \<Longrightarrow> ur_id r = u" for g av' u
  proof -
    have "distinct (map ur_google_id (filter (\<lambda>r. ur_google_id r \<noteq> None)
            (update_where (\<lambda>r. ur_id r = u) (?f g av') (db_users d))))"
      using wf that by (intro link_google_distinct) (auto simp: users_wf_def)
    with wf show ?thesis
      by (auto simp: users_wf_def map_update_where set_update_where)
  qed
  have "users_wf P (update_where (\<lambda>r. ur_id r = u) (?f g av') (db_users d))"
    if "\<not> (\<exists>r\<in>set (db_users d). ur_google_id r = Some g \<and> u \<noteq> ur_id r \<and>
           (\<exists>r'\<in>set (db_users d). u = ur_id r'))" for g av' u
  proof (cases "\<exists>r'\<in>set (db_users d). u = ur_id r'")
    case True
    with that show ?thesis by (intro step) auto
  next
    case False
    then have "update_where (\<lambda>r. ur_id r = u) (?f g av') (db_users d) = db_users d"
      by (intro update_where_id) auto
    with wf show ?thesis by simp
  qed
  then show ?thesis
    using wf by (auto simp: users_linkGoogleAccount_def users_update_by_id_def Let_def
        split: option.splits)
qed

end
