(* ===== verification/Session_Store.thy ===== *)
theory Session_Store
  imports Database
begin

text \<open>
  \<^verbatim>\<open>PostgresSessionRepository\<close> on the tables \<^verbatim>\<open>sessions\<close> and \<^verbatim>\<open>token_revocations\<close>, and
  \<^verbatim>\<open>PostgresAuditLogRepository\<close> on \<^verbatim>\<open>audit_logs\<close> (migration 002): sessions are created,
  rotated and revoked, never deleted; revocations are recorded per token id and cleaned up
  after expiry; audit rows are only appended.
\<close>

section \<open>Reading sessions\<close>

text \<open>
  The thirteen selected columns of a row as an entity. Timestamps arrive as whole seconds
  (\<^verbatim>\<open>extract(epoch from ..)::bigint\<close>).
\<close>

definition session_of_row :: "session_row \<Rightarrow> session" where
  "session_of_row r =
     \<lparr>s_id = sr_id r, s_userId = sr_user_id r, s_jti = sr_jti r,
      s_refreshTokenHash = sr_refresh_token_hash r,
      s_createdAt = from_epoch (epoch_bigint (sr_created_at r)),
      s_lastSeenAt = from_epoch (epoch_bigint (sr_last_seen_at r)),
      s_expiresAt = from_epoch (epoch_bigint (sr_expires_at r)),
      s_revokedAt = map_option (\<lambda>t. from_epoch (epoch_bigint t)) (sr_revoked_at r),
      s_revocationReason = sr_revocation_reason r,
      s_ipAddress = (case sr_ip_address r of None \<Rightarrow> '''' | Some s \<Rightarrow> s),
      s_userAgent = (case sr_user_agent r of None \<Rightarrow> '''' | Some s \<Rightarrow> s),
      s_deviceName = (case sr_device_name r of None \<Rightarrow> '''' | Some s \<Rightarrow> s),
      s_clientType = (case sr_client_type r of None \<Rightarrow> ''browser'' | Some s \<Rightarrow> s)\<rparr>"

lemma session_of_row_sel [simp]:
  "s_id (session_of_row r) = sr_id r"
  "s_userId (session_of_row r) = sr_user_id r"
  "s_jti (session_of_row r) = sr_jti r"
  "s_refreshTokenHash (session_of_row r) = sr_refresh_token_hash r"
  "s_expiresAt (session_of_row r) = from_epoch (epoch_bigint (sr_expires_at r))"
  "s_isRevoked (session_of_row r) \<longleftrightarrow> sr_revoked_at r \<noteq> None"
  by (simp_all add: session_of_row_def s_isRevoked_def)

definition id_or_jti :: "string \<Rightarrow> session_row \<Rightarrow> bool" where
  "id_or_jti key r \<longleftrightarrow> sr_id r = key \<or> sr_jti r = key"

definition sessions_findById :: "site \<Rightarrow> db \<Rightarrow> string \<Rightarrow> session option" where
  "sessions_findById c d sid =
     (if \<not> dbOk c then None
      else map_option session_of_row (find (id_or_jti sid) (db_sessions d)))"

definition sessions_findByJti :: "site \<Rightarrow> db \<Rightarrow> string \<Rightarrow> session option" where
  "sessions_findByJti c d jti =
     (if \<not> dbOk c then None
      else map_option session_of_row (find (\<lambda>r. sr_jti r = jti) (db_sessions d)))"

text \<open>
  The lookup of a refresh token: by the current hash, else by the previous one. A session
  found by its previous hash is reported as revoked now, with the reason of token reuse;
  the row itself is not changed, and the row lock of \<^verbatim>\<open>FOR UPDATE\<close> ends with the
  transaction, that is with this call.
\<close>

definition sessions_findByRefreshTokenHash :: "site \<Rightarrow> db \<Rightarrow> string \<Rightarrow> session option" where
  "sessions_findByRefreshTokenHash c d hash =
     (if \<not> dbOk c then None
      else case find (\<lambda>r. sr_refresh_token_hash r = hash) (db_sessions d) of
        Some r \<Rightarrow> Some (session_of_row r)
      | None \<Rightarrow>
          (case find (\<lambda>r. sr_previous_refresh_token_hash r = Some hash) (db_sessions d) of
             None \<Rightarrow> None
           | Some r \<Rightarrow>
               Some ((session_of_row r)\<lparr>s_revokedAt := Some (sysNow c),
                       s_revocationReason := Some ''TOKEN_REUSE_DETECTED''\<rparr>)))"

definition sessions_findUserSessions ::
    "pg \<Rightarrow> site \<Rightarrow> db \<Rightarrow> string \<Rightarrow> bool \<Rightarrow> session list" where
  "sessions_findUserSessions P c d uid includeRevoked =
     (if \<not> dbOk c then []
      else case pg_uuid P uid of
        None \<Rightarrow> []
      | Some u \<Rightarrow>
          map session_of_row (sort_key (\<lambda>r. - sr_created_at r)
            (filter (\<lambda>r. sr_user_id r = u \<and>
               (includeRevoked \<or> (sr_revoked_at r = None \<and> sr_expires_at r > dbNow c)))
               (db_sessions d))))"

text \<open>
  The administrator's listing builds its \<^verbatim>\<open>WHERE\<close> clause from the filters that are given;
  a status other than the three known words adds no condition. A negative \<^verbatim>\<open>LIMIT\<close> or
  \<^verbatim>\<open>OFFSET\<close> is an error of the server.
\<close>

definition status_filter :: "time \<Rightarrow> string option \<Rightarrow> session_row \<Rightarrow> bool" where
  "status_filter now status r =
     (case status of
        None \<Rightarrow> True
      | Some s \<Rightarrow>
          if s = ''active'' then sr_revoked_at r = None \<and> sr_expires_at r > now
          else if s = ''revoked'' then sr_revoked_at r \<noteq> None
          else if s = ''expired'' then sr_expires_at r \<le> now
          else True)"

definition sessions_findAllSessions ::
    "pg \<Rightarrow> site \<Rightarrow> db \<Rightarrow> int \<Rightarrow> int \<Rightarrow> string option \<Rightarrow> string option \<Rightarrow> string option
     \<Rightarrow> session list" where
  "sessions_findAllSessions P c d limit offset uid status ip =
     (let byUser = (case uid of None \<Rightarrow> None | Some s \<Rightarrow> if s = [] then None else Some s);
          byIp = (case ip of None \<Rightarrow> None | Some s \<Rightarrow> if s = [] then None else Some s)
      in if \<not> dbOk c \<or> limit < 0 \<or> offset < 0 then []
         else case uuid_opt P byUser of
           None \<Rightarrow> []
         | Some u \<Rightarrow>
             map session_of_row (take (nat limit) (drop (nat offset)
               (sort_key (\<lambda>r. - sr_created_at r)
                 (filter (\<lambda>r. (u = None \<or> u = Some (sr_user_id r)) \<and>
                    status_filter (dbNow c) status r \<and>
                    (byIp = None \<or> sr_ip_address r = byIp)) (db_sessions d))))))"

section \<open>Creating and rotating\<close>

definition session_row_of :: "pg \<Rightarrow> site \<Rightarrow> session \<Rightarrow> session_row option" where
  "session_row_of P c s = do {
     u \<leftarrow> pg_uuid P (s_userId s);
     j \<leftarrow> pg_varchar P 255 (s_jti s);
     h \<leftarrow> pg_varchar P 64 (s_refreshTokenHash s);
     ip \<leftarrow> pg_varchar P 100 (s_ipAddress s);
     ua \<leftarrow> pg_text P (s_userAgent s);
     dev \<leftarrow> pg_varchar P 150 (s_deviceName s);
     ct \<leftarrow> pg_varchar P 50 (s_clientType s);
     Some \<lparr>sr_id = dbUuid c, sr_user_id = u, sr_jti = j, sr_refresh_token_hash = h,
           sr_previous_refresh_token_hash = None, sr_created_at = dbNow c,
           sr_last_seen_at = dbNow c,
           sr_expires_at = from_epoch (to_epoch (s_expiresAt s)),
           sr_revoked_at = None, sr_revocation_reason = None, sr_ip_address = Some ip,
           sr_user_agent = Some ua, sr_device_name = Some dev, sr_client_type = Some ct\<rparr>
   }"

text \<open>
  The foreign key to \<^verbatim>\<open>users\<close>, the primary key and the unique column \<^verbatim>\<open>jti\<close>.
\<close>

definition session_conflict :: "session_row \<Rightarrow> db \<Rightarrow> bool" where
  "session_conflict r d \<longleftrightarrow>
     \<not> (\<exists>u\<in>set (db_users d). ur_id u = sr_user_id r) \<or>
     (\<exists>r'\<in>set (db_sessions d). sr_id r' = sr_id r \<or> sr_jti r' = sr_jti r)"

definition sessions_create :: "pg \<Rightarrow> site \<Rightarrow> db \<Rightarrow> session \<Rightarrow> session \<times> db" where
  "sessions_create P c d s =
     (if \<not> dbOk c then (s, d)
      else case session_row_of P c s of
        None \<Rightarrow> (s, d)
      | Some r \<Rightarrow>
          if session_conflict r d then (s, d)
          else (s\<lparr>s_id := sr_id r\<rparr>, d\<lparr>db_sessions := db_sessions d @ [r]\<rparr>))"

definition rotate_row :: "string \<Rightarrow> string \<Rightarrow> time \<Rightarrow> time \<Rightarrow> session_row \<Rightarrow> session_row" where
  "rotate_row h j ex now r =
     r\<lparr>sr_previous_refresh_token_hash := Some (sr_refresh_token_hash r),
       sr_refresh_token_hash := h, sr_jti := j,
       sr_expires_at := from_epoch (to_epoch ex), sr_last_seen_at := now\<rparr>"

definition sessions_updateRefreshToken ::
    "pg \<Rightarrow> site \<Rightarrow> db \<Rightarrow> string \<Rightarrow> string \<Rightarrow> string \<Rightarrow> time \<Rightarrow> bool \<times> db" where
  "sessions_updateRefreshToken P c d sid newHash newJti newExpiresAt =
     (let p = (\<lambda>r. id_or_jti sid r \<and> sr_revoked_at r = None)
      in if \<not> dbOk c then (False, d)
         else case (pg_varchar P 64 newHash, pg_varchar P 255 newJti) of
           (Some h, Some j) \<Rightarrow>
             (let rows = update_where p (rotate_row h j newExpiresAt (dbNow c)) (db_sessions d)
              in if \<not> distinct (map sr_jti rows) then (False, d)
                 else (0 < affected p (db_sessions d), d\<lparr>db_sessions := rows\<rparr>))
         | _ \<Rightarrow> (False, d))"

section \<open>Revoking\<close>

text \<open>
  \<^verbatim>\<open>INSERT INTO token_revocations .. ON CONFLICT (jti) DO NOTHING\<close>.
\<close>

definition insert_revocation ::
    "revocation_row \<Rightarrow> revocation_row list \<Rightarrow> revocation_row list" where
  "insert_revocation rv rows =
     (if \<exists>r\<in>set rows. rv_jti r = rv_jti rv then rows else rows @ [rv])"

definition revoke_row :: "string \<Rightarrow> time \<Rightarrow> session_row \<Rightarrow> session_row" where
  "revoke_row reason now r = r\<lparr>sr_revoked_at := Some now, sr_revocation_reason := Some reason\<rparr>"

definition revocation_of :: "time \<Rightarrow> session_row \<Rightarrow> revocation_row" where
  "revocation_of now r =
     \<lparr>rv_jti = sr_jti r, rv_session_id = sr_id r,
      rv_expires_at = from_epoch (epoch_bigint (sr_expires_at r)), rv_revoked_at = now\<rparr>"

definition sessions_revokeSession ::
    "pg \<Rightarrow> site \<Rightarrow> db \<Rightarrow> string \<Rightarrow> string \<Rightarrow> bool \<times> db" where
  "sessions_revokeSession P c d sid reason =
     (let p = (\<lambda>r. id_or_jti sid r \<and> sr_revoked_at r = None)
      in if \<not> dbOk c then (False, d)
         else case find p (db_sessions d) of
           None \<Rightarrow> (False, d)
         | Some r \<Rightarrow>
             (case pg_varchar P 255 reason of
                None \<Rightarrow> (False, d)
              | Some why \<Rightarrow>
                  (True,
                   d\<lparr>db_sessions := update_where p (revoke_row why (dbNow c)) (db_sessions d),
                     db_revocations := insert_revocation (revocation_of (dbNow c) r)
                                         (db_revocations d),
                     db_notifications := db_notifications d @ [(''session_revoked'', sr_id r)]\<rparr>)))"

text \<open>
  Revoking all sessions of a user. The count is taken after the first statement of the
  transaction (step 1), so a later fault leaves it set although everything is rolled back.
\<close>

definition sessions_revokeAllUserSessions ::
    "pg \<Rightarrow> site \<Rightarrow> db \<Rightarrow> string \<Rightarrow> string \<Rightarrow> nat \<times> db" where
  "sessions_revokeAllUserSessions P c d uid reason =
     (case (pg_uuid P uid, pg_varchar P 255 reason) of
        (Some u, Some why) \<Rightarrow>
          (let p = (\<lambda>r. sr_user_id r = u \<and> sr_revoked_at r = None);
               hit = filter p (db_sessions d);
               count = length hit
           in case dbFail c of
                Some k \<Rightarrow> (if k < 2 then 0 else count, d)
              | None \<Rightarrow>
                  (count,
                   d\<lparr>db_sessions := update_where p (revoke_row why (dbNow c)) (db_sessions d),
                     db_revocations :=
                       fold (\<lambda>r. insert_revocation (revocation_of (dbNow c) r)) hit
                         (db_revocations d),
                     db_notifications :=
                       db_notifications d @ map (\<lambda>r. (''session_revoked'', sr_id r)) hit\<rparr>))
      | (Some u, None) \<Rightarrow> (0, d)
      | (None, _) \<Rightarrow> (0, d))"

definition sessions_isTokenRevoked :: "site \<Rightarrow> db \<Rightarrow> string \<Rightarrow> bool" where
  "sessions_isTokenRevoked c d jti =
     (if \<not> dbOk c then False
      else if \<exists>rv\<in>set (db_revocations d). rv_jti rv = jti then True
      else \<exists>r\<in>set (db_sessions d). sr_jti r = jti \<and> sr_revoked_at r \<noteq> None)"

definition sessions_recordTokenRevocation ::
    "pg \<Rightarrow> site \<Rightarrow> db \<Rightarrow> string \<Rightarrow> string \<Rightarrow> time \<Rightarrow> db" where
  "sessions_recordTokenRevocation P c d jti sid expiresAt =
     (if \<not> dbOk c then d
      else case (pg_varchar P 255 jti, pg_uuid P sid) of
        (Some j, Some s) \<Rightarrow>
          d\<lparr>db_revocations :=
              insert_revocation
                \<lparr>rv_jti = j, rv_session_id = s, rv_expires_at = from_epoch (to_epoch expiresAt),
                 rv_revoked_at = dbNow c\<rparr> (db_revocations d)\<rparr>
      | _ \<Rightarrow> d)"

definition sessions_cleanupExpiredRevocations :: "site \<Rightarrow> db \<Rightarrow> nat \<times> db" where
  "sessions_cleanupExpiredRevocations c d =
     (let p = (\<lambda>rv. rv_expires_at rv \<le> dbNow c)
      in if \<not> dbOk c then (0, d)
         else (affected p (db_revocations d),
               d\<lparr>db_revocations := delete_where p (db_revocations d)\<rparr>))"

section \<open>The audit log\<close>

definition audit_row_of :: "pg \<Rightarrow> site \<Rightarrow> audit_log \<Rightarrow> audit_row option" where
  "audit_row_of P c a = do {
     et \<leftarrow> pg_varchar P 100 (a_eventType a);
     u \<leftarrow> uuid_opt P (a_userId a);
     adm \<leftarrow> uuid_opt P (a_adminUserId a);
     sid \<leftarrow> uuid_opt P (a_sessionId a);
     ip \<leftarrow> pg_varchar P 100 (a_ipAddress a);
     ua \<leftarrow> pg_text P (a_userAgent a);
     why \<leftarrow> pg_text P (a_reason a);
     Some \<lparr>ar_id = dbSeq c, ar_event_type = et, ar_user_id = u, ar_admin_user_id = adm,
           ar_session_id = sid, ar_ip_address = Some ip, ar_user_agent = Some ua,
           ar_reason = Some why, ar_created_at = dbNow c\<rparr>
   }"

definition audit_record :: "pg \<Rightarrow> site \<Rightarrow> db \<Rightarrow> audit_log \<Rightarrow> db" where
  "audit_record P c d a =
     (if \<not> dbOk c \<or> \<not> bigserial (dbSeq c) then d
      else case audit_row_of P c a of
        None \<Rightarrow> d
      | Some r \<Rightarrow>
          if \<exists>r'\<in>set (db_audit d). ar_id r' = ar_id r then d
          else d\<lparr>db_audit := db_audit d @ [r]\<rparr>)"

definition audit_of_row :: "audit_row \<Rightarrow> audit_log" where
  "audit_of_row r =
     \<lparr>a_id = word_of_int (ar_id r), a_eventType = ar_event_type r, a_userId = ar_user_id r,
      a_adminUserId = ar_admin_user_id r, a_sessionId = ar_session_id r,
      a_ipAddress = (case ar_ip_address r of None \<Rightarrow> '''' | Some s \<Rightarrow> s),
      a_userAgent = (case ar_user_agent r of None \<Rightarrow> '''' | Some s \<Rightarrow> s),
      a_reason = (case ar_reason r of None \<Rightarrow> '''' | Some s \<Rightarrow> s),
      a_createdAt = from_epoch (epoch_bigint (ar_created_at r))\<rparr>"

definition audit_findLogs ::
    "pg \<Rightarrow> site \<Rightarrow> db \<Rightarrow> string option \<Rightarrow> string option \<Rightarrow> int \<Rightarrow> int \<Rightarrow> audit_log list" where
  "audit_findLogs P c d uid eventType limit offset =
     (let byUser = (case uid of None \<Rightarrow> None | Some s \<Rightarrow> if s = [] then None else Some s);
          byType = (case eventType of None \<Rightarrow> None | Some s \<Rightarrow> if s = [] then None else Some s)
      in if \<not> dbOk c \<or> limit < 0 \<or> offset < 0 then []
         else case uuid_opt P byUser of
           None \<Rightarrow> []
         | Some u \<Rightarrow>
             map audit_of_row (take (nat limit) (drop (nat offset)
               (sort_key (\<lambda>r. - ar_created_at r)
                 (filter (\<lambda>r. (u = None \<or> ar_user_id r = u) \<and>
                    (byType = None \<or> byType = Some (ar_event_type r))) (db_audit d))))))"


section \<open>What the operations keep\<close>

text \<open>
  The constraints of the schema on \<^verbatim>\<open>sessions\<close>, with \<open>uids\<close> the ids of the users table,
  and the coupling of revocation time and reason that the code maintains.
\<close>

definition sessions_wf :: "pg \<Rightarrow> string set \<Rightarrow> session_row list \<Rightarrow> bool" where
  "sessions_wf P uids rows \<longleftrightarrow>
     distinct (map sr_id rows) \<and> distinct (map sr_jti rows) \<and>
     (\<forall>r\<in>set rows. sr_user_id r \<in> uids \<and> pg_uuid P (sr_id r) = Some (sr_id r) \<and>
        (sr_revoked_at r = None \<longleftrightarrow> sr_revocation_reason r = None))"

text \<open>
  How a session row may change: its identity, owner and creation time never, and once it
  is revoked nothing at all.
\<close>

definition session_le :: "session_row \<Rightarrow> session_row \<Rightarrow> bool" where
  "session_le r r' \<longleftrightarrow>
     sr_id r' = sr_id r \<and> sr_user_id r' = sr_user_id r \<and> sr_created_at r' = sr_created_at r \<and>
     (sr_revoked_at r \<noteq> None \<longrightarrow> r' = r)"

lemma session_le_refl [simp]: "session_le r r"
  by (simp add: session_le_def)

lemma session_le_trans: "session_le r s \<Longrightarrow> session_le s t \<Longrightarrow> session_le r t"
  by (auto simp: session_le_def)

lemma session_row_of_fields:
  assumes "session_row_of P c s = Some r"
  shows "sr_id r = dbUuid c" "pg_uuid P (s_userId s) = Some (sr_user_id r)"
    "pg_varchar P 255 (s_jti s) = Some (sr_jti r)"
    "pg_varchar P 64 (s_refreshTokenHash s) = Some (sr_refresh_token_hash r)"
    "sr_revoked_at r = None" "sr_revocation_reason r = None"
    "sr_expires_at r = from_epoch (to_epoch (s_expiresAt s))"
    "sr_previous_refresh_token_hash r = None"
  using assms by (auto simp: session_row_of_def split: Option.bind_splits)

lemma rotate_row_sel [simp]:
  "sr_id (rotate_row h j ex now r) = sr_id r"
  "sr_user_id (rotate_row h j ex now r) = sr_user_id r"
  "sr_created_at (rotate_row h j ex now r) = sr_created_at r"
  "sr_revoked_at (rotate_row h j ex now r) = sr_revoked_at r"
  "sr_revocation_reason (rotate_row h j ex now r) = sr_revocation_reason r"
  "sr_jti (rotate_row h j ex now r) = j"
  "sr_refresh_token_hash (rotate_row h j ex now r) = h"
  "sr_previous_refresh_token_hash (rotate_row h j ex now r) = Some (sr_refresh_token_hash r)"
  "sr_expires_at (rotate_row h j ex now r) = from_epoch (to_epoch ex)"
  by (simp_all add: rotate_row_def)

lemma revoke_row_sel [simp]:
  "sr_id (revoke_row why now r) = sr_id r"
  "sr_user_id (revoke_row why now r) = sr_user_id r"
  "sr_created_at (revoke_row why now r) = sr_created_at r"
  "sr_jti (revoke_row why now r) = sr_jti r"
  "sr_revoked_at (revoke_row why now r) = Some now"
  "sr_revocation_reason (revoke_row why now r) = Some why"
  by (simp_all add: revoke_row_def)

text \<open>The shape of the state after each operation: which tables it touches, and how.\<close>

lemma sessions_create_shape:
  obtains (same) "sessions_create P c d s = (s, d)"
  | (new) r where "dbOk c" "session_row_of P c s = Some r" "\<not> session_conflict r d"
      "sessions_create P c d s = (s\<lparr>s_id := dbUuid c\<rparr>, d\<lparr>db_sessions := db_sessions d @ [r]\<rparr>)"
  using session_row_of_fields(1)
  by (fastforce simp: sessions_create_def split: option.splits if_splits)

lemma sessions_update_shape:
  obtains (same) "sessions_updateRefreshToken P c d sid h j ex = (False, d)"
  | (rotated) h' j' where "dbOk c" "pg_varchar P 64 h = Some h'" "pg_varchar P 255 j = Some j'"
      "distinct (map sr_jti (update_where (\<lambda>r. id_or_jti sid r \<and> sr_revoked_at r = None)
                              (rotate_row h' j' ex (dbNow c)) (db_sessions d)))"
      "sessions_updateRefreshToken P c d sid h j ex =
         (\<exists>r\<in>set (db_sessions d). id_or_jti sid r \<and> sr_revoked_at r = None,
          d\<lparr>db_sessions := update_where (\<lambda>r. id_or_jti sid r \<and> sr_revoked_at r = None)
              (rotate_row h' j' ex (dbNow c)) (db_sessions d)\<rparr>)"
  by (fastforce simp: sessions_updateRefreshToken_def Let_def affected_pos
      split: option.splits if_splits)

lemma sessions_wf_create:
  assumes "sessions_wf P uids (db_sessions d)" "uids = ur_id ` set (db_users d)" "site_ok P c"
  shows "sessions_wf P uids (db_sessions (snd (sessions_create P c d s)))"
    and "rows_le session_le (db_sessions d) (db_sessions (snd (sessions_create P c d s)))"
proof -
  show "sessions_wf P uids (db_sessions (snd (sessions_create P c d s)))"
  proof (cases rule: sessions_create_shape[of P c d s])
    case same
    with assms show ?thesis by simp
  next
    case (new r)
    note f = session_row_of_fields[OF new(2)]
    from new assms f show ?thesis
      by (auto simp: sessions_wf_def session_conflict_def site_ok_def intro: rev_image_eqI)
  qed
  show "rows_le session_le (db_sessions d) (db_sessions (snd (sessions_create P c d s)))"
    by (cases rule: sessions_create_shape[of P c d s])
      (simp_all add: rows_le_refl rows_le_append)
qed

lemma sessions_wf_update_where:
  assumes "sessions_wf P uids rows"
    and "\<And>r. sr_id (f r) = sr_id r" "\<And>r. sr_user_id (f r) = sr_user_id r"
    and "distinct (map sr_jti (update_where p f rows))"
    and "\<And>r. r \<in> set rows \<Longrightarrow> p r \<Longrightarrow> sr_revoked_at (f r) = None \<longleftrightarrow> sr_revocation_reason (f r) = None"
  shows "sessions_wf P uids (update_where p f rows)"
  using assms by (auto simp: sessions_wf_def map_update_where set_update_where)

lemma sessions_wf_rotate:
  assumes "sessions_wf P uids (db_sessions d)"
  shows "sessions_wf P uids (db_sessions (snd (sessions_updateRefreshToken P c d sid h j ex)))"
    and "rows_le session_le (db_sessions d)
      (db_sessions (snd (sessions_updateRefreshToken P c d sid h j ex)))"
proof -
  show "sessions_wf P uids (db_sessions (snd (sessions_updateRefreshToken P c d sid h j ex)))"
    by (cases rule: sessions_update_shape[of P c d sid h j ex])
      (use assms in \<open>auto simp: sessions_wf_def[of P uids "db_sessions d"]
        intro!: sessions_wf_update_where\<close>)
  show "rows_le session_le (db_sessions d)
      (db_sessions (snd (sessions_updateRefreshToken P c d sid h j ex)))"
    by (cases rule: sessions_update_shape[of P c d sid h j ex])
      (auto simp: session_le_def intro!: rows_le_refl rows_le_update_where)
qed

lemma sessions_wf_revoke_where:
  assumes "sessions_wf P uids rows" and "\<And>r. p r \<Longrightarrow> sr_revoked_at r = None"
  shows "sessions_wf P uids (update_where p (revoke_row why now) rows)"
    and "rows_le session_le rows (update_where p (revoke_row why now) rows)"
  using assms
  by (auto simp: session_le_def sessions_wf_def[of P uids rows] map_update_where
      intro!: sessions_wf_update_where rows_le_update_where)


lemma insert_revocation_wf:
  "distinct (map rv_jti rows) \<Longrightarrow> distinct (map rv_jti (insert_revocation rv rows))"
  by (auto simp: insert_revocation_def)

lemma fold_insert_revocation_wf:
  "distinct (map rv_jti rows) \<Longrightarrow>
     distinct (map rv_jti (fold (\<lambda>r. insert_revocation (g r)) rs rows))"
  by (induction rs arbitrary: rows) (simp_all add: insert_revocation_wf)

lemma in_insert_revocation:
  "(\<exists>x\<in>set (insert_revocation rv rows). rv_jti x = j) \<longleftrightarrow> rv_jti rv = j \<or> (\<exists>x\<in>set rows. rv_jti x = j)"
  by (auto simp: insert_revocation_def)

lemma sessions_revoke_shape:
  obtains (same) "sessions_revokeSession P c d sid reason = (False, d)"
  | (revoked) r why rvs nts where "dbOk c" "pg_varchar P 255 reason = Some why"
      "r \<in> set (db_sessions d)" "id_or_jti sid r" "sr_revoked_at r = None"
      "rvs = insert_revocation (revocation_of (dbNow c) r) (db_revocations d)"
      "nts = db_notifications d @ [(''session_revoked'', sr_id r)]"
      "sessions_revokeSession P c d sid reason =
         (True, d\<lparr>db_sessions := update_where (\<lambda>r. id_or_jti sid r \<and> sr_revoked_at r = None)
                    (revoke_row why (dbNow c)) (db_sessions d),
                  db_revocations := rvs, db_notifications := nts\<rparr>)"
  by (fastforce simp: sessions_revokeSession_def Let_def dest: find_SomeD
      split: option.splits if_splits)

lemma sessions_revokeAll_shape:
  obtains (same) n where "sessions_revokeAllUserSessions P c d uid reason = (n, d)" "\<not> dbOk c \<or> n = 0"
  | (revoked) u why rvs nts where "dbOk c" "pg_uuid P uid = Some u" "pg_varchar P 255 reason = Some why"
      "rvs = fold (\<lambda>r. insert_revocation (revocation_of (dbNow c) r))
               (filter (\<lambda>r. sr_user_id r = u \<and> sr_revoked_at r = None) (db_sessions d))
               (db_revocations d)"
      "nts = db_notifications d @ map (\<lambda>r. (''session_revoked'', sr_id r))
               (filter (\<lambda>r. sr_user_id r = u \<and> sr_revoked_at r = None) (db_sessions d))"
      "sessions_revokeAllUserSessions P c d uid reason =
         (length (filter (\<lambda>r. sr_user_id r = u \<and> sr_revoked_at r = None) (db_sessions d)),
          d\<lparr>db_sessions := update_where (\<lambda>r. sr_user_id r = u \<and> sr_revoked_at r = None)
                    (revoke_row why (dbNow c)) (db_sessions d),
            db_revocations := rvs, db_notifications := nts\<rparr>)"
proof (cases "dbFail c")
  case (Some k)
  then show thesis
    by (intro same[of "fst (sessions_revokeAllUserSessions P c d uid reason)"])
      (auto simp: sessions_revokeAllUserSessions_def Let_def split: option.splits)
next
  case None
  show thesis
  proof (cases "pg_uuid P uid = None \<or> pg_varchar P 255 reason = None")
    case True
    then show thesis
      by (intro same[of 0]) (auto simp: sessions_revokeAllUserSessions_def split: option.splits)
  next
    case False
    then obtain u why where "pg_uuid P uid = Some u" "pg_varchar P 255 reason = Some why" by auto
    with None show thesis
      by (intro revoked[of u why, OF _ _ _ refl refl])
        (simp_all add: sessions_revokeAllUserSessions_def Let_def)
  qed
qed

lemma revoke_where_none_left:
  "\<forall>r\<in>set (update_where (\<lambda>r. sr_user_id r = u \<and> sr_revoked_at r = None) (revoke_row why now) rows).
     sr_user_id r = u \<longrightarrow> sr_revoked_at r \<noteq> None"
  by (induction rows) simp_all

text \<open>
  Revoking every session of a user leaves none of them active, and says how many there
  were.
\<close>

lemma revokeAll_revokes:
  assumes "dbOk c" "pg_uuid P uid = Some u" "pg_varchar P 255 reason = Some why"
  shows "fst (sessions_revokeAllUserSessions P c d uid reason) =
      length (filter (\<lambda>r. sr_user_id r = u \<and> sr_revoked_at r = None) (db_sessions d))"
    and "\<forall>r\<in>set (db_sessions (snd (sessions_revokeAllUserSessions P c d uid reason))).
      sr_user_id r = u \<longrightarrow> sr_revoked_at r \<noteq> None"
proof -
  show "fst (sessions_revokeAllUserSessions P c d uid reason) =
      length (filter (\<lambda>r. sr_user_id r = u \<and> sr_revoked_at r = None) (db_sessions d))"
    using assms by (simp add: sessions_revokeAllUserSessions_def Let_def)
  have "db_sessions (snd (sessions_revokeAllUserSessions P c d uid reason)) =
      update_where (\<lambda>r. sr_user_id r = u \<and> sr_revoked_at r = None) (revoke_row why (dbNow c))
        (db_sessions d)"
    using assms by (simp add: sessions_revokeAllUserSessions_def Let_def)
  then show "\<forall>r\<in>set (db_sessions (snd (sessions_revokeAllUserSessions P c d uid reason))).
      sr_user_id r = u \<longrightarrow> sr_revoked_at r \<noteq> None"
    by (simp only:) (rule revoke_where_none_left)
qed

definition audit_wf :: "audit_row list \<Rightarrow> bool" where
  "audit_wf rows \<longleftrightarrow> distinct (map ar_id rows) \<and> (\<forall>r\<in>set rows. bigserial (ar_id r))"

lemma audit_row_of_id: "audit_row_of P c a = Some r \<Longrightarrow> ar_id r = dbSeq c"
  by (auto simp: audit_row_of_def split: Option.bind_splits)

lemma audit_record_shape:
  obtains (same) "audit_record P c d a = d"
  | (appended) r where "dbOk c" "audit_row_of P c a = Some r" "bigserial (ar_id r)"
      "\<forall>r'\<in>set (db_audit d). ar_id r' \<noteq> ar_id r"
      "audit_record P c d a = d\<lparr>db_audit := db_audit d @ [r]\<rparr>"
  using audit_row_of_id
  by (fastforce simp: audit_record_def split: option.splits if_splits)

end
