(* ===== verification/Todo_Repository.thy ===== *)
theory Todo_Repository
  imports Database Api
begin

text \<open>
  The interface \<^verbatim>\<open>ITodoRepository\<close>, the contract its clients rely on, and the two classes
  that implement it: \<^verbatim>\<open>InMemoryTodoRepository\<close> and \<^verbatim>\<open>PostgresTodoRepository\<close>. The
  contract is a locale over an abstraction to a finite map from ids to contents; both
  implementations interpret it.
\<close>

section \<open>The interface\<close>

text \<open>
  A repository is the record of its virtual methods over a state \<open>'s\<close>; a method that
  changes the state returns the new one. \<^verbatim>\<open>string_view\<close> arguments are strings.
\<close>

record 's todo_repository =
  repo_findAll :: "site \<Rightarrow> 's \<Rightarrow> todo list"
  repo_findById :: "site \<Rightarrow> 's \<Rightarrow> 64 word \<Rightarrow> todo option"
  repo_save :: "site \<Rightarrow> 's \<Rightarrow> todo \<Rightarrow> todo \<times> 's"
  repo_update ::
    "site \<Rightarrow> 's \<Rightarrow> 64 word \<Rightarrow> string option \<Rightarrow> string option \<Rightarrow> bool option \<Rightarrow> todo option \<times> 's"
  repo_remove :: "site \<Rightarrow> 's \<Rightarrow> 64 word \<Rightarrow> bool \<times> 's"

text \<open>The content of a todo, without id and timestamps, and the merge of an update.\<close>

type_synonym todo_content = "string \<times> string \<times> bool"

definition content :: "todo \<Rightarrow> todo_content" where
  "content t = (t_title t, t_description t, t_completed t)"

fun merge_content ::
    "string option \<Rightarrow> string option \<Rightarrow> bool option \<Rightarrow> todo_content \<Rightarrow> todo_content" where
  "merge_content title desc compl (t, d, b) =
     (case title of None \<Rightarrow> t | Some x \<Rightarrow> x,
      case desc of None \<Rightarrow> d | Some x \<Rightarrow> x,
      case compl of None \<Rightarrow> b | Some x \<Rightarrow> x)"

section \<open>InMemoryTodoRepository\<close>

text \<open>
  The vector and the counter; every method holds the lock for its whole body, so a method
  is one atomic step.
\<close>

record todo_memory =
  im_todos :: "todo list"
  im_nextId :: "64 word"

definition mem_push :: "time \<Rightarrow> string \<Rightarrow> string \<Rightarrow> bool \<Rightarrow> todo_memory \<Rightarrow> todo_memory" where
  "mem_push now title desc compl m =
     \<lparr>im_todos = im_todos m @
        [\<lparr>t_id = im_nextId m, t_title = title, t_description = desc, t_completed = compl,
          t_createdAt = now, t_updatedAt = now\<rparr>],
      im_nextId = im_nextId m + 1\<rparr>"

definition mem_new :: "time \<Rightarrow> todo_memory" where
  "mem_new now =
     mem_push now ''Multi-Module Clean Architecture''
       ''Organize solution into Domain, Application, Infrastructure, Presentation, Core projects''
       False
       (mem_push now ''Explore Crow C++ Framework''
         ''Investigate Crow capabilities and routing with C++20'' True
         \<lparr>im_todos = [], im_nextId = 1\<rparr>)"

definition mem_findAll :: "site \<Rightarrow> todo_memory \<Rightarrow> todo list" where
  "mem_findAll c m = im_todos m"

definition mem_findById :: "site \<Rightarrow> todo_memory \<Rightarrow> 64 word \<Rightarrow> todo option" where
  "mem_findById c m i = find (\<lambda>t. t_id t = i) (im_todos m)"

definition mem_save :: "site \<Rightarrow> todo_memory \<Rightarrow> todo \<Rightarrow> todo \<times> todo_memory" where
  "mem_save c m t =
     (let t' = t\<lparr>t_id := im_nextId m, t_createdAt := sysNow c, t_updatedAt := sysNow c\<rparr>
      in (t', m\<lparr>im_todos := im_todos m @ [t'], im_nextId := im_nextId m + 1\<rparr>))"

definition apply_update ::
    "time \<Rightarrow> string option \<Rightarrow> string option \<Rightarrow> bool option \<Rightarrow> todo \<Rightarrow> todo" where
  "apply_update now title desc compl t =
     (let t = (case title of None \<Rightarrow> t | Some x \<Rightarrow> t\<lparr>t_title := x\<rparr>);
          t = (case desc of None \<Rightarrow> t | Some x \<Rightarrow> t\<lparr>t_description := x\<rparr>);
          t = (case compl of None \<Rightarrow> t | Some x \<Rightarrow> t\<lparr>t_completed := x\<rparr>)
      in t\<lparr>t_updatedAt := now\<rparr>)"

definition mem_update ::
    "site \<Rightarrow> todo_memory \<Rightarrow> 64 word \<Rightarrow> string option \<Rightarrow> string option \<Rightarrow> bool option
     \<Rightarrow> todo option \<times> todo_memory" where
  "mem_update c m i title desc compl =
     (case index_of (\<lambda>t. t_id t = i) (im_todos m) of
        None \<Rightarrow> (None, m)
      | Some k \<Rightarrow>
          (let t' = apply_update (sysNow c) title desc compl (im_todos m ! k)
           in (Some t', m\<lparr>im_todos := (im_todos m)[k := t']\<rparr>)))"

definition mem_remove :: "site \<Rightarrow> todo_memory \<Rightarrow> 64 word \<Rightarrow> bool \<times> todo_memory" where
  "mem_remove c m i =
     (case index_of (\<lambda>t. t_id t = i) (im_todos m) of
        None \<Rightarrow> (False, m)
      | Some k \<Rightarrow>
          (True, m\<lparr>im_todos := take k (im_todos m) @ drop (Suc k) (im_todos m)\<rparr>))"

definition memory_repository :: "todo_memory todo_repository" where
  "memory_repository =
     \<lparr>repo_findAll = mem_findAll, repo_findById = mem_findById, repo_save = mem_save,
      repo_update = mem_update, repo_remove = mem_remove\<rparr>"

section \<open>PostgresTodoRepository\<close>

text \<open>
  The selected timestamps are not read into the entity, whose \<^verbatim>\<open>createdAt\<close> and
  \<^verbatim>\<open>updatedAt\<close> keep the clock of their initialisers. An id of \<open>2 ^ 63\<close> or more is out
  of range for \<^verbatim>\<open>BIGINT\<close>: the statement fails, with the same answer as for a missing row.
\<close>

definition todo_of_row :: "time \<Rightarrow> todo_row \<Rightarrow> todo" where
  "todo_of_row now r =
     \<lparr>t_id = word_of_int (td_id r), t_title = td_title r,
      t_description = (case td_description r of None \<Rightarrow> '''' | Some s \<Rightarrow> s),
      t_completed = td_completed r, t_createdAt = now, t_updatedAt = now\<rparr>"

definition pgtodos_findAll :: "site \<Rightarrow> db \<Rightarrow> todo list" where
  "pgtodos_findAll c d =
     (if \<not> dbOk c then [] else map (todo_of_row (sysNow c)) (sort_key td_id (db_todos d)))"

definition pgtodos_findById :: "site \<Rightarrow> db \<Rightarrow> 64 word \<Rightarrow> todo option" where
  "pgtodos_findById c d i =
     (if \<not> dbOk c then None
      else map_option (todo_of_row (sysNow c)) (find (\<lambda>r. td_id r = uint i) (db_todos d)))"

definition pgtodos_save :: "pg \<Rightarrow> site \<Rightarrow> db \<Rightarrow> todo \<Rightarrow> todo \<times> db" where
  "pgtodos_save P c d t =
     (if \<not> dbOk c \<or> \<not> bigserial (dbSeq c) then (t, d)
      else case (pg_varchar P 255 (t_title t), pg_text P (t_description t)) of
        (Some ti, Some de) \<Rightarrow>
          if \<exists>r\<in>set (db_todos d). td_id r = dbSeq c then (t, d)
          else (t\<lparr>t_id := word_of_int (dbSeq c)\<rparr>,
                d\<lparr>db_todos := db_todos d @
                    [\<lparr>td_id = dbSeq c, td_title = ti, td_description = Some de,
                      td_completed = t_completed t, td_created_at = dbNow c,
                      td_updated_at = dbNow c\<rparr>]\<rparr>)
      | _ \<Rightarrow> (t, d))"

definition pgtodos_update ::
    "pg \<Rightarrow> site \<Rightarrow> db \<Rightarrow> 64 word \<Rightarrow> string option \<Rightarrow> string option \<Rightarrow> bool option
     \<Rightarrow> todo option \<times> db" where
  "pgtodos_update P c d i title desc compl =
     (if \<not> dbOk c then (None, d)
      else case find (\<lambda>r. td_id r = uint i) (db_todos d) of
        None \<Rightarrow> (None, d)
      | Some r \<Rightarrow>
          (let newTitle = (case title of None \<Rightarrow> td_title r | Some x \<Rightarrow> x);
               newDesc = (case desc of
                            None \<Rightarrow> (case td_description r of None \<Rightarrow> '''' | Some s \<Rightarrow> s)
                          | Some x \<Rightarrow> x);
               newCompleted = (case compl of None \<Rightarrow> td_completed r | Some x \<Rightarrow> x)
           in case (pg_varchar P 255 newTitle, pg_text P newDesc) of
                (Some ti, Some de) \<Rightarrow>
                  (Some \<lparr>t_id = i, t_title = newTitle, t_description = newDesc,
                         t_completed = newCompleted, t_createdAt = sysNow c,
                         t_updatedAt = sysNow c\<rparr>,
                   d\<lparr>db_todos := update_where (\<lambda>r. td_id r = uint i)
                       (\<lambda>r. r\<lparr>td_title := ti, td_description := Some de,
                               td_completed := newCompleted, td_updated_at := dbNow c\<rparr>)
                       (db_todos d)\<rparr>)
              | _ \<Rightarrow> (None, d)))"

definition pgtodos_remove :: "site \<Rightarrow> db \<Rightarrow> 64 word \<Rightarrow> bool \<times> db" where
  "pgtodos_remove c d i =
     (if \<not> dbOk c then (False, d)
      else (0 < affected (\<lambda>r. td_id r = uint i) (db_todos d),
            d\<lparr>db_todos := delete_where (\<lambda>r. td_id r = uint i) (db_todos d)\<rparr>))"

definition postgres_repository :: "pg \<Rightarrow> db todo_repository" where
  "postgres_repository P =
     \<lparr>repo_findAll = pgtodos_findAll, repo_findById = pgtodos_findById,
      repo_save = pgtodos_save P, repo_update = pgtodos_update P,
      repo_remove = pgtodos_remove\<rparr>"

section \<open>The contract\<close>

text \<open>
  \<open>abs\<close> is the map a state stands for, \<open>inv\<close> the invariant of the representation,
  \<open>works c\<close> says that a call reaches its store, \<open>fresh c s\<close> that a new id can be
  generated, and \<open>storable\<close> that the store keeps a title and a description as given.
\<close>

locale todo_contract =
  fixes repo :: "'s todo_repository"
    and inv :: "'s \<Rightarrow> bool"
    and abs :: "'s \<Rightarrow> 64 word \<Rightarrow> todo_content option"
    and works :: "site \<Rightarrow> bool"
    and fresh :: "site \<Rightarrow> 's \<Rightarrow> bool"
    and storable :: "string \<Rightarrow> string \<Rightarrow> bool"
  assumes findAll_abs:
      "\<lbrakk>inv s; works c; ts = repo_findAll repo c s\<rbrakk> \<Longrightarrow>
         distinct (map t_id ts) \<and> abs s = map_of (map (\<lambda>t. (t_id t, content t)) ts)"
    and findById_abs:
      "\<lbrakk>inv s; works c\<rbrakk> \<Longrightarrow>
         map_option (\<lambda>t. (t_id t, content t)) (repo_findById repo c s i) =
         map_option (Pair i) (abs s i)"
    and save_abs:
      "\<lbrakk>inv s; works c; fresh c s; storable (t_title t) (t_description t);
        (t', s') = repo_save repo c s t\<rbrakk> \<Longrightarrow>
         inv s' \<and> t_id t' \<noteq> 0 \<and> abs s (t_id t') = None \<and> content t' = content t \<and>
         abs s' = (abs s)(t_id t' \<mapsto> content t)"
    and update_missing:
      "\<lbrakk>inv s; works c; abs s i = None\<rbrakk> \<Longrightarrow> repo_update repo c s i x y z = (None, s)"
    and update_abs:
      "\<lbrakk>inv s; works c; abs s i = Some old; merge_content x y z old = (ti, de, co);
        storable ti de; (r', s') = repo_update repo c s i x y z\<rbrakk> \<Longrightarrow>
         inv s' \<and> abs s' = (abs s)(i \<mapsto> (ti, de, co)) \<and>
         (\<exists>t. r' = Some t \<and> t_id t = i \<and> content t = (ti, de, co))"
    and remove_abs:
      "\<lbrakk>inv s; works c; (b, s') = repo_remove repo c s i\<rbrakk> \<Longrightarrow>
         inv s' \<and> abs s' = (abs s)(i := None) \<and> b = (abs s i \<noteq> None)"
begin

lemma find_after_save:
  assumes "inv s" "works c" "works c'" "fresh c s" "storable (t_title t) (t_description t)"
    and "(t', s') = repo_save repo c s t"
  shows "\<exists>t''. repo_findById repo c' s' (t_id t') = Some t'' \<and> t_id t'' = t_id t' \<and>
    content t'' = content t"
proof -
  note sv = save_abs[OF assms(1,2,4,5,6)]
  have "map_option (\<lambda>t. (t_id t, content t)) (repo_findById repo c' s' (t_id t')) =
      Some (t_id t', content t)"
    using findById_abs[of s' c' "t_id t'"] sv assms(3) by simp
  then show ?thesis by auto
qed

lemma find_after_remove:
  assumes "inv s" "works c" "works c'" "(b, s') = repo_remove repo c s i"
  shows "repo_findById repo c' s' i = None"
proof -
  have "inv s' \<and> abs s' i = None" using remove_abs[OF assms(1,2,4)] by simp
  then show ?thesis using findById_abs[of s' c' i] assms(3) by simp
qed

lemma find_None_iff_abs: "\<lbrakk>inv s; works c\<rbrakk> \<Longrightarrow> repo_findById repo c s i = None \<longleftrightarrow> abs s i = None"
  using findById_abs[of s c i]
  by (cases "repo_findById repo c s i"; cases "abs s i") simp_all

lemma find_Some_abs:
  "\<lbrakk>inv s; works c; repo_findById repo c s i = Some t\<rbrakk> \<Longrightarrow> t_id t = i \<and> abs s i = Some (content t)"
  using findById_abs[of s c i] by (cases "abs s i") simp_all

end


section \<open>The in-memory repository meets the contract\<close>

definition mem_inv :: "todo_memory \<Rightarrow> bool" where
  "mem_inv m \<longleftrightarrow>
     distinct (map t_id (im_todos m)) \<and> im_nextId m \<noteq> 0 \<and>
     (\<forall>t\<in>set (im_todos m). t_id t \<noteq> 0 \<and> t_id t < im_nextId m)"

definition mem_abs :: "todo_memory \<Rightarrow> 64 word \<Rightarrow> todo_content option" where
  "mem_abs m = map_of (map (\<lambda>t. (t_id t, content t)) (im_todos m))"

text \<open>The counter has not reached its last value, so that it does not wrap to zero.\<close>

definition mem_fresh :: "site \<Rightarrow> todo_memory \<Rightarrow> bool" where
  "mem_fresh c m \<longleftrightarrow> im_nextId m + 1 \<noteq> 0"

lemma mem_new_inv: "mem_inv (mem_new now)"
  by (simp add: mem_inv_def mem_new_def mem_push_def)

lemma content_apply_update:
  "content (apply_update now x y z t) = merge_content x y z (content t)"
  "t_id (apply_update now x y z t) = t_id t"
  by (auto simp: content_def apply_update_def Let_def split: option.splits)

lemma mem_update_inv:
  assumes "mem_inv m" and k: "index_of (\<lambda>t. t_id t = i) (im_todos m) = Some k"
    and t': "t_id t' = i"
  shows "mem_inv (m\<lparr>im_todos := (im_todos m)[k := t']\<rparr>)"
proof -
  have k': "k < length (im_todos m)" "t_id (im_todos m ! k) = i"
    using index_of_SomeD[OF k] by simp_all
  have ids: "map t_id ((im_todos m)[k := t']) = map t_id (im_todos m)"
    using k' t' by (simp add: map_update list_update_same_conv)
  have "t_id t' \<noteq> 0 \<and> t_id t' < im_nextId m"
    using assms(1) k' t' unfolding mem_inv_def by (metis nth_mem)
  then show ?thesis
    using assms(1) ids set_update_subset_insert[of "im_todos m" k t']
    by (auto simp: mem_inv_def simp del: map_update)
qed

lemma set_take_drop_subset: "set (take k xs @ drop (Suc k) xs) \<subseteq> set xs"
  by (auto dest: in_set_takeD in_set_dropD)

lemma distinct_map_take_drop:
  "distinct (map f xs) \<Longrightarrow> distinct (map f (take k xs @ drop (Suc k) xs))"
  by (induction xs arbitrary: k) (auto simp: take_Cons drop_Cons image_iff
      dest: in_set_takeD in_set_dropD split: nat.splits)

interpretation mem: todo_contract memory_repository mem_inv mem_abs "\<lambda>_. True" mem_fresh
    "\<lambda>_ _. True"
proof (unfold_locales, goal_cases)
  case (1 s c ts)
  then show ?case by (simp add: memory_repository_def mem_findAll_def mem_inv_def mem_abs_def)
next
  case (2 s c i)
  show ?case
    by (cases "find (\<lambda>t. t_id t = i) (im_todos s)")
      (auto simp: memory_repository_def mem_findById_def mem_abs_def map_of_find dest: find_SomeD)
next
  case (3 s c t t' s')
  then have t': "t' = t\<lparr>t_id := im_nextId s, t_createdAt := sysNow c, t_updatedAt := sysNow c\<rparr>"
    and s': "s' = s\<lparr>im_todos := im_todos s @ [t'], im_nextId := im_nextId s + 1\<rparr>"
    by (simp_all add: memory_repository_def mem_save_def Let_def)
  have fresh: "im_nextId s \<notin> t_id ` set (im_todos s)" using 3(1) by (auto simp: mem_inv_def)
  have c: "content t' = content t" by (simp add: t' content_def)
  have "map_of (map (\<lambda>t. (t_id t, content t)) (im_todos s)) (im_nextId s) = None"
    using fresh by (auto simp: map_of_eq_None_iff)
  moreover from this have "mem_abs s' = (mem_abs s)(t_id t' \<mapsto> content t)"
    using c by (auto simp: s' t' mem_abs_def fun_eq_iff map_add_def split: option.splits)
  moreover have "mem_inv s'"
    using 3(1,3) fresh by (auto simp: mem_inv_def s' t' mem_fresh_def intro: word_less_succ)
  ultimately show ?case
    using 3(1) c by (simp add: mem_inv_def mem_abs_def t')
next
  case (4 s c i x y z)
  then have "index_of (\<lambda>t. t_id t = i) (im_todos s) = None"
    by (auto simp: mem_abs_def map_of_eq_None_iff image_image)
  then show ?case
    by (simp add: memory_repository_def mem_update_def del: index_of_None)
next
  case (5 s c i old x y z ti de co r' s')
  have "\<exists>t\<in>set (im_todos s). t_id t = i"
    using 5(3) by (auto simp: mem_abs_def map_of_find dest: find_SomeD)
  then obtain k where k: "index_of (\<lambda>t. t_id t = i) (im_todos s) = Some k"
    by (cases "index_of (\<lambda>t. t_id t = i) (im_todos s)") auto
  let ?t' = "apply_update (sysNow c) x y z (im_todos s ! k)"
  note kd = index_of_SomeD[OF k]
  have old: "old = content (im_todos s ! k)"
  proof -
    have "find (\<lambda>t. t_id t = i) (im_todos s) = Some (im_todos s ! k)"
      using kd 5(1) by (intro find_unique) (auto simp: mem_inv_def distinct_map inj_on_def)
    with 5(3) show ?thesis by (simp add: mem_abs_def map_of_find)
  qed
  have r: "r' = Some ?t'" "s' = s\<lparr>im_todos := (im_todos s)[k := ?t']\<rparr>"
    using 5(6) k by (simp_all add: memory_repository_def mem_update_def Let_def)
  have "t_id ?t' = i" "content ?t' = (ti, de, co)"
    using kd old 5(4) by (simp_all add: content_apply_update)
  with r 5(1) k show ?case
    by (simp add: mem_update_inv mem_abs_def map_of_list_update)
next
  case (6 s c b s' i)
  show ?case
  proof (cases "index_of (\<lambda>t. t_id t = i) (im_todos s)")
    case None
    then have "mem_abs s i = None" by (auto simp: mem_abs_def map_of_eq_None_iff)
    with None 6 show ?thesis
      by (simp add: memory_repository_def mem_remove_def fun_upd_idem del: index_of_None)
  next
    case (Some k)
    then have s': "b" "s' = s\<lparr>im_todos := take k (im_todos s) @ drop (Suc k) (im_todos s)\<rparr>"
      using 6 by (simp_all add: memory_repository_def mem_remove_def)
    have "mem_abs s i \<noteq> None"
      using index_of_SomeD[OF Some] by (auto simp: mem_abs_def map_of_eq_None_iff image_image)
    moreover have "mem_inv s'"
      using 6(1) distinct_map_take_drop[of t_id "im_todos s" k] set_take_drop_subset[of k "im_todos s"]
      by (auto simp: mem_inv_def s'(2))
    ultimately show ?thesis
      using 6(1) s' map_of_erase[OF Some] by (simp add: mem_abs_def mem_inv_def)
  qed
qed


section \<open>The PostgreSQL repository meets the contract\<close>

definition todos_wf :: "todo_row list \<Rightarrow> bool" where
  "todos_wf rows \<longleftrightarrow> distinct (map td_id rows) \<and> (\<forall>r\<in>set rows. bigserial (td_id r))"

definition row_content :: "todo_row \<Rightarrow> todo_content" where
  "row_content r =
     (td_title r, case td_description r of None \<Rightarrow> '''' | Some s \<Rightarrow> s, td_completed r)"

definition pgtodos_abs :: "db \<Rightarrow> 64 word \<Rightarrow> todo_content option" where
  "pgtodos_abs d i = map_option row_content (find (\<lambda>r. td_id r = uint i) (db_todos d))"

text \<open>The sequence delivers a value of its range that no row has.\<close>

definition seq_fresh :: "site \<Rightarrow> db \<Rightarrow> bool" where
  "seq_fresh c d \<longleftrightarrow> bigserial (dbSeq c) \<and> (\<forall>r\<in>set (db_todos d). td_id r \<noteq> dbSeq c)"

definition pg_keeps :: "pg \<Rightarrow> string \<Rightarrow> string \<Rightarrow> bool" where
  "pg_keeps P ti de \<longleftrightarrow> pg_varchar P 255 ti = Some ti \<and> pg_text P de = Some de"

lemma todo_of_row_sel [simp]:
  "t_id (todo_of_row now r) = word_of_int (td_id r)"
  "content (todo_of_row now r) = row_content r"
  by (simp_all add: todo_of_row_def content_def row_content_def)

lemma pgtodos_save_wf [wf_intros]:
  "todos_wf (db_todos d) \<Longrightarrow> todos_wf (db_todos (snd (pgtodos_save P c d t)))"
  by (auto simp: pgtodos_save_def todos_wf_def split: option.splits)

lemma todos_wf_update:
  "\<lbrakk>todos_wf rows; \<And>r. td_id (f r) = td_id r\<rbrakk> \<Longrightarrow> todos_wf (update_where p f rows)"
  by (auto simp: todos_wf_def map_update_where set_update_where)

lemma pgtodos_update_wf [wf_intros]:
  "todos_wf (db_todos d) \<Longrightarrow> todos_wf (db_todos (snd (pgtodos_update P c d i x y z)))"
  by (auto simp: pgtodos_update_def Let_def intro!: todos_wf_update split: option.splits)

lemma pgtodos_remove_wf [wf_intros]:
  "todos_wf (db_todos d) \<Longrightarrow> todos_wf (db_todos (snd (pgtodos_remove c d i)))"
  by (auto simp: pgtodos_remove_def todos_wf_def distinct_map_delete_where)

lemma todos_ids_word:
  assumes "todos_wf rows"
  shows "distinct (map (\<lambda>r. word_of_int (td_id r) :: 64 word) rows)"
proof -
  have "inj_on (\<lambda>r. word_of_int (td_id r) :: 64 word) (set rows)"
  proof (rule inj_onI)
    fix x y
    assume x: "x \<in> set rows" and y: "y \<in> set rows"
      and eq: "(word_of_int (td_id x) :: 64 word) = word_of_int (td_id y)"
    then have "td_id x = td_id y"
      using assms bigserial_word by (metis todos_wf_def)
    with assms x y show "x = y" by (auto simp: todos_wf_def distinct_map inj_on_def)
  qed
  then show ?thesis using assms by (auto simp: todos_wf_def distinct_map)
qed

lemma find_word_id:
  assumes "\<forall>r\<in>set rows. bigserial (td_id r)"
  shows "find (\<lambda>r. word_of_int (td_id r) = (i :: 64 word)) rows = find (\<lambda>r. td_id r = uint i) rows"
  using assms by (induction rows) (auto simp: bigserial_word_eq_iff)

lemma pgtodos_abs_map:
  assumes "todos_wf (db_todos d)"
  shows "pgtodos_abs d = map_of (map (\<lambda>r. (word_of_int (td_id r), row_content r)) (db_todos d))"
  using assms by (auto simp: fun_eq_iff pgtodos_abs_def map_of_find todos_wf_def find_word_id)

interpretation pgt: todo_contract "postgres_repository P" "\<lambda>d. todos_wf (db_todos d)" pgtodos_abs
    "\<lambda>c. dbOk c" seq_fresh "pg_keeps P" for P
proof (unfold_locales, goal_cases)
  case (1 d c ts)
  let ?kv = "\<lambda>r. (word_of_int (td_id r) :: 64 word, row_content r)"
  have ts: "ts = map (todo_of_row (sysNow c)) (sort_key td_id (db_todos d))"
    using 1 by (simp add: postgres_repository_def pgtodos_findAll_def)
  have dist: "distinct (map fst (map ?kv (db_todos d)))"
    and dist': "distinct (map fst (map ?kv (sort_key td_id (db_todos d))))"
    using todos_ids_word[OF 1(1)] by (simp_all add: comp_def distinct_map_sort_key)
  have "map_of (map ?kv (sort_key td_id (db_todos d))) = map_of (map ?kv (db_todos d))"
    using dist dist' by (subst map_of_inject_set) simp_all
  moreover have "map (\<lambda>t. (t_id t, content t)) ts = map ?kv (sort_key td_id (db_todos d))"
    by (simp add: ts comp_def)
  moreover have "map t_id ts = map fst (map ?kv (sort_key td_id (db_todos d)))"
    by (simp add: ts comp_def)
  ultimately show ?case
    using dist' pgtodos_abs_map[OF 1(1)] by (simp del: map_map)
next
  case (2 d c i)
  then show ?case
    by (auto simp: postgres_repository_def pgtodos_findById_def pgtodos_abs_def option.map_comp
        comp_def dest!: find_SomeD intro!: option.map_cong)
next
  case (3 d c t t' d')
  then have free: "\<forall>r\<in>set (db_todos d). td_id r \<noteq> dbSeq c" and seq: "bigserial (dbSeq c)"
    by (auto simp: seq_fresh_def)
  have t': "t' = t\<lparr>t_id := word_of_int (dbSeq c)\<rparr>"
    and d': "db_todos d' = db_todos d @
        [\<lparr>td_id = dbSeq c, td_title = t_title t, td_description = Some (t_description t),
          td_completed = t_completed t, td_created_at = dbNow c, td_updated_at = dbNow c\<rparr>]"
    using 3 free seq by (auto simp: postgres_repository_def pgtodos_save_def pg_keeps_def)
  have wf': "todos_wf (db_todos d')"
    using 3(1) free seq by (auto simp: d' todos_wf_def)
  have none: "find (\<lambda>r. td_id r = dbSeq c) (db_todos d) = None"
    using free by (simp add: find_None_iff)
  have "t_id t' \<noteq> 0"
    using seq bigserial_word[OF seq] by (auto simp: t' bigserial_def)
  moreover have "pgtodos_abs d (t_id t') = None"
    using none bigserial_word[OF seq] by (simp add: pgtodos_abs_def t')
  moreover have "pgtodos_abs d' = (pgtodos_abs d)(t_id t' \<mapsto> content t)"
    using none bigserial_word[OF seq] bigserial_word_eq_iff[OF seq]
    by (auto simp: fun_eq_iff pgtodos_abs_def d' t' find_append row_content_def content_def
        split: option.splits)
  ultimately show ?case using wf' by (simp add: t' content_def)
next
  case (4 d c i x y z)
  then show ?case
    by (simp add: postgres_repository_def pgtodos_update_def pgtodos_abs_def)
next
  case (5 d c i old x y z ti de co r' d')
  then obtain r where r: "find (\<lambda>r. td_id r = uint i) (db_todos d) = Some r" "row_content r = old"
    by (auto simp: pgtodos_abs_def)
  let ?f = "\<lambda>r. r\<lparr>td_title := ti, td_description := Some de, td_completed := co,
                  td_updated_at := dbNow c\<rparr>"
  have res: "r' = Some \<lparr>t_id = i, t_title = ti, t_description = de, t_completed = co,
                        t_createdAt = sysNow c, t_updatedAt = sysNow c\<rparr>"
      "db_todos d' = update_where (\<lambda>r. td_id r = uint i) ?f (db_todos d)"
    using 5 r by (auto simp: postgres_repository_def pgtodos_update_def Let_def pg_keeps_def
        row_content_def)
  have wf': "todos_wf (db_todos d')"
    unfolding res(2) using 5(1) by (intro todos_wf_update) simp_all
  have "pgtodos_abs d' = (pgtodos_abs d)(i \<mapsto> (ti, de, co))"
  proof (rule ext)
    fix j
    show "pgtodos_abs d' j = ((pgtodos_abs d)(i \<mapsto> (ti, de, co))) j"
    proof (cases "j = i")
      case True
      with r find_SomeD[OF r(1)] show ?thesis
        by (simp add: pgtodos_abs_def res(2) find_update_where row_content_def)
    next
      case False
      then have "uint j \<noteq> uint i" by (simp add: word_uint_eq_iff)
      with False show ?thesis
        by (cases "find (\<lambda>r. td_id r = uint j) (db_todos d)")
          (auto simp: pgtodos_abs_def res(2) find_update_where dest!: find_SomeD)
    qed
  qed
  with wf' res(1) show ?case by (simp add: content_def)
next
  case (6 d c b d' i)
  then have b: "b = (\<exists>r\<in>set (db_todos d). td_id r = uint i)"
    and d': "db_todos d' = delete_where (\<lambda>r. td_id r = uint i) (db_todos d)"
    by (simp_all add: postgres_repository_def pgtodos_remove_def affected_pos)
  have wf': "todos_wf (db_todos d')"
    using 6(1) by (auto simp: d' todos_wf_def distinct_map_delete_where)
  have "(pgtodos_abs d i \<noteq> None) = b"
    by (auto simp: pgtodos_abs_def b find_None_iff)
  moreover have "pgtodos_abs d' = (pgtodos_abs d)(i := None)"
    unfolding pgtodos_abs_map[OF wf'] pgtodos_abs_map[OF 6(1)]
    using 6(1) map_of_delete_where[of "\<lambda>r. word_of_int (td_id r)" row_content i "db_todos d"]
    by (simp add: d' delete_where_def todos_wf_def bigserial_word_eq_iff cong: filter_cong)
  ultimately show ?case using wf' by auto
qed

end

