(* ===== verification/Cache.thy ===== *)
theory Cache
  imports Database Api
begin

text \<open>
  \<^verbatim>\<open>PostgresCacheRepository\<close> on the table \<^verbatim>\<open>cache_store\<close> of migration 001, the contract
  of a store with expiry that its clients rely on, and \<^verbatim>\<open>CacheUseCases\<close>
  (\<^verbatim>\<open>Application/src/UseCases/CacheUseCases.cpp\<close>).
\<close>

section \<open>PostgresCacheRepository\<close>

text \<open>
  A read does not return the stored times: \<^verbatim>\<open>createdAt\<close> is the clock of the read and
  \<^verbatim>\<open>expiresAt\<close> that clock plus the full time to live.
\<close>

definition cache_get :: "site \<Rightarrow> db \<Rightarrow> string \<Rightarrow> cache_entry option" where
  "cache_get c d key =
     (if \<not> dbOk c then None
      else case find (\<lambda>r. ck_key r = key \<and> ck_expires_at r > dbNow c) (db_cache d) of
        None \<Rightarrow> None
      | Some r \<Rightarrow>
          Some \<lparr>ce_key = ck_key r, ce_value = ck_value r, ce_ttlSeconds = ck_ttl_seconds r,
                ce_createdAt = sysNow c,
                ce_expiresAt = sysNow c + seconds (ck_ttl_seconds r)\<rparr>)"

text \<open>
  The upsert: a new row, or for an existing key new value, time to live and expiry, with
  the row's \<^verbatim>\<open>created_at\<close> left as it was.
\<close>

definition cache_set :: "pg \<Rightarrow> site \<Rightarrow> db \<Rightarrow> string \<Rightarrow> string \<Rightarrow> int \<Rightarrow> db" where
  "cache_set P c d key value ttl =
     (if \<not> dbOk c then d
      else case (pg_varchar P 255 key, pg_text P value) of
        (Some k, Some v) \<Rightarrow>
          (if \<exists>r\<in>set (db_cache d). ck_key r = k
           then d\<lparr>db_cache := update_where (\<lambda>r. ck_key r = k)
                    (\<lambda>r. r\<lparr>ck_value := v, ck_ttl_seconds := ttl,
                            ck_expires_at := dbNow c + seconds ttl\<rparr>) (db_cache d)\<rparr>
           else d\<lparr>db_cache := db_cache d @
                    [\<lparr>ck_key = k, ck_value = v, ck_ttl_seconds = ttl, ck_created_at = dbNow c,
                      ck_expires_at = dbNow c + seconds ttl\<rparr>]\<rparr>)
      | _ \<Rightarrow> d)"

definition cache_remove :: "site \<Rightarrow> db \<Rightarrow> string \<Rightarrow> bool \<times> db" where
  "cache_remove c d key =
     (if \<not> dbOk c then (False, d)
      else (0 < affected (\<lambda>r. ck_key r = key) (db_cache d),
            d\<lparr>db_cache := delete_where (\<lambda>r. ck_key r = key) (db_cache d)\<rparr>))"

definition cache_cleanupExpired :: "site \<Rightarrow> db \<Rightarrow> nat \<times> db" where
  "cache_cleanupExpired c d =
     (let p = (\<lambda>r. ck_expires_at r \<le> dbNow c)
      in if \<not> dbOk c then (0, d)
         else (affected p (db_cache d), d\<lparr>db_cache := delete_where p (db_cache d)\<rparr>))"

definition cache_wf :: "cache_row list \<Rightarrow> bool" where
  "cache_wf rows \<longleftrightarrow> distinct (map ck_key rows)"

lemma cache_set_wf [wf_intros]:
  "cache_wf (db_cache d) \<Longrightarrow> cache_wf (db_cache (cache_set P c d k v ttl))"
  by (auto simp: cache_set_def cache_wf_def map_update_where split: option.splits)

lemma cache_remove_wf [wf_intros]:
  "cache_wf (db_cache d) \<Longrightarrow> cache_wf (db_cache (snd (cache_remove c d k)))"
  by (auto simp: cache_remove_def cache_wf_def distinct_map_delete_where)

lemma cache_cleanup_wf [wf_intros]:
  "cache_wf (db_cache d) \<Longrightarrow> cache_wf (db_cache (snd (cache_cleanupExpired c d)))"
  by (auto simp: cache_cleanupExpired_def cache_wf_def Let_def distinct_map_delete_where)

section \<open>The contract of an expiring store\<close>

text \<open>
  \<open>live t s k\<close> is the value the state \<open>s\<close> holds for key \<open>k\<close> at database time \<open>t\<close>. The
  laws say how each operation acts on it, at any later time.
\<close>

locale expiring_store =
  fixes get :: "site \<Rightarrow> 's \<Rightarrow> string \<Rightarrow> cache_entry option"
    and put :: "site \<Rightarrow> 's \<Rightarrow> string \<Rightarrow> string \<Rightarrow> int \<Rightarrow> 's"
    and remove :: "site \<Rightarrow> 's \<Rightarrow> string \<Rightarrow> bool \<times> 's"
    and inv :: "'s \<Rightarrow> bool"
    and storable :: "string \<Rightarrow> string \<Rightarrow> bool"
    and live :: "time \<Rightarrow> 's \<Rightarrow> string \<Rightarrow> string option"
  assumes get_live: "\<lbrakk>inv s; dbOk c\<rbrakk> \<Longrightarrow> map_option ce_value (get c s k) = live (dbNow c) s k"
    and get_fault: "\<not> dbOk c \<Longrightarrow> get c s k = None"
    and put_inv: "inv s \<Longrightarrow> inv (put c s k v ttl)"
    and put_live:
      "\<lbrakk>inv s; dbOk c; storable k v\<rbrakk> \<Longrightarrow>
         live t (put c s k v ttl) k = (if t < dbNow c + seconds ttl then Some v else None)"
    and put_other: "\<lbrakk>inv s; storable k v; k' \<noteq> k\<rbrakk> \<Longrightarrow> live t (put c s k v ttl) k' = live t s k'"
    and remove_inv: "inv s \<Longrightarrow> inv (snd (remove c s k))"
    and remove_live: "\<lbrakk>inv s; dbOk c\<rbrakk> \<Longrightarrow> live t (snd (remove c s k)) k = None"
    and remove_other: "\<lbrakk>inv s; k' \<noteq> k\<rbrakk> \<Longrightarrow> live t (snd (remove c s k)) k' = live t s k'"
begin

lemma get_after_put:
  assumes "inv s" "dbOk c" "dbOk c'" "storable k v"
  shows "map_option ce_value (get c' (put c s k v ttl) k) =
    (if dbNow c' < dbNow c + seconds ttl then Some v else None)"
  using get_live[OF put_inv[OF assms(1)] assms(3)] put_live[OF assms(1,2,4)] by simp

text \<open>A value that has been taken (read, then removed) is not there a second time.\<close>

lemma take_once:
  assumes "inv s" "dbOk c"
  shows "get c' (snd (remove c s k)) k = None"
proof (cases "dbOk c'")
  case True
  then have "map_option ce_value (get c' (snd (remove c s k)) k) = None"
    using get_live[OF remove_inv[OF assms(1)] True] remove_live[OF assms] by simp
  then show ?thesis by simp
next
  case False
  then show ?thesis by (simp add: get_fault)
qed

end

definition cache_live :: "time \<Rightarrow> db \<Rightarrow> string \<Rightarrow> string option" where
  "cache_live t d k =
     map_option ck_value (find (\<lambda>r. ck_key r = k \<and> ck_expires_at r > t) (db_cache d))"

definition cache_storable :: "pg \<Rightarrow> string \<Rightarrow> string \<Rightarrow> bool" where
  "cache_storable P k v \<longleftrightarrow> pg_varchar P 255 k = Some k \<and> pg_text P v = Some v"

lemma find_conj_distinct:
  assumes "distinct (map k rows)"
  shows "find (\<lambda>r. k r = i \<and> q r) rows =
    (case find (\<lambda>r. k r = i) rows of None \<Rightarrow> None | Some r \<Rightarrow> if q r then Some r else None)"
  using assms
proof (induction rows)
  case Nil
  show ?case by simp
next
  case (Cons r rows)
  have "find (\<lambda>r. k r = i \<and> q r) rows = None" if "k r = i"
    using Cons.prems that by (auto simp: find_None_iff intro: rev_image_eqI)
  with Cons show ?case by auto
qed

lemma find_conj_update_where:
  assumes "distinct (map k rows)" and "\<And>r. k (f r) = k r"
  shows "find (\<lambda>r. k r = i \<and> q r) (update_where (\<lambda>r. k r = j) f rows) =
    (if i = j
     then (case find (\<lambda>r. k r = j) rows of
             None \<Rightarrow> None | Some r \<Rightarrow> if q (f r) then Some (f r) else None)
     else find (\<lambda>r. k r = i \<and> q r) rows)"
proof -
  have "distinct (map k (update_where (\<lambda>r. k r = j) f rows))"
    using assms by (simp add: map_update_where)
  then show ?thesis
    using assms by (auto simp: find_conj_distinct find_update_where dest!: find_SomeD
        split: option.splits)
qed

lemma find_conj_delete_where:
  "find (\<lambda>r. k r = i \<and> q r) (delete_where (\<lambda>r. k r = j) rows) =
     (if i = j then None else find (\<lambda>r. k r = i \<and> q r) rows)"
  by (induction rows) (auto simp: delete_where_def)

interpretation pgc: expiring_store cache_get "cache_set P" cache_remove
    "\<lambda>d. cache_wf (db_cache d)" "cache_storable P" cache_live for P
proof (unfold_locales, goal_cases)
  case (1 d c k)
  then show ?case by (simp add: cache_get_def cache_live_def split: option.splits)
next
  case (2 c d k)
  then show ?case by (simp add: cache_get_def)
next
  case (3 d c k v ttl)
  then show ?case by (rule cache_set_wf)
next
  case (4 d c k v t ttl)
  have new: "find (\<lambda>r. ck_key r = k \<and> t < ck_expires_at r) (db_cache d) = None"
    if "\<forall>r\<in>set (db_cache d). ck_key r \<noteq> k"
    using that by (auto simp: find_None_iff)
  show ?case
  proof (cases "find (\<lambda>r. ck_key r = k) (db_cache d)")
    case None
    then have "\<forall>r\<in>set (db_cache d). ck_key r \<noteq> k" by (auto simp: find_None_iff)
    with 4 new show ?thesis
      by (auto simp: cache_set_def cache_storable_def cache_live_def find_append)
  next
    case (Some r)
    then have "r \<in> set (db_cache d)" "ck_key r = k" by (auto dest: find_SomeD)
    with 4 Some show ?thesis
      by (auto simp: cache_set_def cache_storable_def cache_live_def cache_wf_def
          find_conj_update_where)
  qed
next
  case (5 d k v k' t c ttl)
  then show ?case
    by (auto simp: cache_set_def cache_storable_def cache_live_def cache_wf_def find_append
        find_conj_update_where split: option.splits)
next
  case (6 d c k)
  then show ?case by (rule cache_remove_wf)
next
  case (7 d c t k)
  then show ?case by (simp add: cache_remove_def cache_live_def find_conj_delete_where)
next
  case (8 d k' k t c)
  then show ?case by (simp add: cache_remove_def cache_live_def find_conj_delete_where)
qed


section \<open>CacheUseCases\<close>

definition cacheUC_set ::
    "pg \<Rightarrow> sites \<Rightarrow> db \<Rightarrow> set_cache_request \<Rightarrow> cache_response api_result \<times> db" where
  "cacheUC_set P E d rq =
     (if sc_key rq = [] then
        (Err (mk_error ''Validation failed for cache set'' 400 [''Cache key cannot be empty.'']), d)
      else
        (let ttl = (if sc_ttlSeconds rq \<le> 0 then 3600 else sc_ttlSeconds rq);
             d' = cache_set P (E 0) d (sc_key rq) (sc_value rq) ttl
         in case cache_get (E 1) d' (sc_key rq) of
              None \<Rightarrow>
                (Err (mk_error ''Failed to retrieve cache entry after set'' 500
                        [''Cache store internal write error.'']), d')
            | Some entry \<Rightarrow>
                (Ok (api_ok (sysNow (E 3)) (cacheResponse_fromDomain (sysNow (E 2)) entry)
                       (''Cache key '' @ quoted (sc_key rq) @ '' set successfully (TTL: '' @
                        string_of_int ttl @ ''s)'') 200), d')))"

definition cacheUC_get :: "sites \<Rightarrow> db \<Rightarrow> string \<Rightarrow> cache_response api_result" where
  "cacheUC_get E d key =
     (if key = [] then
        Err (mk_error ''Validation failed'' 400 [''Cache key cannot be empty.''])
      else case cache_get (E 0) d key of
        None \<Rightarrow>
          Err (mk_error (''Cache key '' @ quoted key @ '' not found or expired'') 404
                 [''No active cache entry for key: '' @ key])
      | Some entry \<Rightarrow>
          Ok (api_ok (sysNow (E 2)) (cacheResponse_fromDomain (sysNow (E 1)) entry)
                ''Cache hit'' 200))"

definition cacheUC_remove :: "sites \<Rightarrow> db \<Rightarrow> string \<Rightarrow> unit api_result \<times> db" where
  "cacheUC_remove E d key =
     (if key = [] then
        (Err (mk_error ''Validation failed'' 400 [''Cache key cannot be empty.'']), d)
      else
        (let (removed, d') = cache_remove (E 0) d key
         in if \<not> removed then
              (Err (mk_error (''Cache key '' @ quoted key @ '' not found'') 404
                      [''Cannot delete non-existent cache key: '' @ key]), d')
            else
              (Ok (api_void_ok (sysNow (E 1))
                     (''Cache key '' @ quoted key @ '' evicted successfully'') 200), d')))"

definition cacheUC_cleanup :: "sites \<Rightarrow> db \<Rightarrow> nat api_response \<times> db" where
  "cacheUC_cleanup E d =
     (let (count, d') = cache_cleanupExpired (E 0) d
      in (api_ok (sysNow (E 1)) count
            (''Expired cache eviction completed: '' @ string_of_nat count @ '' items purged'') 200,
          d'))"

text \<open>The time to live a request ends up with.\<close>

definition effective_ttl :: "int \<Rightarrow> int" where
  "effective_ttl ttl = (if ttl \<le> 0 then 3600 else ttl)"

lemma effective_ttl_pos: "0 < effective_ttl ttl"
  by (simp add: effective_ttl_def)

lemma cacheUC_set_state:
  "sc_key rq \<noteq> [] \<Longrightarrow>
     snd (cacheUC_set P E d rq) =
       cache_set P (E 0) d (sc_key rq) (sc_value rq) (effective_ttl (sc_ttlSeconds rq))"
  by (simp add: cacheUC_set_def Let_def effective_ttl_def split: option.splits)

lemma cacheUC_get_value:
  "key \<noteq> [] \<Longrightarrow> cacheUC_get E d key = Ok r \<Longrightarrow>
     map_option ce_value (cache_get (E 0) d key) = Some (cr_value (the (r_data r)))"
  by (auto simp: cacheUC_get_def cacheResponse_fromDomain_def split: option.splits)

lemma cacheUC_get_isOk: "isOk (cacheUC_get E d key) \<longleftrightarrow> key \<noteq> [] \<and> cache_get (E 0) d key \<noteq> None"
  by (auto simp: cacheUC_get_def split: option.splits)

text \<open>
  Cleaning up drops exactly the expired rows, so it changes no answer of a later read.
\<close>

lemma cleanup_live:
  assumes "dbNow c \<le> t"
  shows "cache_live t (snd (cache_cleanupExpired c d)) k = cache_live t d k"
proof -
  have *: "find (\<lambda>r. ck_key r = k \<and> ck_expires_at r > t)
          (delete_where (\<lambda>r. ck_expires_at r \<le> dbNow c) rows) =
        find (\<lambda>r. ck_key r = k \<and> ck_expires_at r > t) rows" for rows
    using assms by (induction rows) (auto simp: delete_where_def)
  show ?thesis by (simp add: cache_cleanupExpired_def cache_live_def Let_def *)
qed

end

