(* ===== verification/Message_Queue.thy ===== *)
theory Message_Queue
  imports Database Api
begin

text \<open>
  \<^verbatim>\<open>PostgresMessageQueueRepository\<close> on the table \<^verbatim>\<open>message_queue\<close> of migration 001,
  \<^verbatim>\<open>QueueUseCases\<close>, and the life of a message as a transition system of its status.
\<close>

section \<open>PostgresMessageQueueRepository\<close>

definition queue_publish :: "pg \<Rightarrow> site \<Rightarrow> db \<Rightarrow> string \<Rightarrow> string \<Rightarrow> 64 word \<times> db" where
  "queue_publish P c d topic payload =
     (if \<not> dbOk c \<or> \<not> bigserial (dbSeq c) then (0, d)
      else case (pg_varchar P 100 topic, pg_jsonb P payload) of
        (Some t, Some j) \<Rightarrow>
          if (\<exists>r\<in>set (db_queue d). mq_id r = dbSeq c) \<or> \<not> pg_channel P topic then (0, d)
          else (word_of_int (dbSeq c),
                d\<lparr>db_queue := db_queue d @
                    [\<lparr>mq_id = dbSeq c, mq_topic = t, mq_payload = j, mq_status = ''PENDING'',
                      mq_retry_count = 0, mq_created_at = dbNow c, mq_processed_at = None\<rparr>],
                  db_notifications :=
                    db_notifications d @ [(topic, string_of_nat (nat (dbSeq c)))]\<rparr>)
      | _ \<Rightarrow> (0, d))"

definition queue_message_of_row :: "time \<Rightarrow> queue_row \<Rightarrow> queue_message" where
  "queue_message_of_row now r =
     \<lparr>qm_id = word_of_int (mq_id r), qm_topic = mq_topic r, qm_payload = mq_payload r,
      qm_status = mq_status r, qm_retryCount = mq_retry_count r, qm_createdAt = now,
      qm_processedAt = Some now\<rparr>"

text \<open>
  The row the subselect picks: the first by id among the pending ones of the topic that no
  other transaction has locked.
\<close>

definition queue_candidates :: "site \<Rightarrow> string \<Rightarrow> queue_row list \<Rightarrow> queue_row list" where
  "queue_candidates c topic rows =
     sort_key mq_id
       (filter (\<lambda>r. mq_topic r = topic \<and> mq_status r = ''PENDING'' \<and> \<not> dbLocked c (mq_id r)) rows)"

definition start_processing :: "time \<Rightarrow> queue_row \<Rightarrow> queue_row" where
  "start_processing now r = r\<lparr>mq_status := ''PROCESSING'', mq_processed_at := Some now\<rparr>"

definition queue_pollNext :: "site \<Rightarrow> db \<Rightarrow> string \<Rightarrow> queue_message option \<times> db" where
  "queue_pollNext c d topic =
     (if \<not> dbOk c then (None, d)
      else case queue_candidates c topic (db_queue d) of
        [] \<Rightarrow> (None, d)
      | r # _ \<Rightarrow>
          (Some (queue_message_of_row (sysNow c) (start_processing (dbNow c) r)),
           d\<lparr>db_queue := update_where (\<lambda>r'. mq_id r' = mq_id r) (start_processing (dbNow c))
               (db_queue d)\<rparr>))"

text \<open>Neither of the next two statements tests the status of the row it changes.\<close>

definition queue_acknowledge :: "site \<Rightarrow> db \<Rightarrow> 64 word \<Rightarrow> bool \<times> db" where
  "queue_acknowledge c d i =
     (let p = (\<lambda>r. mq_id r = uint i)
      in if \<not> dbOk c then (False, d)
         else (0 < affected p (db_queue d),
               d\<lparr>db_queue := update_where p
                   (\<lambda>r. r\<lparr>mq_status := ''COMPLETED'', mq_processed_at := Some (dbNow c)\<rparr>)
                   (db_queue d)\<rparr>))"

definition queue_fail :: "site \<Rightarrow> db \<Rightarrow> 64 word \<Rightarrow> bool \<times> db" where
  "queue_fail c d i =
     (let p = (\<lambda>r. mq_id r = uint i)
      in if \<not> dbOk c \<or> (\<exists>r\<in>set (db_queue d). p r \<and> \<not> int4 (mq_retry_count r + 1)) then (False, d)
         else (0 < affected p (db_queue d),
               d\<lparr>db_queue := update_where p
                   (\<lambda>r. r\<lparr>mq_status := ''FAILED'', mq_retry_count := mq_retry_count r + 1\<rparr>)
                   (db_queue d)\<rparr>))"

definition status_count :: "string \<Rightarrow> string \<Rightarrow> queue_row list \<Rightarrow> int" where
  "status_count topic status rows =
     int (length (filter (\<lambda>r. mq_topic r = topic \<and> mq_status r = status) rows))"

definition queue_getMetrics :: "pg \<Rightarrow> site \<Rightarrow> db \<Rightarrow> queue_metrics list" where
  "queue_getMetrics P c d =
     (if \<not> dbOk c then []
      else map (\<lambda>t. \<lparr>mt_topic = t, mt_pendingCount = status_count t ''PENDING'' (db_queue d),
                      mt_processingCount = status_count t ''PROCESSING'' (db_queue d),
                      mt_completedCount = status_count t ''COMPLETED'' (db_queue d),
                      mt_failedCount = status_count t ''FAILED'' (db_queue d)\<rparr>)
             (pg_collate P (remdups (map mq_topic (db_queue d)))))"

section \<open>QueueUseCases\<close>

definition queueUC_publish ::
    "pg \<Rightarrow> sites \<Rightarrow> db \<Rightarrow> string \<Rightarrow> string \<Rightarrow> queue_message_response api_result \<times> db" where
  "queueUC_publish P E d topic payload =
     (if topic = [] then
        (Err (mk_error ''Validation failed for queue publish'' 400
                [''Field 'topic' is required and cannot be empty.'']), d)
      else if payload = [] then
        (Err (mk_error ''Validation failed for queue publish'' 400
                [''Field 'payload' is required and cannot be empty.'']), d)
      else
        (let (msgId, d') = queue_publish P (E 0) d topic payload;
             resp = \<lparr>qr_id = msgId, qr_topic = topic, qr_payload = payload,
                     qr_status = ''PENDING'', qr_retryCount = 0,
                     qr_createdAt = currentTimestampIso8601 (sysNow (E 1)),
                     qr_processedAt = None\<rparr>
         in (Ok (api_ok (sysNow (E 2)) resp
                   (''Message published to topic '' @ quoted topic @ '' with ID '' @
                    string_of_nat (unat msgId)) 201), d')))"

definition queueUC_poll ::
    "sites \<Rightarrow> db \<Rightarrow> string \<Rightarrow> queue_message_response api_result \<times> db" where
  "queueUC_poll E d topic =
     (if topic = [] then
        (Err (mk_error ''Validation failed for queue poll'' 400
                [''Field 'topic' is required.'']), d)
      else
        (let (msg, d') = queue_pollNext (E 0) d topic
         in case msg of
              None \<Rightarrow>
                (Err (mk_error (''No pending messages in topic '' @ quoted topic) 404
                        [''Queue topic '' @ quoted topic @ '' is empty or all messages are locked.'']),
                 d')
            | Some m \<Rightarrow>
                (Ok (api_ok (sysNow (E 1)) (queueMessageResponse_fromDomain m)
                       (''Message '' @ string_of_nat (unat (qm_id m)) @
                        '' locked and retrieved via FOR UPDATE SKIP LOCKED'') 200), d')))"

definition queueUC_acknowledge :: "sites \<Rightarrow> db \<Rightarrow> 64 word \<Rightarrow> unit api_result \<times> db" where
  "queueUC_acknowledge E d i =
     (let n = string_of_nat (unat i)
      in if i = 0 then
           (Err (mk_error ''Invalid message ID'' 400
                   [''ID must be a positive non-zero integer.'']), d)
         else
           (let (acked, d') = queue_acknowledge (E 0) d i
            in if \<not> acked then
                 (Err (mk_error (''Message '' @ n @ '' not found or already acknowledged'') 404
                         [''Cannot acknowledge message ID: '' @ n]), d')
               else
                 (Ok (api_void_ok (sysNow (E 1))
                        (''Message '' @ n @ '' acknowledged (COMPLETED)'') 200), d')))"

definition queueUC_fail :: "sites \<Rightarrow> db \<Rightarrow> 64 word \<Rightarrow> unit api_result \<times> db" where
  "queueUC_fail E d i =
     (let n = string_of_nat (unat i)
      in if i = 0 then
           (Err (mk_error ''Invalid message ID'' 400
                   [''ID must be a positive non-zero integer.'']), d)
         else
           (let (failed, d') = queue_fail (E 0) d i
            in if \<not> failed then
                 (Err (mk_error (''Message '' @ n @ '' not found'') 404
                         [''Cannot fail message ID: '' @ n]), d')
               else
                 (Ok (api_void_ok (sysNow (E 1))
                        (''Message '' @ n @ '' marked as FAILED'') 200), d')))"

definition queueUC_getMetrics ::
    "pg \<Rightarrow> sites \<Rightarrow> db \<Rightarrow> queue_metrics_response list api_response" where
  "queueUC_getMetrics P E d =
     api_ok (sysNow (E 1)) (map queueMetricsResponse_fromDomain (queue_getMetrics P (E 0) d))
       ''Queue metrics retrieved successfully'' 200"

section \<open>The life of a message\<close>

text \<open>
  \<open>message_step\<close> lists the changes of status that the statements above can make to a row:
  a pending message starts processing, and any message can be completed or failed. Nothing
  leads back to \<^verbatim>\<open>PENDING\<close>.
\<close>

inductive message_step :: "string \<Rightarrow> string \<Rightarrow> bool" where
  poll: "message_step ''PENDING'' ''PROCESSING''"
| acknowledge: "message_step s ''COMPLETED''"
| fail: "message_step s ''FAILED''"

inductive_cases message_stepE: "message_step s t"
inductive_simps message_step_to_pending: "message_step s ''PENDING''"

code_pred message_step .

lemma message_step_not_pending: "message_step\<^sup>*\<^sup>* s t \<Longrightarrow> s \<noteq> ''PENDING'' \<Longrightarrow> t \<noteq> ''PENDING''"
  by (induction rule: rtranclp_induct) (auto simp: message_step_to_pending)

definition message_statuses :: "string set" where
  "message_statuses = {''PENDING'', ''PROCESSING'', ''COMPLETED'', ''FAILED''}"

definition queue_wf :: "queue_row list \<Rightarrow> bool" where
  "queue_wf rows \<longleftrightarrow>
     distinct (map mq_id rows) \<and>
     (\<forall>r\<in>set rows. bigserial (mq_id r) \<and> mq_status r \<in> message_statuses \<and>
        0 \<le> mq_retry_count r \<and> int4 (mq_retry_count r) \<and>
        (mq_status r = ''PENDING'' \<longrightarrow> mq_retry_count r = 0 \<and> mq_processed_at r = None))"

text \<open>How a message row may change: its identity and content never, its status by steps.\<close>

definition queue_le :: "queue_row \<Rightarrow> queue_row \<Rightarrow> bool" where
  "queue_le r r' \<longleftrightarrow>
     mq_id r' = mq_id r \<and> mq_topic r' = mq_topic r \<and> mq_payload r' = mq_payload r \<and>
     mq_created_at r' = mq_created_at r \<and> mq_retry_count r \<le> mq_retry_count r' \<and>
     message_step\<^sup>*\<^sup>* (mq_status r) (mq_status r')"

lemma queue_le_refl [simp]: "queue_le r r"
  by (simp add: queue_le_def)

lemma queue_le_trans: "queue_le r s \<Longrightarrow> queue_le s t \<Longrightarrow> queue_le r t"
  by (auto simp: queue_le_def intro: rtranclp_trans)

lemma queue_publish_wf [wf_intros]:
  "queue_wf (db_queue d) \<Longrightarrow> queue_wf (db_queue (snd (queue_publish P c d t p)))"
  by (auto simp: queue_publish_def queue_wf_def message_statuses_def int4_def split: option.splits)

lemma queue_publish_le:
  "rows_le queue_le (db_queue d) (db_queue (snd (queue_publish P c d t p)))"
  by (auto simp: queue_publish_def intro: rows_le_refl rows_le_append split: option.splits)

lemma queue_candidates_Cons:
  assumes "queue_candidates c topic rows = r # rs"
  shows "r \<in> set rows \<and> mq_topic r = topic \<and> mq_status r = ''PENDING'' \<and> \<not> dbLocked c (mq_id r) \<and>
    (\<forall>r'\<in>set rows. mq_topic r' = topic \<and> mq_status r' = ''PENDING'' \<and> \<not> dbLocked c (mq_id r') \<longrightarrow>
       mq_id r \<le> mq_id r')"
proof -
  let ?L = "filter (\<lambda>r. mq_topic r = topic \<and> mq_status r = ''PENDING'' \<and> \<not> dbLocked c (mq_id r)) rows"
  have s: "sort_key mq_id ?L = r # rs" using assms by (simp add: queue_candidates_def)
  have st: "set ?L = set (r # rs)"
    using arg_cong[OF s, of set] by (simp only: set_sort)
  then have "r \<in> set ?L" by simp
  moreover have "\<forall>r'\<in>set ?L. mq_id r \<le> mq_id r'"
  proof -
    have "sorted (map mq_id (r # rs))" using sorted_sort_key[of mq_id ?L] s by simp
    then show ?thesis unfolding st by auto
  qed
  ultimately show ?thesis by auto
qed

lemma queue_candidates_Nil:
  "queue_candidates c topic rows = [] \<longleftrightarrow>
     (\<forall>r\<in>set rows. \<not> (mq_topic r = topic \<and> mq_status r = ''PENDING'' \<and> \<not> dbLocked c (mq_id r)))"
proof -
  have "sort_key mq_id xs = [] \<longleftrightarrow> xs = []" for xs :: "queue_row list"
    by (metis length_0_conv length_sort)
  then show ?thesis by (auto simp: queue_candidates_def filter_empty_conv)
qed

lemma queue_poll_shape:
  obtains (none) "queue_pollNext c d topic = (None, d)"
      "\<not> dbOk c \<or> queue_candidates c topic (db_queue d) = []"
  | (polled) r rs where "dbOk c" "queue_candidates c topic (db_queue d) = r # rs"
      "queue_pollNext c d topic =
         (Some (queue_message_of_row (sysNow c) (start_processing (dbNow c) r)),
          d\<lparr>db_queue := update_where (\<lambda>r'. mq_id r' = mq_id r) (start_processing (dbNow c))
              (db_queue d)\<rparr>)"
  by (cases "queue_candidates c topic (db_queue d)") (auto simp: queue_pollNext_def)

lemma start_processing_sel [simp]:
  "mq_id (start_processing now r) = mq_id r"
  "mq_topic (start_processing now r) = mq_topic r"
  "mq_payload (start_processing now r) = mq_payload r"
  "mq_created_at (start_processing now r) = mq_created_at r"
  "mq_retry_count (start_processing now r) = mq_retry_count r"
  "mq_status (start_processing now r) = ''PROCESSING''"
  by (simp_all add: start_processing_def)

lemma queue_wf_update_where:
  assumes "queue_wf rows" and "\<And>r. mq_id (f r) = mq_id r"
    and "\<And>r. r \<in> set rows \<Longrightarrow> p r \<Longrightarrow> mq_status (f r) \<in> message_statuses - {''PENDING''} \<and>
      0 \<le> mq_retry_count (f r) \<and> int4 (mq_retry_count (f r))"
  shows "queue_wf (update_where p f rows)"
  using assms by (fastforce simp: queue_wf_def map_update_where set_update_where)

lemma queue_poll_wf [wf_intros]:
  assumes "queue_wf (db_queue d)"
  shows "queue_wf (db_queue (snd (queue_pollNext c d topic)))"
  by (cases rule: queue_poll_shape[of c d topic])
    (use assms in \<open>auto simp: queue_wf_def[of "db_queue d"] message_statuses_def
      intro!: queue_wf_update_where\<close>)

lemma queue_poll_le:
  assumes "queue_wf (db_queue d)"
  shows "rows_le queue_le (db_queue d) (db_queue (snd (queue_pollNext c d topic)))"
proof (cases rule: queue_poll_shape[of c d topic])
  case none
  then show ?thesis by (simp add: rows_le_refl)
next
  case (polled r rs)
  note q = queue_candidates_Cons[OF polled(2)]
  have "r' = r" if "r' \<in> set (db_queue d)" "mq_id r' = mq_id r" for r'
    using assms q that by (auto simp: queue_wf_def distinct_map inj_on_def)
  then have "message_step (mq_status r') ''PROCESSING''"
    if "r' \<in> set (db_queue d)" "mq_id r' = mq_id r" for r'
    using that q message_step.poll by metis
  with polled(3) show ?thesis
    by (auto simp: queue_le_def intro!: rows_le_update_where r_into_rtranclp)
qed

lemma queue_acknowledge_wf [wf_intros]:
  "queue_wf (db_queue d) \<Longrightarrow> queue_wf (db_queue (snd (queue_acknowledge c d i)))"
  by (auto simp: queue_acknowledge_def Let_def queue_wf_def[of "db_queue d"] message_statuses_def
      intro!: queue_wf_update_where)

lemma queue_acknowledge_le: "rows_le queue_le (db_queue d) (db_queue (snd (queue_acknowledge c d i)))"
  by (auto simp: queue_acknowledge_def Let_def queue_le_def
      intro!: rows_le_refl rows_le_update_where r_into_rtranclp message_step.acknowledge)

lemma queue_fail_wf [wf_intros]:
  "queue_wf (db_queue d) \<Longrightarrow> queue_wf (db_queue (snd (queue_fail c d i)))"
  by (auto simp: queue_fail_def Let_def queue_wf_def[of "db_queue d"] message_statuses_def
      intro!: queue_wf_update_where)

lemma queue_fail_le: "rows_le queue_le (db_queue d) (db_queue (snd (queue_fail c d i)))"
  by (auto simp: queue_fail_def Let_def queue_le_def
      intro!: rows_le_refl rows_le_update_where r_into_rtranclp message_step.fail)

end
