(* ===== verification/Documents.thy ===== *)
theory Documents
  imports Database Api
begin

text \<open>
  \<^verbatim>\<open>PostgresDocumentRepository\<close> on the table \<^verbatim>\<open>documents\<close> of migration 001 and
  \<^verbatim>\<open>DocumentUseCases\<close>: JSON documents by collection and UUID. Validity, canonical text and
  containment of JSON are the server's (\<open>pg_jsonb\<close>, \<open>pg_contains\<close>).
\<close>

section \<open>PostgresDocumentRepository\<close>

text \<open>No method reads the stored timestamps; the entity keeps its initialisers' clock.\<close>

definition document_of_row :: "time \<Rightarrow> document_row \<Rightarrow> document_entity" where
  "document_of_row now r =
     \<lparr>de_id = dc_id r, de_collection = dc_collection_name r, de_data = dc_data r,
      de_createdAt = now, de_updatedAt = now\<rparr>"

definition documents_insert ::
    "pg \<Rightarrow> site \<Rightarrow> db \<Rightarrow> string \<Rightarrow> string \<Rightarrow> document_entity \<times> db" where
  "documents_insert P c d collection jsonData =
     (let doc = \<lparr>de_id = '''', de_collection = collection, de_data = jsonData,
                 de_createdAt = sysNow c, de_updatedAt = sysNow c\<rparr>
      in if \<not> dbOk c then (doc, d)
         else case (pg_varchar P 100 collection, pg_jsonb P jsonData) of
           (Some coll, Some j) \<Rightarrow>
             if \<exists>r\<in>set (db_documents d). dc_id r = dbUuid c then (doc, d)
             else (doc\<lparr>de_id := dbUuid c\<rparr>,
                   d\<lparr>db_documents := db_documents d @
                       [\<lparr>dc_id = dbUuid c, dc_collection_name = coll, dc_data = j,
                         dc_created_at = dbNow c, dc_updated_at = dbNow c\<rparr>]\<rparr>)
         | _ \<Rightarrow> (doc, d))"

definition in_collection :: "string \<Rightarrow> string \<Rightarrow> document_row \<Rightarrow> bool" where
  "in_collection coll u r \<longleftrightarrow> dc_collection_name r = coll \<and> dc_id r = u"

definition documents_findById ::
    "pg \<Rightarrow> site \<Rightarrow> db \<Rightarrow> string \<Rightarrow> string \<Rightarrow> document_entity option" where
  "documents_findById P c d coll i =
     (if \<not> dbOk c then None
      else case pg_uuid P i of
        None \<Rightarrow> None
      | Some u \<Rightarrow>
          map_option (document_of_row (sysNow c)) (find (in_collection coll u) (db_documents d)))"

definition has_filter :: "string \<Rightarrow> bool" where
  "has_filter f \<longleftrightarrow> f \<noteq> [] \<and> f \<noteq> ''{}'' \<and> (\<exists>c\<in>set f. \<not> is_blank_char c)"

definition documents_queryByFilter ::
    "pg \<Rightarrow> site \<Rightarrow> db \<Rightarrow> string \<Rightarrow> string \<Rightarrow> document_entity list" where
  "documents_queryByFilter P c d coll flt =
     (let rows = (\<lambda>p. take 100 (sort_key (\<lambda>r. - dc_created_at r)
                          (filter (\<lambda>r. dc_collection_name r = coll \<and> p r) (db_documents d))))
      in if \<not> dbOk c then []
         else if has_filter flt then
           (case pg_jsonb P flt of
              None \<Rightarrow> []
            | Some j \<Rightarrow> map (document_of_row (sysNow c)) (rows (\<lambda>r. pg_contains P (dc_data r) j)))
         else map (document_of_row (sysNow c)) (rows (\<lambda>_. True)))"

definition documents_update ::
    "pg \<Rightarrow> site \<Rightarrow> db \<Rightarrow> string \<Rightarrow> string \<Rightarrow> string \<Rightarrow> document_entity option \<times> db" where
  "documents_update P c d coll i jsonData =
     (if \<not> dbOk c then (None, d)
      else case (pg_uuid P i, pg_jsonb P jsonData) of
        (Some u, Some j) \<Rightarrow>
          (let rows = update_where (in_collection coll u)
                        (\<lambda>r. r\<lparr>dc_data := j, dc_updated_at := dbNow c\<rparr>) (db_documents d)
           in (map_option (document_of_row (sysNow c)) (find (in_collection coll u) rows),
               d\<lparr>db_documents := rows\<rparr>))
      | _ \<Rightarrow> (None, d))"

definition documents_remove :: "pg \<Rightarrow> site \<Rightarrow> db \<Rightarrow> string \<Rightarrow> string \<Rightarrow> bool \<times> db" where
  "documents_remove P c d coll i =
     (if \<not> dbOk c then (False, d)
      else case pg_uuid P i of
        None \<Rightarrow> (False, d)
      | Some u \<Rightarrow>
          (0 < affected (in_collection coll u) (db_documents d),
           d\<lparr>db_documents := delete_where (in_collection coll u) (db_documents d)\<rparr>))"

section \<open>DocumentUseCases\<close>

definition documentUC_create ::
    "pg \<Rightarrow> sites \<Rightarrow> db \<Rightarrow> string \<Rightarrow> string \<Rightarrow> document_response api_result \<times> db" where
  "documentUC_create P E d coll dat =
     (if coll = [] then
        (Err (mk_error ''Validation failed for document creation'' 400
                [''Field 'collection' cannot be empty.'']), d)
      else if dat = [] then
        (Err (mk_error ''Validation failed for document creation'' 400
                [''Field 'data' (JSON payload) cannot be empty.'']), d)
      else
        (let (inserted, d') = documents_insert P (E 0) d coll dat
         in (Ok (api_ok (sysNow (E 1)) (documentResponse_fromDomain inserted)
                   (''Document stored in collection '' @ quoted coll @ '' with UUID '' @
                    de_id inserted) 201), d')))"

definition documentUC_getById ::
    "pg \<Rightarrow> sites \<Rightarrow> db \<Rightarrow> string \<Rightarrow> string \<Rightarrow> document_response api_result" where
  "documentUC_getById P E d coll i =
     (if coll = [] \<or> i = [] then
        Err (mk_error ''Validation failed'' 400 [''Both 'collection' and 'id' must be provided.''])
      else case documents_findById P (E 0) d coll i of
        None \<Rightarrow>
          Err (mk_error (''Document '' @ quoted i @ '' not found in collection '' @ quoted coll) 404
                 [''No document with UUID: '' @ i])
      | Some doc \<Rightarrow>
          Ok (api_ok (sysNow (E 1)) (documentResponse_fromDomain doc)
                ''Document retrieved successfully'' 200))"

text \<open>
  The message of \<^verbatim>\<open>query\<close> reads \<^verbatim>\<open>responses.size()\<close> in one argument of a call whose other
  argument moves \<^verbatim>\<open>responses\<close> into a by-value parameter; C++ leaves the order of the two
  open, so it is an argument here: \<open>moved\<close> says that the vector was emptied first.
\<close>

definition documentUC_query ::
    "pg \<Rightarrow> bool \<Rightarrow> sites \<Rightarrow> db \<Rightarrow> string \<Rightarrow> string \<Rightarrow> document_response list api_result" where
  "documentUC_query P moved E d coll flt =
     (if coll = [] then
        Err (mk_error ''Validation failed'' 400 [''Field 'collection' is required.''])
      else
        (let flt' = (if flt = [] then ''{}'' else flt);
             responses = map documentResponse_fromDomain (documents_queryByFilter P (E 0) d coll flt');
             n = (if moved then 0 else length responses)
         in Ok (api_ok (sysNow (E 1)) responses
                  (''Found '' @ string_of_nat n @ '' documents matching query in '' @ quoted coll)
                  200)))"

definition documentUC_update ::
    "pg \<Rightarrow> sites \<Rightarrow> db \<Rightarrow> string \<Rightarrow> string \<Rightarrow> string \<Rightarrow> document_response api_result \<times> db" where
  "documentUC_update P E d coll i dat =
     (if coll = [] \<or> i = [] \<or> dat = [] then
        (Err (mk_error ''Validation failed'' 400
                [''Collection, ID, and updated data payload must be provided.'']), d)
      else
        (let (upd, d') = documents_update P (E 0) d coll i dat
         in case upd of
              None \<Rightarrow>
                (Err (mk_error (''Document '' @ quoted i @ '' not found in collection '' @
                                quoted coll @ '' for update'') 404
                        [''Cannot update document with UUID: '' @ i]), d')
            | Some doc \<Rightarrow>
                (Ok (api_ok (sysNow (E 1)) (documentResponse_fromDomain doc)
                       ''Document updated successfully'' 200), d')))"

definition documentUC_remove ::
    "pg \<Rightarrow> sites \<Rightarrow> db \<Rightarrow> string \<Rightarrow> string \<Rightarrow> unit api_result \<times> db" where
  "documentUC_remove P E d coll i =
     (if coll = [] \<or> i = [] then
        (Err (mk_error ''Validation failed'' 400
                [''Both 'collection' and 'id' must be provided.'']), d)
      else
        (let (removed, d') = documents_remove P (E 0) d coll i
         in if \<not> removed then
              (Err (mk_error (''Document '' @ quoted i @ '' not found in collection '' @
                              quoted coll) 404
                      [''Cannot delete document with UUID: '' @ i]), d')
            else
              (Ok (api_void_ok (sysNow (E 1))
                     (''Document '' @ quoted i @ '' removed from collection '' @ quoted coll) 200),
               d')))"

section \<open>What the operations keep\<close>

definition documents_wf :: "pg \<Rightarrow> document_row list \<Rightarrow> bool" where
  "documents_wf P rows \<longleftrightarrow>
     distinct (map dc_id rows) \<and> (\<forall>r\<in>set rows. pg_uuid P (dc_id r) = Some (dc_id r))"

lemma documents_insert_wf [wf_intros]:
  "\<lbrakk>documents_wf P (db_documents d); site_ok P c\<rbrakk> \<Longrightarrow>
     documents_wf P (db_documents (snd (documents_insert P c d coll dat)))"
  by (auto simp: documents_insert_def documents_wf_def site_ok_def Let_def split: option.splits)

lemma documents_update_wf [wf_intros]:
  "documents_wf P (db_documents d) \<Longrightarrow>
     documents_wf P (db_documents (snd (documents_update P c d coll i dat)))"
  by (auto simp: documents_update_def documents_wf_def Let_def map_update_where set_update_where
      split: option.splits)

lemma documents_remove_wf [wf_intros]:
  "documents_wf P (db_documents d) \<Longrightarrow>
     documents_wf P (db_documents (snd (documents_remove P c d coll i)))"
  by (auto simp: documents_remove_def documents_wf_def distinct_map_delete_where
      split: option.splits)

end
