(* ===== verification/Transactions.thy ===== *)
theory Transactions
  imports Users Session_Store Todo_Repository Cache Message_Queue Documents
begin

text \<open>
  The repositories together: \<open>db_wf\<close> is the invariant of the whole database, \<open>db_le\<close> what
  never goes backwards in it, and \<open>txn\<close> the step relation with one step per repository
  call, for any arguments and any answers of the environment. Since every call of a use
  case is a transaction of its own, \<open>txn\<^sup>*\<^sup>*\<close> covers all interleavings of all
  handlers of all threads; both \<open>db_wf\<close> and \<open>db_le\<close> hold along it.
\<close>

section \<open>The invariant and the order\<close>

definition db_wf :: "pg \<Rightarrow> db \<Rightarrow> bool" where
  "db_wf P d \<longleftrightarrow>
     users_wf P (db_users d) \<and>
     sessions_wf P (ur_id ` set (db_users d)) (db_sessions d) \<and>
     distinct (map rv_jti (db_revocations d)) \<and>
     audit_wf (db_audit d) \<and> todos_wf (db_todos d) \<and> cache_wf (db_cache d) \<and>
     queue_wf (db_queue d) \<and> documents_wf P (db_documents d)"

lemma db_wf_empty: "db_wf P empty_db"
  by (simp add: db_wf_def empty_db_def sessions_wf_def audit_wf_def todos_wf_def cache_wf_def
      queue_wf_def documents_wf_def)

text \<open>A user row keeps its id, its email address and its creation time.\<close>

definition user_le :: "user_row \<Rightarrow> user_row \<Rightarrow> bool" where
  "user_le r r' \<longleftrightarrow>
     ur_id r' = ur_id r \<and> ur_email r' = ur_email r \<and> ur_created_at r' = ur_created_at r"

text \<open>
  Users, sessions and messages are never deleted and change only as their own order
  allows; audit rows and sent notifications are never changed at all.
\<close>

definition db_le :: "db \<Rightarrow> db \<Rightarrow> bool" where
  "db_le d d' \<longleftrightarrow>
     rows_le user_le (db_users d) (db_users d') \<and>
     rows_le session_le (db_sessions d) (db_sessions d') \<and>
     rows_le (=) (db_audit d) (db_audit d') \<and>
     rows_le queue_le (db_queue d) (db_queue d') \<and>
     rows_le (=) (db_notifications d) (db_notifications d')"

lemma db_le_refl: "db_le d d"
  by (simp add: db_le_def rows_le_refl user_le_def)

lemma db_le_trans: "db_le d e \<Longrightarrow> db_le e f \<Longrightarrow> db_le d f"
  unfolding db_le_def
  by (elim conjE, intro conjI)
    (rule rows_le_trans[rotated], assumption, assumption,
     auto simp: user_le_def intro: session_le_trans queue_le_trans)+

lemma rows_le_user_ids:
  assumes "rows_le user_le us us'"
  shows "ur_id ` set us \<subseteq> ur_id ` set us'"
proof
  fix u assume "u \<in> ur_id ` set us"
  then obtain r where "r \<in> set us" "u = ur_id r" by auto
  with assms show "u \<in> ur_id ` set us'"
    by (metis rows_le_memberD user_le_def imageI)
qed

lemma sessions_wf_mono:
  "sessions_wf P uids rows \<Longrightarrow> uids \<subseteq> uids' \<Longrightarrow> sessions_wf P uids' rows"
  by (auto simp: sessions_wf_def)

section \<open>Steps, table by table\<close>

text \<open>\<open>good P d d'\<close>: a step that keeps the invariant and respects the order.\<close>

definition good :: "pg \<Rightarrow> db \<Rightarrow> db \<Rightarrow> bool" where
  "good P d d' \<longleftrightarrow> (db_wf P d \<longrightarrow> db_wf P d' \<and> db_le d d')"

lemma good_refl [intro, simp]: "good P d d"
  by (simp add: good_def db_le_refl)

lemma good_users:
  assumes "users_wf P (db_users d) \<Longrightarrow> users_wf P us" and "rows_le user_le (db_users d) us"
  shows "good P d (d\<lparr>db_users := us\<rparr>)"
  using assms sessions_wf_mono[OF _ rows_le_user_ids[OF assms(2)]]
  by (auto simp: good_def db_wf_def db_le_def rows_le_refl)

lemma good_sessions:
  assumes "sessions_wf P (ur_id ` set (db_users d)) (db_sessions d) \<Longrightarrow>
      sessions_wf P (ur_id ` set (db_users d)) ss \<and> rows_le session_le (db_sessions d) ss"
    and "distinct (map rv_jti (db_revocations d)) \<Longrightarrow> distinct (map rv_jti rs)"
  shows "good P d (d\<lparr>db_sessions := ss, db_revocations := rs,
                     db_notifications := db_notifications d @ ns\<rparr>)"
  using assms
  by (auto simp: good_def db_wf_def db_le_def user_le_def rows_le_refl rows_le_append)

lemma good_audit:
  assumes "audit_wf (db_audit d) \<Longrightarrow> audit_wf (db_audit d @ as)"
  shows "good P d (d\<lparr>db_audit := db_audit d @ as\<rparr>)"
  using assms by (auto simp: good_def db_wf_def db_le_def user_le_def rows_le_refl rows_le_append)

lemma good_todos:
  assumes "todos_wf (db_todos d) \<Longrightarrow> todos_wf ts"
  shows "good P d (d\<lparr>db_todos := ts\<rparr>)"
  using assms by (auto simp: good_def db_wf_def db_le_def user_le_def rows_le_refl)

lemma good_cache:
  assumes "cache_wf (db_cache d) \<Longrightarrow> cache_wf cs"
  shows "good P d (d\<lparr>db_cache := cs\<rparr>)"
  using assms by (auto simp: good_def db_wf_def db_le_def user_le_def rows_le_refl)

lemma good_queue:
  assumes "queue_wf (db_queue d) \<Longrightarrow> queue_wf qs \<and> rows_le queue_le (db_queue d) qs"
  shows "good P d (d\<lparr>db_queue := qs, db_notifications := db_notifications d @ ns\<rparr>)"
  using assms by (auto simp: good_def db_wf_def db_le_def user_le_def rows_le_refl rows_le_append)

lemma good_documents:
  assumes "documents_wf P (db_documents d) \<Longrightarrow> documents_wf P ds"
  shows "good P d (d\<lparr>db_documents := ds\<rparr>)"
  using assms by (auto simp: good_def db_wf_def db_le_def user_le_def rows_le_refl)

text \<open>
  A repository function changes one group of tables; its step is good by the facts of its
  own theory.
\<close>

lemma good_frame_users:
  assumes "d' = d\<lparr>db_users := db_users d'\<rparr>"
    and "users_wf P (db_users d) \<Longrightarrow> users_wf P (db_users d')"
    and "rows_le user_le (db_users d) (db_users d')"
  shows "good P d d'"
  by (subst assms(1)) (rule good_users[OF assms(2,3)])

lemma users_update_by_id_le:
  assumes "\<And>r. user_le r (f r)"
  shows "rows_le user_le (db_users d) (db_users (snd (users_update_by_id P c d uid f)))"
  using assms
  by (auto simp: users_update_by_id_def user_le_def intro!: rows_le_refl rows_le_update_where
      split: option.splits)

lemma users_update_by_id_frame:
  "snd (users_update_by_id P c d uid f) =
     d\<lparr>db_users := db_users (snd (users_update_by_id P c d uid f))\<rparr>"
  by (simp add: users_update_by_id_def split: option.splits)

lemma good_users_create:
  assumes "site_ok P c"
  shows "good P d (snd (users_create P c d u))"
proof (rule good_frame_users)
  show "snd (users_create P c d u) = d\<lparr>db_users := db_users (snd (users_create P c d u))\<rparr>"
    by (simp add: users_create_def split: option.splits)
  show "users_wf P (db_users d) \<Longrightarrow> users_wf P (db_users (snd (users_create P c d u)))"
    using assms by (rule users_create_wf[rotated])
  show "rows_le user_le (db_users d) (db_users (snd (users_create P c d u)))"
    by (auto simp: users_create_def user_le_def intro: rows_le_refl rows_le_append
        split: option.splits)
qed

lemma good_users_link: "good P d (snd (users_linkGoogleAccount P c d uid gid av))"
proof (rule good_frame_users)
  show "snd (users_linkGoogleAccount P c d uid gid av) =
      d\<lparr>db_users := db_users (snd (users_linkGoogleAccount P c d uid gid av))\<rparr>"
    by (auto simp: users_linkGoogleAccount_def Let_def users_update_by_id_def split: option.splits)
  show "rows_le user_le (db_users d) (db_users (snd (users_linkGoogleAccount P c d uid gid av)))"
    by (auto simp: users_linkGoogleAccount_def Let_def user_le_def
        intro!: users_update_by_id_le rows_le_refl split: option.splits)
qed (rule users_linkGoogleAccount_wf)

lemma good_users_setPassword: "good P d (snd (users_setPassword P c d uid h))"
proof (rule good_frame_users)
  show "snd (users_setPassword P c d uid h) =
      d\<lparr>db_users := db_users (snd (users_setPassword P c d uid h))\<rparr>"
    by (auto simp: users_setPassword_def users_update_by_id_def split: option.splits)
  show "rows_le user_le (db_users d) (db_users (snd (users_setPassword P c d uid h)))"
    by (auto simp: users_setPassword_def user_le_def
        intro!: users_update_by_id_le rows_le_refl split: option.splits)
qed (rule users_setPassword_wf)

lemma good_users_update: "good P d (snd (users_update P c d u))"
proof (rule good_frame_users)
  show "snd (users_update P c d u) = d\<lparr>db_users := db_users (snd (users_update P c d u))\<rparr>"
    by (auto simp: users_update_def users_update_by_id_def split: option.splits)
  show "rows_le user_le (db_users d) (db_users (snd (users_update P c d u)))"
    by (auto simp: users_update_def user_le_def
        intro!: users_update_by_id_le rows_le_refl split: option.splits)
qed (rule users_update_wf)

lemma good_users_by_id:
  assumes "users_wf P (db_users d) \<Longrightarrow> users_wf P (db_users (snd (users_update_by_id P c d uid f)))"
    and "\<And>r. user_le r (f r)"
  shows "good P d (snd (users_update_by_id P c d uid f))"
  using users_update_by_id_frame assms(1) users_update_by_id_le[OF assms(2)]
  by (rule good_frame_users)

lemma good_users_counters:
  "good P d (users_incrementFailedAttempts P c d uid)"
  "good P d (users_resetFailedAttempts P c d uid)"
  "good P d (users_lockAccount P c d uid until)"
proof -
  show "good P d (users_incrementFailedAttempts P c d uid)"
  proof (cases "users_incrementFailedAttempts P c d uid = d")
    case False
    then have eq: "users_incrementFailedAttempts P c d uid = snd (users_update_by_id P c d uid
        (\<lambda>r. r\<lparr>ur_failed_login_attempts := ur_failed_login_attempts r + 1,
               ur_updated_at := dbNow c\<rparr>))"
      by (simp add: users_incrementFailedAttempts_def split: if_splits)
    show ?thesis
      using users_incrementFailedAttempts_wf[of P d c uid]
      unfolding eq by (intro good_users_by_id) (simp_all add: user_le_def)
  qed simp
  show "good P d (users_resetFailedAttempts P c d uid)"
    using users_resetFailedAttempts_wf[of P d c uid]
    by (auto simp: users_resetFailedAttempts_def user_le_def intro!: good_users_by_id)
  show "good P d (users_lockAccount P c d uid until)"
    using users_lockAccount_wf[of P d c uid until]
    by (auto simp: users_lockAccount_def user_le_def intro!: good_users_by_id)
qed

lemma good_sessions_create:
  assumes "site_ok P c"
  shows "good P d (snd (sessions_create P c d s))"
proof (cases rule: sessions_create_shape[of P c d s])
  case same
  then show ?thesis by simp
next
  case (new r)
  have "good P d (d\<lparr>db_sessions := db_sessions d @ [r], db_revocations := db_revocations d,
                    db_notifications := db_notifications d @ []\<rparr>)"
    using sessions_wf_create[OF _ refl assms, of d s] new by (intro good_sessions) auto
  with new show ?thesis by simp
qed

lemma good_sessions_rotate: "good P d (snd (sessions_updateRefreshToken P c d sid h j ex))"
proof (cases rule: sessions_update_shape[of P c d sid h j ex])
  case same
  then show ?thesis by simp
next
  case (rotated h' j')
  let ?ss = "update_where (\<lambda>r. id_or_jti sid r \<and> sr_revoked_at r = None)
               (rotate_row h' j' ex (dbNow c)) (db_sessions d)"
  have "good P d (d\<lparr>db_sessions := ?ss, db_revocations := db_revocations d,
                    db_notifications := db_notifications d @ []\<rparr>)"
    using sessions_wf_rotate[of P _ d c sid h j ex] rotated by (intro good_sessions) auto
  with rotated show ?thesis by simp
qed

lemma good_sessions_revoke: "good P d (snd (sessions_revokeSession P c d sid why))"
proof (cases rule: sessions_revoke_shape[of P c d sid why])
  case same
  then show ?thesis by simp
next
  case (revoked r why' rvs nts)
  then show ?thesis
    by (auto intro!: good_sessions insert_revocation_wf sessions_wf_revoke_where)
qed

lemma good_sessions_revokeAll: "good P d (snd (sessions_revokeAllUserSessions P c d uid why))"
proof (cases rule: sessions_revokeAll_shape[of P c d uid why])
  case (same n)
  then show ?thesis by simp
next
  case (revoked u why' rvs nts)
  then show ?thesis
    by (auto intro!: good_sessions fold_insert_revocation_wf sessions_wf_revoke_where)
qed

lemma good_revocations:
  assumes "distinct (map rv_jti (db_revocations d)) \<Longrightarrow> distinct (map rv_jti rs)"
  shows "good P d (d\<lparr>db_revocations := rs\<rparr>)"
  using assms by (auto simp: good_def db_wf_def db_le_def user_le_def rows_le_refl)

lemma good_recordTokenRevocation: "good P d (sessions_recordTokenRevocation P c d j sid ex)"
  by (auto simp: sessions_recordTokenRevocation_def intro!: good_revocations insert_revocation_wf
      split: option.splits)

lemma good_cleanupRevocations: "good P d (snd (sessions_cleanupExpiredRevocations c d))"
  by (auto simp: sessions_cleanupExpiredRevocations_def Let_def
      intro!: good_revocations distinct_map_delete_where)

lemma good_audit_record: "good P d (audit_record P c d a)"
proof (cases rule: audit_record_shape[of P c d a])
  case same
  then show ?thesis by simp
next
  case (appended r)
  then show ?thesis by (force simp: audit_wf_def intro!: good_audit)
qed

lemma good_todo_ops:
  "good P d (snd (pgtodos_save P c d t))"
  "good P d (snd (pgtodos_update P c d i x y z))"
  "good P d (snd (pgtodos_remove c d i))"
proof -
  have f: "snd (pgtodos_save P c d t) = d\<lparr>db_todos := db_todos (snd (pgtodos_save P c d t))\<rparr>"
    by (simp add: pgtodos_save_def split: option.splits)
  show "good P d (snd (pgtodos_save P c d t))"
    by (subst f) (intro good_todos pgtodos_save_wf)
  have f: "snd (pgtodos_update P c d i x y z) =
      d\<lparr>db_todos := db_todos (snd (pgtodos_update P c d i x y z))\<rparr>"
    by (simp add: pgtodos_update_def Let_def split: option.splits)
  show "good P d (snd (pgtodos_update P c d i x y z))"
    by (subst f) (intro good_todos pgtodos_update_wf)
  have f: "snd (pgtodos_remove c d i) = d\<lparr>db_todos := db_todos (snd (pgtodos_remove c d i))\<rparr>"
    by (simp add: pgtodos_remove_def)
  show "good P d (snd (pgtodos_remove c d i))"
    by (subst f) (intro good_todos pgtodos_remove_wf)
qed

lemma good_cache_ops:
  "good P d (cache_set P c d k v ttl)"
  "good P d (snd (cache_remove c d k))"
  "good P d (snd (cache_cleanupExpired c d))"
proof -
  have f: "cache_set P c d k v ttl = d\<lparr>db_cache := db_cache (cache_set P c d k v ttl)\<rparr>"
    by (simp add: cache_set_def split: option.splits)
  show "good P d (cache_set P c d k v ttl)"
    by (subst f) (intro good_cache cache_set_wf)
  have f: "snd (cache_remove c d k) = d\<lparr>db_cache := db_cache (snd (cache_remove c d k))\<rparr>"
    by (simp add: cache_remove_def)
  show "good P d (snd (cache_remove c d k))"
    by (subst f) (intro good_cache cache_remove_wf)
  have f: "snd (cache_cleanupExpired c d) =
      d\<lparr>db_cache := db_cache (snd (cache_cleanupExpired c d))\<rparr>"
    by (simp add: cache_cleanupExpired_def Let_def)
  show "good P d (snd (cache_cleanupExpired c d))"
    by (subst f) (intro good_cache cache_cleanup_wf)
qed

lemma good_queue_same_notes:
  assumes "d' = d\<lparr>db_queue := db_queue d'\<rparr>"
    and "queue_wf (db_queue d) \<Longrightarrow> queue_wf (db_queue d') \<and> rows_le queue_le (db_queue d) (db_queue d')"
  shows "good P d d'"
proof -
  have "good P d (d\<lparr>db_queue := db_queue d', db_notifications := db_notifications d @ []\<rparr>)"
    using assms(2) by (rule good_queue)
  moreover have "d\<lparr>db_queue := db_queue d', db_notifications := db_notifications d @ []\<rparr> = d'"
    by (subst assms(1)) simp
  ultimately show ?thesis by simp
qed

lemma good_queue_ops:
  "good P d (snd (queue_publish P c d t p))"
  "good P d (snd (queue_pollNext c d t))"
  "good P d (snd (queue_acknowledge c d i))"
  "good P d (snd (queue_fail c d i))"
proof -
  show "good P d (snd (queue_publish P c d t p))"
  proof (cases "snd (queue_publish P c d t p) = d")
    case False
    let ?d = "snd (queue_publish P c d t p)"
    from False have "?d = d\<lparr>db_queue := db_queue ?d,
        db_notifications := db_notifications d @ [(t, string_of_nat (nat (dbSeq c)))]\<rparr>"
      by (auto simp: queue_publish_def split: option.splits if_splits)
    then show ?thesis
      using good_queue[where d = d and qs = "db_queue ?d"
          and ns = "[(t, string_of_nat (nat (dbSeq c)))]" and P = P]
        queue_publish_wf queue_publish_le by metis
  qed simp
  have f: "snd (queue_pollNext c d t) = d\<lparr>db_queue := db_queue (snd (queue_pollNext c d t))\<rparr>"
    by (cases rule: queue_poll_shape[of c d t]) simp_all
  then show "good P d (snd (queue_pollNext c d t))"
    by (rule good_queue_same_notes) (simp add: queue_poll_wf queue_poll_le)
  have f: "snd (queue_acknowledge c d i) = d\<lparr>db_queue := db_queue (snd (queue_acknowledge c d i))\<rparr>"
    by (simp add: queue_acknowledge_def Let_def)
  then show "good P d (snd (queue_acknowledge c d i))"
    by (rule good_queue_same_notes) (simp add: queue_acknowledge_wf queue_acknowledge_le)
  have f: "snd (queue_fail c d i) = d\<lparr>db_queue := db_queue (snd (queue_fail c d i))\<rparr>"
    by (simp add: queue_fail_def Let_def)
  then show "good P d (snd (queue_fail c d i))"
    by (rule good_queue_same_notes) (simp add: queue_fail_wf queue_fail_le)
qed

lemma good_document_ops:
  assumes "site_ok P c"
  shows "good P d (snd (documents_insert P c d coll dat))"
    and "good P d (snd (documents_update P c d coll i dat))"
    and "good P d (snd (documents_remove P c d coll i))"
proof -
  have f: "snd (documents_insert P c d coll dat) =
      d\<lparr>db_documents := db_documents (snd (documents_insert P c d coll dat))\<rparr>"
    by (simp add: documents_insert_def Let_def split: option.splits)
  show "good P d (snd (documents_insert P c d coll dat))"
    by (subst f) (intro good_documents documents_insert_wf assms)
  have f: "snd (documents_update P c d coll i dat) =
      d\<lparr>db_documents := db_documents (snd (documents_update P c d coll i dat))\<rparr>"
    by (simp add: documents_update_def Let_def split: option.splits)
  show "good P d (snd (documents_update P c d coll i dat))"
    by (subst f) (intro good_documents documents_update_wf)
  have f: "snd (documents_remove P c d coll i) =
      d\<lparr>db_documents := db_documents (snd (documents_remove P c d coll i))\<rparr>"
    by (simp add: documents_remove_def split: option.splits)
  show "good P d (snd (documents_remove P c d coll i))"
    by (subst f) (intro good_documents documents_remove_wf)
qed

section \<open>The step relation\<close>

text \<open>
  One repository call that may write, with any arguments. The lookups do not change the
  tables and need no step. \<open>site_ok\<close> asks that a UUID the server generates is one; nothing
  else is asked of faults, clocks, sequences and locks.
\<close>

inductive txn :: "pg \<Rightarrow> db \<Rightarrow> db \<Rightarrow> bool" for P where
  user_create: "site_ok P c \<Longrightarrow> txn P d (snd (users_create P c d u))"
| user_link: "txn P d (snd (users_linkGoogleAccount P c d uid gid av))"
| user_setPassword: "txn P d (snd (users_setPassword P c d uid h))"
| user_update: "txn P d (snd (users_update P c d u))"
| user_increment: "txn P d (users_incrementFailedAttempts P c d uid)"
| user_reset: "txn P d (users_resetFailedAttempts P c d uid)"
| user_lock: "txn P d (users_lockAccount P c d uid until)"
| session_create: "site_ok P c \<Longrightarrow> txn P d (snd (sessions_create P c d s))"
| session_rotate: "txn P d (snd (sessions_updateRefreshToken P c d sid h j ex))"
| session_revoke: "txn P d (snd (sessions_revokeSession P c d sid why))"
| session_revokeAll: "txn P d (snd (sessions_revokeAllUserSessions P c d uid why))"
| revocation_record: "txn P d (sessions_recordTokenRevocation P c d j sid ex)"
| revocation_cleanup: "txn P d (snd (sessions_cleanupExpiredRevocations c d))"
| audit: "txn P d (audit_record P c d a)"
| todo_save: "txn P d (snd (pgtodos_save P c d t))"
| todo_update: "txn P d (snd (pgtodos_update P c d i x y z))"
| todo_remove: "txn P d (snd (pgtodos_remove c d i))"
| cache_set: "txn P d (cache_set P c d k v ttl)"
| cache_remove: "txn P d (snd (cache_remove c d k))"
| cache_cleanup: "txn P d (snd (cache_cleanupExpired c d))"
| queue_publish: "txn P d (snd (queue_publish P c d topic payload))"
| queue_poll: "txn P d (snd (queue_pollNext c d topic))"
| queue_acknowledge: "txn P d (snd (queue_acknowledge c d i))"
| queue_fail: "txn P d (snd (queue_fail c d i))"
| document_insert: "site_ok P c \<Longrightarrow> txn P d (snd (documents_insert P c d coll dat))"
| document_update: "site_ok P c \<Longrightarrow> txn P d (snd (documents_update P c d coll uid dat))"
| document_remove: "site_ok P c \<Longrightarrow> txn P d (snd (documents_remove P c d coll uid))"

inductive_cases txnE: "txn P d d'"

lemmas good_intros =
  good_users_create good_users_link good_users_setPassword good_users_update
  good_users_counters good_sessions_create good_sessions_rotate good_sessions_revoke
  good_sessions_revokeAll good_recordTokenRevocation good_cleanupRevocations
  good_audit_record good_todo_ops good_cache_ops good_queue_ops good_document_ops

lemma txn_good: "txn P d d' \<Longrightarrow> good P d d'"
  by (induction rule: txn.induct) (rule good_intros; assumption?)+

interpretation dbs: directed_steps "txn P" "db_wf P" db_le for P
proof unfold_locales
  show "db_le s s" for s by (rule db_le_refl)
  show "db_le s t \<Longrightarrow> db_le t u \<Longrightarrow> db_le s u" for s t u by (rule db_le_trans)
  show "db_wf P s \<Longrightarrow> txn P s t \<Longrightarrow> db_wf P t" for s t
    using txn_good[of P s t] by (simp add: good_def)
  show "db_wf P s \<Longrightarrow> txn P s t \<Longrightarrow> db_le s t" for s t
    using txn_good[of P s t] by (simp add: good_def)
qed

text \<open>A run of transactions, written \<open>txns\<close>, and its two basic facts.\<close>

abbreviation txns :: "pg \<Rightarrow> db \<Rightarrow> db \<Rightarrow> bool" where
  "txns P \<equiv> (txn P)\<^sup>*\<^sup>*"

lemma txns_step: "txn P d d' \<Longrightarrow> txns P d d'"
  by (rule r_into_rtranclp)

lemmas txn_intros = txn.intros[THEN txns_step]

lemma txns_then: "txns P d e \<Longrightarrow> txn P e f \<Longrightarrow> txns P d f"
  by (rule rtranclp.rtrancl_into_rtrancl)

lemma revoked_session_stays:
  assumes "txns P d d'" "db_wf P d" "r \<in> set (db_sessions d)" "sr_revoked_at r \<noteq> None"
  shows "r \<in> set (db_sessions d')"
proof -
  have "rows_le session_le (db_sessions d) (db_sessions d')"
    using dbs.run[OF assms(1,2)] by (simp add: db_le_def)
  then obtain r' where "r' \<in> set (db_sessions d')" "session_le r r'"
    using assms(3) by (rule rows_le_memberD)
  with assms(4) show ?thesis by (simp add: session_le_def)
qed

lemma queue_row_follows:
  assumes "txns P d d'" "db_wf P d" "r \<in> set (db_queue d)"
  obtains r' where "r' \<in> set (db_queue d')" "queue_le r r'"
    "\<And>x. x \<in> set (db_queue d') \<Longrightarrow> mq_id x = mq_id r \<Longrightarrow> x = r'"
proof -
  have run: "db_wf P d'" "rows_le queue_le (db_queue d) (db_queue d')"
    using dbs.run[OF assms(1,2)] by (simp_all add: db_le_def)
  obtain r' where r': "r' \<in> set (db_queue d')" "queue_le r r'"
    by (rule rows_le_memberD[OF run(2) assms(3)])
  have inj: "inj_on mq_id (set (db_queue d'))"
    using run(1) by (simp add: db_wf_def queue_wf_def distinct_map)
  have "x = r'" if "x \<in> set (db_queue d')" "mq_id x = mq_id r" for x
    using inj that r' by (simp add: queue_le_def inj_on_def)
  with r' show thesis by (rule that)
qed

text \<open>
  Adding one more call at the end of a run; these rules decompose the final state of a use
  case into its calls.
\<close>

lemmas txn_chain = txn.intros[THEN txns_then[rotated]]

end
