(* ===== verification/Security_Interfaces.thy ===== *)
theory Security_Interfaces
  imports Domain
begin

text \<open>
  The interfaces of \<^verbatim>\<open>Application/Security\<close> through which the use cases reach the
  cryptographic services: \<^verbatim>\<open>IPasswordHasher\<close>, \<^verbatim>\<open>ITokenGenerator\<close>, \<^verbatim>\<open>IJwtService\<close> and
  \<^verbatim>\<open>IGoogleAuthService\<close>, as records of their virtual methods. A method that draws random
  bytes takes them as a function from positions to bytes, one that reads the clock takes its
  reading, and a method whose implementation may throw returns an outcome.
\<close>

record google_user_info =
  gi_googleId :: string
  gi_email :: string
  gi_name :: string
  gi_picture :: string
  gi_emailVerified :: bool

record google_service =
  gs_getAuthorizationUrl :: "string \<Rightarrow> string \<Rightarrow> string"
  gs_verifyIdToken :: "string \<Rightarrow> google_user_info dresult outcome"
  gs_exchangeAuthCode :: "string \<Rightarrow> string \<Rightarrow> google_user_info dresult outcome"
  gs_generateCodeVerifier :: "(nat \<Rightarrow> byte) \<Rightarrow> string"
  gs_generateCodeChallenge :: "string \<Rightarrow> string"

record jwt_claims =
  jc_iss :: string
  jc_sub :: string
  jc_aud :: string
  jc_iat :: int
  jc_nbf :: int
  jc_exp :: int
  jc_jti :: string
  jc_sid :: string
  jc_role :: string
  jc_kid :: string

text \<open>
  The two optional collaborators of \<^verbatim>\<open>AuthUseCases\<close> may be null: the Google service is an
  option, and \<open>sv_hasCache\<close> says whether a cache repository is present.
\<close>

record services =
  sv_hashPassword :: "(nat \<Rightarrow> byte) \<Rightarrow> string \<Rightarrow> string"
  sv_verifyPassword :: "string \<Rightarrow> string \<Rightarrow> bool outcome"
  sv_generateSecureToken :: "(nat \<Rightarrow> byte) \<Rightarrow> nat \<Rightarrow> string"
  sv_sha256Hex :: "string \<Rightarrow> string"
  sv_generateUuid :: "(nat \<Rightarrow> byte) \<Rightarrow> string"
  sv_createAccessToken :: "time \<Rightarrow> string \<Rightarrow> string \<Rightarrow> string \<Rightarrow> string \<Rightarrow> int \<Rightarrow> string"
  sv_validateAccessToken :: "time \<Rightarrow> string \<Rightarrow> jwt_claims dresult outcome"
  sv_google :: "google_service option"
  sv_hasCache :: bool

text \<open>
  The contract of a password hasher: a hash verifies the password it was made from,
  whatever salt was drawn.
\<close>

locale password_hasher =
  fixes hash :: "(nat \<Rightarrow> byte) \<Rightarrow> string \<Rightarrow> string"
    and verify :: "string \<Rightarrow> string \<Rightarrow> bool outcome"
  assumes verify_hash: "verify pw (hash salt pw) = Return True"
    and hash_nonempty: "hash salt pw \<noteq> []"

end
