(* ===== verification/Examples.thy ===== *)
theory Examples
  imports Transactions Security_Interfaces
begin

text \<open>
  One concrete instance of everything the model is parametric in, at which the witnesses of
  the properties are evaluated: a small database and simple services. The services satisfy
  the contracts of their interfaces; they are not meant to be secure.
\<close>

text \<open>A small database for the examples: one user, one active and one revoked session.\<close>

definition demo_user :: user_row where
  "demo_user = \<lparr>ur_id = ''u1'', ur_email = ''a@b.io'', ur_password_hash = Some ''#secret12'',
     ur_role = ''user'', ur_is_active = True, ur_failed_login_attempts = 0,
     ur_locked_until = None, ur_created_at = 0, ur_updated_at = 0, ur_google_id = None,
     ur_auth_provider = ''local'', ur_avatar_url = None\<rparr>"

definition demo_session :: "string \<Rightarrow> string \<Rightarrow> string \<Rightarrow> time option \<Rightarrow> session_row" where
  "demo_session sid jti hash revoked =
     \<lparr>sr_id = sid, sr_user_id = ''u1'', sr_jti = jti, sr_refresh_token_hash = hash,
      sr_previous_refresh_token_hash = None, sr_created_at = 0, sr_last_seen_at = 0,
      sr_expires_at = seconds 1000, sr_revoked_at = revoked,
      sr_revocation_reason = map_option (\<lambda>_. ''x'') revoked, sr_ip_address = None,
      sr_user_agent = None, sr_device_name = None, sr_client_type = None\<rparr>"

definition demo_db :: db where
  "demo_db = empty_db
     \<lparr>db_users := [demo_user],
      db_sessions := [demo_session ''s1'' ''j1'' ''h1'' None,
                      demo_session ''s2'' ''j2'' ''h2'' (Some 5)]\<rparr>"

definition demo_claims :: "string \<Rightarrow> string \<Rightarrow> jwt_claims" where
  "demo_claims sid jti =
     \<lparr>jc_iss = ''i'', jc_sub = ''u1'', jc_aud = ''a'', jc_iat = 0, jc_nbf = 0, jc_exp = 900,
      jc_jti = jti, jc_sid = sid, jc_role = ''user'', jc_kid = ''k''\<rparr>"

text \<open>Services whose tokens are the session's and the token's id side by side.\<close>

definition demo_services :: services where
  "demo_services =
     \<lparr>sv_hashPassword = (\<lambda>_ pw. CHR ''#'' # pw), sv_verifyPassword = (\<lambda>pw h. Return (h = CHR ''#'' # pw)),
      sv_generateSecureToken = (\<lambda>r n. CHR ''t'' # string_of_nat (unat (r 0))),
      sv_sha256Hex = (\<lambda>s. CHR ''h'' # s),
      sv_generateUuid = (\<lambda>r. CHR ''j'' # string_of_nat (unat (r 0))),
      sv_createAccessToken = (\<lambda>now uid rl sid jti ttl. sid @ jti),
      sv_validateAccessToken = (\<lambda>now tok. Return (Ok (demo_claims (take 2 tok) (drop 2 tok)))),
      sv_google = None, sv_hasCache = True\<rparr>"

lemma demo_db_wf: "db_wf demo_pg demo_db"
  by (simp add: demo_db_def db_wf_def empty_db_def sessions_wf_def audit_wf_def todos_wf_def
      cache_wf_def queue_wf_def documents_wf_def users_wf_def demo_user_def demo_session_def
      demo_pg_def int4_def)

interpretation demo_hasher: password_hasher "sv_hashPassword demo_services"
    "sv_verifyPassword demo_services"
  by unfold_locales (simp_all add: demo_services_def)

end
