(* ===== verification/Validation.thy ===== *)
theory Validation
  imports Api
begin

text \<open>
  Input validation (\<^verbatim>\<open>Application/src/Validation/\<close>): \<open>AuthInputValidator\<close> for registration,
  login and refresh, and \<open>InputValidator\<close> for todos. Each validator collects every error
  of the request in the order of the code, then fails with all of them or succeeds.
\<close>

section \<open>AuthInputValidator\<close>

definition auth_isAllWhitespace :: "string \<Rightarrow> bool" where
  "auth_isAllWhitespace s \<longleftrightarrow> s = [] \<or> index_of (\<lambda>c. \<not> is_blank_char c) s = None"

definition isValidEmail :: "string \<Rightarrow> bool" where
  "isValidEmail email =
     (if length email < 3 \<or> length email > 255 then False
      else case str_find CHR ''@'' 0 email of
        None \<Rightarrow> False
      | Some at \<Rightarrow>
          if at = 0 \<or> at = length email - 1 then False
          else case str_find CHR ''.'' (at + 1) email of
            None \<Rightarrow> False
          | Some dot \<Rightarrow> \<not> (dot = at + 1 \<or> dot = length email - 1))"

definition register_errors :: "register_request \<Rightarrow> string list" where
  "register_errors rq =
     (if auth_isAllWhitespace (rq_email rq)
      then [''Field 'email' is required and cannot be empty.'']
      else if \<not> isValidEmail (rq_email rq)
      then [''Field 'email' must be a valid email address (e.g. user@example.com).'']
      else []) @
     (if rq_password rq = [] then [''Field 'password' is required.'']
      else if length (rq_password rq) < 8
      then [''Field 'password' must be at least 8 characters long.'']
      else if length (rq_password rq) > 128
      then [''Field 'password' must not exceed 128 characters.'']
      else []) @
     (if rq_role rq \<noteq> [] \<and> rq_role rq \<noteq> ''user'' \<and> rq_role rq \<noteq> ''admin''
      then [''Field 'role' must be either 'user' or 'admin'.'']
      else [])"

definition validateRegister :: "register_request \<Rightarrow> unit dresult" where
  "validateRegister rq =
     (let errors = register_errors rq
      in if errors \<noteq> [] then Err (mk_error ''Validation failed for RegisterRequest'' 400 errors)
         else Ok ())"

definition validateLogin :: "login_request \<Rightarrow> unit dresult" where
  "validateLogin rq =
     (let errors = (if auth_isAllWhitespace (lq_email rq) then [''Field 'email' is required.''] else [])
                 @ (if lq_password rq = [] then [''Field 'password' is required.''] else [])
      in if errors \<noteq> [] then Err (mk_error ''Validation failed for LoginRequest'' 400 errors)
         else Ok ())"

definition validateRefreshToken :: "string \<Rightarrow> unit dresult" where
  "validateRefreshToken tok =
     (if auth_isAllWhitespace tok
      then Err (mk_error ''Validation failed for RefreshTokenRequest'' 400
                  [''Field 'refreshToken' is required.''])
      else Ok ())"

lemma auth_isAllWhitespace_iff: "auth_isAllWhitespace s \<longleftrightarrow> (\<forall>c\<in>set s. is_blank_char c)"
  by (auto simp: auth_isAllWhitespace_def)

text \<open>What an accepted address looks like: a nonempty local part, and a dot inside the domain.\<close>

lemma str_find_split:
  assumes "str_find c pos s = Some i"
  shows "s = take pos s @ take (i - pos) (drop pos s) @ c # drop (Suc i) s"
    and "c \<notin> set (take (i - pos) (drop pos s))"
proof -
  note d = str_find_SomeD[OF assms]
  then have le: "pos \<le> i" "i < length s" "s ! i = c" by auto
  have "s = take i s @ c # drop (Suc i) s"
    using le id_take_nth_drop[of i s] by simp
  moreover have "take i s = take pos s @ take (i - pos) (drop pos s)"
    using le by (metis add_diff_inverse_nat not_le take_add)
  ultimately show "s = take pos s @ take (i - pos) (drop pos s) @ c # drop (Suc i) s"
    by simp
  show "c \<notin> set (take (i - pos) (drop pos s))"
  proof
    assume "c \<in> set (take (i - pos) (drop pos s))"
    then obtain k where k: "k < length (take (i - pos) (drop pos s))"
        "take (i - pos) (drop pos s) ! k = c"
      by (auto simp: in_set_conv_nth)
    then have "s ! (pos + k) = c" "pos + k < i" by auto
    with d show False by auto
  qed
qed

lemma isValidEmail_shape:
  assumes "isValidEmail e"
  shows "length e \<le> 255 \<and>
         (\<exists>loc dom tld. e = loc @ ''@'' @ dom @ ''.'' @ tld \<and> loc \<noteq> [] \<and> dom \<noteq> [] \<and> tld \<noteq> [] \<and>
            CHR ''@'' \<notin> set loc \<and> CHR ''.'' \<notin> set dom)"
proof -
  from assms obtain i j where
    len: "length e \<le> 255" and
    i: "str_find CHR ''@'' 0 e = Some i" "i \<noteq> 0" and
    j: "str_find CHR ''.'' (i + 1) e = Some j" "j \<noteq> i + 1" "j \<noteq> length e - 1"
    by (auto simp: isValidEmail_def split: if_splits option.splits)
  note di = str_find_SomeD[OF i(1)] and dj = str_find_SomeD[OF j(1)]
  let ?loc = "take i e" and ?dom = "take (j - Suc i) (drop (Suc i) e)" and ?tld = "drop (Suc j) e"
  have e1: "e = ?loc @ CHR ''@'' # drop (Suc i) e" and l: "CHR ''@'' \<notin> set ?loc"
    using str_find_split[OF i(1)] by simp_all
  have e2: "e = take (Suc i) e @ ?dom @ CHR ''.'' # ?tld" and d: "CHR ''.'' \<notin> set ?dom"
    using str_find_split[OF j(1)] by simp_all
  have "drop (Suc i) e = ?dom @ CHR ''.'' # ?tld"
    using arg_cong[OF e2, of "drop (Suc i)"] di by simp
  with e1 have "e = ?loc @ ''@'' @ ?dom @ ''.'' @ ?tld" by simp
  moreover have "?loc \<noteq> []" "?dom \<noteq> []" "?tld \<noteq> []"
    using i(2) di dj j by auto
  ultimately show ?thesis using len l d by blast
qed

lemma validateRegister_ok_iff:
  "isOk (validateRegister rq) \<longleftrightarrow>
     \<not> auth_isAllWhitespace (rq_email rq) \<and> isValidEmail (rq_email rq) \<and>
     8 \<le> length (rq_password rq) \<and> length (rq_password rq) \<le> 128 \<and>
     rq_role rq \<in> {[], ''user'', ''admin''}"
  by (auto simp: validateRegister_def register_errors_def Let_def)

lemma validateLogin_ok_iff:
  "isOk (validateLogin rq) \<longleftrightarrow> \<not> auth_isAllWhitespace (lq_email rq) \<and> lq_password rq \<noteq> []"
  by (auto simp: validateLogin_def Let_def)

section \<open>InputValidator\<close>

definition todo_isAllWhitespace :: "string \<Rightarrow> bool" where
  "todo_isAllWhitespace s \<longleftrightarrow> list_all isspace s"

definition create_todo_errors :: "create_todo_request \<Rightarrow> string list" where
  "create_todo_errors rq =
     (if ct_title rq = [] then [''Field 'title' is required and cannot be empty.'']
      else if todo_isAllWhitespace (ct_title rq)
      then [''Field 'title' cannot consist solely of whitespace.'']
      else if length (ct_title rq) > 255 then [''Field 'title' must not exceed 255 characters.'']
      else []) @
     (if length (ct_description rq) > 1000
      then [''Field 'description' must not exceed 1000 characters.'']
      else [])"

definition validateCreate :: "create_todo_request \<Rightarrow> unit dresult" where
  "validateCreate rq =
     (let errors = create_todo_errors rq
      in if errors \<noteq> [] then Err (mk_error ''Validation failed for CreateTodoRequest'' 400 errors)
         else Ok ())"

definition update_todo_errors :: "update_todo_request \<Rightarrow> string list" where
  "update_todo_errors rq =
     (if ut_title rq = None \<and> ut_description rq = None \<and> ut_completed rq = None
      then [''At least one field ('title', 'description', or 'completed') must be supplied for update.'']
      else []) @
     (case ut_title rq of
        None \<Rightarrow> []
      | Some t \<Rightarrow>
          if t = [] then [''Field 'title' cannot be empty.'']
          else if todo_isAllWhitespace t
          then [''Field 'title' cannot consist solely of whitespace.'']
          else if length t > 255 then [''Field 'title' must not exceed 255 characters.'']
          else []) @
     (case ut_description rq of
        None \<Rightarrow> []
      | Some d \<Rightarrow>
          if length d > 1000 then [''Field 'description' must not exceed 1000 characters.''] else [])"

definition validateUpdate :: "update_todo_request \<Rightarrow> unit dresult" where
  "validateUpdate rq =
     (let errors = update_todo_errors rq
      in if errors \<noteq> [] then Err (mk_error ''Validation failed for UpdateTodoRequest'' 400 errors)
         else Ok ())"

definition title_ok :: "string \<Rightarrow> bool" where
  "title_ok t \<longleftrightarrow> (\<exists>c\<in>set t. \<not> isspace c) \<and> length t \<le> 255"

lemma validateCreate_ok_iff:
  "isOk (validateCreate rq) \<longleftrightarrow> title_ok (ct_title rq) \<and> length (ct_description rq) \<le> 1000"
  by (auto simp: validateCreate_def create_todo_errors_def Let_def title_ok_def
      todo_isAllWhitespace_def list_all_iff)

lemma validateUpdate_ok_iff:
  "isOk (validateUpdate rq) \<longleftrightarrow>
     (ut_title rq \<noteq> None \<or> ut_description rq \<noteq> None \<or> ut_completed rq \<noteq> None) \<and>
     (\<forall>t. ut_title rq = Some t \<longrightarrow> title_ok t) \<and>
     (\<forall>d. ut_description rq = Some d \<longrightarrow> length d \<le> 1000)"
  by (auto simp: validateUpdate_def update_todo_errors_def Let_def title_ok_def
      todo_isAllWhitespace_def list_all_iff split: option.splits)

text \<open>Every validation failure is a 400 with at least one detail line.\<close>

lemma validation_errors_400:
  "validateRegister rq = Err e \<Longrightarrow> err_statusCode e = 400 \<and> err_details e \<noteq> []"
  "validateLogin lq = Err e \<Longrightarrow> err_statusCode e = 400 \<and> err_details e \<noteq> []"
  "validateRefreshToken tok = Err e \<Longrightarrow> err_statusCode e = 400 \<and> err_details e \<noteq> []"
  "validateCreate cq = Err e \<Longrightarrow> err_statusCode e = 400 \<and> err_details e \<noteq> []"
  "validateUpdate uq = Err e \<Longrightarrow> err_statusCode e = 400 \<and> err_details e \<noteq> []"
  by (auto simp: validateRegister_def validateLogin_def validateRefreshToken_def
      validateCreate_def validateUpdate_def Let_def split: if_splits)

text \<open>The request validator for todos is at least as strict as the entity's own rule.\<close>

lemma validateCreate_implies_domain_rule:
  "isOk (validateCreate rq) \<Longrightarrow> isOk (todo_validate (ct_title rq))"
  by (auto simp: validateCreate_ok_iff todo_validate_ok title_ok_def)

end
