(* ===== verification/Auth_UseCases.thy ===== *)
theory Auth_UseCases
  imports Examples Validation
begin

text \<open>
  \<^verbatim>\<open>Application/src/UseCases/AuthUseCases.cpp\<close>: registration, login, refresh, logout, Google
  sign-in and setting a password, on the PostgreSQL repositories and the services behind
  the security interfaces. \<open>E n\<close> is the environment of the \<open>n\<close>-th place of the body that
  reads a clock, draws random bytes or calls a repository.
\<close>

section \<open>registerUser\<close>

definition registerUser ::
    "pg \<Rightarrow> services \<Rightarrow> sites \<Rightarrow> db \<Rightarrow> register_request \<Rightarrow> register_response api_result \<times> db" where
  "registerUser P S E d rq =
     (case validateRegister rq of
        Err e \<Rightarrow> (Err e, d)
      | Ok _ \<Rightarrow>
          (case users_findByEmail P (E 0) d (rq_email rq) of
             Some _ \<Rightarrow>
               (Err (mk_error ''Registration conflict'' 409
                       [''An account with this email address already exists.'']), d)
           | None \<Rightarrow>
               (let hashedPassword = sv_hashPassword S (rnd (E 1)) (rq_password rq);
                    newUser = (default_user (sysNow (E 1)))
                      \<lparr>u_email := rq_email rq, u_passwordHash := Some hashedPassword,
                       u_role := (if rq_role rq = [] then ''user'' else rq_role rq),
                       u_isActive := True, u_failedLoginAttempts := 0\<rparr>;
                    (created, d1) = users_create P (E 2) d newUser
                in if u_id created = [] then
                     (Err (mk_error ''User creation error'' 500 [''Failed to insert user record.'']),
                      d1)
                   else
                     (let d2 = audit_record P (E 3) d1 ((default_audit (sysNow (E 3)))
                            \<lparr>a_eventType := ''USER_REGISTERED'', a_userId := Some (u_id created),
                             a_reason := ''User registered with role '' @ u_role created\<rparr>);
                          resp = \<lparr>rr_id = u_id created, rr_email = u_email created,
                                  rr_role = u_role created,
                                  rr_createdAt = formatIsoTimestamp (u_createdAt created)\<rparr>
                      in (Ok (api_created (sysNow (E 4)) resp ''User registered successfully''),
                          d2)))))"

section \<open>login\<close>

definition invalid_credentials :: domain_error where
  "invalid_credentials =
     mk_error ''Authentication failed'' 401 [''Invalid email or password.'']"

definition google_only :: domain_error where
  "google_only =
     mk_error ''Password login unavailable'' 400
       [''This account was registered via Google Sign-In. Please sign in with Google, or add a password using the set-password endpoint.'']"

text \<open>The branch taken when the password does not match (lines 148 to 171).\<close>

definition login_failed ::
    "pg \<Rightarrow> sites \<Rightarrow> db \<Rightarrow> user \<Rightarrow> time \<Rightarrow> string \<Rightarrow> string \<Rightarrow> db" where
  "login_failed P E d usr now ip ua =
     (let d1 = users_incrementFailedAttempts P (E 3) d (u_id usr);
          d2 = (if u_failedLoginAttempts usr + 1 \<ge> 5 then
                  audit_record P (E 5) (users_lockAccount P (E 4) d1 (u_id usr) (now + minutes 15))
                    ((default_audit (sysNow (E 5)))
                       \<lparr>a_eventType := ''ACCOUNT_LOCKED'', a_userId := Some (u_id usr),
                        a_ipAddress := ip, a_userAgent := ua,
                        a_reason := ''Account locked for 15 minutes after 5 failed attempts.''\<rparr>)
                else d1)
      in audit_record P (E 6) d2 ((default_audit (sysNow (E 6)))
           \<lparr>a_eventType := ''LOGIN_FAILURE'', a_userId := Some (u_id usr),
            a_ipAddress := ip, a_userAgent := ua,
            a_reason := ''Incorrect password provided.''\<rparr>))"

text \<open>
  Everything up to the verified password (lines 102 to 171): the error to answer, or the
  user and the clock reading \<^verbatim>\<open>now\<close>.
\<close>

definition login_check ::
    "pg \<Rightarrow> services \<Rightarrow> sites \<Rightarrow> db \<Rightarrow> login_request \<Rightarrow> string \<Rightarrow> string
     \<Rightarrow> ((user \<times> time) dresult \<times> db) outcome" where
  "login_check P S E d rq ip ua =
     (case validateLogin rq of
        Err e \<Rightarrow> Return (Err e, d)
      | Ok _ \<Rightarrow>
          (case users_findByEmail P (E 0) d (lq_email rq) of
             None \<Rightarrow>
               Return (Err invalid_credentials,
                 audit_record P (E 1) d ((default_audit (sysNow (E 1)))
                   \<lparr>a_eventType := ''LOGIN_FAILURE'', a_ipAddress := ip, a_userAgent := ua,
                    a_reason := ''Unknown user email: '' @ lq_email rq\<rparr>))
           | Some usr \<Rightarrow>
               if \<not> u_isActive usr then
                 Return (Err (mk_error ''Account deactivated'' 403
                                [''This user account has been disabled.'']), d)
               else
                 (let now = sysNow (E 2)
                  in if (case u_lockedUntil usr of None \<Rightarrow> False | Some l \<Rightarrow> now < l) then
                       Return (Err (mk_error ''Account temporarily locked'' 429
                         [''Account locked due to excessive failed attempts. Please try again later.'']), d)
                     else case u_passwordHash usr of
                       None \<Rightarrow> Return (Err google_only, d)
                     | Some h \<Rightarrow>
                         if h = [] then Return (Err google_only, d)
                         else case sv_verifyPassword S (lq_password rq) h of
                           Throw \<Rightarrow> Throw
                         | Return False \<Rightarrow>
                             Return (Err invalid_credentials, login_failed P E d usr now ip ua)
                         | Return True \<Rightarrow> Return (Ok (usr, now), d))))"

text \<open>
  From the authenticated user to the answer: the counter is reset, a session is created, an
  access token signed and the success recorded. \<^verbatim>\<open>login\<close> (lines 173 to 239) and
  \<^verbatim>\<open>loginWithGoogle\<close> (lines 484 to 555) run this code with their own lifetime of the
  session, device, client type, event and texts.
\<close>

definition new_session ::
    "user \<Rightarrow> string \<Rightarrow> string \<Rightarrow> time \<Rightarrow> time \<Rightarrow> string \<Rightarrow> string \<Rightarrow> string \<Rightarrow> string \<Rightarrow> session" where
  "new_session usr jti hash now lifetime ip ua device client =
     (default_session now)
       \<lparr>s_userId := u_id usr, s_jti := jti, s_refreshTokenHash := hash,
        s_createdAt := now, s_lastSeenAt := now, s_expiresAt := now + lifetime,
        s_ipAddress := ip, s_userAgent := ua, s_deviceName := device,
        s_clientType := client\<rparr>"

definition session_error :: domain_error where
  "session_error = mk_error ''Session error'' 500 [''Failed to persist user session.'']"

definition issue_session ::
    "pg \<Rightarrow> services \<Rightarrow> sites \<Rightarrow> db \<Rightarrow> user \<Rightarrow> time \<Rightarrow> time \<Rightarrow> string \<Rightarrow> string \<Rightarrow> string \<Rightarrow> string
     \<Rightarrow> string \<Rightarrow> string \<Rightarrow> string \<Rightarrow> token_response api_result \<times> db" where
  "issue_session P S E d usr now lifetime ip ua device client event reason msg =
     (let d1 = users_resetFailedAttempts P (E 0) d (u_id usr);
          jti = sv_generateUuid S (rnd (E 1));
          rawRefreshToken = sv_generateSecureToken S (rnd (E 2)) 32;
          refreshTokenHash = sv_sha256Hex S rawRefreshToken;
          session = new_session usr jti refreshTokenHash now lifetime ip ua device client;
          (created, d2) = sessions_create P (E 3) d1 session
      in if s_id created = [] then
           (Err session_error, d2)
         else
           (let accessToken =
                  sv_createAccessToken S (sysNow (E 4)) (u_id usr) (u_role usr) (s_id created) jti 900;
                d3 = audit_record P (E 5) d2 ((default_audit (sysNow (E 5)))
                  \<lparr>a_eventType := event, a_userId := Some (u_id usr),
                   a_sessionId := Some (s_id created), a_ipAddress := ip, a_userAgent := ua,
                   a_reason := reason\<rparr>);
                resp = \<lparr>tk_accessToken = accessToken, tk_refreshToken = rawRefreshToken,
                        tk_tokenType = ''Bearer'', tk_expiresIn = 900,
                        tk_sessionId = s_id created, tk_user = mk_user_dto usr\<rparr>
            in (Ok (api_ok (sysNow (E 6)) resp msg 200), d3)))"

definition login_issue ::
    "pg \<Rightarrow> services \<Rightarrow> sites \<Rightarrow> db \<Rightarrow> user \<Rightarrow> time \<Rightarrow> string \<Rightarrow> string \<Rightarrow> string \<Rightarrow> string
     \<Rightarrow> token_response api_result \<times> db" where
  "login_issue P S E d usr now ip ua device client =
     issue_session P S E d usr now (hours (24 * 7)) ip ua device client ''LOGIN_SUCCESS''
       (''Session initiated on device: '' @ device) ''Login successful''"

definition login ::
    "pg \<Rightarrow> services \<Rightarrow> sites \<Rightarrow> db \<Rightarrow> login_request \<Rightarrow> string \<Rightarrow> string \<Rightarrow> string \<Rightarrow> string
     \<Rightarrow> (token_response api_result \<times> db) outcome" where
  "login P S E d rq ip ua device client =
     (case login_check P S E d rq ip ua of
        Throw \<Rightarrow> Throw
      | Return (Err e, d1) \<Rightarrow> Return (Err e, d1)
      | Return (Ok (usr, now), d1) \<Rightarrow>
          Return (login_issue P S (\<lambda>n. E (n + 7)) d1 usr now ip ua device client))"

section \<open>refresh\<close>

definition refresh_401 :: domain_error where
  "refresh_401 =
     mk_error ''Invalid refresh token'' 401 [''Token is invalid, expired, or revoked.'']"

text \<open>The reaction to a token that was rotated away or revoked (lines 255 to 266).\<close>

definition refresh_reuse ::
    "pg \<Rightarrow> sites \<Rightarrow> db \<Rightarrow> session \<Rightarrow> string \<Rightarrow> string \<Rightarrow> db" where
  "refresh_reuse P E d s ip ua =
     (let (_, d1) = sessions_revokeAllUserSessions P (E 1) d (s_userId s)
                      ''Security: Refresh token reuse detected''
      in audit_record P (E 2) d1 ((default_audit (sysNow (E 2)))
           \<lparr>a_eventType := ''REFRESH_REUSE_DETECTED'', a_userId := Some (s_userId s),
            a_sessionId := Some (s_id s), a_ipAddress := ip, a_userAgent := ua,
            a_reason := ''Previously revoked refresh token was re-presented. All sessions revoked.''\<rparr>))"

text \<open>The rotation for an active session and user (lines 289 to 336).\<close>

definition refresh_rotate ::
    "pg \<Rightarrow> services \<Rightarrow> sites \<Rightarrow> db \<Rightarrow> session \<Rightarrow> user \<Rightarrow> time \<Rightarrow> string \<Rightarrow> string
     \<Rightarrow> token_response api_result \<times> db" where
  "refresh_rotate P S E d s usr now ip ua =
     (let newRawToken = sv_generateSecureToken S (rnd (E 5)) 32;
          newHash = sv_sha256Hex S newRawToken;
          newJti = sv_generateUuid S (rnd (E 6));
          newExpiry = now + hours (24 * 7);
          (updated, d1) = sessions_updateRefreshToken P (E 7) d (s_id s) newHash newJti newExpiry
      in if \<not> updated then
           (Err (mk_error ''Refresh collision'' 409 [''Concurrent refresh conflict detected.'']), d1)
         else
           (let newAccessToken =
                  sv_createAccessToken S (sysNow (E 8)) (u_id usr) (u_role usr) (s_id s) newJti 900;
                d2 = audit_record P (E 9) d1 ((default_audit (sysNow (E 9)))
                  \<lparr>a_eventType := ''REFRESH_SUCCESS'', a_userId := Some (u_id usr),
                   a_sessionId := Some (s_id s), a_ipAddress := ip, a_userAgent := ua,
                   a_reason := ''Refresh token rotated successfully''\<rparr>);
                resp = \<lparr>tk_accessToken = newAccessToken, tk_refreshToken = newRawToken,
                        tk_tokenType = ''Bearer'', tk_expiresIn = 900, tk_sessionId = s_id s,
                        tk_user = mk_user_dto usr\<rparr>
            in (Ok (api_ok (sysNow (E 10)) resp ''Token refreshed successfully'' 200), d2)))"

definition refresh ::
    "pg \<Rightarrow> services \<Rightarrow> sites \<Rightarrow> db \<Rightarrow> string \<Rightarrow> string \<Rightarrow> string \<Rightarrow> token_response api_result \<times> db"
where
  "refresh P S E d refreshToken ip ua =
     (case validateRefreshToken refreshToken of
        Err e \<Rightarrow> (Err e, d)
      | Ok _ \<Rightarrow>
          (case sessions_findByRefreshTokenHash (E 0) d (sv_sha256Hex S refreshToken) of
             None \<Rightarrow> (Err refresh_401, d)
           | Some s \<Rightarrow>
               if s_isRevoked s then (Err refresh_401, refresh_reuse P E d s ip ua)
               else
                 (let now = sysNow (E 3)
                  in if s_isExpired now s then
                       (Err (mk_error ''Session expired'' 401
                          [''The refresh session has expired. Please log in again.'']), d)
                     else case users_findById P (E 4) d (s_userId s) of
                       None \<Rightarrow>
                         (Err (mk_error ''User inactive'' 401 [''Account is inactive or disabled.'']), d)
                     | Some usr \<Rightarrow>
                         if \<not> u_isActive usr then
                           (Err (mk_error ''User inactive'' 401
                              [''Account is inactive or disabled.'']), d)
                         else refresh_rotate P S E d s usr now ip ua)))"

section \<open>logout, logoutAll\<close>

definition logout ::
    "pg \<Rightarrow> sites \<Rightarrow> db \<Rightarrow> string \<Rightarrow> string \<Rightarrow> string \<Rightarrow> string \<Rightarrow> unit api_result \<times> db" where
  "logout P E d sessionId userId ip ua =
     (let (revoked, d1) = sessions_revokeSession P (E 0) d sessionId ''User logout''
      in if \<not> revoked then
           (Err (mk_error ''Session not found'' 404
                   [''Session does not exist or was already revoked.'']), d1)
         else
           (let d2 = audit_record P (E 1) d1 ((default_audit (sysNow (E 1)))
                  \<lparr>a_eventType := ''LOGOUT'', a_userId := Some userId,
                   a_sessionId := Some sessionId, a_ipAddress := ip, a_userAgent := ua,
                   a_reason := ''User logged out current session.''\<rparr>)
            in (Ok (api_void_ok (sysNow (E 2)) ''Session terminated successfully'' 200), d2)))"

definition logoutAll ::
    "pg \<Rightarrow> sites \<Rightarrow> db \<Rightarrow> string \<Rightarrow> string \<Rightarrow> string \<Rightarrow> unit api_result \<times> db" where
  "logoutAll P E d userId ip ua =
     (let (count, d1) =
            sessions_revokeAllUserSessions P (E 0) d userId ''User initiated logout-all'';
          d2 = audit_record P (E 1) d1 ((default_audit (sysNow (E 1)))
            \<lparr>a_eventType := ''ALL_SESSIONS_REVOKED'', a_userId := Some userId,
             a_ipAddress := ip, a_userAgent := ua,
             a_reason := ''User revoked all active sessions. Total sessions revoked: '' @
                         string_of_nat count\<rparr>)
      in (Ok (api_void_ok (sysNow (E 2))
                (''All sessions terminated successfully. Count: '' @ string_of_nat count) 200), d2))"

section \<open>loginWithGoogle, getGoogleAuthUrl\<close>

definition pkce_key :: "string \<Rightarrow> string" where
  "pkce_key state = ''pkce:state:'' @ state"

text \<open>
  Who signs in (lines 391 to 441): by id token, or by authorization code with a verifier
  that the client sends or that is taken from the cache under the state. The look-up of the
  verifier and its removal are two transactions; the answer of the removal is not looked at.
\<close>

definition state_verifier :: "sites \<Rightarrow> db \<Rightarrow> string \<Rightarrow> string option" where
  "state_verifier E d state =
     (case cache_get (E 0) d (pkce_key state) of
        None \<Rightarrow> None
      | Some cached \<Rightarrow> if cache_isExpired (sysNow (E 1)) cached then None else Some (ce_value cached))"

definition spend_state ::
    "google_service \<Rightarrow> sites \<Rightarrow> db \<Rightarrow> google_login_request \<Rightarrow> string
     \<Rightarrow> google_user_info dresult outcome \<times> db" where
  "spend_state G E d rq effectiveVerifier =
     (let (_, d1) = cache_remove (E 2) d (pkce_key (gq_state rq))
      in (gs_exchangeAuthCode G (gq_code rq) effectiveVerifier, d1))"

definition google_identity ::
    "google_service \<Rightarrow> bool \<Rightarrow> sites \<Rightarrow> db \<Rightarrow> google_login_request
     \<Rightarrow> google_user_info dresult outcome \<times> db" where
  "google_identity G hasCache E d rq =
     (if gq_idToken rq \<noteq> [] then (gs_verifyIdToken G (gq_idToken rq), d)
      else if gq_code rq \<noteq> [] then
        (if gq_codeVerifier rq = [] \<and> gq_state rq \<noteq> [] \<and> hasCache then
           (case state_verifier E d (gq_state rq) of
              None \<Rightarrow> (Return (Err (mk_error ''Invalid or expired state'' 401
                         [''State parameter is invalid, forged, or has expired.''])), d)
            | Some effectiveVerifier \<Rightarrow> spend_state G E d rq effectiveVerifier)
         else (gs_exchangeAuthCode G (gq_code rq) (gq_codeVerifier rq), d))
      else (Return (Err (mk_error ''Missing token'' 400 [''Provide idToken or code.''])), d))"

lemmas google_identity_steps = google_identity_def state_verifier_def spend_state_def

text \<open>
  The account of the identity (lines 446 to 495): found by Google id, else linked by email,
  else created.
\<close>

definition google_account ::
    "pg \<Rightarrow> sites \<Rightarrow> db \<Rightarrow> google_user_info \<Rightarrow> string \<Rightarrow> string \<Rightarrow> user option dresult \<times> db" where
  "google_account P E d info ip ua =
     (case users_findByGoogleId P (E 4) d (gi_googleId info) of
        Some usr \<Rightarrow> (Ok (Some usr), d)
      | None \<Rightarrow>
          (case users_findByEmail P (E 5) d (gi_email info) of
             Some byEmail \<Rightarrow>
               (let (_, d1) = users_linkGoogleAccount P (E 6) d (u_id byEmail) (gi_googleId info)
                                (gi_picture info);
                    d2 = audit_record P (E 7) d1 ((default_audit (sysNow (E 7)))
                      \<lparr>a_eventType := ''AUTH_GOOGLE_LINKED'', a_userId := Some (u_id byEmail),
                       a_ipAddress := ip, a_userAgent := ua,
                       a_reason :=
                         ''Linked Google account to existing user with matching email: '' @
                         gi_email info\<rparr>)
                in (Ok (users_findById P (E 8) d2 (u_id byEmail)), d2))
           | None \<Rightarrow>
               (let newUser = (default_user (sysNow (E 9)))
                      \<lparr>u_email := gi_email info, u_passwordHash := None, u_role := ''user'',
                       u_isActive := True, u_failedLoginAttempts := 0,
                       u_googleId := Some (gi_googleId info), u_authProvider := ''google'',
                       u_avatarUrl :=
                         (if gi_picture info = [] then None else Some (gi_picture info))\<rparr>;
                    (created, d1) = users_create P (E 9) d newUser
                in if u_id created = [] then
                     (Err (mk_error ''Google signup error'' 500 [''Failed to create user record.'']),
                      d1)
                   else
                     (let d2 = audit_record P (E 10) d1 ((default_audit (sysNow (E 10)))
                            \<lparr>a_eventType := ''AUTH_GOOGLE_REGISTER'',
                             a_userId := Some (u_id created), a_ipAddress := ip,
                             a_userAgent := ua,
                             a_reason := ''New user registered via Google Sign-In.''\<rparr>)
                      in (Ok (Some created), d2)))))"

definition google_issue ::
    "pg \<Rightarrow> services \<Rightarrow> sites \<Rightarrow> db \<Rightarrow> user \<Rightarrow> time \<Rightarrow> google_login_request \<Rightarrow> string \<Rightarrow> string
     \<Rightarrow> token_response api_result \<times> db" where
  "google_issue P S E d usr now rq ip ua =
     issue_session P S E d usr now (hours (24 * 30)) ip ua
       (if gq_deviceName rq = [] then ''Google Client'' else gq_deviceName rq)
       (if gq_clientType rq = [] then ''browser'' else gq_clientType rq)
       ''AUTH_GOOGLE_SUCCESS'' ''Session initiated via Google OAuth2/OIDC''
       ''Google authentication successful''"

definition loginWithGoogle ::
    "pg \<Rightarrow> services \<Rightarrow> sites \<Rightarrow> db \<Rightarrow> google_login_request \<Rightarrow> string \<Rightarrow> string
     \<Rightarrow> token_response api_result outcome \<times> db" where
  "loginWithGoogle P S E d rq ip ua =
     (case sv_google S of
        None \<Rightarrow>
          (Return (Err (mk_error ''Google authentication unavailable'' 501
                          [''Google OAuth2 service is not enabled on this server.''])), d)
      | Some G \<Rightarrow>
          (case google_identity G (sv_hasCache S) E d rq of
             (Throw, d1) \<Rightarrow> (Throw, d1)
           | (Return (Err e), d1) \<Rightarrow> (Return (Err e), d1)
           | (Return (Ok info), d1) \<Rightarrow>
               (let now = sysNow (E 3);
                    disabled =
                      Err (mk_error ''Account disabled'' 403 [''User account is deactivated.''])
                in case google_account P E d1 info ip ua of
                     (Err e, d2) \<Rightarrow> (Return (Err e), d2)
                   | (Ok None, d2) \<Rightarrow> (Return disabled, d2)
                   | (Ok (Some usr), d2) \<Rightarrow>
                       if \<not> u_isActive usr then (Return disabled, d2)
                       else
                         (let (res, d3) = google_issue P S (\<lambda>n. E (n + 11)) d2 usr now rq ip ua
                          in (Return res, d3)))))"

definition getGoogleAuthUrl ::
    "pg \<Rightarrow> services \<Rightarrow> sites \<Rightarrow> db \<Rightarrow> string \<Rightarrow> google_auth_url_response api_result \<times> db" where
  "getGoogleAuthUrl P S E d state =
     (case sv_google S of
        None \<Rightarrow>
          (Err (mk_error ''Google service not configured'' 501
                  [''Google OAuth2 is not enabled.'']), d)
      | Some G \<Rightarrow>
          (let finalState =
                 (if state = [] then sv_generateSecureToken S (rnd (E 0)) 16 else state);
               codeVerifier = gs_generateCodeVerifier G (rnd (E 1));
               codeChallenge = gs_generateCodeChallenge G codeVerifier;
               d1 = (if sv_hasCache S
                     then cache_set P (E 2) d (pkce_key finalState) codeVerifier 600 else d);
               authUrl = gs_getAuthorizationUrl G finalState codeChallenge
           in (Ok (api_ok (sysNow (E 3))
                     \<lparr>gu_authUrl = authUrl, gu_state = finalState,
                      gu_codeVerifier = codeVerifier, gu_codeChallenge = codeChallenge\<rparr>
                     ''Google authorization URL generated with RFC 7636 PKCE'' 200), d1)))"

section \<open>setPassword\<close>

definition setPassword ::
    "pg \<Rightarrow> services \<Rightarrow> sites \<Rightarrow> db \<Rightarrow> string \<Rightarrow> string \<Rightarrow> unit api_result \<times> db" where
  "setPassword P S E d userId password =
     (if length password < 8 then
        (Err (mk_error ''Validation failed'' 400
                [''Password must be at least 8 characters long.'']), d)
      else case users_findById P (E 0) d userId of
        None \<Rightarrow> (Err (mk_error ''User not found'' 404 [''User does not exist.'']), d)
      | Some _ \<Rightarrow>
          (let hashed = sv_hashPassword S (rnd (E 1)) password;
               (success, d1) = users_setPassword P (E 2) d userId hashed
           in if \<not> success then
                (Err (mk_error ''Database error'' 500 [''Failed to update password.'']), d1)
              else
                (let d2 = audit_record P (E 3) d1 ((default_audit (sysNow (E 3)))
                       \<lparr>a_eventType := ''PASSWORD_SET'', a_userId := Some userId,
                        a_reason := ''Password added to account, enabling dual password and Google login.''\<rparr>)
                 in (Ok (api_void_ok (sysNow (E 4)) ''Password set successfully'' 200), d2))))"

section \<open>Every use case is a run of transactions\<close>

text \<open>\<open>sites_ok\<close>: at every place the server generates proper UUIDs.\<close>

definition sites_ok :: "pg \<Rightarrow> sites \<Rightarrow> bool" where
  "sites_ok P E \<longleftrightarrow> (\<forall>n. site_ok P (E n))"

lemma sites_okD [simp]: "sites_ok P E \<Longrightarrow> site_ok P (E n)"
  and sites_ok_shift [simp]: "sites_ok P E \<Longrightarrow> sites_ok P (\<lambda>n. E (n + k))"
  by (simp_all add: sites_ok_def)

lemma registerUser_txns: "sites_ok P E \<Longrightarrow> txns P d (snd (registerUser P S E d rq))"
  by (auto simp: registerUser_def Let_def case_prod_beta intro!: txn_chain
      split: option.splits result.splits)

lemma login_failed_txns: "txns P d (login_failed P E d usr now ip ua)"
  by (auto simp: login_failed_def Let_def intro!: txn_chain)

lemma login_check_txns:
  "login_check P S E d rq ip ua = Return (res, d') \<Longrightarrow> txns P d d'"
  by (auto simp: login_check_def Let_def intro!: txn_chain login_failed_txns
      split: result.splits option.splits if_splits outcome.splits bool.splits)

lemma issue_session_txns:
  assumes "sites_ok P E"
  shows "txns P d (snd (issue_session P S E d usr now life ip ua dev client ev why msg))"
  using assms by (auto simp: issue_session_def Let_def case_prod_beta intro!: txn_chain)

lemma login_issue_txns:
  "sites_ok P E \<Longrightarrow> txns P d (snd (login_issue P S E d usr now ip ua dev client))"
  "sites_ok P E \<Longrightarrow> txns P d (snd (google_issue P S E d usr now grq ip ua))"
  by (simp_all add: login_issue_def google_issue_def issue_session_txns)

lemma login_txns:
  assumes "sites_ok P E" and "login P S E d rq ip ua dev client = Return (res, d')"
  shows "txns P d d'"
proof (cases "login_check P S E d rq ip ua")
  case (Return x)
  then obtain r d1 where r: "login_check P S E d rq ip ua = Return (r, d1)" by (cases x) auto
  note t = login_check_txns[OF r]
  show ?thesis
  proof (cases r)
    case (Err e)
    with assms(2) r t show ?thesis by (simp add: login_def)
  next
    case (Ok un)
    then obtain usr now where "r = Ok (usr, now)" by (cases un) auto
    then have "d' = snd (login_issue P S (\<lambda>n. E (n + 7)) d1 usr now ip ua dev client)"
      using assms(2) r by (auto simp: login_def)
    then have "txns P d1 d'"
      using assms(1) by (simp add: login_issue_txns)
    with t show ?thesis by (rule rtranclp_trans)
  qed
next
  case Throw
  with assms(2) show ?thesis by (simp add: login_def)
qed

lemma refresh_txns: "txns P d (snd (refresh P S E d tok ip ua))"
  by (auto simp: refresh_def refresh_reuse_def refresh_rotate_def Let_def case_prod_beta
      intro!: txn_chain split: option.splits result.splits)

lemma logout_txns: "txns P d (snd (logout P E d sid uid ip ua))"
  by (auto simp: logout_def Let_def case_prod_beta intro!: txn_chain)

lemma logoutAll_txns: "txns P d (snd (logoutAll P E d uid ip ua))"
  by (auto simp: logoutAll_def Let_def case_prod_beta intro!: txn_chain)

lemma google_identity_txns: "txns P d (snd (google_identity G hc E d rq))"
  by (auto simp: google_identity_steps Let_def case_prod_beta intro!: txn_chain split: option.splits)

lemma google_account_txns:
  "sites_ok P E \<Longrightarrow> txns P d (snd (google_account P E d info ip ua))"
  by (auto simp: google_account_def Let_def case_prod_beta intro!: txn_chain split: option.splits)

lemma loginWithGoogle_txns:
  assumes "sites_ok P E"
  shows "txns P d (snd (loginWithGoogle P S E d rq ip ua))"
proof (cases "sv_google S")
  case None
  then show ?thesis by (simp add: loginWithGoogle_def)
next
  case (Some G)
  obtain idr d1 where g: "google_identity G (sv_hasCache S) E d rq = (idr, d1)" by fastforce
  then have t1: "txns P d d1" using google_identity_txns[of P d G "sv_hasCache S" E rq] by simp
  show ?thesis
  proof (cases "\<exists>info. idr = Return (Ok info)")
    case False
    with Some g t1 show ?thesis
      by (auto simp: loginWithGoogle_def split: outcome.splits result.splits)
  next
    case True
    then obtain info where i: "idr = Return (Ok info)" by blast
    obtain acc d2 where a: "google_account P E d1 info ip ua = (acc, d2)" by fastforce
    have t2: "txns P d d2"
      using rtranclp_trans[OF t1 google_account_txns[OF assms, of d1 info ip ua]] a by simp
    have t3: "txns P d2 (snd (google_issue P S (\<lambda>n. E (n + 11)) d2 usr now rq ip ua))" for usr now
      using assms by (simp add: login_issue_txns)
    show ?thesis
      using Some g i a t2 rtranclp_trans[OF t2 t3]
      by (auto simp: loginWithGoogle_def Let_def case_prod_beta
          split: result.splits option.splits if_splits)
  qed
qed

lemma getGoogleAuthUrl_txns: "txns P d (snd (getGoogleAuthUrl P S E d st))"
  by (auto simp: getGoogleAuthUrl_def Let_def intro!: txn_chain split: option.splits)

lemma setPassword_txns: "txns P d (snd (setPassword P S E d uid pw))"
  by (auto simp: setPassword_def Let_def case_prod_beta intro!: txn_chain split: option.splits)

section \<open>Signing in\<close>

lemma new_session_sel [simp]:
  "s_userId (new_session usr j h now life ip ua dev client) = u_id usr"
  "s_jti (new_session usr j h now life ip ua dev client) = j"
  "s_refreshTokenHash (new_session usr j h now life ip ua dev client) = h"
  "s_expiresAt (new_session usr j h now life ip ua dev client) = now + life"
  "s_id (new_session usr j h now life ip ua dev client) = ''''"
  by (simp_all add: new_session_def default_session_def)

lemma users_ops_sessions [simp]:
  "db_sessions (users_resetFailedAttempts P c d uid) = db_sessions d"
  "db_sessions (users_incrementFailedAttempts P c d uid) = db_sessions d"
  "db_sessions (users_lockAccount P c d uid t) = db_sessions d"
  by (auto simp: users_resetFailedAttempts_def users_incrementFailedAttempts_def
      users_lockAccount_def users_update_by_id_def split: option.splits)

lemma audit_record_tables [simp]:
  "db_sessions (audit_record P c d a) = db_sessions d"
  "db_users (audit_record P c d a) = db_users d"
  "db_cache (audit_record P c d a) = db_cache d"
  "db_revocations (audit_record P c d a) = db_revocations d"
  by (auto simp: audit_record_def split: option.splits)

text \<open>A session is issued exactly when its row could be stored.\<close>

lemma issue_session_cases:
  obtains (stored) tk resp d' r where
      "issue_session P S E d usr now life ip ua dev client ev why msg = (Ok resp, d')"
      "r_data resp = Some tk" "r_statusCode resp = 200"
      "session_row_of P (E 3) (new_session usr (sv_generateUuid S (rnd (E 1)))
         (sv_sha256Hex S (tk_refreshToken tk)) now life ip ua dev client) = Some r"
      "db_sessions d' = db_sessions d @ [r]"
      "tk_refreshToken tk = sv_generateSecureToken S (rnd (E 2)) 32"
      "tk_accessToken tk = sv_createAccessToken S (sysNow (E 4)) (u_id usr) (u_role usr)
         (sr_id r) (sv_generateUuid S (rnd (E 1))) 900"
      "tk_sessionId tk = sr_id r" "tk_user tk = mk_user_dto usr"
  | (failed) e d' where
      "issue_session P S E d usr now life ip ua dev client ev why msg = (Err e, d')"
      "err_statusCode e = 500" "db_sessions d' = db_sessions d \<or> dbUuid (E 3) = []"
proof -
  let ?d1 = "users_resetFailedAttempts P (E 0) d (u_id usr)"
  let ?tok = "sv_generateSecureToken S (rnd (E 2)) 32"
  let ?s = "new_session usr (sv_generateUuid S (rnd (E 1))) (sv_sha256Hex S ?tok) now life ip ua
              dev client"
  let ?d' = "snd (issue_session P S E d usr now life ip ua dev client ev why msg)"
  show thesis
  proof (cases rule: sessions_create_shape[of P "E 3" ?d1 ?s])
    case same
    then show thesis
      by (intro failed[of session_error ?d', OF _ _ disjI1])
        (simp_all add: issue_session_def Let_def session_error_def)
  next
    case (new r)
    note f = session_row_of_fields[OF new(2)]
    show thesis
    proof (cases "dbUuid (E 3) = []")
      case True
      with new show thesis
        by (intro failed[of session_error ?d', OF _ _ disjI2])
          (simp_all add: issue_session_def Let_def session_error_def)
    next
      case False
      let ?j = "sv_generateUuid S (rnd (E 1))"
      let ?at = "sv_createAccessToken S (sysNow (E 4)) (u_id usr) (u_role usr) (dbUuid (E 3)) ?j 900"
      let ?tk = "\<lparr>tk_accessToken = ?at, tk_refreshToken = ?tok, tk_tokenType = ''Bearer'',
                  tk_expiresIn = 900, tk_sessionId = dbUuid (E 3), tk_user = mk_user_dto usr\<rparr>"
      from False new f show thesis
        by (intro stored[of "api_ok (sysNow (E 6)) ?tk msg 200" ?d' ?tk r])
          (auto simp: issue_session_def Let_def)
    qed
  qed
qed

lemma findByEmail_row:
  assumes "users_findByEmail P c d em = Some usr"
  obtains row where "row \<in> set (db_users d)" "ur_email row = em" "usr = mapUserRow (sysNow c) row"
  using assms by (auto simp: users_findByEmail_def dest: find_SomeD split: if_splits)

lemma findById_user_row:
  assumes "users_findById P c d uid = Some usr"
  obtains row where "row \<in> set (db_users d)" "pg_uuid P uid = Some (ur_id row)"
    "usr = mapUserRow (sysNow c) row"
  using assms by (auto simp: users_findById_def dest: find_SomeD split: if_splits option.splits)

lemma login_check_ok:
  assumes "login_check P S E d rq ip ua = Return (Ok (usr, now), d')"
  obtains h where "d' = d" "isOk (validateLogin rq)"
    "users_findByEmail P (E 0) d (lq_email rq) = Some usr" "u_isActive usr" "now = sysNow (E 2)"
    "u_passwordHash usr = Some h" "h \<noteq> []" "sv_verifyPassword S (lq_password rq) h = Return True"
  using assms
  by (auto simp: login_check_def Let_def
      split: result.splits option.splits if_splits outcome.splits bool.splits)

text \<open>The status codes with which the first phase can fail, and what it leaves alone.\<close>

lemma login_failed_tables [simp]:
  "db_sessions (login_failed P E d usr now ip ua) = db_sessions d"
  "db_revocations (login_failed P E d usr now ip ua) = db_revocations d"
  by (simp_all add: login_failed_def Let_def users_incrementFailedAttempts_def
      users_lockAccount_def users_update_by_id_def split: option.splits)

lemma login_check_err:
  assumes "login_check P S E d rq ip ua = Return (Err e, d')"
  shows "db_sessions d' = db_sessions d \<and> err_statusCode e \<in> {400, 401, 403}"
  using assms
  by (auto simp: login_check_def Let_def invalid_credentials_def google_only_def validation_errors_400
      split: result.splits option.splits if_splits outcome.splits bool.splits
      dest: validation_errors_400(2) elim: findByEmail_row)

lemma login_cases:
  assumes "login P S E d rq ip ua dev client = Return (res, d')"
  obtains (rejected) e where "res = Err e" "login_check P S E d rq ip ua = Return (Err e, d')"
  | (checked) usr now d1 where "login_check P S E d rq ip ua = Return (Ok (usr, now), d1)"
      "(res, d') = login_issue P S (\<lambda>n. E (n + 7)) d1 usr now ip ua dev client"
  using assms
  by (auto simp: login_def split: outcome.splits prod.splits result.splits)

text \<open>What a successful login has found and done.\<close>

lemma login_issued:
  assumes "login P S E d rq ip ua dev client = Return (Ok resp, d')"
  obtains usr row h tk r where
    "row \<in> set (db_users d)" "ur_email row = lq_email rq" "usr = mapUserRow (sysNow (E 0)) row"
    "u_isActive usr" "u_passwordHash usr = Some h" "h \<noteq> []" "sv_verifyPassword S (lq_password rq) h = Return True"
    "r_data resp = Some tk" "r_statusCode resp = 200"
    "session_row_of P (E 10) (new_session usr (sv_generateUuid S (rnd (E 8)))
       (sv_sha256Hex S (tk_refreshToken tk)) (sysNow (E 2)) (hours 168) ip ua dev client) = Some r"
    "db_sessions d' = db_sessions d @ [r]"
    "tk_accessToken tk = sv_createAccessToken S (sysNow (E 11)) (u_id usr) (u_role usr)
       (sr_id r) (sv_generateUuid S (rnd (E 8))) 900"
    "tk_sessionId tk = sr_id r" "tk_user tk = mk_user_dto usr"
    "d' = snd (issue_session P S (\<lambda>n. E (n + 7)) d usr (sysNow (E 2)) (hours 168) ip ua dev client
       ''LOGIN_SUCCESS'' (''Session initiated on device: '' @ dev) ''Login successful'')"
proof (cases rule: login_cases[OF assms])
  case (1 e)
  then show ?thesis by simp
next
  case (2 usr now d1)
  obtain h where c: "d1 = d" "users_findByEmail P (E 0) d (lq_email rq) = Some usr"
      "u_isActive usr" "now = sysNow (E 2)" "u_passwordHash usr = Some h" "h \<noteq> []"
      "sv_verifyPassword S (lq_password rq) h = Return True"
    by (rule login_check_ok[OF 2(1)])
  obtain row where row: "row \<in> set (db_users d)" "ur_email row = lq_email rq"
      "usr = mapUserRow (sysNow (E 0)) row"
    by (rule findByEmail_row[OF c(2)])
  show ?thesis
  proof (cases rule: issue_session_cases[of P S "\<lambda>n. E (n + 7)" d usr "sysNow (E 2)" "hours 168" ip ua dev client
        "''LOGIN_SUCCESS''" "''Session initiated on device: '' @ dev" "''Login successful''"])
    case (failed e d'')
    with 2(2) c(1,4) show ?thesis by (simp add: login_issue_def)
  next
    case (stored tk resp' d'' r)
    from 2(2) c(1,4) stored(1) have "resp' = resp" "d'' = d'" by (simp_all add: login_issue_def)
    with stored show ?thesis by (intro that[OF row c(3,5,6,7), of tk r]) simp_all
  qed
qed


abbreviation demo_env :: "time \<Rightarrow> sites" where
  "demo_env t \<equiv> (\<lambda>n. demo_site (t + int n) (''u'' @ string_of_nat (9 + n)) (int n + 1))"


lemma reset_same_ids:
  "ur_id ` set (db_users (users_resetFailedAttempts P c d uid)) = ur_id ` set (db_users d)"
proof -
  have "map ur_id (db_users (users_resetFailedAttempts P c d uid)) = map ur_id (db_users d)"
    by (simp add: users_resetFailedAttempts_def users_update_by_id_def map_update_where
        split: option.splits)
  then show ?thesis by (metis list.set_map)
qed

lemma session_conflict_alt:
  "session_conflict r d \<longleftrightarrow> sr_user_id r \<notin> ur_id ` set (db_users d) \<or>
     (\<exists>r'\<in>set (db_sessions d). sr_id r' = sr_id r \<or> sr_jti r' = sr_jti r)"
  by (auto simp: session_conflict_def intro: rev_image_eqI)

lemma session_conflict_reset:
  "session_conflict r (users_resetFailedAttempts P c d uid) \<longleftrightarrow> session_conflict r d"
  by (simp add: session_conflict_alt reset_same_ids)

lemma issue_session_ok:
  assumes "session_row_of P (E 3) (new_session usr (sv_generateUuid S (rnd (E 1)))
      (sv_sha256Hex S (sv_generateSecureToken S (rnd (E 2)) 32)) now life ip ua dev client) = Some r"
    and "\<not> session_conflict r d" and "dbOk (E 3)" and "dbUuid (E 3) \<noteq> []"
  shows "\<exists>resp d'. issue_session P S E d usr now life ip ua dev client ev why msg = (Ok resp, d') \<and>
    r_statusCode resp = 200"
proof -
  have "sessions_create P (E 3) (users_resetFailedAttempts P (E 0) d (u_id usr))
      (new_session usr (sv_generateUuid S (rnd (E 1)))
        (sv_sha256Hex S (sv_generateSecureToken S (rnd (E 2)) 32)) now life ip ua dev client) =
      (new_session usr (sv_generateUuid S (rnd (E 1)))
        (sv_sha256Hex S (sv_generateSecureToken S (rnd (E 2)) 32)) now life ip ua dev client
        \<lparr>s_id := dbUuid (E 3)\<rparr>,
       users_resetFailedAttempts P (E 0) d (u_id usr)\<lparr>db_sessions := db_sessions d @ [r]\<rparr>)"
    using assms session_row_of_fields(1)[OF assms(1)]
    by (simp add: sessions_create_def session_conflict_reset)
  then show ?thesis
    using assms(4) by (simp add: issue_session_def Let_def)
qed



text \<open>
  A refused login changes no session and is one of the documented refusals: 400, 401,
  403 or 500. In particular 429 is never the answer. \<^verbatim>\<open>mapUserRow\<close> does not read the column
  \<^verbatim>\<open>locked_until\<close>, so the lock that five failed attempts write is never enforced: with the
  row locked until any time in the future, \<open>login_complete\<close> still signs in.
\<close>

theorem login_refused:
  assumes "login P S E d rq ip ua dev client = Return (Err e, d')"
  shows "err_statusCode e \<in> {400, 401, 403, 500} \<and>
    (err_statusCode e \<noteq> 500 \<longrightarrow> db_sessions d' = db_sessions d)"
proof (cases rule: login_cases[OF assms])
  case (1 e')
  with login_check_err[OF 1(2)] show ?thesis by auto
next
  case (2 usr now d1)
  have "d1 = d" by (rule login_check_ok[OF 2(1)])
  with 2(2) have i: "issue_session P S (\<lambda>n. E (n + 7)) d usr now (hours (24 * 7)) ip ua dev client
      ''LOGIN_SUCCESS'' (''Session initiated on device: '' @ dev) ''Login successful'' = (Err e, d')"
    by (simp add: login_issue_def)
  show ?thesis
  proof (cases rule: issue_session_cases[of P S "\<lambda>n. E (n + 7)" d usr now "hours (24 * 7)" ip ua dev
        client "''LOGIN_SUCCESS''" "''Session initiated on device: '' @ dev" "''Login successful''"])
    case (stored tk resp d'' r)
    from trans[OF stored(1)[symmetric] i] show ?thesis by simp
  next
    case (failed e' d'')
    from trans[OF failed(1)[symmetric] i] failed(2) show ?thesis by simp
  qed
qed

lemma login_refused_witness:
  "\<exists>e d'. login demo_pg demo_services (demo_env 0) demo_db
       \<lparr>lq_email = ''a@b.io'', lq_password = ''wrong''\<rparr> ''ip'' ''ua'' ''dev'' ''browser'' =
       Return (Err e, d') \<and> err_statusCode e \<in> {400, 401, 403, 500}"
proof -
  let ?l = "login demo_pg demo_services (demo_env 0) demo_db
       \<lparr>lq_email = ''a@b.io'', lq_password = ''wrong''\<rparr> ''ip'' ''ua'' ''dev'' ''browser''"
  have "case ?l of Throw \<Rightarrow> False | Return (r, _) \<Rightarrow> \<not> isOk r" by code_simp
  then obtain e d' where "?l = Return (Err e, d')"
    by (auto split: outcome.splits prod.splits result.splits elim: isOk.elims)
  with login_refused show ?thesis by blast
qed



end
