(* ===== verification/Authorization.thy ===== *)
theory Authorization
  imports Domain
begin

text \<open>
  \<^verbatim>\<open>AuthorizationService\<close> (\<^verbatim>\<open>Application/src/Security/AuthorizationService.cpp\<close>): role-based
  permission checks, and the two ownership checks on sessions.
\<close>

definition hasPermission_role :: "string \<Rightarrow> permission \<Rightarrow> bool" where
  "hasPermission_role rl perm = roleHasPermission rl perm"

definition hasPermission :: "user \<Rightarrow> permission \<Rightarrow> bool" where
  "hasPermission u perm = hasPermission_role (u_role u) perm"

definition canAccessSession :: "user \<Rightarrow> session \<Rightarrow> bool" where
  "canAccessSession u s =
     (if hasPermission u SessionReadAll then True
      else u_id u = s_userId s \<and> hasPermission u SessionReadSelf)"

definition canRevokeSession :: "user \<Rightarrow> session \<Rightarrow> bool" where
  "canRevokeSession u s =
     (if hasPermission u SessionRevokeAll then True
      else u_id u = s_userId s \<and> hasPermission u SessionRevokeSelf)"

lemma hasPermission_iff:
  "hasPermission u p \<longleftrightarrow> u_role u = ''admin'' \<or> p = SessionReadSelf \<or> p = SessionRevokeSelf"
  by (simp add: hasPermission_def hasPermission_role_def roleHasPermission_iff)

text \<open>
  A user reaches a session exactly as an administrator or as its owner, for
  reading and for revoking alike, whatever other role string the account carries.
\<close>

theorem session_access_iff_admin_or_owner:
  "(canAccessSession u s \<longleftrightarrow> u_role u = ''admin'' \<or> u_id u = s_userId s) \<and>
   (canRevokeSession u s \<longleftrightarrow> u_role u = ''admin'' \<or> u_id u = s_userId s)"
  by (auto simp: canAccessSession_def canRevokeSession_def hasPermission_iff)

end
