(* ===== verification/Session_UseCases.thy ===== *)
theory Session_UseCases
  imports Examples Api Authorization
begin

text \<open>
  \<^verbatim>\<open>Application/src/UseCases/SessionUseCases.cpp\<close>, the session management of users and
  administrators, and the guard in front of every protected route,
  \<^verbatim>\<open>HttpResponseHelper::extractAuthenticatedUser\<close>
  (\<^verbatim>\<open>Presentation/src/Common/HttpResponseHelper.cpp\<close>).
\<close>

section \<open>The guard\<close>

record authenticated_user =
  au_id :: string
  au_email :: string
  au_role :: string
  au_sessionId :: string
  au_jti :: string

text \<open>
  \<open>header\<close> is the value of the \<^verbatim>\<open>Authorization\<close> header, empty when it is absent.
\<close>

definition extractAuthenticatedUser ::
    "pg \<Rightarrow> services \<Rightarrow> sites \<Rightarrow> db \<Rightarrow> string \<Rightarrow> authenticated_user dresult outcome" where
  "extractAuthenticatedUser P S E d header =
     (if header = [] \<or> \<not> starts_with ''Bearer '' header then
        Return (Err (mk_error ''Unauthorized'' 401
          [''Missing or invalid 'Authorization: Bearer <token>' header.'']))
      else case sv_validateAccessToken S (sysNow (E 0)) (drop 7 header) of
        Throw \<Rightarrow> Throw
      | Return (Err e) \<Rightarrow> Return (Err e)
      | Return (Ok claims) \<Rightarrow>
          if sessions_isTokenRevoked (E 1) d (jc_jti claims) then
            Return (Err (mk_error ''Token revoked'' 401 [''Access token has been revoked.'']))
          else
            (let terminated = Return (Err (mk_error ''Session terminated'' 401
                   [''Session has been revoked or has expired.'']));
                 disabled = Return (Err (mk_error ''Account disabled'' 401
                   [''User account is inactive or disabled.'']))
             in case sessions_findById (E 2) d (jc_sid claims) of
                  None \<Rightarrow> terminated
                | Some s \<Rightarrow>
                    if s_isRevoked s \<or> s_isExpired (sysNow (E 3)) s then terminated
                    else case users_findById P (E 4) d (jc_sub claims) of
                      None \<Rightarrow> disabled
                    | Some usr \<Rightarrow>
                        if \<not> u_isActive usr then disabled
                        else Return (Ok \<lparr>au_id = u_id usr, au_email = u_email usr,
                               au_role = u_role usr, au_sessionId = jc_sid claims,
                               au_jti = jc_jti claims\<rparr>)))"

section \<open>Sessions of the user\<close>

definition mapToSessionResponse :: "time \<Rightarrow> session \<Rightarrow> string \<Rightarrow> session_response" where
  "mapToSessionResponse now s currentSid =
     \<lparr>sp_id = s_id s, sp_userId = s_userId s,
      sp_device = (if s_deviceName s = [] then s_clientType s else s_deviceName s),
      sp_ipAddress = s_ipAddress s, sp_jti = s_jti s,
      sp_createdAt = formatIsoTimestamp (s_createdAt s),
      sp_lastSeenAt = formatIsoTimestamp (s_lastSeenAt s),
      sp_expiresAt = formatIsoTimestamp (s_expiresAt s),
      sp_current = (currentSid \<noteq> [] \<and> s_id s = currentSid),
      sp_status = (if s_isRevoked s then ''revoked''
                   else if s_isExpired now s then ''expired'' else ''active'')\<rparr>"

definition getUserSessions ::
    "pg \<Rightarrow> sites \<Rightarrow> db \<Rightarrow> string \<Rightarrow> string \<Rightarrow> session_response list api_result" where
  "getUserSessions P E d userId currentSessionId =
     (let sessions = sessions_findUserSessions P (E 0) d userId True
      in Ok (api_ok (sysNow (E 2))
               (map (\<lambda>s. mapToSessionResponse (sysNow (E 1)) s currentSessionId) sessions)
               ''Sessions retrieved successfully'' 200))"

text \<open>The lookup by session id and, failing that, by token id (lines 78 to 81).\<close>

definition find_session :: "sites \<Rightarrow> db \<Rightarrow> string \<Rightarrow> session option" where
  "find_session E d key =
     (case sessions_findById (E 0) d key of
        Some s \<Rightarrow> Some s
      | None \<Rightarrow> sessions_findByJti (E 1) d key)"

definition revokeUserSession ::
    "pg \<Rightarrow> sites \<Rightarrow> db \<Rightarrow> string \<Rightarrow> string \<Rightarrow> string \<Rightarrow> string \<Rightarrow> unit api_result \<times> db" where
  "revokeUserSession P E d userId sessionId ip ua =
     (case find_session E d sessionId of
        None \<Rightarrow>
          (Err (mk_error ''Session not found'' 404 [''Session or JWT not found.'']), d)
      | Some s \<Rightarrow>
          if s_userId s \<noteq> userId then
            (Err (mk_error ''Access denied'' 403
                    [''You do not have permission to revoke this session.'']), d)
          else if s_isRevoked s then
            (Ok (api_void_ok (sysNow (E 4)) ''Session was already revoked'' 200), d)
          else
            (let (_, d1) = sessions_revokeSession P (E 2) d (s_id s) ''User terminated session'';
                 d2 = audit_record P (E 3) d1 ((default_audit (sysNow (E 3)))
                   \<lparr>a_eventType := ''SESSION_REVOKED'', a_userId := Some userId,
                    a_sessionId := Some (s_id s), a_ipAddress := ip, a_userAgent := ua,
                    a_reason := ''Self session termination''\<rparr>)
             in (Ok (api_void_ok (sysNow (E 4)) ''Session revoked successfully'' 200), d2)))"

section \<open>Sessions for administrators\<close>

definition forbidden :: domain_error where
  "forbidden = mk_error ''Forbidden'' 403 [''Administrative privilege required.'']"

definition clamp_limit :: "int \<Rightarrow> int" where
  "clamp_limit limit =
     (let limit = (if limit \<le> 0 then 50 else limit) in if limit > 200 then 200 else limit)"

definition getAdminSessions ::
    "pg \<Rightarrow> sites \<Rightarrow> db \<Rightarrow> user \<Rightarrow> int \<Rightarrow> int \<Rightarrow> string option \<Rightarrow> string option \<Rightarrow> string option
     \<Rightarrow> session_response list api_result" where
  "getAdminSessions P E d adminUser limit offset filterUserId filterStatus filterIp =
     (if \<not> hasPermission adminUser SessionReadAll then Err forbidden
      else
        (let sessions = sessions_findAllSessions P (E 0) d (clamp_limit limit)
                          (if offset < 0 then 0 else offset) filterUserId filterStatus filterIp
         in Ok (api_ok (sysNow (E 2))
                  (map (\<lambda>s. mapToSessionResponse (sysNow (E 1)) s '''') sessions)
                  ''Admin sessions retrieved successfully'' 200)))"

definition revokeAdminSession ::
    "pg \<Rightarrow> sites \<Rightarrow> db \<Rightarrow> user \<Rightarrow> string \<Rightarrow> string \<Rightarrow> string \<Rightarrow> string \<Rightarrow> unit api_result \<times> db" where
  "revokeAdminSession P E d adminUser sessionId reason ip ua =
     (if \<not> hasPermission adminUser SessionRevokeAll then (Err forbidden, d)
      else case find_session E d sessionId of
        None \<Rightarrow>
          (Err (mk_error ''Session not found'' 404 [''Target session or JWT does not exist.'']), d)
      | Some s \<Rightarrow>
          (let revocationReason = (if reason = [] then ''Revoked by administrator'' else reason);
               (_, d1) = sessions_revokeSession P (E 2) d (s_id s) revocationReason;
               d2 = audit_record P (E 3) d1 ((default_audit (sysNow (E 3)))
                 \<lparr>a_eventType := ''SESSION_REVOKED_BY_ADMIN'', a_userId := Some (s_userId s),
                  a_adminUserId := Some (u_id adminUser), a_sessionId := Some (s_id s),
                  a_ipAddress := ip, a_userAgent := ua, a_reason := revocationReason\<rparr>)
           in (Ok (api_void_ok (sysNow (E 4)) ''Session terminated by administrator'' 200), d2)))"

definition revokeAllUserSessionsAdmin ::
    "pg \<Rightarrow> sites \<Rightarrow> db \<Rightarrow> user \<Rightarrow> string \<Rightarrow> string \<Rightarrow> string \<Rightarrow> string \<Rightarrow> unit api_result \<times> db" where
  "revokeAllUserSessionsAdmin P E d adminUser targetUserId reason ip ua =
     (if \<not> hasPermission adminUser SessionRevokeAll then (Err forbidden, d)
      else
        (let revocationReason =
               (if reason = [] then ''All sessions revoked by administrator'' else reason);
             (count, d1) = sessions_revokeAllUserSessions P (E 0) d targetUserId revocationReason;
             d2 = audit_record P (E 1) d1 ((default_audit (sysNow (E 1)))
               \<lparr>a_eventType := ''ALL_SESSIONS_REVOKED'', a_userId := Some targetUserId,
                a_adminUserId := Some (u_id adminUser), a_ipAddress := ip, a_userAgent := ua,
                a_reason := revocationReason @ ''. Count: '' @ string_of_nat count\<rparr>)
         in (Ok (api_void_ok (sysNow (E 2))
                   (''All user sessions revoked by administrator. Count: '' @
                    string_of_nat count) 200), d2)))"

section \<open>Every use case is a run of transactions\<close>

lemma revokeUserSession_txns: "txns P d (snd (revokeUserSession P E d uid sid ip ua))"
  by (auto simp: revokeUserSession_def Let_def case_prod_beta intro!: txn_chain
      split: option.splits)

lemma revokeAdminSession_txns: "txns P d (snd (revokeAdminSession P E d adm sid why ip ua))"
  by (auto simp: revokeAdminSession_def Let_def case_prod_beta intro!: txn_chain
      split: option.splits)

lemma revokeAllUserSessionsAdmin_txns:
  "txns P d (snd (revokeAllUserSessionsAdmin P E d adm uid why ip ua))"
  by (auto simp: revokeAllUserSessionsAdmin_def Let_def case_prod_beta intro!: txn_chain)

lemmas session_uc_txns =
  revokeUserSession_txns revokeAdminSession_txns revokeAllUserSessionsAdmin_txns

section \<open>What the guard lets through\<close>

text \<open>
  Session ids and token ids are drawn independently; \<open>ids_apart\<close> says that no token id
  equals a session id, as the lookup by either of them presumes.
\<close>

definition ids_apart :: "db \<Rightarrow> bool" where
  "ids_apart d \<longleftrightarrow> (\<forall>r\<in>set (db_sessions d). \<forall>r'\<in>set (db_sessions d). sr_jti r \<noteq> sr_id r')"

lemma findById_row:
  assumes "sessions_findById c d sid = Some s"
  obtains r where "r \<in> set (db_sessions d)" "s = session_of_row r" "id_or_jti sid r"
  using assms by (auto simp: sessions_findById_def dest: find_SomeD split: if_splits)

lemma findById_apart:
  assumes "db_wf P d" "ids_apart d" "r \<in> set (db_sessions d)" "dbOk c"
  shows "sessions_findById c d (sr_id r) = Some (session_of_row r)"
proof -
  have "r' = r" if "r' \<in> set (db_sessions d)" "id_or_jti (sr_id r) r'" for r'
    using assms(1-3) that
    by (auto simp: ids_apart_def id_or_jti_def db_wf_def sessions_wf_def distinct_map inj_on_def)
  then have "find (id_or_jti (sr_id r)) (db_sessions d) = Some r"
    using assms(3) by (intro find_unique) (auto simp: id_or_jti_def)
  with assms(4) show ?thesis by (simp add: sessions_findById_def)
qed

lemma find_session_row:
  assumes "find_session E d key = Some s"
  obtains r where "r \<in> set (db_sessions d)" "s = session_of_row r"
  using assms by (auto simp: find_session_def sessions_findByJti_def sessions_findById_def
      dest: find_SomeD split: option.splits if_splits)

lemma extract_ok:
  assumes "extractAuthenticatedUser P S E d header = Return (Ok au)"
  obtains claims s usr where "starts_with ''Bearer '' header"
    "sv_validateAccessToken S (sysNow (E 0)) (drop 7 header) = Return (Ok claims)"
    "\<not> sessions_isTokenRevoked (E 1) d (jc_jti claims)"
    "sessions_findById (E 2) d (jc_sid claims) = Some s" "s_isActive (sysNow (E 3)) s"
    "users_findById P (E 4) d (jc_sub claims) = Some usr" "u_isActive usr"
    "au = \<lparr>au_id = u_id usr, au_email = u_email usr, au_role = u_role usr,
           au_sessionId = jc_sid claims, au_jti = jc_jti claims\<rparr>"
  using assms
  by (auto simp: extractAuthenticatedUser_def Let_def s_isActive_def
      split: if_splits outcome.splits result.splits option.splits)

text \<open>
  C2. Once a session is revoked, no request is ever let in on it again: in every later state
  of the database, whatever calls ran in between and whatever faults and clock readings the
  request meets, the guard rejects each token that names the session, including access
  tokens issued before the last rotation.
\<close>

theorem revoked_session_never_admitted:
  assumes "db_wf P d" and "r \<in> set (db_sessions d)" and "sr_revoked_at r \<noteq> None"
    and "txns P d d'" and "ids_apart d'"
    and "extractAuthenticatedUser P S E d' header = Return (Ok au)"
  shows "au_sessionId au \<noteq> sr_id r"
proof
  assume sid: "au_sessionId au = sr_id r"
  have r': "r \<in> set (db_sessions d')" by (rule revoked_session_stays[OF assms(4,1,2,3)])
  have wf': "db_wf P d'" using dbs.run[OF assms(4,1)] by simp
  obtain s where "sessions_findById (E 2) d' (au_sessionId au) = Some s"
      and act: "s_isActive (sysNow (E 3)) s"
    by (rule extract_ok[OF assms(6)]) (rule that, simp_all)
  with sid have f: "sessions_findById (E 2) d' (sr_id r) = Some s" by simp
  then have "dbOk (E 2)" by (auto simp: sessions_findById_def split: if_splits)
  with findById_apart[OF wf' assms(5) r'] f have "s = session_of_row r" by simp
  with act assms(3) show False by (simp add: s_isActive_def)
qed

lemma demo_ids_apart: "ids_apart demo_db"
  by (simp add: demo_db_def ids_apart_def demo_session_def)

lemma revoked_session_never_admitted_witness:
  "au_sessionId \<lparr>au_id = ''u1'', au_email = ''a@b.io'', au_role = ''user'',
                 au_sessionId = ''s1'', au_jti = ''j1''\<rparr> \<noteq> sr_id (demo_session ''s2'' ''j2'' ''h2'' (Some 5))"
proof (rule revoked_session_never_admitted[OF demo_db_wf])
  show "demo_session ''s2'' ''j2'' ''h2'' (Some 5) \<in> set (db_sessions demo_db)"
    by (simp add: demo_db_def)
  show "sr_revoked_at (demo_session ''s2'' ''j2'' ''h2'' (Some 5)) \<noteq> None"
    by (simp add: demo_session_def)
  show "txns demo_pg demo_db demo_db" by simp
  show "ids_apart demo_db" by (rule demo_ids_apart)
  show "extractAuthenticatedUser demo_pg demo_services (\<lambda>n. demo_site 0 '''' 0) demo_db
      ''Bearer s1j1'' = Return (Ok \<lparr>au_id = ''u1'', au_email = ''a@b.io'', au_role = ''user'',
        au_sessionId = ''s1'', au_jti = ''j1''\<rparr>)"
    by code_simp
qed


section \<open>What users and administrators can do\<close>

lemma revokeSession_others:
  assumes "ids_apart d" "r \<in> set (db_sessions d)" "r0 \<in> set (db_sessions d)"
    and "sr_id r \<noteq> sr_id r0"
  shows "r \<in> set (db_sessions (snd (sessions_revokeSession P c d (sr_id r0) why)))"
proof (cases rule: sessions_revoke_shape[of P c d "sr_id r0" why])
  case same
  with assms(2) show ?thesis by simp
next
  case (revoked r' why' rvs nts)
  have "\<not> id_or_jti (sr_id r0) r"
    using assms by (auto simp: id_or_jti_def ids_apart_def)
  with revoked assms(2) show ?thesis by (auto simp: set_update_where)
qed

lemma audit_record_other [simp]:
  "db_sessions (audit_record P c d a) = db_sessions d"
  "db_users (audit_record P c d a) = db_users d"
  "db_cache (audit_record P c d a) = db_cache d"
  "db_revocations (audit_record P c d a) = db_revocations d"
  by (auto simp: audit_record_def split: option.splits)

text \<open>
  C28. A user cannot touch another user's session: whatever session or token id is named, the
  sessions of all other users stay exactly as they are, and naming one of them by its id is
  answered 403 without any change to the database.
\<close>

theorem revokeUserSession_only_own:
  assumes "db_wf P d" and "ids_apart d"
  shows "(\<forall>r\<in>set (db_sessions d). sr_user_id r \<noteq> userId \<longrightarrow>
            r \<in> set (db_sessions (snd (revokeUserSession P E d userId key ip ua)))) \<and>
         (\<forall>r\<in>set (db_sessions d). sr_user_id r \<noteq> userId \<and> dbOk (E 0) \<longrightarrow>
            (\<exists>e. revokeUserSession P E d userId (sr_id r) ip ua = (Err e, d) \<and>
                 err_statusCode e = 403))"
proof (intro conjI ballI impI)
  fix r assume r: "r \<in> set (db_sessions d)" "sr_user_id r \<noteq> userId"
  show "r \<in> set (db_sessions (snd (revokeUserSession P E d userId key ip ua)))"
  proof (cases "find_session E d key")
    case None
    with r show ?thesis by (simp add: revokeUserSession_def)
  next
    case (Some s)
    then obtain r0 where r0: "r0 \<in> set (db_sessions d)" "s = session_of_row r0"
      by (rule find_session_row)
    show ?thesis
    proof (cases "s_userId s = userId \<and> \<not> s_isRevoked s")
      case False
      with Some r show ?thesis by (auto simp: revokeUserSession_def)
    next
      case True
      with r0 r have "sr_id r \<noteq> sr_id r0"
        using assms(1) by (auto simp: db_wf_def sessions_wf_def distinct_map inj_on_def)
      with revokeSession_others[OF assms(2) r(1) r0(1)] True Some r0 show ?thesis
        by (simp add: revokeUserSession_def case_prod_beta)
    qed
  qed
next
  fix r assume r: "r \<in> set (db_sessions d)" "sr_user_id r \<noteq> userId \<and> dbOk (E 0)"
  have "find_session E d (sr_id r) = Some (session_of_row r)"
    using findById_apart[OF assms r(1)] r(2) by (simp add: find_session_def)
  with r(2) show "\<exists>e. revokeUserSession P E d userId (sr_id r) ip ua = (Err e, d) \<and>
                      err_statusCode e = 403"
    by (simp add: revokeUserSession_def)
qed

lemma revokeUserSession_only_own_witness:
  "demo_session ''s1'' ''j1'' ''h1'' None \<in>
     set (db_sessions (snd (revokeUserSession demo_pg (\<lambda>n. demo_site 0 '''' 0) demo_db ''u2'' ''s1'' '''' '''')))"
  using revokeUserSession_only_own[OF demo_db_wf demo_ids_apart,
      where userId = "''u2''" and key = "''s1''" and E = "\<lambda>n. demo_site 0 '''' 0"
        and ip = "''''" and ua = "''''"]
  by (simp add: demo_db_def demo_session_def)

text \<open>
  The owner's revocation works: when it is answered with success and the calls met no
  fault, the named session is revoked afterwards, its token id is revoked for the guard, and
  the other instances are notified.
\<close>

theorem revokeUserSession_revokes:
  assumes "db_wf P d" and "ids_apart d" and "r \<in> set (db_sessions d)"
    and "sr_user_id r = userId" and "\<And>n. dbOk (E n)"
    and "pg_varchar P 255 ''User terminated session'' = Some why"
    and "revokeUserSession P E d userId (sr_id r) ip ua = (res, d')"
  shows "isOk res \<and> (\<exists>r'\<in>set (db_sessions d'). sr_id r' = sr_id r \<and> sr_revoked_at r' \<noteq> None \<and>
           (\<forall>c. dbOk c \<longrightarrow> sessions_isTokenRevoked c d' (sr_jti r'))) \<and>
         (sr_revoked_at r = None \<longrightarrow> (''session_revoked'', sr_id r) \<in> set (db_notifications d'))"
proof -
  have f: "find_session E d (sr_id r) = Some (session_of_row r)"
    using findById_apart[OF assms(1-3) assms(5)] by (simp add: find_session_def)
  show ?thesis
  proof (cases "sr_revoked_at r = None")
    case False
    with assms f have "isOk res" "d' = d" by (auto simp: revokeUserSession_def)
    with False assms(3) show ?thesis by (auto simp: sessions_isTokenRevoked_def)
  next
    case True
    have uniq: "r' = r" if "r' \<in> set (db_sessions d)" "id_or_jti (sr_id r) r'" for r'
      using that assms(1-3)
      by (auto simp: id_or_jti_def ids_apart_def db_wf_def sessions_wf_def distinct_map inj_on_def)
    have fr: "find (\<lambda>r'. id_or_jti (sr_id r) r' \<and> sr_revoked_at r' = None) (db_sessions d) = Some r"
      using assms(3) True uniq by (intro find_unique) (auto simp: id_or_jti_def)
    define d1 where "d1 = snd (sessions_revokeSession P (E 2) d (sr_id r) ''User terminated session'')"
    have d1: "db_sessions d1 = update_where (\<lambda>r'. id_or_jti (sr_id r) r' \<and> sr_revoked_at r' = None)
          (revoke_row why (dbNow (E 2))) (db_sessions d)"
      "db_notifications d1 = db_notifications d @ [(''session_revoked'', sr_id r)]"
      using fr assms(5,6) by (simp_all add: d1_def sessions_revokeSession_def Let_def)
    have d': "isOk res" "db_sessions d' = db_sessions d1" "db_notifications d' = db_notifications d1"
      using assms(4,7) f True
      by (auto simp: revokeUserSession_def case_prod_beta d1_def audit_record_def
          split: option.splits if_splits)
    let ?r = "revoke_row why (dbNow (E 2)) r"
    have "?r \<in> set (db_sessions d')"
      using assms(3) True by (auto simp: d' d1 set_update_where id_or_jti_def)
    then have "\<exists>r'\<in>set (db_sessions d'). sr_id r' = sr_id r \<and> sr_revoked_at r' \<noteq> None \<and>
           (\<forall>c. dbOk c \<longrightarrow> sessions_isTokenRevoked c d' (sr_jti r'))"
      by (intro bexI[of _ ?r]) (auto simp: sessions_isTokenRevoked_def intro!: bexI[of _ ?r])
    with d' d1 show ?thesis by simp
  qed
qed

lemma revokeUserSession_revokes_witness:
  "\<exists>res d' r'. revokeUserSession demo_pg (\<lambda>n. demo_site 0 '''' 0) demo_db ''u1'' ''s1'' '''' '''' = (res, d')
     \<and> isOk res \<and> r' \<in> set (db_sessions d') \<and> sr_id r' = ''s1'' \<and> sr_revoked_at r' \<noteq> None"
proof -
  let ?r = "demo_session ''s1'' ''j1'' ''h1'' None" and ?E = "\<lambda>n :: nat. demo_site 0 '''' 0"
  obtain res d' where
    eq: "revokeUserSession demo_pg ?E demo_db ''u1'' (sr_id ?r) '''' '''' = (res, d')"
    by (metis surj_pair)
  have "?r \<in> set (db_sessions demo_db)" "sr_user_id ?r = ''u1''" "dbOk (?E n)"
    "pg_varchar demo_pg 255 ''User terminated session'' = Some ''User terminated session''" for n
    by (simp_all add: demo_db_def demo_session_def demo_site_def demo_pg_def)
  from revokeUserSession_revokes[OF demo_db_wf demo_ids_apart this(1,2,3,4) eq]
  show ?thesis using eq by (auto simp: demo_session_def)
qed

text \<open>
  Administration is closed to everybody else: for a caller whose role is not
  \<^verbatim>\<open>admin\<close> all three administrative operations answer 403 and leave the database as it was,
  whatever their arguments.
\<close>

theorem admin_operations_forbidden:
  assumes "u_role adm \<noteq> ''admin''"
  shows "getAdminSessions P E d adm limit offset uid status addr = Err forbidden \<and>
    revokeAdminSession P E d adm key reason ip ua = (Err forbidden, d) \<and>
    revokeAllUserSessionsAdmin P E d adm target reason ip ua = (Err forbidden, d) \<and>
    err_statusCode forbidden = 403"
  using assms
  by (simp_all add: getAdminSessions_def revokeAdminSession_def revokeAllUserSessionsAdmin_def
      hasPermission_iff forbidden_def)

lemma admin_operations_forbidden_witness:
  "revokeAdminSession demo_pg (\<lambda>n. demo_site 0 '''' 0) demo_db (default_user 0) ''s1'' '''' '''' '''' =
     (Err forbidden, demo_db)"
  using admin_operations_forbidden[of "default_user 0"] by (simp add: default_user_def)

lemma clamp_limit_range: "1 \<le> clamp_limit n \<and> clamp_limit n \<le> 200"
  by (simp add: clamp_limit_def Let_def)

lemma length_findAllSessions:
  "length (sessions_findAllSessions P c d limit offset uid status ip) \<le> nat limit"
  by (simp add: sessions_findAllSessions_def Let_def split: option.splits)


definition demo_admin :: user where
  "demo_admin = (default_user 0)\<lparr>u_id := ''u9'', u_role := ''admin''\<rparr>"


text \<open>
  \<^verbatim>\<open>revokeAdminSession\<close> drops the answer of \<^verbatim>\<open>revokeSession\<close>: with a reason that its column
  refuses, or on a fault of that call, it reports that the session was terminated while the
  session stays exactly as it was.
\<close>

theorem revokeAdminSession_unchecked:
  assumes "u_role adm = ''admin''" and "find_session E d key = Some s"
    and "reason \<noteq> []" and "pg_varchar P 255 reason = None \<or> \<not> dbOk (E 2)"
  shows "isOk (fst (revokeAdminSession P E d adm key reason ip ua)) \<and>
    db_sessions (snd (revokeAdminSession P E d adm key reason ip ua)) = db_sessions d \<and>
    db_revocations (snd (revokeAdminSession P E d adm key reason ip ua)) = db_revocations d"
proof -
  have "sessions_revokeSession P (E 2) d (s_id s) reason = (False, d)"
    using assms(4) by (auto simp: sessions_revokeSession_def Let_def split: option.splits)
  with assms show ?thesis
    by (simp add: revokeAdminSession_def hasPermission_iff Let_def)
qed

lemma revokeAdminSession_unchecked_witness:
  "isOk (fst (revokeAdminSession demo_pg (\<lambda>n. demo_site 0 '''' 0) demo_db demo_admin ''s1''
     (replicate 256 CHR ''x'') '''' '''')) \<and>
   demo_session ''s1'' ''j1'' ''h1'' None \<in>
     set (db_sessions (snd (revokeAdminSession demo_pg (\<lambda>n. demo_site 0 '''' 0) demo_db demo_admin
       ''s1'' (replicate 256 CHR ''x'') '''' '''')))"
proof -
  have "find_session (\<lambda>n. demo_site 0 '''' 0) demo_db ''s1'' =
      Some (session_of_row (demo_session ''s1'' ''j1'' ''h1'' None))"
    by code_simp
  moreover have "u_role demo_admin = ''admin''" by (simp add: demo_admin_def)
  moreover have "pg_varchar demo_pg 255 (replicate 256 CHR ''x'') = None"
    by (simp add: demo_pg_def)
  moreover have "replicate 256 CHR ''x'' \<noteq> []" by simp
  ultimately show ?thesis
    using revokeAdminSession_unchecked[of demo_admin "\<lambda>n. demo_site 0 '''' 0" demo_db "''s1''" _
        "replicate 256 CHR ''x''" demo_pg "''''" "''''"]
    by (simp add: demo_db_def)
qed

end
