(* ===== verification/Token_Lifecycle.thy ===== *)
theory Token_Lifecycle
  imports Auth_UseCases Session_UseCases
begin

text \<open>
  Properties of the remaining operations of \<^verbatim>\<open>AuthUseCases\<close>: registration, rotation of
  refresh tokens with detection of reuse, what two concurrent refreshes can do, setting a
  password, and the single use of the state of a Google sign-in.
\<close>

section \<open>Registration\<close>


lemma demo_sites_ok: "sites_ok demo_pg (demo_env t)"
  by (simp add: sites_ok_def site_ok_def demo_site_def demo_pg_def)


text \<open>
  Anyone can become an administrator: a registration request is unauthenticated, and one
  that asks for the role \<^verbatim>\<open>admin\<close> creates an account that holds every permission.
\<close>

theorem registration_grants_admin:
  assumes "rq_role rq = ''admin''" and "pg_varchar P 50 ''admin'' = Some ''admin''"
    and "registerUser P S E d rq = (Ok resp, d')" and "sites_ok P E" and "pg_uuid P '''' = None"
  shows "\<exists>row. db_users d' = db_users d @ [row] \<and>
    (\<forall>c perm. hasPermission (mapUserRow c row) perm)"
proof -
  let ?u = "(default_user (sysNow (E 1)))
      \<lparr>u_email := rq_email rq, u_passwordHash := Some (sv_hashPassword S (rnd (E 1)) (rq_password rq)),
       u_role := ''admin'', u_isActive := True, u_failedLoginAttempts := 0\<rparr>"
  have c: "u_id (fst (users_create P (E 2) d ?u)) \<noteq> ''''"
      "d' = audit_record P (E 3) (snd (users_create P (E 2) d ?u)) ((default_audit (sysNow (E 3)))
         \<lparr>a_eventType := ''USER_REGISTERED'', a_userId := Some (u_id (fst (users_create P (E 2) d ?u))),
          a_reason := ''User registered with role '' @ u_role (fst (users_create P (E 2) d ?u))\<rparr>)"
    using assms(1,3) by (auto simp: registerUser_def Let_def case_prod_beta
        split: result.splits option.splits if_splits)
  then obtain r where r: "user_row_of P (E 2) ?u = Some r"
      "snd (users_create P (E 2) d ?u) = d\<lparr>db_users := db_users d @ [r]\<rparr>"
    by (auto simp: users_create_def default_user_def split: option.splits if_splits)
  have "ur_role r = ''admin''"
    using user_row_of_fields(4)[OF r(1)] assms(2) by simp
  with c(2) r(2) show ?thesis by (auto simp: hasPermission_iff)
qed

lemma registration_grants_admin_witness:
  "\<exists>resp d' row. registerUser demo_pg demo_services (demo_env 0) demo_db
     \<lparr>rq_email = ''c@d.io'', rq_password = ''12345678'', rq_role = ''admin''\<rparr> = (Ok resp, d') \<and>
     db_users d' = db_users demo_db @ [row] \<and> hasPermission (mapUserRow 0 row) UserManage"
proof -
  let ?rq = "\<lparr>rq_email = ''c@d.io'', rq_password = ''12345678'', rq_role = ''admin''\<rparr>"
  let ?x = "registerUser demo_pg demo_services (demo_env 0) demo_db ?rq"
  have "isOk (fst ?x)" by code_simp
  then obtain resp d' where eq: "?x = (Ok resp, d')" by (cases ?x) auto
  have "pg_varchar demo_pg 50 ''admin'' = Some ''admin''" "pg_uuid demo_pg '''' = None"
    by (simp_all add: demo_pg_def)
  from registration_grants_admin[OF _ this(1) eq demo_sites_ok this(2)] eq show ?thesis by auto
qed

section \<open>Refresh\<close>

lemma refresh_rotate_txns: "txns P d (snd (refresh_rotate P S E d s usr now ip ua))"
  by (auto simp: refresh_rotate_def Let_def case_prod_beta intro!: txn_chain)

lemma distinct_after_rotate:
  assumes "distinct (map sr_jti rows)" and "\<And>x. x \<in> set rows \<Longrightarrow> p x \<Longrightarrow> x = r"
    and "\<forall>x\<in>set rows. sr_jti x \<noteq> j" and "distinct (map sr_id rows)"
  shows "distinct (map sr_jti (update_where p (rotate_row h j ex now) rows))"
  using assms
proof (induction rows)
  case Nil
  then show ?case by simp
next
  case (Cons x rows)
  have IH: "distinct (map sr_jti (update_where p (rotate_row h j ex now) rows))"
    using Cons by simp
  have "sr_jti y \<noteq> sr_jti (if p x then rotate_row h j ex now x else x)"
    if y: "y \<in> set (update_where p (rotate_row h j ex now) rows)" for y
  proof -
    obtain z where z: "z \<in> set rows" "y = (if p z then rotate_row h j ex now z else z)"
      using y by (auto simp: set_update_where)
    have "\<not> (p x \<and> p z)"
    proof
      assume "p x \<and> p z"
      then have "x = z" using Cons.prems(2)[of x] Cons.prems(2)[of z] z(1) by simp
      with z(1) Cons.prems(4) show False by simp
    qed
    moreover have "sr_jti z \<noteq> sr_jti x" using Cons.prems(1) z(1) by (auto intro: rev_image_eqI)
    ultimately show ?thesis using Cons.prems(3) z by auto
  qed
  then have "sr_jti (if p x then rotate_row h j ex now x else x) \<notin>
      sr_jti ` set (update_where p (rotate_row h j ex now) rows)"
    by (metis (no_types, lifting) imageE)
  with IH show ?case by simp
qed

lemma findByHash_cases:
  assumes "sessions_findByRefreshTokenHash c d h = Some s"
  obtains (current) r where "r \<in> set (db_sessions d)" "sr_refresh_token_hash r = h"
      "s = session_of_row r"
  | (previous) r where "r \<in> set (db_sessions d)" "sr_previous_refresh_token_hash r = Some h"
      "\<forall>x\<in>set (db_sessions d). sr_refresh_token_hash x \<noteq> h" "s_isRevoked s"
      "s_userId s = sr_user_id r" "s_id s = sr_id r"
proof (cases "find (\<lambda>r. sr_refresh_token_hash r = h) (db_sessions d)")
  case (Some r)
  with assms show thesis
    by (intro current[of r])
      (auto simp: sessions_findByRefreshTokenHash_def dest: find_SomeD split: if_splits)
next
  case None
  with assms obtain r where
    r: "find (\<lambda>r. sr_previous_refresh_token_hash r = Some h) (db_sessions d) = Some r"
    and s: "s = (session_of_row r)\<lparr>s_revokedAt := Some (sysNow c),
        s_revocationReason := Some ''TOKEN_REUSE_DETECTED''\<rparr>"
    by (auto simp: sessions_findByRefreshTokenHash_def split: if_splits option.splits)
  with None show thesis
    by (intro previous[of r]) (auto simp: s_isRevoked_def find_None_iff dest: find_SomeD)
qed

lemma refresh_ok:
  assumes "refresh P S E d tok ip ua = (Ok resp, d')"
  obtains s usr where
    "sessions_findByRefreshTokenHash (E 0) d (sv_sha256Hex S tok) = Some s" "\<not> s_isRevoked s"
    "sysNow (E 3) < s_expiresAt s" "users_findById P (E 4) d (s_userId s) = Some usr"
    "u_isActive usr" "refresh_rotate P S E d s usr (sysNow (E 3)) ip ua = (Ok resp, d')"
  using assms
  by (auto simp: refresh_def Let_def s_isExpired_def split: result.splits option.splits if_splits)

lemma refresh_rotate_ok:
  assumes "refresh_rotate P S E d s usr now ip ua = (Ok resp, d')"
  obtains tk h' j' where "r_data resp = Some tk" "r_statusCode resp = 200"
    "tk_refreshToken tk = sv_generateSecureToken S (rnd (E 5)) 32" "tk_sessionId tk = s_id s"
    "tk_user tk = mk_user_dto usr"
    "pg_varchar P 64 (sv_sha256Hex S (tk_refreshToken tk)) = Some h'"
    "pg_varchar P 255 (sv_generateUuid S (rnd (E 6))) = Some j'"
    "\<exists>r\<in>set (db_sessions d). id_or_jti (s_id s) r \<and> sr_revoked_at r = None"
    "db_sessions d' = update_where (\<lambda>r. id_or_jti (s_id s) r \<and> sr_revoked_at r = None)
       (rotate_row h' j' (now + hours 168) (dbNow (E 7))) (db_sessions d)"
proof -
  let ?h = "sv_sha256Hex S (sv_generateSecureToken S (rnd (E 5)) 32)"
  let ?j = "sv_generateUuid S (rnd (E 6))"
  show thesis
  proof (cases rule: sessions_update_shape[of P "E 7" d "s_id s" ?h ?j "now + hours (24 * 7)"])
    case same
    with assms show thesis by (simp add: refresh_rotate_def)
  next
    case (rotated h' j')
    from assms rotated(5) obtain tk where
      tk: "r_data resp = Some tk" "r_statusCode resp = 200"
        "tk_refreshToken tk = sv_generateSecureToken S (rnd (E 5)) 32"
        "tk_sessionId tk = s_id s" "tk_user tk = mk_user_dto usr"
        "\<exists>r\<in>set (db_sessions d). id_or_jti (s_id s) r \<and> sr_revoked_at r = None"
      and d': "db_sessions d' = update_where (\<lambda>r. id_or_jti (s_id s) r \<and> sr_revoked_at r = None)
       (rotate_row h' j' (now + hours 168) (dbNow (E 7))) (db_sessions d)"
      by (auto simp: refresh_rotate_def Let_def split: if_splits)
    with rotated(2,3) show thesis by (intro that[of tk h' j']) simp_all
  qed
qed

text \<open>
  C8. A refresh that succeeds rotates the one session the token belongs to: the token was the
  current one of an unrevoked, unexpired session of an active user; that session now stores
  the hash of the token handed out, remembers the old hash, carries the new token id and
  expires seven days later; and every other session is untouched.
\<close>

theorem refresh_rotates:
  assumes "db_wf P d" and "ids_apart d"
    and "refresh P S E d tok ip ua = (Ok resp, d')"
  shows "\<exists>r r' tk. r \<in> set (db_sessions d) \<and> sr_refresh_token_hash r = sv_sha256Hex S tok \<and>
    sr_revoked_at r = None \<and> sysNow (E 3) < from_epoch (epoch_bigint (sr_expires_at r)) \<and>
    (\<exists>u\<in>set (db_users d). ur_id u = sr_user_id r \<and> ur_is_active u) \<and>
    r_data resp = Some tk \<and> tk_sessionId tk = sr_id r \<and>
    r' \<in> set (db_sessions d') \<and> sr_id r' = sr_id r \<and>
    pg_varchar P 64 (sv_sha256Hex S (tk_refreshToken tk)) = Some (sr_refresh_token_hash r') \<and>
    sr_previous_refresh_token_hash r' = Some (sv_sha256Hex S tok) \<and>
    pg_varchar P 255 (sv_generateUuid S (rnd (E 6))) = Some (sr_jti r') \<and>
    sr_expires_at r' = from_epoch (to_epoch (sysNow (E 3) + hours 168)) \<and>
    (\<forall>x\<in>set (db_sessions d). x \<noteq> r \<longrightarrow> x \<in> set (db_sessions d'))"
proof -
  obtain s usr where s: "sessions_findByRefreshTokenHash (E 0) d (sv_sha256Hex S tok) = Some s"
      "\<not> s_isRevoked s" "sysNow (E 3) < s_expiresAt s"
      "users_findById P (E 4) d (s_userId s) = Some usr" "u_isActive usr"
      "refresh_rotate P S E d s usr (sysNow (E 3)) ip ua = (Ok resp, d')"
    by (rule refresh_ok[OF assms(3)])
  obtain r where r: "r \<in> set (db_sessions d)" "sr_refresh_token_hash r = sv_sha256Hex S tok"
      "s = session_of_row r"
    using s(2) by (cases rule: findByHash_cases[OF s(1)]) auto
  obtain tk h' j' where t: "r_data resp = Some tk" "tk_sessionId tk = s_id s"
      "pg_varchar P 64 (sv_sha256Hex S (tk_refreshToken tk)) = Some h'"
      "pg_varchar P 255 (sv_generateUuid S (rnd (E 6))) = Some j'"
      "db_sessions d' = update_where (\<lambda>r. id_or_jti (s_id s) r \<and> sr_revoked_at r = None)
         (rotate_row h' j' (sysNow (E 3) + hours 168) (dbNow (E 7))) (db_sessions d)"
    by (rule refresh_rotate_ok[OF s(6)]) (rule that)
  obtain u where u: "u \<in> set (db_users d)" "pg_uuid P (s_userId s) = Some (ur_id u)"
      "ur_is_active u"
    using s(4,5) by (auto elim: findById_user_row)
  have uid: "ur_id u = sr_user_id r"
  proof -
    obtain u' where "u' \<in> set (db_users d)" "ur_id u' = sr_user_id r"
      using assms(1) r(1) by (auto simp: db_wf_def sessions_wf_def)
    then have "pg_uuid P (sr_user_id r) = Some (sr_user_id r)"
      using assms(1) by (auto simp: db_wf_def users_wf_def)
    with u(2) r(3) show ?thesis by simp
  qed
  have only: "id_or_jti (sr_id r) x \<longleftrightarrow> x = r" if "x \<in> set (db_sessions d)" for x
    using that r(1) assms(1,2)
    by (auto simp: id_or_jti_def ids_apart_def db_wf_def sessions_wf_def distinct_map inj_on_def)
  let ?f = "rotate_row h' j' (sysNow (E 3) + hours 168) (dbNow (E 7))"
  have "?f r \<in> set (db_sessions d')"
    using r s(2) only[OF r(1)] by (auto simp: t(5) set_update_where)
  moreover have "x \<in> set (db_sessions d')" if "x \<in> set (db_sessions d)" "x \<noteq> r" for x
    using that only[OF that(1)] r(3) by (auto simp: t(5) set_update_where)
  ultimately show ?thesis
    using r s(2,3) t(1-4) u uid by (intro exI[of _ r] exI[of _ "?f r"] exI[of _ tk]) auto
qed

lemma demo_refresh:
  obtains resp d' where
    "refresh demo_pg demo_services (demo_env 0) demo_db ''1'' ''ip'' ''ua'' = (Ok resp, d')"
proof -
  let ?x = "refresh demo_pg demo_services (demo_env 0) demo_db ''1'' ''ip'' ''ua''"
  have "isOk (fst ?x)" by code_simp
  with that show thesis by (cases ?x) auto
qed

lemma refresh_rotates_witness:
  "\<exists>resp d' r'. refresh demo_pg demo_services (demo_env 0) demo_db ''1'' ''ip'' ''ua'' = (Ok resp, d') \<and>
     r' \<in> set (db_sessions d') \<and> sr_previous_refresh_token_hash r' = Some ''h1''"
proof -
  obtain resp d' where
    eq: "refresh demo_pg demo_services (demo_env 0) demo_db ''1'' ''ip'' ''ua'' = (Ok resp, d')"
    by (rule demo_refresh)
  have "sv_sha256Hex demo_services ''1'' = ''h1''" by (simp add: demo_services_def)
  with refresh_rotates[OF demo_db_wf demo_ids_apart eq] eq show ?thesis by auto
qed

text \<open>The sessions that know a refresh token by its current or its previous hash.\<close>

definition carries :: "string \<Rightarrow> session_row \<Rightarrow> bool" where
  "carries h r \<longleftrightarrow> sr_refresh_token_hash r = h \<or> sr_previous_refresh_token_hash r = Some h"


text \<open>A session that has been rotated once: its previous hash is the one of the token ''0''.\<close>

definition demo_rotated_db :: db where
  "demo_rotated_db = demo_db
     \<lparr>db_sessions := [(demo_session ''s1'' ''j1'' ''h1'' None)
                        \<lparr>sr_previous_refresh_token_hash := Some ''h0''\<rparr>]\<rparr>"


text \<open>
  C32. Two concurrent refreshes with the same token can both succeed. The lookup and the
  rotation are separate transactions and the rotation does not test the hash that the lookup
  saw; so when both requests have looked the session up before either rotates it, the second
  rotation also succeeds, and no collision is reported: one refresh token has been exchanged
  for two.
\<close>

theorem refresh_race:
  assumes "db_wf P d" and "ids_apart d"
    and "sessions_findByRefreshTokenHash (E 0) d (sv_sha256Hex S tok) = Some s"
    and "sessions_findByRefreshTokenHash (F 0) d (sv_sha256Hex S tok) = Some s"
    and "\<not> s_isRevoked s"
    and "refresh_rotate P S E d s usr (sysNow (E 3)) ip ua = (Ok respA, d1)"
    and "dbOk (F 7)" and "pg_varchar P 64 (sv_sha256Hex S (sv_generateSecureToken S (rnd (F 5)) 32)) = Some hB"
    and "pg_varchar P 255 (sv_generateUuid S (rnd (F 6))) = Some jB"
    and "\<forall>x\<in>set (db_sessions d1). sr_jti x \<noteq> jB" and "ids_apart d1"
  shows "\<exists>respB d2. refresh_rotate P S F d1 s usr (sysNow (F 3)) ip' ua' = (Ok respB, d2)"
proof -
  obtain r where r: "r \<in> set (db_sessions d)" "s = session_of_row r"
    using assms(5) by (cases rule: findByHash_cases[OF assms(3)]) auto
  then have un: "sr_revoked_at r = None" using assms(5) by simp
  obtain tk h' j' where t:
      "db_sessions d1 = update_where (\<lambda>r. id_or_jti (s_id s) r \<and> sr_revoked_at r = None)
         (rotate_row h' j' (sysNow (E 3) + hours 168) (dbNow (E 7))) (db_sessions d)"
    by (rule refresh_rotate_ok[OF assms(6)]) (rule that)
  let ?r = "rotate_row h' j' (sysNow (E 3) + hours 168) (dbNow (E 7)) r"
  let ?p = "\<lambda>x. id_or_jti (s_id s) x \<and> sr_revoked_at x = None"
  have r1: "?r \<in> set (db_sessions d1)" "?p ?r"
    using r un by (auto simp: t set_update_where id_or_jti_def)
  have "db_wf P d1"
    using dbs.run[OF refresh_rotate_txns[of P d S E s usr "sysNow (E 3)" ip ua] assms(1)] assms(6)
    by simp
  then have wf1: "distinct (map sr_jti (db_sessions d1))" "distinct (map sr_id (db_sessions d1))"
    by (simp_all add: db_wf_def sessions_wf_def)
  have inj: "inj_on sr_id (set (db_sessions d1))" using wf1(2) by (simp add: distinct_map)
  have only: "x = ?r" if x: "x \<in> set (db_sessions d1)" "?p x" for x
  proof -
    have "sr_jti x \<noteq> sr_id ?r" using assms(11) x(1) r1(1) unfolding ids_apart_def by blast
    then have "sr_id x = sr_id ?r" using x(2) r(2) by (auto simp: id_or_jti_def)
    with inj x(1) r1(1) show ?thesis by (simp add: inj_on_def)
  qed
  have "distinct (map sr_jti (update_where ?p (rotate_row hB jB ex now) (db_sessions d1)))" for ex now
    using wf1(1) only assms(10) wf1(2) by (rule distinct_after_rotate)
  then have "fst (sessions_updateRefreshToken P (F 7) d1 (s_id s)
      (sv_sha256Hex S (sv_generateSecureToken S (rnd (F 5)) 32)) (sv_generateUuid S (rnd (F 6)))
      (sysNow (F 3) + hours (24 * 7)))"
    using assms(7,8,9) r1 by (auto simp: sessions_updateRefreshToken_def Let_def affected_pos)
  then show ?thesis
    by (cases "sessions_updateRefreshToken P (F 7) d1 (s_id s)
      (sv_sha256Hex S (sv_generateSecureToken S (rnd (F 5)) 32)) (sv_generateUuid S (rnd (F 6)))
      (sysNow (F 3) + hours (24 * 7))") (simp add: refresh_rotate_def Let_def)
qed

abbreviation demo_env7 :: "time \<Rightarrow> sites" where
  "demo_env7 t \<equiv> (\<lambda>n. (demo_site t ''v1'' 50)\<lparr>rnd := (\<lambda>_. 7)\<rparr>)"

lemma refresh_race_witness:
  "\<exists>respA d1 respB d2. let s = session_of_row (demo_session ''s1'' ''j1'' ''h1'' None);
        usr = mapUserRow 0 demo_user in
     refresh_rotate demo_pg demo_services (demo_env 0) demo_db s usr 3 '''' '''' = (Ok respA, d1) \<and>
     refresh_rotate demo_pg demo_services (demo_env7 0) d1 s usr 0 '''' '''' = (Ok respB, d2)"
proof -
  let ?s = "session_of_row (demo_session ''s1'' ''j1'' ''h1'' None)" and ?u = "mapUserRow 0 demo_user"
  let ?a = "refresh_rotate demo_pg demo_services (demo_env 0) demo_db ?s ?u (sysNow (demo_env 0 3)) '''' ''''"
  have "isOk (fst ?a)" by code_simp
  then obtain respA d1 where a: "?a = (Ok respA, d1)" by (cases ?a) auto
  then have d1: "d1 = snd ?a" by simp
  have f: "sessions_findByRefreshTokenHash (demo_env 0 0) demo_db (sv_sha256Hex demo_services ''1'') = Some ?s"
      "sessions_findByRefreshTokenHash (demo_env7 0 0) demo_db (sv_sha256Hex demo_services ''1'') = Some ?s"
    by code_simp+
  have u: "\<not> s_isRevoked ?s" by code_simp
  have F: "dbOk (demo_env7 0 7)" by (simp add: demo_site_def)
  have h: "pg_varchar demo_pg 64 (sv_sha256Hex demo_services
      (sv_generateSecureToken demo_services (rnd (demo_env7 0 5)) 32)) = Some ''ht7''"
    by code_simp
  have j: "pg_varchar demo_pg 255 (sv_generateUuid demo_services (rnd (demo_env7 0 6))) = Some ''j7''"
    by code_simp
  have "\<forall>x\<in>set (db_sessions (snd ?a)). sr_jti x \<noteq> ''j7''" "ids_apart (snd ?a)"
    by code_simp+
  then have fresh: "\<forall>x\<in>set (db_sessions d1). sr_jti x \<noteq> ''j7''" "ids_apart d1"
    by (simp_all only: d1)
  from refresh_race[OF demo_db_wf demo_ids_apart f u a F h j fresh, where ip' = "''''" and ua' = "''''"]
  obtain respB d2 where "refresh_rotate demo_pg demo_services (demo_env7 0) d1 ?s ?u
      (sysNow (demo_env7 0 3)) '''' '''' = (Ok respB, d2)" by auto
  with a show ?thesis by (auto simp: Let_def demo_site_def)
qed

section \<open>Google sign-in\<close>


text \<open>A Google service that answers every exchange that carries the verifier ''v''.\<close>

definition demo_google :: google_service where
  "demo_google =
     \<lparr>gs_getAuthorizationUrl = (\<lambda>s c. s @ c), gs_verifyIdToken = (\<lambda>_. Throw),
      gs_exchangeAuthCode = (\<lambda>code v. Return (if v = ''v''
        then Ok \<lparr>gi_googleId = ''g'', gi_email = ''a@b.io'', gi_name = '''', gi_picture = '''',
                 gi_emailVerified = True\<rparr>
        else Err (mk_error ''bad verifier'' 400 []))),
      gs_generateCodeVerifier = (\<lambda>_. ''v''), gs_generateCodeChallenge = (\<lambda>v. v)\<rparr>"


text \<open>
  The answer of the removal is not looked at: when it fails, the state stays in the table, and
  the same request is exchanged again with the same verifier.
\<close>

lemma google_state_reused_after_fault:
  assumes "\<not> dbOk (E 2)" and "gq_idToken rq = []" and "gq_code rq \<noteq> []" and "gq_codeVerifier rq = []"
    and "gq_state rq \<noteq> []" and "google_identity G True E d rq = (Return (Ok info), d1)"
  shows "d1 = d \<and> google_identity G True E d1 rq = (Return (Ok info), d1)"
proof -
  have "snd (cache_remove (E 2) d key) = d" for key
    using assms(1) by (simp add: cache_remove_def)
  then have "d1 = d"
    using assms(2-6) by (auto simp: google_identity_steps Let_def case_prod_beta
        split: option.splits if_splits outcome.splits)
  with assms(6) show ?thesis by simp
qed

text \<open>
  And when two requests have both looked the state up before either removes it, both exchange
  their code with the verifier: the second finds nothing left to remove and is not told.
\<close>

lemma google_state_race:
  assumes "state_verifier E d st = Some v" and "state_verifier F d st = Some v"
    and "gq_state rqA = st" and "gq_state rqB = st"
    and "spend_state G E d rqA v = (resA, d1)" and "spend_state G F d1 rqB v = (resB, d2)"
  shows "resA = gs_exchangeAuthCode G (gq_code rqA) v \<and> resB = gs_exchangeAuthCode G (gq_code rqB) v \<and>
    (dbOk (E 2) \<and> cache_wf (db_cache d) \<longrightarrow> d2 = d1 \<and> state_verifier F d1 st = None)"
proof -
  have d1: "d1 = snd (cache_remove (E 2) d (pkce_key st))"
    and d2: "d2 = snd (cache_remove (F 2) d1 (pkce_key st))"
    using assms(3-6) by (auto simp: spend_state_def case_prod_beta)
  have "d2 = d1 \<and> state_verifier F d1 st = None" if ok: "dbOk (E 2)" and wf: "cache_wf (db_cache d)"
  proof
    have "\<forall>r\<in>set (db_cache d1). ck_key r \<noteq> pkce_key st"
      using ok by (auto simp: d1 cache_remove_def delete_where_def)
    then show "d2 = d1"
      by (cases d1) (auto simp: d2 cache_remove_def delete_where_def filter_id_conv)
    show "state_verifier F d1 st = None"
      using pgc.take_once[OF wf ok, of "F 0"] by (simp add: d1 state_verifier_def)
  qed
  then show ?thesis using assms(5,6) by (auto simp: spend_state_def case_prod_beta)
qed

text \<open>
  The state check can be skipped by the client: a sign-in by code that sends no state, or
  sends a verifier of its own, is exchanged without looking at the cache.
\<close>

theorem google_state_optional:
  assumes "gq_idToken rq = []" and "gq_code rq \<noteq> []"
    and "gq_state rq = [] \<or> gq_codeVerifier rq \<noteq> []"
    and "gs_exchangeAuthCode G (gq_code rq) (gq_codeVerifier rq) = Return (Ok info)"
  shows "google_identity G hasCache E d rq = (Return (Ok info), d)"
  using assms by (auto simp: google_identity_steps Let_def)

lemma google_state_optional_witness:
  "\<exists>info. google_identity demo_google True (demo_env 0) demo_db
     \<lparr>gq_idToken = '''', gq_code = ''c'', gq_codeVerifier = ''v'', gq_state = ''forged'',
      gq_deviceName = '''', gq_clientType = ''''\<rparr> = (Return (Ok info), demo_db)"
  using google_state_optional[of "\<lparr>gq_idToken = '''', gq_code = ''c'', gq_codeVerifier = ''v'',
      gq_state = ''forged'', gq_deviceName = '''', gq_clientType = ''''\<rparr>" demo_google]
  by (auto simp: demo_google_def)

section \<open>Setting a password\<close>

lemma setPassword_ok:
  assumes "setPassword P S E d uid pw = (Ok resp, d')"
  obtains u h where "8 \<le> length pw" "pg_uuid P uid = Some u"
    "pg_varchar P 255 (sv_hashPassword S (rnd (E 1)) pw) = Some h"
    "\<exists>row\<in>set (db_users d). ur_id row = u"
    "db_users d' = update_where (\<lambda>r. ur_id r = u)
       (password_row h (dbNow (E 2))) (db_users d)"
proof -
  obtain d1 where "users_setPassword P (E 2) d uid (sv_hashPassword S (rnd (E 1)) pw) = (True, d1)"
      "db_users d' = db_users d1" "8 \<le> length pw"
    using assms by (auto simp: setPassword_def Let_def case_prod_beta prod_eq_iff
        split: if_splits option.splits)
  then show thesis
    using that by (fastforce simp: users_setPassword_def users_update_by_id_def affected_pos
        split: if_splits option.splits)
qed

context password_hasher
begin

lemma login_check_after_setPassword:
  assumes "db_wf P d" and S: "sv_hashPassword S = hash" "sv_verifyPassword S = verify"
    and col: "\<And>salt. pg_varchar P 255 (hash salt pw) = Some (hash salt pw)"
    and set: "setPassword P S E d uid pw = (Ok resp, d')"
  shows "\<exists>row\<in>set (db_users d'). pg_uuid P uid = Some (ur_id row) \<and>
    (ur_is_active row \<and> \<not> auth_isAllWhitespace (ur_email row) \<longrightarrow>
      (\<forall>F ip ua. dbOk (F 0) \<longrightarrow>
         login_check P S F d' \<lparr>lq_email = ur_email row, lq_password = pw\<rparr> ip ua =
           Return (Ok (mapUserRow (sysNow (F 0)) row, sysNow (F 2)), d')))"
proof -
  obtain u h where sp: "8 \<le> length pw" "pg_uuid P uid = Some u"
      "pg_varchar P 255 (sv_hashPassword S (rnd (E 1)) pw) = Some h"
      "\<exists>row\<in>set (db_users d). ur_id row = u"
      "db_users d' = update_where (\<lambda>r. ur_id r = u)
       (password_row h (dbNow (E 2))) (db_users d)"
    by (rule setPassword_ok[OF set])
  from sp(4) obtain row0 where row0: "row0 \<in> set (db_users d)" "ur_id row0 = u" by blast
  let ?row = "password_row h (dbNow (E 2)) row0"
  have "?row \<in> set (db_users d')"
    unfolding sp(5) set_update_where using row0 by (intro image_eqI[of _ _ row0]) simp_all
  then obtain row where row: "row \<in> set (db_users d')" "ur_id row = u" "ur_password_hash row = Some h"
    using row0(2) by (metis password_row_sel(1,7))
  have h: "h = hash (rnd (E 1)) pw" using sp(3) S col by simp
  have wf': "db_wf P d'"
    using dbs.run[OF setPassword_txns assms(1), of S E uid pw] set by simp
  have "login_check P S F d' \<lparr>lq_email = ur_email row, lq_password = pw\<rparr> ip ua =
      Return (Ok (mapUserRow (sysNow (F 0)) row, sysNow (F 2)), d')"
    if act: "ur_is_active row" "\<not> auth_isAllWhitespace (ur_email row)" and "dbOk (F 0)" for F ip ua
  proof -
    have "find (\<lambda>r. ur_email r = ur_email row) (db_users d') = Some row"
      using wf' row(1) by (intro find_key) (simp_all add: db_wf_def users_wf_def)
    then have f: "users_findByEmail P (F 0) d' (ur_email row) = Some (mapUserRow (sysNow (F 0)) row)"
      using that by (simp add: users_findByEmail_def)
    have "isOk (validateLogin \<lparr>lq_email = ur_email row, lq_password = pw\<rparr>)"
      using act(2) sp(1) by (auto simp: validateLogin_ok_iff)
    then obtain v where "validateLogin \<lparr>lq_email = ur_email row, lq_password = pw\<rparr> = Ok v" by auto
    then show ?thesis
      using f act row(3) h S verify_hash hash_nonempty by (simp add: login_check_def Let_def)
  qed
  with row sp(2) show ?thesis by blast
qed

end

end
