(* ===== verification/Todo_UseCases.thy ===== *)
theory Todo_UseCases
  imports Todo_Repository Validation
begin

text \<open>
  \<^verbatim>\<open>Application/src/UseCases/TodoUseCases.cpp\<close>: the five use cases over any
  \<^verbatim>\<open>ITodoRepository\<close>. \<open>E n\<close> is the environment of the \<open>n\<close>-th place of the body that reads
  a clock or calls the repository. What the clients may conclude is proved once against
  \<open>todo_contract\<close>.
\<close>

section \<open>The use cases\<close>

definition createTodo ::
    "'s todo_repository \<Rightarrow> sites \<Rightarrow> 's \<Rightarrow> create_todo_request \<Rightarrow> todo_response api_result \<times> 's"
where
  "createTodo repo E s rq =
     (case validateCreate rq of
        Err e \<Rightarrow> (Err e, s)
      | Ok _ \<Rightarrow>
          (let domainTodo =
                 \<lparr>t_id = 0, t_title = ct_title rq, t_description = ct_description rq,
                  t_completed = False, t_createdAt = sysNow (E 0), t_updatedAt = sysNow (E 0)\<rparr>;
               (saved, s') = repo_save repo (E 1) s domainTodo
           in (Ok (api_ok (sysNow (E 2)) (todoResponse_fromDomain saved)
                     ''Todo created successfully'' 201), s')))"

definition getTodoById ::
    "'s todo_repository \<Rightarrow> sites \<Rightarrow> 's \<Rightarrow> 64 word \<Rightarrow> todo_response api_result" where
  "getTodoById repo E s i =
     (let n = string_of_nat (unat i)
      in case repo_findById repo (E 0) s i of
           None \<Rightarrow> Err (mk_error (''Todo with id '' @ n @ '' was not found'') 404
                          [''No Todo entity matches the requested id: '' @ n])
         | Some t \<Rightarrow> Ok (api_ok (sysNow (E 1)) (todoResponse_fromDomain t)
                          ''Todo retrieved successfully'' 200))"

definition bool_text :: "bool \<Rightarrow> string" where
  "bool_text b = (if b then ''true'' else ''false'')"

definition listTodos ::
    "'s todo_repository \<Rightarrow> sites \<Rightarrow> 's \<Rightarrow> bool option \<Rightarrow> todo_response list api_response" where
  "listTodos repo E s completedFilter =
     (let domainTodos = repo_findAll repo (E 0) s;
          filtered = filter (\<lambda>t. completedFilter = None \<or> Some (t_completed t) = completedFilter)
                       domainTodos;
          dtoList = map todoResponse_fromDomain filtered;
          n = string_of_nat (length dtoList);
          msg = (case completedFilter of
                   Some b \<Rightarrow> ''Retrieved '' @ n @ '' todos with completed = '' @ bool_text b
                 | None \<Rightarrow> ''Retrieved all '' @ n @ '' todos'')
      in api_ok (sysNow (E 1)) dtoList msg 200)"

definition updateTodo ::
    "'s todo_repository \<Rightarrow> sites \<Rightarrow> 's \<Rightarrow> 64 word \<Rightarrow> update_todo_request
     \<Rightarrow> todo_response api_result \<times> 's" where
  "updateTodo repo E s i rq =
     (case validateUpdate rq of
        Err e \<Rightarrow> (Err e, s)
      | Ok _ \<Rightarrow>
          (let n = string_of_nat (unat i);
               (updated, s') =
                 repo_update repo (E 0) s i (ut_title rq) (ut_description rq) (ut_completed rq)
           in case updated of
                None \<Rightarrow>
                  (Err (mk_error (''Todo with id '' @ n @ '' was not found for update'') 404
                          [''Cannot update non-existent Todo with id: '' @ n]), s')
              | Some t \<Rightarrow>
                  (Ok (api_ok (sysNow (E 1)) (todoResponse_fromDomain t)
                         ''Todo updated successfully'' 200), s')))"

definition deleteTodo ::
    "'s todo_repository \<Rightarrow> sites \<Rightarrow> 's \<Rightarrow> 64 word \<Rightarrow> unit api_result \<times> 's" where
  "deleteTodo repo E s i =
     (let n = string_of_nat (unat i);
          (removed, s') = repo_remove repo (E 0) s i
      in if \<not> removed then
           (Err (mk_error (''Todo with id '' @ n @ '' was not found for deletion'') 404
                   [''Cannot delete non-existent Todo with id: '' @ n]), s')
         else
           (Ok (api_void_ok (sysNow (E 1)) (''Todo with id '' @ n @ '' deleted successfully'') 200),
            s'))"

section \<open>What the use cases do, by the contract\<close>

definition response_content :: "todo_response \<Rightarrow> todo_content" where
  "response_content r = (tr_title r, tr_description r, tr_completed r)"

lemma todoResponse_sel [simp]:
  "tr_id (todoResponse_fromDomain t) = t_id t"
  "response_content (todoResponse_fromDomain t) = content t"
  "tr_completed (todoResponse_fromDomain t) = t_completed t"
  by (simp_all add: todoResponse_fromDomain_def response_content_def content_def)

definition update_content :: "update_todo_request \<Rightarrow> todo_content \<Rightarrow> todo_content" where
  "update_content rq = merge_content (ut_title rq) (ut_description rq) (ut_completed rq)"

context todo_contract
begin

lemma create_then_get:
  assumes "inv s" "\<And>n. works (E n)" "\<And>n. works (F n)" "fresh (E 1) s"
    and valid: "isOk (validateCreate rq)" and st: "storable (ct_title rq) (ct_description rq)"
  shows "\<exists>r s' r'. createTodo repo E s rq = (Ok r, s') \<and> r_statusCode r = 201 \<and>
    inv s' \<and> abs s (tr_id (the (r_data r))) = None \<and>
    abs s' = (abs s)(tr_id (the (r_data r)) \<mapsto> (ct_title rq, ct_description rq, False)) \<and>
    getTodoById repo F s' (tr_id (the (r_data r))) = Ok r' \<and>
    response_content (the (r_data r')) = (ct_title rq, ct_description rq, False)"
proof -
  let ?t = "\<lparr>t_id = 0, t_title = ct_title rq, t_description = ct_description rq,
      t_completed = False, t_createdAt = sysNow (E 0), t_updatedAt = sysNow (E 0)\<rparr>"
  obtain t' s' where sv: "(t', s') = repo_save repo (E 1) s ?t"
    by (metis surj_pair)
  have st': "storable (t_title ?t) (t_description ?t)" using st by simp
  note a = save_abs[OF assms(1,2,4) st' sv]
  note f = find_after_save[OF assms(1,2,3,4) st' sv]
  have c: "content ?t = (ct_title rq, ct_description rq, False)" by (simp add: content_def)
  let ?r = "api_ok (sysNow (E 2)) (todoResponse_fromDomain t') ''Todo created successfully'' 201"
  have cr: "createTodo repo E s rq = (Ok ?r, s')"
    using valid by (auto simp: createTodo_def sv[symmetric] simp del: One_nat_def)
  obtain t'' where t'': "repo_findById repo (F 0) s' (t_id t') = Some t''" "content t'' = content ?t"
    using f by blast
  have "\<exists>r'. getTodoById repo F s' (t_id t') = Ok r' \<and>
      response_content (the (r_data r')) = content ?t"
    using t'' by (simp add: getTodoById_def Let_def)
  with a c cr show ?thesis by simp
qed

lemma update_spec:
  assumes "inv s" "\<And>n. works (E n)" and valid: "isOk (validateUpdate rq)"
    and old: "abs s i = Some old" and new: "update_content rq old = (ti, de, co)"
    and st: "storable ti de"
  shows "\<exists>r s'. updateTodo repo E s i rq = (Ok r, s') \<and> inv s' \<and>
    tr_id (the (r_data r)) = i \<and> response_content (the (r_data r)) = (ti, de, co) \<and>
    abs s' = (abs s)(i \<mapsto> (ti, de, co))"
proof -
  obtain t' s' where up: "(t', s') =
      repo_update repo (E 0) s i (ut_title rq) (ut_description rq) (ut_completed rq)"
    by (metis surj_pair)
  note a = update_abs[OF assms(1,2) old new[unfolded update_content_def] st up]
  with valid show ?thesis
    by (auto simp: updateTodo_def Let_def simp flip: up split: result.splits)
qed

lemma update_404:
  assumes "inv s" "works (E 0)" "isOk (validateUpdate rq)" "abs s i = None"
  shows "\<exists>e. updateTodo repo E s i rq = (Err e, s) \<and> err_statusCode e = 404"
  using assms update_missing[OF assms(1,2,4)] by (auto simp: updateTodo_def Let_def)

lemma delete_spec:
  assumes "inv s" "works (E 0)" "works (F 0)" "deleteTodo repo E s i = (res, s')"
  shows "inv s' \<and> abs s' = (abs s)(i := None) \<and> (isOk res \<longleftrightarrow> abs s i \<noteq> None) \<and>
    (\<exists>e. getTodoById repo F s' i = Err e \<and> err_statusCode e = 404)"
proof -
  obtain b s1 where rm: "(b, s1) = repo_remove repo (E 0) s i" by (metis surj_pair)
  have s1: "s1 = s'" "isOk res = b"
    using assms(4) rm[symmetric] by (auto simp: deleteTodo_def Let_def split: if_splits)
  show ?thesis
    using remove_abs[OF assms(1,2) rm] find_after_remove[OF assms(1,2,3) rm]
    by (simp add: s1 getTodoById_def Let_def)
qed

lemma list_spec:
  assumes "inv s" "works (E 0)" and resp: "r_data (listTodos repo E s flt) = Some rs"
  shows "distinct (map tr_id rs) \<and>
    (\<forall>i ti de co. (\<exists>r\<in>set rs. tr_id r = i \<and> response_content r = (ti, de, co)) \<longleftrightarrow>
       abs s i = Some (ti, de, co) \<and> (flt = None \<or> flt = Some co))"
proof -
  define ts where "ts = repo_findAll repo (E 0) s"
  let ?p = "\<lambda>t. flt = None \<or> Some (t_completed t) = flt"
  have rs: "rs = map todoResponse_fromDomain (filter ?p ts)"
    using resp by (simp add: listTodos_def Let_def ts_def)
  note fa = findAll_abs[OF assms(1,2) ts_def]
  have mem: "abs s i = Some v \<longleftrightarrow> (\<exists>t\<in>set ts. t_id t = i \<and> content t = v)" for i v
  proof -
    have "distinct (map fst (map (\<lambda>t. (t_id t, content t)) ts))"
      using fa by (simp add: comp_def)
    then have "abs s i = Some v \<longleftrightarrow> (i, v) \<in> set (map (\<lambda>t. (t_id t, content t)) ts)"
      using fa by (simp only: map_of_eq_Some_iff)
    then show ?thesis by auto
  qed
  have "distinct (map tr_id rs)"
    using fa by (simp add: rs comp_def distinct_map_filter)
  moreover have "(\<exists>r\<in>set rs. tr_id r = i \<and> response_content r = (ti, de, co)) \<longleftrightarrow>
      (\<exists>t\<in>set ts. t_id t = i \<and> content t = (ti, de, co)) \<and> (flt = None \<or> flt = Some co)"
    for i ti de co
    by (auto simp: rs content_def)
  ultimately show ?thesis by (simp add: mem)
qed

end

end
