(* ===== verification/Data_Services.thy ===== *)
theory Data_Services
  imports Examples Todo_UseCases
begin

text \<open>
  Properties of the four data services (todos, cache, message queue, documents): what a
  client of the use cases observes, across any transactions that other clients run in
  between where that matters.
\<close>

section \<open>Message queue\<close>

lemma poll_ok:
  assumes "queueUC_poll E d topic = (Ok resp, d')"
  obtains r rs where "dbOk (E 0)" "queue_candidates (E 0) topic (db_queue d) = r # rs"
    "r_data resp = Some (queueMessageResponse_fromDomain
       (queue_message_of_row (sysNow (E 0)) (start_processing (dbNow (E 0)) r)))"
    "r_statusCode resp = 200"
    "d' = d\<lparr>db_queue := update_where (\<lambda>r'. mq_id r' = mq_id r)
            (start_processing (dbNow (E 0))) (db_queue d)\<rparr>"
proof (cases rule: queue_poll_shape[of "E 0" d topic])
  case none
  with assms show thesis by (auto simp: queueUC_poll_def split: if_splits)
next
  case (polled r rs)
  with assms show thesis
    by (intro that[of r rs]) (auto simp: queueUC_poll_def split: if_splits)
qed

lemma poll_response_sel [simp]:
  "qr_id (queueMessageResponse_fromDomain (queue_message_of_row now r)) = word_of_int (mq_id r)"
  "qr_topic (queueMessageResponse_fromDomain (queue_message_of_row now r)) = mq_topic r"
  "qr_payload (queueMessageResponse_fromDomain (queue_message_of_row now r)) = mq_payload r"
  "qr_status (queueMessageResponse_fromDomain (queue_message_of_row now r)) = mq_status r"
  by (simp_all add: queueMessageResponse_fromDomain_def queue_message_of_row_def)

lemma queueUC_poll_txns: "txns P d (snd (queueUC_poll E d topic))"
  by (auto simp: queueUC_poll_def case_prod_beta intro!: txn_chain split: option.splits)

text \<open>A message that is not pending is never handed out again.\<close>

lemma not_pending_never_polled:
  assumes "db_wf P d" "r \<in> set (db_queue d)" "mq_status r \<noteq> ''PENDING''" "txns P d d'"
    and "queueUC_poll F d' topic = (Ok resp, d'')"
  shows "qr_id (the (r_data resp)) \<noteq> word_of_int (mq_id r)"
proof
  assume eq: "qr_id (the (r_data resp)) = word_of_int (mq_id r)"
  obtain r' where r': "r' \<in> set (db_queue d')" "queue_le r r'"
      "\<And>x. x \<in> set (db_queue d') \<Longrightarrow> mq_id x = mq_id r \<Longrightarrow> x = r'"
    by (rule queue_row_follows[OF assms(4,1,2)]) (rule that)
  obtain q qs where q: "queue_candidates (F 0) topic (db_queue d') = q # qs"
      "r_data resp = Some (queueMessageResponse_fromDomain
         (queue_message_of_row (sysNow (F 0)) (start_processing (dbNow (F 0)) q)))"
    by (rule poll_ok[OF assms(5)]) (rule that)
  note qc = queue_candidates_Cons[OF q(1)]
  have "bigserial (mq_id q)" "bigserial (mq_id r)"
    using qc dbs.run[OF assms(4,1)] assms(1,2) by (auto simp: db_wf_def queue_wf_def)
  then have "mq_id q = mq_id r"
    using eq q(2) bigserial_word by (metis option.sel poll_response_sel(1) start_processing_sel(1))
  with r'(3) qc have "q = r'" by blast
  with qc have "mq_status r' = ''PENDING''" by simp
  moreover have "mq_status r' \<noteq> ''PENDING''"
    using message_step_not_pending r'(2) assms(3) by (auto simp: queue_le_def)
  ultimately show False by simp
qed

text \<open>
  C27. A message is delivered at most once: after a poll has handed a message out, no later
  poll on any topic hands it out again, whatever publishes, polls, acknowledgements and
  failures ran in between.
\<close>

theorem queue_at_most_once:
  assumes "db_wf P d" and "queueUC_poll E d topic = (Ok resp, d1)" and "txns P d1 d2"
    and "queueUC_poll F d2 topic' = (Ok resp', d3)"
  shows "qr_id (the (r_data resp')) \<noteq> qr_id (the (r_data resp))"
proof -
  obtain r rs where r: "queue_candidates (E 0) topic (db_queue d) = r # rs"
      "r_data resp = Some (queueMessageResponse_fromDomain
         (queue_message_of_row (sysNow (E 0)) (start_processing (dbNow (E 0)) r)))"
      "d1 = d\<lparr>db_queue := update_where (\<lambda>r'. mq_id r' = mq_id r)
            (start_processing (dbNow (E 0))) (db_queue d)\<rparr>"
    by (rule poll_ok[OF assms(2)]) (rule that)
  let ?r = "start_processing (dbNow (E 0)) r"
  have mem: "?r \<in> set (db_queue d1)"
    using queue_candidates_Cons[OF r(1)] by (auto simp: r(3) set_update_where)
  have wf1: "db_wf P d1"
    using dbs.run[OF queueUC_poll_txns assms(1), of E topic] assms(2) by simp
  show ?thesis
    using not_pending_never_polled[OF wf1 mem _ assms(3,4)] r(2) by simp
qed

definition demo_message :: "int \<Rightarrow> string \<Rightarrow> string \<Rightarrow> queue_row" where
  "demo_message i topic status =
     \<lparr>mq_id = i, mq_topic = topic, mq_payload = ''{}'', mq_status = status, mq_retry_count = 0,
      mq_created_at = 0, mq_processed_at = None\<rparr>"

definition demo_queue_db :: db where
  "demo_queue_db = empty_db
     \<lparr>db_queue := [demo_message 2 ''t'' ''PENDING'', demo_message 1 ''t'' ''PENDING'']\<rparr>"

lemma demo_queue_wf: "db_wf demo_pg demo_queue_db"
  by (simp add: demo_queue_db_def db_wf_def empty_db_def sessions_wf_def audit_wf_def todos_wf_def
      cache_wf_def queue_wf_def documents_wf_def demo_message_def bigserial_def
      message_statuses_def int4_def)

lemma demo_poll:
  obtains resp d1 resp' d2 where
    "queueUC_poll (\<lambda>_. demo_site 0 '''' 0) demo_queue_db ''t'' = (Ok resp, d1)"
    "queueUC_poll (\<lambda>_. demo_site 0 '''' 0) d1 ''t'' = (Ok resp', d2)"
proof -
  let ?x = "queueUC_poll (\<lambda>_. demo_site 0 '''' 0) demo_queue_db ''t''"
  let ?y = "queueUC_poll (\<lambda>_. demo_site 0 '''' 0) (snd ?x) ''t''"
  have "isOk (fst ?x)" "isOk (fst ?y)"
    by (simp_all add: queueUC_poll_def queue_pollNext_def queue_candidates_def demo_queue_db_def
        demo_message_def demo_site_def start_processing_def)
  then obtain resp d1 resp' d2 where x: "?x = (Ok resp, d1)" and y: "?y = (Ok resp', d2)"
    by (metis isOkE prod.collapse)
  from x have "snd ?x = d1" by simp
  with y have "queueUC_poll (\<lambda>_. demo_site 0 '''' 0) d1 ''t'' = (Ok resp', d2)" by (simp only:)
  with x show thesis by (rule that)
qed

lemma queue_at_most_once_witness:
  "\<exists>resp d1 resp' d2.
     queueUC_poll (\<lambda>_. demo_site 0 '''' 0) demo_queue_db ''t'' = (Ok resp, d1) \<and>
     queueUC_poll (\<lambda>_. demo_site 0 '''' 0) d1 ''t'' = (Ok resp', d2) \<and>
     qr_id (the (r_data resp')) \<noteq> qr_id (the (r_data resp))"
proof -
  obtain resp d1 resp' d2 where
    x: "queueUC_poll (\<lambda>_. demo_site 0 '''' 0) demo_queue_db ''t'' = (Ok resp, d1)" and
    y: "queueUC_poll (\<lambda>_. demo_site 0 '''' 0) d1 ''t'' = (Ok resp', d2)"
    by (rule demo_poll)
  have "txns demo_pg d1 d1" by simp
  from queue_at_most_once[OF demo_queue_wf x this y] x y show ?thesis by blast
qed

text \<open>
  Polling takes the oldest free message: a poll that meets no fault finds nothing exactly
  when the topic has no pending message that is not locked by another transaction, and
  otherwise hands out the one with the smallest id, marks it as processing and changes no
  other message.
\<close>

theorem queue_poll_oldest_first:
  assumes "db_wf P d" and "dbOk (E 0)" and "topic \<noteq> []"
  shows "(case queueUC_poll E d topic of
      (Err e, d') \<Rightarrow> d' = d \<and> err_statusCode e = 404 \<and>
        (\<forall>r\<in>set (db_queue d). mq_topic r = topic \<and> mq_status r = ''PENDING'' \<longrightarrow> dbLocked (E 0) (mq_id r))
    | (Ok resp, d') \<Rightarrow> \<exists>r\<in>set (db_queue d). mq_topic r = topic \<and> mq_status r = ''PENDING'' \<and>
        qr_id (the (r_data resp)) = word_of_int (mq_id r) \<and> qr_payload (the (r_data resp)) = mq_payload r \<and>
        (\<forall>x\<in>set (db_queue d). mq_topic x = topic \<and> mq_status x = ''PENDING'' \<and>
           \<not> dbLocked (E 0) (mq_id x) \<longrightarrow> mq_id r \<le> mq_id x) \<and>
        start_processing (dbNow (E 0)) r \<in> set (db_queue d') \<and>
        (\<forall>x\<in>set (db_queue d). x \<noteq> r \<longrightarrow> x \<in> set (db_queue d')))"
proof (cases "queue_candidates (E 0) topic (db_queue d)")
  case Nil
  then have "queueUC_poll E d topic = (Err (mk_error (''No pending messages in topic '' @ quoted topic)
      404 [''Queue topic '' @ quoted topic @ '' is empty or all messages are locked.'']), d)"
    using assms by (simp add: queueUC_poll_def queue_pollNext_def)
  with Nil show ?thesis by (auto simp: queue_candidates_Nil)
next
  case (Cons r rs)
  note q = queue_candidates_Cons[OF Cons]
  let ?f = "start_processing (dbNow (E 0))"
  let ?d = "d\<lparr>db_queue := update_where (\<lambda>r'. mq_id r' = mq_id r) ?f (db_queue d)\<rparr>"
  obtain resp where p: "queueUC_poll E d topic = (Ok resp, ?d)"
      "r_data resp = Some (queueMessageResponse_fromDomain (queue_message_of_row (sysNow (E 0)) (?f r)))"
    using assms Cons by (auto simp: queueUC_poll_def queue_pollNext_def)
  have other: "x \<in> set (db_queue ?d)" if "x \<in> set (db_queue d)" "x \<noteq> r" for x
  proof -
    have "mq_id x \<noteq> mq_id r"
      using assms(1) q that by (auto simp: db_wf_def queue_wf_def distinct_map inj_on_def)
    then show ?thesis using that by (simp add: update_where_keeps)
  qed
  have "?f r \<in> set (db_queue ?d)" using q by (auto simp: set_update_where)
  with p q other show ?thesis by (auto intro!: bexI[of _ r])
qed

lemma queue_poll_oldest_first_witness:
  "case queueUC_poll (\<lambda>_. demo_site 0 '''' 0) demo_queue_db ''t'' of
     (Err e, d') \<Rightarrow> False
   | (Ok resp, d') \<Rightarrow> \<exists>r\<in>set (db_queue demo_queue_db). mq_status r = ''PENDING'' \<and>
       qr_id (the (r_data resp)) = word_of_int (mq_id r)"
proof -
  obtain resp d1 where x: "queueUC_poll (\<lambda>_. demo_site 0 '''' 0) demo_queue_db ''t'' = (Ok resp, d1)"
    by (rule demo_poll)
  have "dbOk (demo_site 0 '''' 0)" "''t'' \<noteq> []" by (simp_all add: demo_site_def)
  from queue_poll_oldest_first[OF demo_queue_wf, where E = "\<lambda>_. demo_site 0 '''' 0", OF this]
  show ?thesis by (auto simp: x)
qed

text \<open>
  What publishing promises and what it does: a request with a topic and a payload is
  always answered 201. If the answer carries a positive id, exactly one pending message with
  that id, that topic and the canonical payload is appended and one notification on the
  topic is sent; if it carries the id 0, nothing was stored and nobody was notified, although
  the answer is the same 201.
\<close>

theorem queue_publish_spec:
  assumes "topic \<noteq> []" and "payload \<noteq> []"
    and "queueUC_publish P E d topic payload = (res, d')"
  shows "\<exists>resp q. res = Ok resp \<and> r_statusCode resp = 201 \<and> r_data resp = Some q \<and>
    (qr_id q = 0 \<longrightarrow> d' = d) \<and>
    (qr_id q \<noteq> 0 \<longrightarrow> (\<exists>row. db_queue d' = db_queue d @ [row] \<and> word_of_int (mq_id row) = qr_id q \<and>
       mq_status row = ''PENDING'' \<and> mq_retry_count row = 0 \<and>
       pg_varchar P 100 topic = Some (mq_topic row) \<and> pg_jsonb P payload = Some (mq_payload row) \<and>
       db_notifications d' =
         db_notifications d @ [(topic, string_of_nat (nat (mq_id row)))]))"
proof -
  have "word_of_int (dbSeq (E 0)) \<noteq> (0 :: 64 word)" if "bigserial (dbSeq (E 0))"
    using bigserial_word[OF that] that by (auto simp: bigserial_def)
  then show ?thesis
    using assms by (auto simp: queueUC_publish_def case_prod_beta Let_def queue_publish_def
        split: option.splits if_splits)
qed

lemma queue_publish_spec_witness:
  "\<exists>resp q. fst (queueUC_publish demo_pg (\<lambda>_. demo_site 0 '''' 3) demo_queue_db ''t'' ''{}'') = Ok resp \<and>
     r_statusCode resp = 201 \<and> r_data resp = Some q"
  using queue_publish_spec[of "''t''" "''{}''" demo_pg "\<lambda>_. demo_site 0 '''' 3" demo_queue_db]
  by (cases "queueUC_publish demo_pg (\<lambda>_. demo_site 0 '''' 3) demo_queue_db ''t'' ''{}''") auto

lemma queue_fail_ok:
  assumes "queueUC_fail E d i = (Ok resp, d')"
  obtains r where "r \<in> set (db_queue d)" "mq_id r = uint i"
    "d' = d\<lparr>db_queue := update_where (\<lambda>r. mq_id r = uint i)
            (\<lambda>r. r\<lparr>mq_status := ''FAILED'', mq_retry_count := mq_retry_count r + 1\<rparr>) (db_queue d)\<rparr>"
proof -
  have f: "fst (queue_fail (E 0) d i)" "d' = snd (queue_fail (E 0) d i)"
    using assms by (auto simp: queueUC_fail_def Let_def case_prod_beta split: if_splits)
  then have "\<exists>r\<in>set (db_queue d). mq_id r = uint i"
    by (simp add: queue_fail_def Let_def affected_pos split: if_splits)
  moreover have "d' = d\<lparr>db_queue := update_where (\<lambda>r. mq_id r = uint i)
      (\<lambda>r. r\<lparr>mq_status := ''FAILED'', mq_retry_count := mq_retry_count r + 1\<rparr>) (db_queue d)\<rparr>"
    using f by (auto simp: queue_fail_def Let_def split: if_splits)
  ultimately show thesis using that by blast
qed

lemma queueUC_fail_txns: "txns P d (snd (queueUC_fail E d i))"
  by (auto simp: queueUC_fail_def case_prod_beta Let_def intro!: txn_chain)

text \<open>
  A failed message is lost to consumers: after a message has been marked as failed, no
  poll ever hands it out, whatever happens in between; its retry count is only a number.
\<close>

theorem failed_message_never_retried:
  assumes "db_wf P d" and "queueUC_fail E d i = (Ok resp, d1)" and "txns P d1 d2"
    and "queueUC_poll F d2 topic = (Ok resp', d3)"
  shows "qr_id (the (r_data resp')) \<noteq> i"
proof -
  let ?f = "\<lambda>r. r\<lparr>mq_status := ''FAILED'', mq_retry_count := mq_retry_count r + 1\<rparr>"
  obtain r where r: "r \<in> set (db_queue d)" "mq_id r = uint i"
      "d1 = d\<lparr>db_queue := update_where (\<lambda>r. mq_id r = uint i) ?f (db_queue d)\<rparr>"
    by (rule queue_fail_ok[OF assms(2)])
  have mem: "?f r \<in> set (db_queue d1)"
    using r(1,2) by (auto simp: r(3) set_update_where)
  have wf1: "db_wf P d1"
    using dbs.run[OF queueUC_fail_txns assms(1), of E i] assms(2) by simp
  show ?thesis
    using not_pending_never_polled[OF wf1 mem _ assms(3,4)] r(2) by simp
qed

lemma failed_message_never_retried_witness:
  "\<exists>resp d1 resp' d3. queueUC_fail (\<lambda>_. demo_site 0 '''' 0) demo_queue_db 1 = (Ok resp, d1) \<and>
     queueUC_poll (\<lambda>_. demo_site 0 '''' 0) d1 ''t'' = (Ok resp', d3) \<and>
     qr_id (the (r_data resp')) \<noteq> 1"
proof -
  let ?x = "queueUC_fail (\<lambda>_. demo_site 0 '''' 0) demo_queue_db 1"
  let ?y = "queueUC_poll (\<lambda>_. demo_site 0 '''' 0) (snd ?x) ''t''"
  have "isOk (fst ?x)" "isOk (fst ?y)"
    by (simp_all add: queueUC_fail_def queue_fail_def queueUC_poll_def queue_pollNext_def
        queue_candidates_def demo_queue_db_def demo_message_def demo_site_def Let_def affected_def
        int4_def)
  then obtain resp d1 resp' d3 where x: "?x = (Ok resp, d1)" and y: "?y = (Ok resp', d3)"
    by (metis isOkE prod.collapse)
  from x have "snd ?x = d1" by simp
  with y have y': "queueUC_poll (\<lambda>_. demo_site 0 '''' 0) d1 ''t'' = (Ok resp', d3)" by (simp only:)
  have "txns demo_pg d1 d1" by simp
  from failed_message_never_retried[OF demo_queue_wf x this y'] x y' show ?thesis by blast
qed

text \<open>
  Acknowledging tests nothing but the existence of the message: any stored message, in
  whatever status, is acknowledged with success and becomes \<^verbatim>\<open>COMPLETED\<close>, so acknowledging it
  again succeeds again; only an unknown id is answered 404 and only the id 0 with 400.
\<close>

theorem acknowledge_spec:
  assumes "dbOk (E 0)"
  shows "fst (queueUC_acknowledge E d i) =
      (if i = 0 then Err (mk_error ''Invalid message ID'' 400
                            [''ID must be a positive non-zero integer.''])
       else if \<exists>r\<in>set (db_queue d). mq_id r = uint i
       then Ok (api_void_ok (sysNow (E 1))
                  (''Message '' @ string_of_nat (unat i) @ '' acknowledged (COMPLETED)'') 200)
       else Err (mk_error (''Message '' @ string_of_nat (unat i) @
                           '' not found or already acknowledged'') 404
                   [''Cannot acknowledge message ID: '' @ string_of_nat (unat i)])) \<and>
    (i \<noteq> 0 \<longrightarrow> (\<forall>r\<in>set (db_queue (snd (queueUC_acknowledge E d i))).
       mq_id r = uint i \<longrightarrow> mq_status r = ''COMPLETED''))"
proof -
  have completed: "\<forall>r\<in>set (update_where (\<lambda>r. mq_id r = uint i)
          (\<lambda>r. r\<lparr>mq_status := ''COMPLETED'', mq_processed_at := Some t\<rparr>) rows).
       mq_id r = uint i \<longrightarrow> mq_status r = ''COMPLETED''" for t rows
    by (induction rows) simp_all
  show ?thesis
    using assms
    by (simp add: queueUC_acknowledge_def queue_acknowledge_def Let_def affected_pos completed)
qed

lemma acknowledge_spec_witness:
  "isOk (fst (queueUC_acknowledge (\<lambda>_. demo_site 0 '''' 0) demo_queue_db 1))"
proof -
  have "dbOk (demo_site 0 '''' 0)" by (simp add: demo_site_def)
  from acknowledge_spec[of "\<lambda>_. demo_site 0 '''' 0" demo_queue_db 1, OF this]
  show ?thesis by (simp add: demo_queue_db_def demo_message_def)
qed

text \<open>
  The metrics count every message once: for each topic that has messages there is exactly
  one line, and its four counters add up to the number of messages of the topic.
\<close>

theorem queue_metrics_add_up:
  assumes "pg_laws P" and "db_wf P d" and "dbOk (E 0)"
    and "r_data (queueUC_getMetrics P E d) = Some ms"
  shows "distinct (map mr_topic ms) \<and> set (map mr_topic ms) = mq_topic ` set (db_queue d) \<and>
    (\<forall>m\<in>set ms. mr_pending m + mr_processing m + mr_completed m + mr_failed m =
       int (length (filter (\<lambda>r. mq_topic r = mr_topic m) (db_queue d))))"
proof -
  let ?ts = "pg_collate P (remdups (map mq_topic (db_queue d)))"
  have ms: "ms = map queueMetricsResponse_fromDomain (queue_getMetrics P (E 0) d)"
    using assms(4) by (simp add: queueUC_getMetrics_def)
  have topics: "map mr_topic ms = ?ts"
    using assms(3) by (simp add: ms queue_getMetrics_def queueMetricsResponse_fromDomain_def comp_def)
  have perm: "mset ?ts = mset (remdups (map mq_topic (db_queue d)))"
    using assms(1) by (simp add: pg_laws_def)
  have "distinct ?ts" using perm by (metis distinct_remdups mset_eq_imp_distinct_iff)
  moreover have "set ?ts = mq_topic ` set (db_queue d)"
    using mset_eq_setD[OF perm] by simp
  moreover have "status_count t ''PENDING'' rows + status_count t ''PROCESSING'' rows +
      status_count t ''COMPLETED'' rows + status_count t ''FAILED'' rows =
      int (length (filter (\<lambda>r. mq_topic r = t) rows))"
    if "\<forall>r\<in>set rows. mq_status r \<in> message_statuses" for t rows
    using that by (induction rows) (auto simp: status_count_def message_statuses_def)
  moreover have "\<forall>r\<in>set (db_queue d). mq_status r \<in> message_statuses"
    using assms(2) by (simp add: db_wf_def queue_wf_def)
  ultimately show ?thesis
    using assms(3) topics
    by (auto simp: ms queue_getMetrics_def queueMetricsResponse_fromDomain_def)
qed

lemma queue_metrics_add_up_witness:
  "\<exists>ms. r_data (queueUC_getMetrics demo_pg (\<lambda>_. demo_site 0 '''' 0) demo_queue_db) = Some ms \<and>
     distinct (map mr_topic ms) \<and> set (map mr_topic ms) = {''t''}"
proof -
  obtain ms where m: "r_data (queueUC_getMetrics demo_pg (\<lambda>_. demo_site 0 '''' 0) demo_queue_db) = Some ms"
    by (simp add: queueUC_getMetrics_def)
  have "dbOk (demo_site 0 '''' 0)" by (simp add: demo_site_def)
  from queue_metrics_add_up[OF demo_pg_laws demo_queue_wf this m] m show ?thesis
    by (simp add: demo_queue_db_def demo_message_def)
qed

section \<open>Todos\<close>

text \<open>
  A created todo can be read back, from PostgreSQL: a valid request whose texts the
  columns keep is answered 201 with a new id; the stored map gains exactly that entry, not
  completed; and any later read of the id returns the title and description as sent.
\<close>

theorem todo_create_then_get_postgres:
  assumes "todos_wf (db_todos d)" and "\<And>n. dbOk (E n)" and "\<And>n. dbOk (F n)"
    and "seq_fresh (E 1) d" and "isOk (validateCreate rq)"
    and "pg_keeps P (ct_title rq) (ct_description rq)"
  shows "\<exists>r d' r'. createTodo (postgres_repository P) E d rq = (Ok r, d') \<and> r_statusCode r = 201 \<and>
    todos_wf (db_todos d') \<and> pgtodos_abs d (tr_id (the (r_data r))) = None \<and>
    pgtodos_abs d' =
      (pgtodos_abs d)(tr_id (the (r_data r)) \<mapsto> (ct_title rq, ct_description rq, False)) \<and>
    getTodoById (postgres_repository P) F d' (tr_id (the (r_data r))) = Ok r' \<and>
    response_content (the (r_data r')) = (ct_title rq, ct_description rq, False)"
  using assms by (rule pgt.create_then_get)

definition demo_create :: create_todo_request where
  "demo_create = \<lparr>ct_title = ''milk'', ct_description = ''two''\<rparr>"

lemma demo_create_valid: "isOk (validateCreate demo_create)"
  by (simp add: validateCreate_ok_iff demo_create_def title_ok_def isspace_def)

lemma todo_create_then_get_postgres_witness:
  "\<exists>r d'. createTodo (postgres_repository demo_pg) (\<lambda>_. demo_site 0 '''' 7) empty_db demo_create = (Ok r, d') \<and>
     r_statusCode r = 201"
proof -
  have "todos_wf (db_todos empty_db)" "seq_fresh (demo_site 0 '''' 7) empty_db"
    "dbOk (demo_site 0 '''' 7)" "pg_keeps demo_pg (ct_title demo_create) (ct_description demo_create)"
    by (simp_all add: todos_wf_def empty_db_def seq_fresh_def demo_site_def bigserial_def
        pg_keeps_def demo_pg_def demo_create_def)
  from todo_create_then_get_postgres[of empty_db "\<lambda>_. demo_site 0 '''' 7" "\<lambda>_. demo_site 0 '''' 7",
      OF this(1,3,3,2) demo_create_valid this(4)]
  show ?thesis by blast
qed

text \<open>
  The same from memory: until the 64-bit counter is used up, creating and reading back
  works on \<^verbatim>\<open>InMemoryTodoRepository\<close> in the same way, for texts of any kind.
\<close>

theorem todo_create_then_get_memory:
  assumes "mem_inv m" and "mem_fresh (E 1) m" and "isOk (validateCreate rq)"
  shows "\<exists>r m' r'. createTodo memory_repository E m rq = (Ok r, m') \<and> r_statusCode r = 201 \<and>
    mem_inv m' \<and> mem_abs m (tr_id (the (r_data r))) = None \<and>
    mem_abs m' =
      (mem_abs m)(tr_id (the (r_data r)) \<mapsto> (ct_title rq, ct_description rq, False)) \<and>
    getTodoById memory_repository F m' (tr_id (the (r_data r))) = Ok r' \<and>
    response_content (the (r_data r')) = (ct_title rq, ct_description rq, False)"
  using assms by (intro mem.create_then_get) simp_all

lemma todo_create_then_get_memory_witness:
  "\<exists>r m'. createTodo memory_repository (\<lambda>_. demo_site 0 '''' 0) (mem_new 0) demo_create = (Ok r, m') \<and>
     r_statusCode r = 201"
proof -
  have "mem_fresh (demo_site 0 '''' 0) (mem_new 0)"
    by (simp add: mem_fresh_def mem_new_def mem_push_def)
  from todo_create_then_get_memory[of "mem_new 0" "\<lambda>_. demo_site 0 '''' 0",
      OF mem_new_inv this demo_create_valid]
  show ?thesis by blast
qed

text \<open>
  An update changes exactly the fields it names: a valid request for a stored todo is
  answered with the merged content, the stored map changes at that id only, and for an
  unknown id the answer is 404 and nothing changes.
\<close>

theorem todo_update_postgres:
  assumes "todos_wf (db_todos d)" and "\<And>n. dbOk (E n)" and "isOk (validateUpdate rq)"
  shows "(\<forall>old ti de co. pgtodos_abs d i = Some old \<and> update_content rq old = (ti, de, co) \<and>
       pg_keeps P ti de \<longrightarrow>
       (\<exists>r d'. updateTodo (postgres_repository P) E d i rq = (Ok r, d') \<and> todos_wf (db_todos d') \<and>
          tr_id (the (r_data r)) = i \<and> response_content (the (r_data r)) = (ti, de, co) \<and>
          pgtodos_abs d' = (pgtodos_abs d)(i \<mapsto> (ti, de, co)))) \<and>
    (pgtodos_abs d i = None \<longrightarrow>
       (\<exists>e. updateTodo (postgres_repository P) E d i rq = (Err e, d) \<and> err_statusCode e = 404))"
proof (intro conjI allI impI)
  fix old ti de co
  assume "pgtodos_abs d i = Some old \<and> update_content rq old = (ti, de, co) \<and> pg_keeps P ti de"
  then show "\<exists>r d'. updateTodo (postgres_repository P) E d i rq = (Ok r, d') \<and> todos_wf (db_todos d') \<and>
      tr_id (the (r_data r)) = i \<and> response_content (the (r_data r)) = (ti, de, co) \<and>
      pgtodos_abs d' = (pgtodos_abs d)(i \<mapsto> (ti, de, co))"
    using assms(2) by (intro pgt.update_spec[OF assms(1) _ assms(3), of E]) auto
next
  assume "pgtodos_abs d i = None"
  then show "\<exists>e. updateTodo (postgres_repository P) E d i rq = (Err e, d) \<and> err_statusCode e = 404"
    using assms(2) by (intro pgt.update_404[OF assms(1) _ assms(3), of E]) auto
qed

lemma todo_update_postgres_witness:
  "\<exists>e. updateTodo (postgres_repository demo_pg) (\<lambda>_. demo_site 0 '''' 7) empty_db 5
     \<lparr>ut_title = None, ut_description = None, ut_completed = Some True\<rparr> = (Err e, empty_db) \<and>
     err_statusCode e = 404"
proof -
  let ?rq = "\<lparr>ut_title = None, ut_description = None, ut_completed = Some True\<rparr>"
  have "todos_wf (db_todos empty_db)" "dbOk (demo_site 0 '''' 7)" "isOk (validateUpdate ?rq)"
    "pgtodos_abs empty_db 5 = None"
    by (simp_all add: todos_wf_def empty_db_def demo_site_def validateUpdate_ok_iff pgtodos_abs_def)
  with todo_update_postgres[of empty_db "\<lambda>_. demo_site 0 '''' 7" ?rq 5 demo_pg] show ?thesis by blast
qed

text \<open>
  A deleted todo is gone and no other is: deletion removes the id from the stored map and
  touches nothing else, answers with success exactly when the id was there, and any read of
  the id afterwards is a 404.
\<close>

theorem todo_delete_postgres:
  assumes "todos_wf (db_todos d)" and "dbOk (E 0)" and "dbOk (F 0)"
    and "deleteTodo (postgres_repository P) E d i = (res, d')"
  shows "todos_wf (db_todos d') \<and> pgtodos_abs d' = (pgtodos_abs d)(i := None) \<and>
    (isOk res \<longleftrightarrow> pgtodos_abs d i \<noteq> None) \<and>
    (\<exists>e. getTodoById (postgres_repository P) F d' i = Err e \<and> err_statusCode e = 404)"
  using assms by (rule pgt.delete_spec)

lemma todo_delete_postgres_witness:
  "\<not> isOk (fst (deleteTodo (postgres_repository demo_pg) (\<lambda>_. demo_site 0 '''' 7) empty_db 5))"
proof -
  have "todos_wf (db_todos empty_db)" "dbOk (demo_site 0 '''' 7)" "pgtodos_abs empty_db 5 = None"
    by (simp_all add: todos_wf_def empty_db_def demo_site_def pgtodos_abs_def)
  with todo_delete_postgres[of empty_db "\<lambda>_. demo_site 0 '''' 7" "\<lambda>_. demo_site 0 '''' 7" demo_pg 5]
  show ?thesis
    by (cases "deleteTodo (postgres_repository demo_pg) (\<lambda>_. demo_site 0 '''' 7) empty_db 5") simp
qed

text \<open>
  The list is the stored map: without a filter it has one entry for every stored todo and
  no other; with a filter it has those whose completion matches; no id occurs twice.
\<close>

theorem todo_list_postgres:
  assumes "todos_wf (db_todos d)" and "dbOk (E 0)"
    and "r_data (listTodos (postgres_repository P) E d flt) = Some rs"
  shows "distinct (map tr_id rs) \<and>
    (\<forall>i ti de co. (\<exists>r\<in>set rs. tr_id r = i \<and> response_content r = (ti, de, co)) \<longleftrightarrow>
       pgtodos_abs d i = Some (ti, de, co) \<and> (flt = None \<or> flt = Some co))"
  using assms by (rule pgt.list_spec)

lemma todo_list_postgres_witness:
  "\<exists>rs. r_data (listTodos (postgres_repository demo_pg) (\<lambda>_. demo_site 0 '''' 7) empty_db (Some True)) = Some rs \<and>
     distinct (map tr_id rs)"
proof -
  obtain rs where rs: "r_data (listTodos (postgres_repository demo_pg) (\<lambda>_. demo_site 0 '''' 7) empty_db
      (Some True)) = Some rs"
    by (simp add: listTodos_def Let_def)
  have "todos_wf (db_todos empty_db)" "dbOk (demo_site 0 '''' 7)"
    by (simp_all add: todos_wf_def empty_db_def demo_site_def)
  from todo_list_postgres[of empty_db "\<lambda>_. demo_site 0 '''' 7", OF this rs] rs show ?thesis by blast
qed

section \<open>Cache\<close>

text \<open>
  A cached value is served until it expires, and not after: after a fault-free set of a
  storable key and value, a fault-free read of the key answers 200 with that value as long as
  the database clock is before the set's clock plus the time to live (one hour when the
  request gives none that is positive), and 404 from then on.
\<close>

theorem cache_set_then_get:
  assumes "cache_wf (db_cache d)" and "sc_key rq \<noteq> []"
    and "cache_storable P (sc_key rq) (sc_value rq)" and "dbOk (E 0)" and "dbOk (F 0)"
  shows "let d' = snd (cacheUC_set P E d rq);
             alive = dbNow (F 0) < dbNow (E 0) + seconds (effective_ttl (sc_ttlSeconds rq)) in
    cache_wf (db_cache d') \<and>
    (case cacheUC_get F d' (sc_key rq) of
       Ok r \<Rightarrow> alive \<and> r_statusCode r = 200 \<and> cr_value (the (r_data r)) = sc_value rq
     | Err e \<Rightarrow> \<not> alive \<and> err_statusCode e = 404)"
proof -
  let ?d = "snd (cacheUC_set P E d rq)"
  have d': "?d = cache_set P (E 0) d (sc_key rq) (sc_value rq) (effective_ttl (sc_ttlSeconds rq))"
    using assms(2) by (rule cacheUC_set_state)
  have g: "map_option ce_value (cache_get (F 0) ?d (sc_key rq)) =
      (if dbNow (F 0) < dbNow (E 0) + seconds (effective_ttl (sc_ttlSeconds rq))
       then Some (sc_value rq) else None)"
    unfolding d' by (rule pgc.get_after_put[OF assms(1,4,5,3)])
  have "cache_wf (db_cache ?d)" unfolding d' by (rule cache_set_wf[OF assms(1)])
  with g assms(2) show ?thesis
    by (cases "cache_get (F 0) ?d (sc_key rq)")
      (auto simp: Let_def cacheUC_get_def cacheResponse_fromDomain_def split: if_splits)
qed

lemma cache_set_then_get_witness:
  "isOk (cacheUC_get (\<lambda>_. demo_site (seconds 3599) '''' 0) (snd (cacheUC_set demo_pg
     (\<lambda>_. demo_site 0 '''' 0) empty_db \<lparr>sc_key = ''k'', sc_value = ''v'', sc_ttlSeconds = 0\<rparr>)) ''k'')"
proof -
  let ?rq = "\<lparr>sc_key = ''k'', sc_value = ''v'', sc_ttlSeconds = 0\<rparr>"
  have "cache_wf (db_cache empty_db)" "sc_key ?rq \<noteq> []"
    "cache_storable demo_pg (sc_key ?rq) (sc_value ?rq)"
    "dbOk (demo_site 0 '''' 0)" "dbOk (demo_site (seconds 3599) '''' 0)"
    by (simp_all add: cache_wf_def empty_db_def cache_storable_def demo_pg_def demo_site_def)
  from cache_set_then_get[of empty_db ?rq demo_pg "\<lambda>_. demo_site 0 '''' 0"
      "\<lambda>_. demo_site (seconds 3599) '''' 0", OF this]
  show ?thesis
    by (cases "cacheUC_get (\<lambda>_. demo_site (seconds 3599) '''' 0) (snd (cacheUC_set demo_pg
          (\<lambda>_. demo_site 0 '''' 0) empty_db ?rq)) ''k''")
      (auto simp: Let_def demo_site_def effective_ttl_def seconds_def)
qed

text \<open>
  Eviction and clean-up take away what they should and nothing else: after a removal the
  key is not served, other keys are served as before; and a clean-up reports how many rows it
  dropped and changes the answer of no later read.
\<close>

theorem cache_remove_and_cleanup:
  assumes "cache_wf (db_cache d)" and "dbOk (E 0)" and "key \<noteq> []"
  shows "\<not> isOk (cacheUC_get F (snd (cacheUC_remove E d key)) key) \<and>
    (\<forall>k t. k \<noteq> key \<longrightarrow> cache_live t (snd (cacheUC_remove E d key)) k = cache_live t d k) \<and>
    (let (resp, d') = cacheUC_cleanup E d in
       (\<forall>k t. dbNow (E 0) \<le> t \<longrightarrow> cache_live t d' k = cache_live t d k) \<and>
       length (db_cache d') + the (r_data resp) = length (db_cache d))"
proof -
  have rm: "snd (cacheUC_remove E d key) = snd (cache_remove (E 0) d key)"
    using assms(3) by (simp add: cacheUC_remove_def case_prod_beta)
  have "\<not> isOk (cacheUC_get F (snd (cacheUC_remove E d key)) key)"
    using pgc.take_once[OF assms(1,2), of "F 0" key] by (simp add: rm cacheUC_get_isOk)
  moreover have "cache_live t (snd (cacheUC_remove E d key)) k = cache_live t d k" if "k \<noteq> key" for k t
    unfolding rm using assms(1) that by (rule pgc.remove_other)
  moreover have "length (db_cache (snd (cacheUC_cleanup E d))) +
      the (r_data (fst (cacheUC_cleanup E d))) = length (db_cache d)"
    using assms(2) length_delete_where[of "\<lambda>r. ck_expires_at r \<le> dbNow (E 0)" "db_cache d"]
    by (simp add: cacheUC_cleanup_def cache_cleanupExpired_def Let_def)
  moreover have "cache_live t (snd (cacheUC_cleanup E d)) k = cache_live t d k"
    if "dbNow (E 0) \<le> t" for k t
    using cleanup_live[OF that, of d k] by (simp add: cacheUC_cleanup_def case_prod_beta)
  ultimately show ?thesis by (simp add: case_prod_beta)
qed

lemma cache_remove_and_cleanup_witness:
  "\<not> isOk (cacheUC_get (\<lambda>_. demo_site 0 '''' 0) (snd (cacheUC_remove (\<lambda>_. demo_site 0 '''' 0)
     (cache_set demo_pg (demo_site 0 '''' 0) empty_db ''k'' ''v'' 60) ''k'')) ''k'')"
proof -
  have wf: "cache_wf (db_cache (cache_set demo_pg (demo_site 0 '''' 0) empty_db ''k'' ''v'' 60))"
    by (rule cache_set_wf) (simp add: cache_wf_def empty_db_def)
  have ok: "dbOk ((\<lambda>_. demo_site 0 '''' 0) (0 :: nat))" and ne: "''k'' \<noteq> []"
    by (simp_all add: demo_site_def)
  show ?thesis by (rule cache_remove_and_cleanup[OF wf ok ne, THEN conjunct1])
qed

section \<open>Documents\<close>

lemma find_document:
  assumes "documents_wf P rows" "r \<in> set rows" "dc_collection_name r = coll" "dc_id r = u"
  shows "find (in_collection coll u) rows = Some r"
proof (rule find_unique)
  show "r \<in> set rows" "in_collection coll u r" using assms by (simp_all add: in_collection_def)
  show "y = r" if "y \<in> set rows" "in_collection coll u y" for y
    using assms that by (auto simp: documents_wf_def in_collection_def distinct_map inj_on_def)
qed

text \<open>
  A stored document is found in its own collection only: after a creation that stored
  something, the id in the answer reads back the canonical text of the data from the
  collection it was created in, and is a 404 under every other collection name.
\<close>

theorem document_create_then_get:
  assumes "documents_wf P (db_documents d)" and "site_ok P (E 0)" and "pg_uuid P '''' = None"
    and "dbOk (F 0)"
    and "documentUC_create P E d coll dat = (Ok resp, d')"
    and "dr_id (the (r_data resp)) \<noteq> []"
  shows "documents_wf P (db_documents d') \<and>
    (\<exists>c j. pg_varchar P 100 coll = Some c \<and> pg_jsonb P dat = Some j \<and>
       (\<forall>k. k \<noteq> [] \<longrightarrow>
          (case documentUC_getById P F d' k (dr_id (the (r_data resp))) of
             Ok r \<Rightarrow> k = c \<and> dr_data (the (r_data r)) = j \<and> dr_collection (the (r_data r)) = c
           | Err e \<Rightarrow> k \<noteq> c \<and> err_statusCode e = 404)))"
proof -
  obtain c j where st: "pg_varchar P 100 coll = Some c" "pg_jsonb P dat = Some j"
      "dr_id (the (r_data resp)) = dbUuid (E 0)"
      "d' = d\<lparr>db_documents := db_documents d @
          [\<lparr>dc_id = dbUuid (E 0), dc_collection_name = c, dc_data = j,
            dc_created_at = dbNow (E 0), dc_updated_at = dbNow (E 0)\<rparr>]\<rparr>"
  proof -
    have d': "d' = snd (documents_insert P (E 0) d coll dat)"
      and i: "dr_id (the (r_data resp)) = de_id (fst (documents_insert P (E 0) d coll dat))"
      using assms(5) by (auto simp: documentUC_create_def case_prod_beta
          documentResponse_fromDomain_def split: if_splits)
    with assms(6) have ne: "de_id (fst (documents_insert P (E 0) d coll dat)) \<noteq> []" by simp
    show thesis
      by (cases "pg_varchar P 100 coll"; cases "pg_jsonb P dat")
        (use ne d' i in \<open>simp_all add: documents_insert_def Let_def that split: if_splits\<close>)
  qed
  let ?r = "\<lparr>dc_id = dbUuid (E 0), dc_collection_name = c, dc_data = j,
             dc_created_at = dbNow (E 0), dc_updated_at = dbNow (E 0)\<rparr>"
  have "db_documents d' = db_documents (snd (documents_insert P (E 0) d coll dat))"
    using assms(5) by (auto simp: documentUC_create_def case_prod_beta split: if_splits)
  then have wf': "documents_wf P (db_documents d')"
    using documents_insert_wf[OF assms(1,2)] by simp
  have u: "pg_uuid P (dbUuid (E 0)) = Some (dbUuid (E 0))" using assms(2) by (simp add: site_ok_def)
  have "case documentUC_getById P F d' k (dbUuid (E 0)) of
      Ok r \<Rightarrow> k = c \<and> dr_data (the (r_data r)) = j \<and> dr_collection (the (r_data r)) = c
    | Err e \<Rightarrow> k \<noteq> c \<and> err_statusCode e = 404" if "k \<noteq> []" for k
  proof (cases "k = c")
    case True
    then have "find (in_collection k (dbUuid (E 0))) (db_documents d') = Some ?r"
      using wf' by (intro find_document) (auto simp: st(4))
    with True that u assms(4,6) st(3) show ?thesis
      by (simp add: documentUC_getById_def documents_findById_def documentResponse_fromDomain_def
          document_of_row_def)
  next
    case False
    have "\<not> in_collection k (dbUuid (E 0)) x" if "x \<in> set (db_documents d')" for x
    proof
      assume x: "in_collection k (dbUuid (E 0)) x"
      have "?r \<in> set (db_documents d')" by (simp add: st(4))
      with x that wf' have "x = ?r"
        by (auto simp: documents_wf_def in_collection_def distinct_map inj_on_def)
      with x False show False by (simp add: in_collection_def)
    qed
    then have "find (in_collection k (dbUuid (E 0))) (db_documents d') = None"
      by (auto simp: find_None_iff)
    with False that u assms(4,6) st(3) show ?thesis
      by (simp add: documentUC_getById_def documents_findById_def)
  qed
  with wf' st show ?thesis by auto
qed

lemma document_create_then_get_witness:
  "\<exists>resp d'. documentUC_create demo_pg (\<lambda>_. demo_site 0 ''d1'' 0) empty_db ''c'' ''{}'' = (Ok resp, d') \<and>
     documents_wf demo_pg (db_documents d')"
proof -
  obtain resp d' where x: "documentUC_create demo_pg (\<lambda>_. demo_site 0 ''d1'' 0) empty_db ''c'' ''{}'' =
      (Ok resp, d')" "dr_id (the (r_data resp)) = ''d1''"
    by (simp add: documentUC_create_def documents_insert_def demo_site_def demo_pg_def empty_db_def
        documentResponse_fromDomain_def)
  have "documents_wf demo_pg (db_documents empty_db)" "site_ok demo_pg (demo_site 0 ''d1'' 0)"
    "pg_uuid demo_pg '''' = None" "dbOk (demo_site 0 ''d1'' 0)" "dr_id (the (r_data resp)) \<noteq> []"
    by (simp_all add: documents_wf_def empty_db_def site_ok_def demo_site_def demo_pg_def x(2))
  from document_create_then_get[of demo_pg empty_db "\<lambda>_. demo_site 0 ''d1'' 0"
      "\<lambda>_. demo_site 0 ''d1'' 0", OF this(1-4) x(1) this(5)] x(1)
  show ?thesis by blast
qed

text \<open>
  A query is bounded and exact: it returns at most 100 documents, each a stored document
  of the collection asked for that contains the filter when there is one; and when the
  collection has at most 100 matches, all of them are returned.
\<close>

theorem document_query_exact:
  assumes "dbOk (E 0)" and "coll \<noteq> []"
    and "documentUC_query P moved E d coll flt = Ok resp" and "r_data resp = Some ds"
    and "match = (\<lambda>r. dc_collection_name r = coll \<and>
           (\<not> has_filter flt \<or> (\<exists>j. pg_jsonb P flt = Some j \<and> pg_contains P (dc_data r) j)))"
  shows "length ds \<le> 100 \<and>
    (\<forall>x\<in>set ds. \<exists>r\<in>set (db_documents d). match r \<and> dr_id x = dc_id r \<and> dr_data x = dc_data r \<and>
       dr_collection x = coll) \<and>
    (length (filter match (db_documents d)) \<le> 100 \<longrightarrow>
       (\<forall>r\<in>set (db_documents d). match r \<longrightarrow> dc_id r \<in> dr_id ` set ds))"
proof -
  have flt: "has_filter (if flt = [] then ''{}'' else flt) = has_filter flt"
    by (simp add: has_filter_def)
  let ?L = "take 100 (sort_key (\<lambda>r. - dc_created_at r) (filter match (db_documents d)))"
  have m: "filter match (db_documents d) = filter (\<lambda>r. dc_collection_name r = coll \<and>
      (if has_filter flt then \<exists>j. pg_jsonb P flt = Some j \<and> pg_contains P (dc_data r) j else True))
      (db_documents d)"
    unfolding assms(5) by (rule filter_cong) auto
  have ds: "ds = map (\<lambda>r. documentResponse_fromDomain (document_of_row (sysNow (E 0)) r)) ?L"
  proof (cases "has_filter flt")
    case True
    then have "flt \<noteq> []" by (simp add: has_filter_def)
    with True assms(1-4) m show ?thesis
      by (cases "pg_jsonb P flt")
        (auto simp: documentUC_query_def documents_queryByFilter_def Let_def comp_def)
  next
    case False
    with assms(1-4) m flt show ?thesis
      by (auto simp: documentUC_query_def documents_queryByFilter_def Let_def comp_def)
  qed
  have "length ds \<le> 100" by (simp add: ds)
  moreover have "\<exists>r\<in>set (db_documents d). match r \<and> dr_id x = dc_id r \<and> dr_data x = dc_data r \<and>
      dr_collection x = coll" if x: "x \<in> set ds" for x
  proof -
    from x obtain r where "r \<in> set ?L"
        "x = documentResponse_fromDomain (document_of_row (sysNow (E 0)) r)"
      by (auto simp: ds)
    moreover from this(1) have "r \<in> set (db_documents d)" "match r"
      using set_take_subset[of 100 "sort_key (\<lambda>r. - dc_created_at r) (filter match (db_documents d))"]
      by auto
    ultimately show ?thesis
      using assms(5) by (auto simp: documentResponse_fromDomain_def document_of_row_def)
  qed
  moreover have "dc_id r \<in> dr_id ` set ds"
    if "length (filter match (db_documents d)) \<le> 100" "r \<in> set (db_documents d)" "match r" for r
  proof -
    have "set ?L = set (filter match (db_documents d))" using that(1) by simp
    with that have "r \<in> set ?L" by simp
    then show ?thesis
      by (auto simp: ds image_image documentResponse_fromDomain_def document_of_row_def)
  qed
  ultimately show ?thesis by blast
qed

lemma document_query_exact_witness:
  "\<exists>resp ds. documentUC_query demo_pg False (\<lambda>_. demo_site 0 ''d1'' 0) empty_db ''c'' ''{}'' = Ok resp \<and>
     r_data resp = Some ds \<and> length ds \<le> 100"
proof -
  have ok: "dbOk (demo_site 0 ''d1'' 0)" by (simp add: demo_site_def)
  obtain resp ds where "documentUC_query demo_pg False (\<lambda>_. demo_site 0 ''d1'' 0) empty_db ''c'' ''{}'' = Ok resp"
      "r_data resp = Some ds"
    by (simp add: documentUC_query_def Let_def)
  with document_query_exact[OF _ _ this refl] ok show ?thesis by auto
qed

end
