(* ===== verification/Controllers.thy ===== *)
theory Controllers
  imports Json Token_Lifecycle Data_Services
begin

text \<open>
  \<^verbatim>\<open>Presentation/src/Controllers\<close>: one operation per handler. A request is what the handlers
  read of a \<^verbatim>\<open>crow::request\<close>; \<open>app\<close> is what \<^verbatim>\<open>main\<close> gave the controllers. \<open>E\<close> is the
  environment of one request: the guard uses its places 0 to 4, the look-up of the
  administrator place 5, the answer's own clock place 9, and the use case the places from 10.
  A handler that throws leaves the answer to Crow; what was committed before stays.
\<close>

record http_request =
  hq_header :: "string \<Rightarrow> string"
  hq_param :: "string \<Rightarrow> string option"
  hq_body :: string
  hq_remoteIp :: string

record 'j app =
  app_json :: "'j json_api"
  app_pg :: pg
  app_services :: services
  app_jwksJson :: string
  app_startTime :: time
  app_openApi :: string
  app_swaggerHtml :: string
  app_moveFirst :: bool

type_synonym 'j handled = "'j http_response outcome \<times> db"

section \<open>What a request says of its client\<close>

definition getClientIp :: "http_request \<Rightarrow> string" where
  "getClientIp rq =
     (let forwarded = hq_header rq ''X-Forwarded-For''
      in if forwarded \<noteq> [] then
           (case str_find (CHR '','') 0 forwarded of
              None \<Rightarrow> forwarded
            | Some comma \<Rightarrow> substr 0 comma forwarded)
         else if hq_remoteIp rq = [] then ''127.0.0.1'' else hq_remoteIp rq)"

definition getUserAgent :: "http_request \<Rightarrow> string" where
  "getUserAgent rq =
     (let ua = hq_header rq ''User-Agent'' in if ua = [] then ''Unknown Client'' else ua)"

definition getDeviceName :: "http_request \<Rightarrow> string" where
  "getDeviceName rq =
     (let dev = hq_header rq ''X-Device-Name''; ua = getUserAgent rq
      in if dev \<noteq> [] then dev
         else if contains_str ''Windows'' ua then ''Windows PC''
         else if contains_str ''Macintosh'' ua then ''Mac''
         else if contains_str ''iPhone'' ua then ''iPhone''
         else if contains_str ''Android'' ua then ''Android Device''
         else if contains_str ''Linux'' ua then ''Linux Workstation''
         else ''Web Client'')"

section \<open>The frame of a handler\<close>

text \<open>\<open>uc\<close>: the places of the use case; \<open>answer\<close>: the last statements of every handler.\<close>

definition uc :: "sites \<Rightarrow> sites" where
  "uc E = (\<lambda>n. E (n + 10))"

definition answer :: "sites \<Rightarrow> ('a \<Rightarrow> 'j http_response) \<Rightarrow> ('a, domain_error) result \<Rightarrow> 'j http_response" where
  "answer E ok res =
     (case res of Err e \<Rightarrow> error_of_domain (sysNow (E 9)) e | Ok v \<Rightarrow> ok v)"

definition answered ::
    "sites \<Rightarrow> ('a \<Rightarrow> 'j http_response) \<Rightarrow> ('a, domain_error) result \<times> db \<Rightarrow> 'j handled" where
  "answered E ok rd = (Return (answer E ok (fst rd)), snd rd)"

text \<open>Two early returns: what a parser or the guard refuses is the answer.\<close>

definition require ::
    "sites \<Rightarrow> db \<Rightarrow> 'a dresult outcome \<Rightarrow> ('a \<Rightarrow> 'j handled) \<Rightarrow> 'j handled" where
  "require E d p k =
     (case p of
        Throw \<Rightarrow> (Throw, d)
      | Return (Err e) \<Rightarrow> (Return (error_of_domain (sysNow (E 9)) e), d)
      | Return (Ok v) \<Rightarrow> k v)"

definition guarded ::
    "'j app \<Rightarrow> sites \<Rightarrow> db \<Rightarrow> http_request \<Rightarrow> (authenticated_user \<Rightarrow> 'j handled) \<Rightarrow> 'j handled" where
  "guarded A E d rq k =
     require E d
       (extractAuthenticatedUser (app_pg A) (app_services A) E d (hq_header rq ''Authorization'')) k"

definition refuse :: "sites \<Rightarrow> db \<Rightarrow> int \<Rightarrow> string \<Rightarrow> string list \<Rightarrow> 'j handled" where
  "refuse E d code msg details = (Return (error_response (sysNow (E 9)) code msg details), d)"

section \<open>AuthController\<close>

definition auth_registerUser :: "'j app \<Rightarrow> sites \<Rightarrow> db \<Rightarrow> http_request \<Rightarrow> 'j handled" where
  "auth_registerUser A E d rq =
     require E d (parseRegisterRequest (app_json A) (hq_body rq)) (\<lambda>r.
       answered E success_register (registerUser (app_pg A) (app_services A) (uc E) d r))"

definition auth_login :: "'j app \<Rightarrow> sites \<Rightarrow> db \<Rightarrow> http_request \<Rightarrow> 'j handled" where
  "auth_login A E d rq =
     require E d (parseLoginRequest (app_json A) (hq_body rq)) (\<lambda>r.
       case login (app_pg A) (app_services A) (uc E) d r (getClientIp rq) (getUserAgent rq)
              (getDeviceName rq) ''browser'' of
         Throw \<Rightarrow> (Throw, d)
       | Return rd \<Rightarrow> answered E success_token rd)"

definition google_answered ::
    "sites \<Rightarrow> token_response api_result outcome \<times> db \<Rightarrow> 'j handled" where
  "google_answered E rd =
     (case fst rd of
        Throw \<Rightarrow> (Throw, snd rd)
      | Return res \<Rightarrow> answered E success_token (res, snd rd))"

definition auth_googleLogin :: "'j app \<Rightarrow> sites \<Rightarrow> db \<Rightarrow> http_request \<Rightarrow> 'j handled" where
  "auth_googleLogin A E d rq =
     require E d (parseGoogleLoginRequest (app_json A) (hq_body rq)) (\<lambda>r.
       let dev = (if gq_deviceName r = [] then getDeviceName rq else gq_deviceName r);
           loginReq = r\<lparr>gq_deviceName := dev\<rparr>
       in google_answered E (loginWithGoogle (app_pg A) (app_services A) (uc E) d loginReq
            (getClientIp rq) (getUserAgent rq)))"

definition auth_getGoogleAuthUrl :: "'j app \<Rightarrow> sites \<Rightarrow> db \<Rightarrow> http_request \<Rightarrow> 'j handled" where
  "auth_getGoogleAuthUrl A E d rq =
     (let state = (case hq_param rq ''state'' of None \<Rightarrow> [] | Some s \<Rightarrow> s)
      in answered E success_google_url (getGoogleAuthUrl (app_pg A) (app_services A) (uc E) d state))"

definition auth_googleCallback :: "'j app \<Rightarrow> sites \<Rightarrow> db \<Rightarrow> http_request \<Rightarrow> 'j handled" where
  "auth_googleCallback A E d rq =
     (case hq_param rq ''code'' of
        Some (c # cs) \<Rightarrow>
          (let stateStr = (case hq_param rq ''state'' of None \<Rightarrow> [] | Some s \<Rightarrow> s);
               loginReq = \<lparr>gq_idToken = [], gq_code = c # cs, gq_codeVerifier = [],
                           gq_state = stateStr, gq_deviceName = getDeviceName rq,
                           gq_clientType = ''web-callback''\<rparr>
           in google_answered E (loginWithGoogle (app_pg A) (app_services A) (uc E) d loginReq
                (getClientIp rq) (getUserAgent rq)))
      | _ \<Rightarrow> refuse E d 400 ''Google OAuth failed''
               [case hq_param rq ''error'' of
                  None \<Rightarrow> ''Missing authorization code from Google.'' | Some e \<Rightarrow> e])"

definition auth_setPassword :: "'j app \<Rightarrow> sites \<Rightarrow> db \<Rightarrow> http_request \<Rightarrow> 'j handled" where
  "auth_setPassword A E d rq =
     guarded A E d rq (\<lambda>usr.
       require E d (parseSetPasswordRequest (app_json A) (hq_body rq)) (\<lambda>pw.
         answered E success_void (setPassword (app_pg A) (app_services A) (uc E) d (au_id usr) pw)))"

definition auth_refresh :: "'j app \<Rightarrow> sites \<Rightarrow> db \<Rightarrow> http_request \<Rightarrow> 'j handled" where
  "auth_refresh A E d rq =
     require E d (parseRefreshTokenRequest (app_json A) (hq_body rq)) (\<lambda>tok.
       answered E success_token (refresh (app_pg A) (app_services A) (uc E) d tok
         (getClientIp rq) (getUserAgent rq)))"

definition auth_logout :: "'j app \<Rightarrow> sites \<Rightarrow> db \<Rightarrow> http_request \<Rightarrow> 'j handled" where
  "auth_logout A E d rq =
     guarded A E d rq (\<lambda>usr.
       answered E success_void (logout (app_pg A) (uc E) d (au_sessionId usr) (au_id usr)
         (getClientIp rq) (getUserAgent rq)))"

definition auth_logoutAll :: "'j app \<Rightarrow> sites \<Rightarrow> db \<Rightarrow> http_request \<Rightarrow> 'j handled" where
  "auth_logoutAll A E d rq =
     guarded A E d rq (\<lambda>usr.
       answered E success_void (logoutAll (app_pg A) (uc E) d (au_id usr)
         (getClientIp rq) (getUserAgent rq)))"

definition auth_getJwks :: "'j app \<Rightarrow> 'j http_response" where
  "auth_getJwks A =
     \<lparr>hr_code = 200, hr_body = Text_body (app_jwksJson A),
      hr_headers = [(''Content-Type'', ''application/json''),
                    (''Cache-Control'', ''public, max-age=3600'')]\<rparr>"

section \<open>SessionController and AdminSessionController\<close>

definition session_getSessions :: "'j app \<Rightarrow> sites \<Rightarrow> db \<Rightarrow> http_request \<Rightarrow> 'j handled" where
  "session_getSessions A E d rq =
     guarded A E d rq (\<lambda>usr.
       answered E success_sessions (getUserSessions (app_pg A) (uc E) d (au_id usr) (au_sessionId usr), d))"

definition session_revokeSession :: "'j app \<Rightarrow> sites \<Rightarrow> db \<Rightarrow> http_request \<Rightarrow> string \<Rightarrow> 'j handled" where
  "session_revokeSession A E d rq sessionId =
     guarded A E d rq (\<lambda>usr.
       answered E success_void (revokeUserSession (app_pg A) (uc E) d (au_id usr) sessionId
         (getClientIp rq) (getUserAgent rq)))"

text \<open>The record of the administrator, read after the guard.\<close>

definition with_admin ::
    "'j app \<Rightarrow> sites \<Rightarrow> db \<Rightarrow> http_request \<Rightarrow> (user \<Rightarrow> 'j handled) \<Rightarrow> 'j handled" where
  "with_admin A E d rq k =
     guarded A E d rq (\<lambda>usr.
       case users_findById (app_pg A) (E 5) d (au_id usr) of
         None \<Rightarrow> refuse E d 401 ''User record not found'' []
       | Some adm \<Rightarrow> k adm)"

definition int_param :: "http_request \<Rightarrow> string \<Rightarrow> int \<Rightarrow> int" where
  "int_param rq k dflt =
     (case hq_param rq k of
        None \<Rightarrow> dflt
      | Some s \<Rightarrow> (case stoi s of Throw \<Rightarrow> dflt | Return n \<Rightarrow> n))"

definition admin_getSessions :: "'j app \<Rightarrow> sites \<Rightarrow> db \<Rightarrow> http_request \<Rightarrow> 'j handled" where
  "admin_getSessions A E d rq =
     with_admin A E d rq (\<lambda>adm.
       answered E success_sessions
         (getAdminSessions (app_pg A) (uc E) d adm (int_param rq ''limit'' 50) (int_param rq ''offset'' 0)
            (hq_param rq ''user_id'') (hq_param rq ''status'') (hq_param rq ''ip''), d))"

definition admin_reason :: "'j app \<Rightarrow> http_request \<Rightarrow> string outcome" where
  "admin_reason A rq =
     (let dflt = ''Administrative revocation''
      in case hq_param rq ''reason'' of
           Some r \<Rightarrow> Return r
         | None \<Rightarrow>
             if hq_body rq = [] then Return dflt
             else case js_load (app_json A) (hq_body rq) of
               None \<Rightarrow> Return dflt
             | Some j \<Rightarrow>
                 if js_has (app_json A) j ''reason'' then read_string (app_json A) j ''reason''
                 else Return dflt)"

definition admin_revokeSession :: "'j app \<Rightarrow> sites \<Rightarrow> db \<Rightarrow> http_request \<Rightarrow> string \<Rightarrow> 'j handled" where
  "admin_revokeSession A E d rq sessionId =
     with_admin A E d rq (\<lambda>adm.
       case admin_reason A rq of
         Throw \<Rightarrow> (Throw, d)
       | Return reason \<Rightarrow>
           answered E success_void (revokeAdminSession (app_pg A) (uc E) d adm sessionId reason
             (getClientIp rq) (getUserAgent rq)))"

definition admin_revokeAllUserSessions ::
    "'j app \<Rightarrow> sites \<Rightarrow> db \<Rightarrow> http_request \<Rightarrow> string \<Rightarrow> 'j handled" where
  "admin_revokeAllUserSessions A E d rq userId =
     with_admin A E d rq (\<lambda>adm.
       case parseAdminRevokeUserSessionsRequest (app_json A) (hq_body rq) of
         Throw \<Rightarrow> (Throw, d)
       | Return parsed \<Rightarrow>
           (let reason = (case parsed of
                  Ok r \<Rightarrow> r | Err _ \<Rightarrow> ''Administrative revocation of all sessions'')
            in answered E success_void (revokeAllUserSessionsAdmin (app_pg A) (uc E) d adm userId
                 reason (getClientIp rq) (getUserAgent rq))))"

section \<open>TodoController\<close>

definition todo_repo :: "'j app \<Rightarrow> db todo_repository" where
  "todo_repo A = postgres_repository (app_pg A)"

definition invalid_id :: "sites \<Rightarrow> db \<Rightarrow> 'j handled" where
  "invalid_id E d = refuse E d 400 ''Invalid ID parameter'' [''ID must be a positive non-zero integer.'']"

definition todo_getAll :: "'j app \<Rightarrow> sites \<Rightarrow> db \<Rightarrow> http_request \<Rightarrow> 'j handled" where
  "todo_getAll A E d rq =
     (let list = (\<lambda>flt. (Return (success_todos (listTodos (todo_repo A) (uc E) d flt)), d))
      in case hq_param rq ''completed'' of
           None \<Rightarrow> list None
         | Some val \<Rightarrow>
             if val = ''true'' \<or> val = ''1'' then list (Some True)
             else if val = ''false'' \<or> val = ''0'' then list (Some False)
             else refuse E d 400 ''Invalid query parameter''
                    [''Query parameter 'completed' must be either 'true' or 'false'.''])"

definition todo_getById :: "'j app \<Rightarrow> sites \<Rightarrow> db \<Rightarrow> 64 word \<Rightarrow> 'j handled" where
  "todo_getById A E d i =
     (if i = 0 then invalid_id E d
      else answered E success_todo (getTodoById (todo_repo A) (uc E) d i, d))"

definition todo_create :: "'j app \<Rightarrow> sites \<Rightarrow> db \<Rightarrow> http_request \<Rightarrow> 'j handled" where
  "todo_create A E d rq =
     require E d (parseCreateTodoRequest (app_json A) (hq_body rq)) (\<lambda>r.
       answered E success_todo (createTodo (todo_repo A) (uc E) d r))"

definition todo_update :: "'j app \<Rightarrow> sites \<Rightarrow> db \<Rightarrow> 64 word \<Rightarrow> http_request \<Rightarrow> 'j handled" where
  "todo_update A E d i rq =
     (if i = 0 then invalid_id E d
      else require E d (parseUpdateTodoRequest (app_json A) (hq_body rq)) (\<lambda>r.
        answered E success_todo (updateTodo (todo_repo A) (uc E) d i r)))"

definition todo_remove :: "'j app \<Rightarrow> sites \<Rightarrow> db \<Rightarrow> 64 word \<Rightarrow> 'j handled" where
  "todo_remove A E d i =
     (if i = 0 then invalid_id E d
      else answered E success_void (deleteTodo (todo_repo A) (uc E) d i))"

section \<open>CacheController, QueueController and DocumentController\<close>

definition cache_getKey :: "sites \<Rightarrow> db \<Rightarrow> string \<Rightarrow> 'j handled" where
  "cache_getKey E d key = answered E success_cache (cacheUC_get (uc E) d key, d)"

definition cache_setKey :: "'j app \<Rightarrow> sites \<Rightarrow> db \<Rightarrow> http_request \<Rightarrow> 'j handled" where
  "cache_setKey A E d rq =
     require E d (parseSetCacheRequest (app_json A) (hq_body rq)) (\<lambda>r.
       answered E success_cache (cacheUC_set (app_pg A) (uc E) d r))"

definition cache_removeKey :: "sites \<Rightarrow> db \<Rightarrow> string \<Rightarrow> 'j handled" where
  "cache_removeKey E d key = answered E success_void (cacheUC_remove (uc E) d key)"

definition cache_cleanupAll :: "sites \<Rightarrow> db \<Rightarrow> 'j handled" where
  "cache_cleanupAll E d =
     (let (resp, d') = cacheUC_cleanup (uc E) d in (Return (success_count resp), d'))"

definition queueC_publish :: "'j app \<Rightarrow> sites \<Rightarrow> db \<Rightarrow> http_request \<Rightarrow> 'j handled" where
  "queueC_publish A E d rq =
     require E d (parsePublishMessageRequest (app_json A) (hq_body rq)) (\<lambda>(topic, payload).
       answered E (success_queue_message (app_json A))
         (queueUC_publish (app_pg A) (uc E) d topic payload))"

definition queueC_poll :: "'j app \<Rightarrow> sites \<Rightarrow> db \<Rightarrow> http_request \<Rightarrow> 'j handled" where
  "queueC_poll A E d rq =
     require E d (parsePollMessageRequest (app_json A) (hq_body rq)) (\<lambda>topic.
       answered E (success_queue_message (app_json A)) (queueUC_poll (uc E) d topic))"

definition queueC_acknowledge :: "sites \<Rightarrow> db \<Rightarrow> 64 word \<Rightarrow> 'j handled" where
  "queueC_acknowledge E d i = answered E success_void (queueUC_acknowledge (uc E) d i)"

definition queueC_fail :: "sites \<Rightarrow> db \<Rightarrow> 64 word \<Rightarrow> 'j handled" where
  "queueC_fail E d i = answered E success_void (queueUC_fail (uc E) d i)"

definition queueC_getMetrics :: "'j app \<Rightarrow> sites \<Rightarrow> db \<Rightarrow> 'j handled" where
  "queueC_getMetrics A E d =
     (Return (success_queue_metrics (queueUC_getMetrics (app_pg A) (uc E) d)), d)"

definition documentC_create :: "'j app \<Rightarrow> sites \<Rightarrow> db \<Rightarrow> string \<Rightarrow> http_request \<Rightarrow> 'j handled" where
  "documentC_create A E d collection rq =
     require E d (parseCreateDocumentRequest (app_json A) collection (hq_body rq)) (\<lambda>(coll, dat).
       answered E (success_document (app_json A)) (documentUC_create (app_pg A) (uc E) d coll dat))"

definition documentC_getById :: "'j app \<Rightarrow> sites \<Rightarrow> db \<Rightarrow> string \<Rightarrow> string \<Rightarrow> 'j handled" where
  "documentC_getById A E d collection i =
     answered E (success_document (app_json A)) (documentUC_getById (app_pg A) (uc E) d collection i, d)"

definition documentC_query :: "'j app \<Rightarrow> sites \<Rightarrow> db \<Rightarrow> string \<Rightarrow> http_request \<Rightarrow> 'j handled" where
  "documentC_query A E d collection rq =
     require E d (parseQueryDocumentRequest (app_json A) collection (hq_body rq)) (\<lambda>(coll, flt).
       answered E (success_documents (app_json A))
         (documentUC_query (app_pg A) (app_moveFirst A) (uc E) d coll flt, d))"

definition documentC_update ::
    "'j app \<Rightarrow> sites \<Rightarrow> db \<Rightarrow> string \<Rightarrow> string \<Rightarrow> http_request \<Rightarrow> 'j handled" where
  "documentC_update A E d collection i rq =
     (if hq_body rq = [] then
        refuse E d 400 ''Empty payload'' [''Updated JSON document body is required.'']
      else if js_load (app_json A) (hq_body rq) = None then
        refuse E d 400 ''Invalid JSON syntax'' [''Document update body must be valid JSON.'']
      else answered E (success_document (app_json A))
             (documentUC_update (app_pg A) (uc E) d collection i (hq_body rq)))"

definition documentC_remove :: "'j app \<Rightarrow> sites \<Rightarrow> db \<Rightarrow> string \<Rightarrow> string \<Rightarrow> 'j handled" where
  "documentC_remove A E d collection i =
     answered E success_void (documentUC_remove (app_pg A) (uc E) d collection i)"

section \<open>HealthController and DocsController\<close>

definition getHealth :: "'j app \<Rightarrow> sites \<Rightarrow> 'j http_response" where
  "getHealth A E =
     (let now = sysNow (E 0); uptimeSec = to_epoch (now - app_startTime A);
          health = \<lparr>hl_status = ''healthy'', hl_service = ''CrowApi Multi-Module Clean Architecture'',
                    hl_version = ''1.0.0'', hl_uptimeSeconds = uptimeSec,
                    hl_timestamp = currentTimestampIso8601 (sysNow (E 1))\<rparr>
      in success_health (api_ok (sysNow (E 2)) health
           ''Service is healthy and operating nominally'' 200))"

definition getOpenApiJson :: "'j app \<Rightarrow> 'j http_response" where
  "getOpenApiJson A =
     \<lparr>hr_code = 200, hr_body = Text_body (app_openApi A),
      hr_headers = [(''Content-Type'', ''application/json'')]\<rparr>"

definition getSwaggerUi :: "'j app \<Rightarrow> 'j http_response" where
  "getSwaggerUi A =
     \<lparr>hr_code = 200, hr_body = Text_body (app_swaggerHtml A),
      hr_headers = [(''Content-Type'', ''text/html; charset=utf-8'')]\<rparr>"

end
