(* ===== verification/Router.thy ===== *)
theory Router
  imports Controllers
begin

text \<open>
  \<^verbatim>\<open>Presentation/src/Routes/Router.cpp\<close>: the table of routes and the dispatch to the
  handlers. Matching a URL against the rules is Crow's: an \<open>endpoint\<close> is the rule that matched,
  with the arguments it captured.
\<close>

section \<open>Routes\<close>

datatype endpoint =
    R_openApi | R_docs | R_swagger | R_jwks
  | R_register | R_login | R_refresh | R_logout | R_logoutAll
  | R_googleUrl | R_googleCallback | R_google | R_setPassword
  | R_sessions | R_revokeSession string
  | R_adminSessions | R_adminRevokeSession string | R_adminRevokeAll string
  | R_health | R_apiHealth
  | R_todos | R_createTodo | R_todo "64 word" | R_updateTodo "64 word" | R_deleteTodo "64 word"
  | R_cacheGet string | R_cacheSet | R_cacheRemove string | R_cacheCleanup
  | R_publish | R_poll | R_ack "64 word" | R_fail "64 word" | R_metrics
  | R_createDocument string | R_document string string | R_queryDocuments string
  | R_updateDocument string string | R_deleteDocument string string

datatype http_method = GET | POST | PUT | DELETE

fun route :: "endpoint \<Rightarrow> http_method \<times> string" where
  "route R_openApi = (GET, ''/api/openapi.json'')"
| "route R_docs = (GET, ''/docs'')"
| "route R_swagger = (GET, ''/swagger'')"
| "route R_jwks = (GET, ''/.well-known/jwks.json'')"
| "route R_register = (POST, ''/api/v1/auth/register'')"
| "route R_login = (POST, ''/api/v1/auth/login'')"
| "route R_refresh = (POST, ''/api/v1/auth/refresh'')"
| "route R_logout = (POST, ''/api/v1/auth/logout'')"
| "route R_logoutAll = (POST, ''/api/v1/auth/logout-all'')"
| "route R_googleUrl = (GET, ''/api/v1/auth/google/url'')"
| "route R_googleCallback = (GET, ''/api/v1/auth/google/callback'')"
| "route R_google = (POST, ''/api/v1/auth/google'')"
| "route R_setPassword = (POST, ''/api/v1/auth/set-password'')"
| "route R_sessions = (GET, ''/api/v1/sessions'')"
| "route (R_revokeSession _) = (DELETE, ''/api/v1/sessions/<string>'')"
| "route R_adminSessions = (GET, ''/api/v1/admin/sessions'')"
| "route (R_adminRevokeSession _) = (DELETE, ''/api/v1/admin/sessions/<string>'')"
| "route (R_adminRevokeAll _) = (POST, ''/api/v1/admin/users/<string>/sessions/revoke-all'')"
| "route R_health = (GET, ''/health'')"
| "route R_apiHealth = (GET, ''/api/health'')"
| "route R_todos = (GET, ''/api/todos'')"
| "route R_createTodo = (POST, ''/api/todos'')"
| "route (R_todo _) = (GET, ''/api/todos/<uint>'')"
| "route (R_updateTodo _) = (PUT, ''/api/todos/<uint>'')"
| "route (R_deleteTodo _) = (DELETE, ''/api/todos/<uint>'')"
| "route (R_cacheGet _) = (GET, ''/api/cache/<string>'')"
| "route R_cacheSet = (POST, ''/api/cache'')"
| "route (R_cacheRemove _) = (DELETE, ''/api/cache/<string>'')"
| "route R_cacheCleanup = (POST, ''/api/cache/cleanup'')"
| "route R_publish = (POST, ''/api/queue/publish'')"
| "route R_poll = (POST, ''/api/queue/poll'')"
| "route (R_ack _) = (POST, ''/api/queue/ack/<uint>'')"
| "route (R_fail _) = (POST, ''/api/queue/fail/<uint>'')"
| "route R_metrics = (GET, ''/api/queue/metrics'')"
| "route (R_createDocument _) = (POST, ''/api/documents/<string>'')"
| "route (R_document _ _) = (GET, ''/api/documents/<string>/<string>'')"
| "route (R_queryDocuments _) = (POST, ''/api/documents/<string>/query'')"
| "route (R_updateDocument _ _) = (PUT, ''/api/documents/<string>/<string>'')"
| "route (R_deleteDocument _ _) = (DELETE, ''/api/documents/<string>/<string>'')"

text \<open>The lambdas of the table.\<close>

fun handle :: "'j app \<Rightarrow> sites \<Rightarrow> db \<Rightarrow> endpoint \<Rightarrow> http_request \<Rightarrow> 'j handled" where
  "handle A E d R_openApi rq = (Return (getOpenApiJson A), d)"
| "handle A E d R_docs rq = (Return (getSwaggerUi A), d)"
| "handle A E d R_swagger rq = (Return (getSwaggerUi A), d)"
| "handle A E d R_jwks rq = (Return (auth_getJwks A), d)"
| "handle A E d R_register rq = auth_registerUser A E d rq"
| "handle A E d R_login rq = auth_login A E d rq"
| "handle A E d R_refresh rq = auth_refresh A E d rq"
| "handle A E d R_logout rq = auth_logout A E d rq"
| "handle A E d R_logoutAll rq = auth_logoutAll A E d rq"
| "handle A E d R_googleUrl rq = auth_getGoogleAuthUrl A E d rq"
| "handle A E d R_googleCallback rq = auth_googleCallback A E d rq"
| "handle A E d R_google rq = auth_googleLogin A E d rq"
| "handle A E d R_setPassword rq = auth_setPassword A E d rq"
| "handle A E d R_sessions rq = session_getSessions A E d rq"
| "handle A E d (R_revokeSession sid) rq = session_revokeSession A E d rq sid"
| "handle A E d R_adminSessions rq = admin_getSessions A E d rq"
| "handle A E d (R_adminRevokeSession sid) rq = admin_revokeSession A E d rq sid"
| "handle A E d (R_adminRevokeAll uid) rq = admin_revokeAllUserSessions A E d rq uid"
| "handle A E d R_health rq = (Return (getHealth A E), d)"
| "handle A E d R_apiHealth rq = (Return (getHealth A E), d)"
| "handle A E d R_todos rq = todo_getAll A E d rq"
| "handle A E d R_createTodo rq = todo_create A E d rq"
| "handle A E d (R_todo i) rq = todo_getById A E d i"
| "handle A E d (R_updateTodo i) rq = todo_update A E d i rq"
| "handle A E d (R_deleteTodo i) rq = todo_remove A E d i"
| "handle A E d (R_cacheGet key) rq = cache_getKey E d key"
| "handle A E d R_cacheSet rq = cache_setKey A E d rq"
| "handle A E d (R_cacheRemove key) rq = cache_removeKey E d key"
| "handle A E d R_cacheCleanup rq = cache_cleanupAll E d"
| "handle A E d R_publish rq = queueC_publish A E d rq"
| "handle A E d R_poll rq = queueC_poll A E d rq"
| "handle A E d (R_ack i) rq = queueC_acknowledge E d i"
| "handle A E d (R_fail i) rq = queueC_fail E d i"
| "handle A E d R_metrics rq = queueC_getMetrics A E d"
| "handle A E d (R_createDocument coll) rq = documentC_create A E d coll rq"
| "handle A E d (R_document coll i) rq = documentC_getById A E d coll i"
| "handle A E d (R_queryDocuments coll) rq = documentC_query A E d coll rq"
| "handle A E d (R_updateDocument coll i) rq = documentC_update A E d coll i rq"
| "handle A E d (R_deleteDocument coll i) rq = documentC_remove A E d coll i"

text \<open>A log of requests served one after the other.\<close>

fun serve :: "'j app \<Rightarrow> db \<Rightarrow> (endpoint \<times> http_request \<times> sites) list \<Rightarrow> db" where
  "serve A d [] = d"
| "serve A d ((e, rq, E) # log) = serve A (snd (handle A E d e rq)) log"

section \<open>Every request is a run of transactions\<close>

lemma require_txns:
  "(\<And>v. p = Return (Ok v) \<Longrightarrow> txns P d (snd (k v))) \<Longrightarrow> txns P d (snd (require E d p k))"
  by (simp add: require_def split: outcome.split result.split)

lemma snd_answered [simp]: "snd (answered E ok rd) = snd rd"
  by (simp add: answered_def)

lemma snd_refuse [simp]: "snd (refuse E d code msg details) = d"
  by (simp add: refuse_def)

lemma sites_ok_uc [simp]: "sites_ok P E \<Longrightarrow> sites_ok P (uc E)"
  by (simp add: uc_def)

lemma google_answered_txns: "txns P d (snd rd) \<Longrightarrow> txns P d (snd (google_answered E rd))"
  by (simp add: google_answered_def split: outcome.split)

lemma with_admin_txns:
  "(\<And>adm. txns (app_pg A) d (snd (k adm))) \<Longrightarrow> txns (app_pg A) d (snd (with_admin A E d rq k))"
  by (auto simp: with_admin_def guarded_def intro!: require_txns split: option.split)

lemma todo_txns:
  "txns P d (snd (createTodo (postgres_repository P) E d cr))"
  "txns P d (snd (updateTodo (postgres_repository P) E d i ur))"
  "txns P d (snd (deleteTodo (postgres_repository P) E d i))"
  by (auto simp: createTodo_def updateTodo_def deleteTodo_def postgres_repository_def Let_def
      case_prod_beta intro!: txn_chain split: result.split option.split)

lemma cache_uc_txns:
  "txns P d (snd (cacheUC_set P E d sr))" "txns P d (snd (cacheUC_remove E d key))"
  "txns P d (snd (cacheUC_cleanup E d))"
  by (auto simp: cacheUC_set_def cacheUC_remove_def cacheUC_cleanup_def Let_def case_prod_beta
      intro!: txn_chain split: result.split option.split)

lemma queue_uc_txns:
  "txns P d (snd (queueUC_publish P E d topic payload))"
  "txns P d (snd (queueUC_acknowledge E d i))"
  by (auto simp: queueUC_publish_def queueUC_acknowledge_def Let_def case_prod_beta
      intro!: txn_chain split: result.split option.split)

lemma document_uc_txns:
  assumes "sites_ok P E"
  shows "txns P d (snd (documentUC_create P E d coll dat))"
    "txns P d (snd (documentUC_update P E d coll i dat))"
    "txns P d (snd (documentUC_remove P E d coll i))"
  using assms
  by (auto simp: documentUC_create_def documentUC_update_def documentUC_remove_def Let_def
      case_prod_beta intro!: txn_chain split: result.split option.split)

lemmas handler_defs =
  auth_registerUser_def auth_login_def auth_googleLogin_def auth_getGoogleAuthUrl_def
  auth_googleCallback_def auth_setPassword_def auth_refresh_def auth_logout_def auth_logoutAll_def
  session_getSessions_def session_revokeSession_def admin_getSessions_def admin_revokeSession_def
  admin_revokeAllUserSessions_def todo_getAll_def todo_getById_def todo_create_def todo_update_def
  todo_remove_def cache_getKey_def cache_setKey_def cache_removeKey_def cache_cleanupAll_def
  queueC_publish_def queueC_poll_def queueC_acknowledge_def queueC_fail_def queueC_getMetrics_def
  documentC_create_def documentC_getById_def documentC_query_def documentC_update_def
  documentC_remove_def todo_repo_def invalid_id_def

lemmas use_case_txns =
  registerUser_txns loginWithGoogle_txns getGoogleAuthUrl_txns setPassword_txns refresh_txns
  logout_txns logoutAll_txns session_uc_txns todo_txns cache_uc_txns queue_uc_txns
  queueUC_poll_txns queueUC_fail_txns document_uc_txns

lemma auth_login_txns:
  "txns (app_pg A) d (snd (auth_login A E d rq))" if "sites_ok (app_pg A) E"
  using login_txns[of "app_pg A" "uc E"] that
  by (auto simp: auth_login_def intro!: require_txns split: outcome.split)

lemma handle_txns:
  assumes "sites_ok (app_pg A) E"
  shows "txns (app_pg A) d (snd (handle A E d e rq))"
  using assms
  by (cases e)
    (auto simp: handler_defs guarded_def Let_def case_prod_beta
       intro!: require_txns with_admin_txns google_answered_txns use_case_txns auth_login_txns[unfolded auth_login_def]
       split: outcome.split option.split list.split)

lemma serve_txns:
  "list_all (\<lambda>(_, _, E). sites_ok (app_pg A) E) log \<Longrightarrow> txns (app_pg A) d (serve A d log)"
  by (induction A d log rule: serve.induct) (auto intro: rtranclp_trans handle_txns)

section \<open>Which routes ask for a token\<close>

fun needs_token :: "endpoint \<Rightarrow> bool" where
  "needs_token R_logout \<longleftrightarrow> True"
| "needs_token R_logoutAll \<longleftrightarrow> True"
| "needs_token R_setPassword \<longleftrightarrow> True"
| "needs_token R_sessions \<longleftrightarrow> True"
| "needs_token (R_revokeSession _) \<longleftrightarrow> True"
| "needs_token R_adminSessions \<longleftrightarrow> True"
| "needs_token (R_adminRevokeSession _) \<longleftrightarrow> True"
| "needs_token (R_adminRevokeAll _) \<longleftrightarrow> True"
| "needs_token _ \<longleftrightarrow> False"

lemma handle_guarded:
  assumes "needs_token e"
  shows "\<exists>k. handle A E d e rq = guarded A E d rq k"
  using assms
  by (cases e) (auto simp: auth_setPassword_def auth_logout_def auth_logoutAll_def
      session_getSessions_def session_revokeSession_def admin_getSessions_def admin_revokeSession_def
      admin_revokeAllUserSessions_def with_admin_def)

end
