(* ===== verification/Encoding.thy ===== *)
theory Encoding
  imports Std_Text Security_Interfaces
begin

text \<open>
  \<^verbatim>\<open>Infrastructure/src/Security/OpenSslCrypto.cpp\<close>: the program's own encoders (hexadecimal,
  base64url, UUID version 4, the password hash format) around the calls into OpenSSL. The
  OpenSSL functions are the fields of the record \<open>crypto\<close>, and what the program relies on
  them for is \<open>crypto_laws\<close>. \<^verbatim>\<open>RAND_bytes\<close> is a function from positions to bytes; when it
  fails, which the program only logs, that function is constantly zero.
\<close>

unbundle bit_operations_syntax

record crypto =
  cr_pbkdf2 :: "string \<Rightarrow> byte list \<Rightarrow> int \<Rightarrow> nat \<Rightarrow> byte list"
  cr_sha256 :: "string \<Rightarrow> byte list"
  cr_generateRsaKeypair :: "(nat \<Rightarrow> byte) \<Rightarrow> nat \<Rightarrow> string \<times> string"
  cr_rsaPublicParams :: "string \<Rightarrow> (byte list \<times> byte list) option"
  cr_sign :: "string \<Rightarrow> string \<Rightarrow> byte list option"
  cr_verify :: "string \<Rightarrow> string \<Rightarrow> byte list \<Rightarrow> bool"

definition crypto_laws :: "crypto \<Rightarrow> bool" where
  "crypto_laws K \<longleftrightarrow> (\<forall>m. length (cr_sha256 K m) = 32)"

text \<open>A private key whose signatures the public key accepts.\<close>

definition key_pair :: "crypto \<Rightarrow> string \<Rightarrow> string \<Rightarrow> bool" where
  "key_pair K priv pub \<longleftrightarrow>
     (\<forall>m sig. cr_sign K priv m = Some sig \<longrightarrow> cr_verify K pub m sig)"

section \<open>Hexadecimal\<close>

definition bytesToHex :: "byte list \<Rightarrow> string" where
  "bytesToHex bs = concat (map hex2 bs)"

fun hex_pairs :: "string \<Rightarrow> byte list" where
  "hex_pairs (a # b # s) = strtoul16_byte [a, b] # hex_pairs s"
| "hex_pairs _ = []"

definition hexToBytes :: "string \<Rightarrow> byte list" where
  "hexToBytes s = (if length s mod 2 \<noteq> 0 then [] else hex_pairs s)"

lemma length_bytesToHex [simp]: "length (bytesToHex bs) = 2 * length bs"
  by (induction bs) (simp_all add: bytesToHex_def)

lemma hex_pairs_hex2 [simp]: "hex_pairs (hex2 b @ s) = b # hex_pairs s"
  using strtoul16_byte_hex2[of b] by (simp add: hex2_def)

lemma hexToBytes_bytesToHex [simp]: "hexToBytes (bytesToHex bs) = bs"
proof -
  have "hex_pairs (bytesToHex bs) = bs"
    by (induction bs) (simp_all add: bytesToHex_def)
  then show ?thesis by (simp add: hexToBytes_def)
qed

lemma hex_digit_not:
  assumes "c \<in> set (bytesToHex bs)"
  shows "48 \<le> (of_char c :: nat) \<and> (of_char c :: nat) \<le> 57 \<or> 97 \<le> (of_char c :: nat) \<and> (of_char c :: nat) \<le> 102"
proof -
  obtain n where "n < 16" "c = hex_digit n"
    using assms hex2_hex_digits by (auto simp: bytesToHex_def)
  then show ?thesis by (auto simp: of_char_hex_digit)
qed

lemma dollar_notin_hex [simp]: "CHR ''$'' \<notin> set (bytesToHex bs)"
  using hex_digit_not[of "CHR ''$''" bs] by auto

section \<open>base64url\<close>

definition b64Chars :: string where
  "b64Chars = ''ABCDEFGHIJKLMNOPQRSTUVWXYZabcdefghijklmnopqrstuvwxyz0123456789-_''"

definition b64_char :: "32 word \<Rightarrow> char" where
  "b64_char w = b64Chars ! unat (w AND 0x3F)"

fun base64UrlEncode :: "byte list \<Rightarrow> string" where
  "base64UrlEncode (x0 # x1 # x2 # rest) =
     (let b0 = ucast x0 :: 32 word; b1 = ucast x1 :: 32 word; b2 = ucast x2 :: 32 word
      in [b64_char (drop_bit 2 b0),
          b64_char (push_bit 4 b0 OR drop_bit 4 b1),
          b64_char (push_bit 2 b1 OR drop_bit 6 b2),
          b64_char b2] @ base64UrlEncode rest)"
| "base64UrlEncode [x0, x1] =
     (let b0 = ucast x0 :: 32 word; b1 = ucast x1 :: 32 word
      in [b64_char (drop_bit 2 b0), b64_char (push_bit 4 b0 OR drop_bit 4 b1),
          b64_char (push_bit 2 b1)])"
| "base64UrlEncode [x0] =
     (let b0 = ucast x0 :: 32 word; b1 = 0 :: 32 word
      in [b64_char (drop_bit 2 b0), b64_char (push_bit 4 b0 OR drop_bit 4 b1)])"
| "base64UrlEncode [] = []"

definition decodeChar :: "char \<Rightarrow> int" where
  "decodeChar c =
     (let n = of_char c :: nat
      in if 65 \<le> n \<and> n \<le> 90 then int n - 65
         else if 97 \<le> n \<and> n \<le> 122 then int n - 97 + 26
         else if 48 \<le> n \<and> n \<le> 57 then int n - 48 + 52
         else if c = CHR ''-'' \<or> c = CHR ''+'' then 62
         else if c = CHR ''_'' \<or> c = CHR ''/'' then 63
         else if c = CHR ''='' then -2 else -1)"

text \<open>
  The loop of the decoder: \<^verbatim>\<open>val\<close> is a \<^verbatim>\<open>uint32_t\<close> that is never cleared, so bits of
  earlier groups stay in its upper part and are shifted out.
\<close>

fun b64_loop :: "32 word \<Rightarrow> nat \<Rightarrow> string \<Rightarrow> string option" where
  "b64_loop val valBits [] = Some []"
| "b64_loop val valBits (c # cs) =
     (let d = decodeChar c
      in if d = -1 then None
         else if d = -2 then Some []
         else
           (let val' = push_bit 6 val OR word_of_int d; bits = valBits + 6
            in if bits \<ge> 8 then
                 map_option ((#) (char_of_byte (ucast (drop_bit (bits - 8) val' AND 0xFF))))
                   (b64_loop val' (bits - 8) cs)
               else b64_loop val' bits cs))"

definition base64UrlDecode :: "string \<Rightarrow> string option" where
  "base64UrlDecode s = (if s = [] then Some [] else b64_loop 0 0 s)"

lemma length_b64Chars [simp]: "length b64Chars = 64"
  by (simp add: b64Chars_def)

lemma and_63_less: "unat ((w :: 32 word) AND 0x3F) < 64"
proof -
  have "w AND 0x3F \<le> 0x3F" by (rule word_and_le1)
  then have "unat (w AND 0x3F) \<le> unat (0x3F :: 32 word)" by (simp only: word_le_nat_alt)
  then show ?thesis by simp
qed

lemma b64_char_mem [simp]: "b64_char w \<in> set b64Chars"
  using and_63_less[of w] by (simp add: b64_char_def)

lemma map_decodeChar_alphabet: "map decodeChar b64Chars = map int [0..<64]"
  by (simp add: b64Chars_def decodeChar_def upt_rec)

lemma decode_alphabet:
  assumes "n < 64"
  shows "decodeChar (b64Chars ! n) = int n"
proof -
  have "decodeChar (b64Chars ! n) = map decodeChar b64Chars ! n" using assms by simp
  also have "\<dots> = int n" unfolding map_decodeChar_alphabet using assms by simp
  finally show ?thesis .
qed

lemma decodeChar_b64_char [simp]: "decodeChar (b64_char w) = uint (w AND 0x3F)"
  using decode_alphabet[OF and_63_less[of w]] by (simp add: b64_char_def)

text \<open>One turn of the register; kept folded so that the simplifier does not spread the shifts.\<close>

definition shift6 :: "32 word \<Rightarrow> 32 word \<Rightarrow> 32 word" where
  "shift6 v w = push_bit 6 v OR (w AND 0x3F)"

lemma b64_loop_char:
  "b64_loop v k (b64_char w # cs) =
     (if k + 6 \<ge> 8 then
        map_option ((#) (char_of_byte (ucast (drop_bit (k - 2) (shift6 v w) AND 0xFF))))
          (b64_loop (shift6 v w) (k - 2) cs)
      else b64_loop (shift6 v w) (k + 6) cs)"
proof -
  have "uint (w AND 0x3F) \<ge> 0" by simp
  then have "uint (w AND 0x3F) \<noteq> -1" "uint (w AND 0x3F) \<noteq> -2" by linarith+
  then show ?thesis by (simp add: Let_def shift6_def)
qed

text \<open>The bytes that four, three and two characters carry, whatever the register held.\<close>

lemma small_nat_cases:
  assumes "n < (8 :: nat)"
  obtains "n = 0" | "n = 1" | "n = 2" | "n = 3" | "n = 4" | "n = 5" | "n = 6" | "n = 7"
  using assms by linarith

lemma not_bit_byte: "8 \<le> n \<Longrightarrow> \<not> bit (x :: byte) n"
  using bit_imp_le_length[of x n] by auto

lemma byte_of_group0:
  "ucast (drop_bit 4 (shift6 (shift6 v (drop_bit 2 (ucast (x0 :: byte))))
     (push_bit 4 (ucast x0) OR drop_bit 4 (ucast (x1 :: byte)))) AND (0xFF :: 32 word)) = x0"
  by (rule bit_word_eqI, simp, elim small_nat_cases)
    (simp_all add: shift6_def bit_simps not_bit_byte)

lemma byte_of_group1:
  "ucast (drop_bit 2 (shift6 (shift6 v (push_bit 4 w OR drop_bit 4 (ucast (x1 :: byte))))
     (push_bit 2 (ucast x1) OR drop_bit 6 (ucast (x2 :: byte)))) AND (0xFF :: 32 word)) = x1"
  by (rule bit_word_eqI, simp, elim small_nat_cases)
    (simp_all add: shift6_def bit_simps not_bit_byte)

lemma byte_of_group2:
  "ucast (shift6 (shift6 v (push_bit 2 w OR drop_bit 6 (ucast (x2 :: byte)))) (ucast x2)
     AND (0xFF :: 32 word)) = x2"
  by (rule bit_word_eqI, simp, elim small_nat_cases)
    (simp_all add: shift6_def bit_simps not_bit_byte)

lemma b64_loop_encode: "b64_loop v 0 (base64UrlEncode bs) = Some (map char_of_byte bs)"
proof (induction bs arbitrary: v rule: base64UrlEncode.induct)
  case (1 x0 x1 x2 rest)
  then show ?case
    by (simp add: Let_def b64_loop_char byte_of_group0 byte_of_group1 byte_of_group2
        del: b64_loop.simps(2))
next
  case (2 x0 x1)
  show ?case
    using byte_of_group1[of _ "ucast x0" x1 0]
    by (simp add: Let_def b64_loop_char byte_of_group0 del: b64_loop.simps(2))
next
  case (3 x0)
  show ?case
    using byte_of_group0[of v x0 0]
    by (simp add: Let_def b64_loop_char del: b64_loop.simps(2))
next
  case 4
  show ?case by simp
qed

lemma base64Url_roundtrip [simp]:
  "base64UrlDecode (base64UrlEncode bs) = Some (map char_of_byte bs)"
  by (cases "base64UrlEncode bs = []")
    (use b64_loop_encode[of 0 bs] in \<open>simp_all add: base64UrlDecode_def\<close>)

lemma base64UrlEncode_alphabet: "set (base64UrlEncode bs) \<subseteq> set b64Chars"
  by (induction bs rule: base64UrlEncode.induct) (simp_all add: Let_def)

lemma length_base64UrlEncode:
  "length (base64UrlEncode bs) = 4 * (length bs div 3) + (if length bs mod 3 = 0 then 0 else length bs mod 3 + 1)"
  by (induction bs rule: base64UrlEncode.induct) (simp_all add: Let_def div_add_self1)

section \<open>Random bytes, tokens and identifiers\<close>

definition randomBytes :: "(nat \<Rightarrow> byte) \<Rightarrow> nat \<Rightarrow> byte list" where
  "randomBytes r n = map r [0..<n]"

definition generateSecureToken :: "(nat \<Rightarrow> byte) \<Rightarrow> nat \<Rightarrow> string" where
  "generateSecureToken r n = base64UrlEncode (randomBytes r n)"

definition generateUuidV4 :: "(nat \<Rightarrow> byte) \<Rightarrow> string" where
  "generateUuidV4 r =
     (let bytes = randomBytes r 16;
          bytes = bytes[6 := (bytes ! 6 AND 0x0F) OR 0x40];
          bytes = bytes[8 := (bytes ! 8 AND 0x3F) OR 0x80]
      in concat (map (\<lambda>i. (if i \<in> {4, 6, 8, 10} then ''-'' else []) @ hex2 (bytes ! i)) [0..<16]))"

definition sha256Hex :: "crypto \<Rightarrow> string \<Rightarrow> string" where
  "sha256Hex K s = bytesToHex (cr_sha256 K s)"

lemma length_randomBytes [simp]: "length (randomBytes r n) = n"
  by (simp add: randomBytes_def)

lemma length_sha256Hex [simp]: "crypto_laws K \<Longrightarrow> length (sha256Hex K s) = 64"
  by (simp add: sha256Hex_def crypto_laws_def)

text \<open>
  The form of a version 4 UUID: five groups of lower-case hexadecimal digits, with the
  version digit \<^verbatim>\<open>4\<close> and a variant digit of \<^verbatim>\<open>8\<close> to \<^verbatim>\<open>b\<close>.
\<close>

definition is_hex_digit :: "char \<Rightarrow> bool" where
  "is_hex_digit c \<longleftrightarrow> c \<in> set ''0123456789abcdef''"

definition uuid_v4 :: "string \<Rightarrow> bool" where
  "uuid_v4 s \<longleftrightarrow>
     length s = 36 \<and> s ! 14 = CHR ''4'' \<and> s ! 19 \<in> set ''89ab'' \<and>
     list_all (\<lambda>i. if i \<in> {8, 13, 18, 23} then s ! i = CHR ''-'' else is_hex_digit (s ! i)) [0..<36]"

lemma is_hex_digit_hex_digit [simp]: "n < 16 \<Longrightarrow> is_hex_digit (hex_digit n)"
proof -
  have "list_all (\<lambda>n. is_hex_digit (hex_digit n)) [0..<16]"
    by code_simp
  then show "n < 16 \<Longrightarrow> is_hex_digit (hex_digit n)" by (simp add: list_all_iff)
qed

section \<open>Signatures\<close>

definition signRs256 :: "crypto \<Rightarrow> string \<Rightarrow> string \<Rightarrow> string option" where
  "signRs256 K priv msg = map_option base64UrlEncode (cr_sign K priv msg)"

definition verifyRs256 :: "crypto \<Rightarrow> string \<Rightarrow> string \<Rightarrow> string \<Rightarrow> bool" where
  "verifyRs256 K pub msg sig =
     (case base64UrlDecode sig of
        None \<Rightarrow> False
      | Some raw \<Rightarrow> cr_verify K pub msg (map byte_of_char raw))"

definition extractRsaPublicParams :: "crypto \<Rightarrow> string \<Rightarrow> string \<times> string" where
  "extractRsaPublicParams K pub =
     (case cr_rsaPublicParams K pub of
        None \<Rightarrow> ([], [])
      | Some (n, e) \<Rightarrow> (base64UrlEncode n, base64UrlEncode e))"

lemma verify_signed:
  assumes "key_pair K priv pub" and "signRs256 K priv msg = Some sig"
  shows "verifyRs256 K pub msg sig"
  using assms by (auto simp: signRs256_def verifyRs256_def key_pair_def comp_def)

lemma signature_no_dot: "signRs256 K priv msg = Some sig \<Longrightarrow> CHR ''.'' \<notin> set sig"
  using base64UrlEncode_alphabet by (fastforce simp: signRs256_def b64Chars_def)

section \<open>Passwords\<close>

text \<open>
  The derived key is a buffer of \<open>len\<close> zero bytes that \<^verbatim>\<open>PKCS5_PBKDF2_HMAC\<close> fills; its
  return value is not looked at.
\<close>

definition derive_key :: "crypto \<Rightarrow> string \<Rightarrow> byte list \<Rightarrow> int \<Rightarrow> nat \<Rightarrow> byte list" where
  "derive_key K pw salt iterations len =
     take len (cr_pbkdf2 K pw salt iterations len @ replicate len 0)"

definition hash_prefix :: string where
  "hash_prefix = ''pbkdf2_sha256$''"

definition hashPassword :: "crypto \<Rightarrow> (nat \<Rightarrow> byte) \<Rightarrow> string \<Rightarrow> string" where
  "hashPassword K r password =
     (let salt = randomBytes r 32; derivedKey = derive_key K password salt 100000 32
      in hash_prefix @ string_of_nat 100000 @ ''$'' @ bytesToHex salt @ ''$'' @ bytesToHex derivedKey)"

definition verifyPassword :: "crypto \<Rightarrow> string \<Rightarrow> string \<Rightarrow> bool outcome" where
  "verifyPassword K password storedHash =
     (if \<not> starts_with hash_prefix storedHash then Return False
      else case str_find (CHR ''$'') 14 storedHash of
        None \<Rightarrow> Return False
      | Some firstDollar \<Rightarrow>
          (case str_find (CHR ''$'') (firstDollar + 1) storedHash of
             None \<Rightarrow> Return False
           | Some secondDollar \<Rightarrow>
               (case stoi (substr 14 (firstDollar - 14) storedHash) of
                  Throw \<Rightarrow> Throw
                | Return iterations \<Rightarrow>
                    (let saltHex = substr (firstDollar + 1) (secondDollar - (firstDollar + 1)) storedHash;
                         salt = hexToBytes saltHex;
                         expectedKey = hexToBytes (drop (secondDollar + 1) storedHash)
                     in if expectedKey = [] \<or> salt = [] then Return False
                        else Return (derive_key K password salt iterations (length expectedKey) =
                                     expectedKey)))))"

lemma length_derive_key [simp]: "length (derive_key K pw salt n len) = len"
  by (simp add: derive_key_def)

text \<open>The three fields of a stored hash are found where they were written.\<close>

lemma verifyPassword_fields:
  assumes "CHR ''$'' \<notin> set it" and "CHR ''$'' \<notin> set sh"
  shows "verifyPassword K pw (hash_prefix @ it @ CHR ''$'' # sh @ CHR ''$'' # kh) =
     (case stoi it of
        Throw \<Rightarrow> Throw
      | Return n \<Rightarrow>
          Return (hexToBytes kh \<noteq> [] \<and> hexToBytes sh \<noteq> [] \<and>
            derive_key K pw (hexToBytes sh) n (length (hexToBytes kh)) = hexToBytes kh))"
proof -
  have p: "length hash_prefix = 14" by (simp add: hash_prefix_def)
  have f1: "str_find (CHR ''$'') 14 (hash_prefix @ it @ CHR ''$'' # sh @ CHR ''$'' # kh) = Some (14 + length it)"
    using str_find_hit[of 14 "hash_prefix @ it" "CHR ''$''" "sh @ CHR ''$'' # kh"] assms(1)
    by (simp add: p)
  have f2: "str_find (CHR ''$'') (14 + length it + 1) (hash_prefix @ it @ CHR ''$'' # sh @ CHR ''$'' # kh) =
      Some (14 + length it + 1 + length sh)"
    using str_find_hit[of "14 + length it + 1" "hash_prefix @ it @ CHR ''$'' # sh" "CHR ''$''" kh] assms(2)
    by (simp add: p)
  show ?thesis
    by (simp only: verifyPassword_def f1 f2 starts_with_append option.case not_True_eq_False if_False)
      (auto simp: substr_def p Let_def split: outcome.split)
qed

lemma dollar_notin_digits [simp]: "CHR ''$'' \<notin> set (string_of_nat n)"
  using string_of_nat_digits[of n] by (auto simp: is_digit_def)

lemma verify_hashPassword: "verifyPassword K pw (hashPassword K r pw) = Return True"
proof -
  have "randomBytes r 32 \<noteq> []" "derive_key K pw salt n 32 \<noteq> []" for salt n
    by (metis length_randomBytes list.size(3) zero_neq_numeral)
      (metis length_derive_key list.size(3) zero_neq_numeral)
  then show ?thesis
    by (simp add: hashPassword_def Let_def verifyPassword_fields stoi_string_of_nat)
qed

interpretation openssl: password_hasher "hashPassword K" "verifyPassword K" for K
  by unfold_locales (simp_all add: verify_hashPassword, simp add: hashPassword_def Let_def)

section \<open>What the encoders promise\<close>

lemma sextets:
  "4 * (n div 3) + (if n mod 3 = 0 then 0 else n mod 3 + 1) = (8 * n + 5) div 6" for n :: nat
proof -
  obtain q k where n: "n = k + 3 * q" and k: "k < 3"
    by (rule that[of "n mod 3" "n div 3"]) simp_all
  have "8 * n + 5 = (8 * k + 5) + 6 * (4 * q)" using n by simp
  then have "(8 * n + 5) div 6 = (8 * k + 5) div 6 + 4 * q" by (simp only: div_mult_self2)
  moreover have "n div 3 = q" "n mod 3 = k" using n k by simp_all
  moreover have "(if k = 0 then 0 else k + 1) = (8 * k + 5) div 6"
  proof -
    consider "k = 0" | "k = 1" | "k = 2" using k by linarith
    then show ?thesis by cases simp_all
  qed
  ultimately show ?thesis by (simp del: div_mult_self1 split: if_splits)
qed

text \<open>
  C35. base64url is lossless and safe to put into a URL: whatever bytes are encoded, decoding
  gives them back, every character is a letter, a digit, a hyphen or an underscore, and the
  length is the number of sextets, without padding.
\<close>

theorem base64url_correct:
  "base64UrlDecode (base64UrlEncode bs) = Some (map char_of_byte bs) \<and>
   set (base64UrlEncode bs) \<subseteq> set b64Chars \<and>
   length (base64UrlEncode bs) = (8 * length bs + 5) div 6"
proof -
  have "4 * (n div 3) + (if n mod 3 = 0 then 0 else n mod 3 + 1) = (8 * n + 5) div 6" for n :: nat
    by (rule sextets)
  then show ?thesis
    using base64UrlEncode_alphabet[of bs] by (simp add: length_base64UrlEncode)
qed

lemma byte_eqI: "(\<And>n. n < 8 \<Longrightarrow> bit a n \<longleftrightarrow> bit b n) \<Longrightarrow> a = b" for a b :: byte
  by (rule bit_word_eqI) simp

lemma byte_le_3: "(w :: byte) \<le> 3 \<Longrightarrow> w \<in> {0, 1, 2, 3}"
proof -
  assume "w \<le> 3"
  then have "unat w \<le> 3" by (simp add: word_le_nat_alt)
  then consider "unat w = 0" | "unat w = 1" | "unat w = 2" | "unat w = 3" by linarith
  then show "w \<in> {0, 1, 2, 3}" by cases (simp_all add: word_unat_eq_iff)
qed

lemma version_nibble: "unat (((x :: byte) AND 0x0F) OR 0x40) div 16 = 4"
proof -
  have "drop_bit 4 ((x AND 0x0F) OR 0x40) = 4"
    by (rule byte_eqI, elim small_nat_cases) (simp_all add: bit_simps not_bit_byte)
  then have "unat (drop_bit 4 ((x AND 0x0F) OR 0x40)) = 4" by simp
  then show ?thesis by (simp add: drop_bit_eq_div unat_div)
qed

lemma variant_nibble:
  "unat (((x :: byte) AND 0x3F) OR 0x80) div 16 \<in> {8, 9, 10, 11}"
proof -
  have "drop_bit 4 ((x AND 0x3F) OR 0x80) = 8 OR (drop_bit 4 x AND 3)"
    by (rule byte_eqI, elim small_nat_cases) (simp_all add: bit_simps not_bit_byte)
  moreover have "drop_bit 4 x AND 3 \<in> {0, 1, 2, 3}"
    by (rule byte_le_3, rule word_and_le1)
  ultimately have "drop_bit 4 ((x AND 0x3F) OR 0x80) \<in> {8, 9, 10, 11}" by auto
  then have "unat (drop_bit 4 ((x AND 0x3F) OR 0x80)) \<in> {8, 9, 10, 11}" by auto
  then show ?thesis by (simp add: drop_bit_eq_div unat_div)
qed

lemma uuid_variant_digit: "n \<in> {8, 9, 10, 11} \<Longrightarrow> hex_digit n \<in> set ''89ab''"
proof -
  have "list_all (\<lambda>n. hex_digit n \<in> set ''89ab'') [8, 9, 10, 11]" by code_simp
  then show "n \<in> {8, 9, 10, 11} \<Longrightarrow> hex_digit n \<in> set ''89ab''" by auto
qed

text \<open>
  C37. Generated identifiers are version 4 UUIDs: whatever the random source delivers,
  \<^verbatim>\<open>generateUuidV4\<close> returns 36 characters in the five groups of the standard, in lower-case
  hexadecimal, with the version and variant digits set.
\<close>

theorem generated_uuid_is_v4: "uuid_v4 (generateUuidV4 r)"
proof -
  let ?b6 = "(r 6 AND 0x0F) OR 0x40" and ?b8 = "(r 8 AND 0x3F) OR 0x80"
  have v: "hex_digit (unat ?b6 div 16) = CHR ''4''"
    by (simp only: version_nibble) code_simp
  have w: "hex_digit (unat ?b8 div 16) \<in> set ''89ab''"
    by (rule uuid_variant_digit[OF variant_nibble])
  have u: "[0..<16] = [0, 1, 2, 3, 4, 5, 6, 7, 8, 9, 10, 11, 12, 13, 14, 15]" by code_simp
  have s: "generateUuidV4 r =
      hex2 (r 0) @ hex2 (r 1) @ hex2 (r 2) @ hex2 (r 3) @ ''-'' @ hex2 (r 4) @ hex2 (r 5) @ ''-'' @
      hex2 ?b6 @ hex2 (r 7) @ ''-'' @ hex2 ?b8 @ hex2 (r 9) @ ''-'' @ hex2 (r 10) @ hex2 (r 11) @
      hex2 (r 12) @ hex2 (r 13) @ hex2 (r 14) @ hex2 (r 15)"
    by (simp add: generateUuidV4_def randomBytes_def Let_def u)
  show ?thesis
    using w is_hex_digit_hex_digit[of 4] unfolding s hex2_def v
    by (simp add: uuid_v4_def upt_rec) (auto simp: is_hex_digit_def)
qed

end
