(* ===== verification/Key_Manager.thy ===== *)
theory Key_Manager
  imports Encoding
begin

text \<open>
  \<^verbatim>\<open>Infrastructure/src/Security/RsaKeyManager.cpp\<close>: the active signing key, the keys kept to
  verify older tokens, and the key set document that is published for both. Every public
  operation runs under the lock of the object, so it is one step here.
\<close>

record jwk_key =
  jw_kty :: string
  jw_use :: string
  jw_alg :: string
  jw_kid :: string
  jw_n :: string
  jw_e :: string

record signing_key =
  sk_kid :: string
  sk_privateKeyPem :: string
  sk_publicKeyPem :: string
  sk_jwk :: jwk_key

record key_manager =
  km_activeKey :: signing_key
  km_previousKeys :: "signing_key list"
  km_cachedJwksJson :: string

definition createKeyRecord :: "crypto \<Rightarrow> string \<Rightarrow> string \<Rightarrow> string \<Rightarrow> signing_key" where
  "createKeyRecord K kid privPem pubPem =
     (let (n, e) = extractRsaPublicParams K pubPem
      in \<lparr>sk_kid = kid, sk_privateKeyPem = privPem, sk_publicKeyPem = pubPem,
          sk_jwk = \<lparr>jw_kty = ''RSA'', jw_use = ''sig'', jw_alg = ''RS256'', jw_kid = kid,
                    jw_n = n, jw_e = e\<rparr>\<rparr>)"

text \<open>The text of \<^verbatim>\<open>rebuildJwksJsonLocked\<close>.\<close>

definition jwk_member :: "string \<Rightarrow> string \<Rightarrow> string" where
  "jwk_member k v = ''      '' @ dq k @ '': '' @ dq v"

definition writeJwk :: "jwk_key \<Rightarrow> bool \<Rightarrow> string" where
  "writeJwk jwk isLast =
     ''    {'' @ nl @
     jwk_member ''kty'' (jw_kty jwk) @ '','' @ nl @
     jwk_member ''use'' (jw_use jwk) @ '','' @ nl @
     jwk_member ''alg'' (jw_alg jwk) @ '','' @ nl @
     jwk_member ''kid'' (jw_kid jwk) @ '','' @ nl @
     jwk_member ''n'' (jw_n jwk) @ '','' @ nl @
     jwk_member ''e'' (jw_e jwk) @ nl @
     ''    }'' @ (if isLast then nl else '','' @ nl)"

fun write_previous :: "signing_key list \<Rightarrow> string" where
  "write_previous [] = []"
| "write_previous (k # ks) = writeJwk (sk_jwk k) (ks = []) @ write_previous ks"

definition jwks_json :: "signing_key \<Rightarrow> signing_key list \<Rightarrow> string" where
  "jwks_json active previous =
     ''{'' @ nl @ ''  '' @ dq ''keys'' @ '': ['' @ nl @
     writeJwk (sk_jwk active) (previous = []) @ write_previous previous @
     ''  ]'' @ nl @ ''}''"

definition rebuildJwksJsonLocked :: "key_manager \<Rightarrow> key_manager" where
  "rebuildJwksJsonLocked km =
     km\<lparr>km_cachedJwksJson := jwks_json (km_activeKey km) (km_previousKeys km)\<rparr>"

definition new_key_manager :: "crypto \<Rightarrow> (nat \<Rightarrow> byte) \<Rightarrow> string \<Rightarrow> string \<Rightarrow> string \<Rightarrow> key_manager" where
  "new_key_manager K r initialKid privateKeyPem publicKeyPem =
     (let (priv, pub) =
            (if privateKeyPem = [] \<or> publicKeyPem = [] then cr_generateRsaKeypair K r 2048
             else (privateKeyPem, publicKeyPem))
      in rebuildJwksJsonLocked
           \<lparr>km_activeKey = createKeyRecord K initialKid priv pub, km_previousKeys = [],
            km_cachedJwksJson = []\<rparr>)"

definition getActiveSigningKey :: "key_manager \<Rightarrow> signing_key" where
  "getActiveSigningKey km = km_activeKey km"

definition getVerificationPublicKeyPem :: "key_manager \<Rightarrow> string \<Rightarrow> string option" where
  "getVerificationPublicKeyPem km kid =
     (if sk_kid (km_activeKey km) = kid then Some (sk_publicKeyPem (km_activeKey km))
      else map_option sk_publicKeyPem (find (\<lambda>k. sk_kid k = kid) (km_previousKeys km)))"

definition getJwksJson :: "key_manager \<Rightarrow> string" where
  "getJwksJson km = km_cachedJwksJson km"

definition rotateKey :: "crypto \<Rightarrow> (nat \<Rightarrow> byte) \<Rightarrow> time \<Rightarrow> string \<Rightarrow> key_manager \<Rightarrow> key_manager" where
  "rotateKey K r now newKid km =
     (let kid = (if newKid = [] then ''key-'' @ string_of_int (to_epoch now) else newKid);
          (priv, pub) = cr_generateRsaKeypair K r 2048;
          prev = km_previousKeys km @ [km_activeKey km];
          prev = (if length prev > 5 then tl prev else prev)
      in rebuildJwksJsonLocked
           \<lparr>km_activeKey = createKeyRecord K kid priv pub, km_previousKeys = prev,
            km_cachedJwksJson = km_cachedJwksJson km\<rparr>)"

section \<open>The invariant of the key store\<close>

definition km_keys :: "key_manager \<Rightarrow> signing_key list" where
  "km_keys km = km_activeKey km # km_previousKeys km"

text \<open>
  At most five old keys, a document that shows exactly the keys in use, and keys whose
  published parameters are those of their own public key.
\<close>

definition key_ok :: "crypto \<Rightarrow> signing_key \<Rightarrow> bool" where
  "key_ok K k \<longleftrightarrow> k = createKeyRecord K (sk_kid k) (sk_privateKeyPem k) (sk_publicKeyPem k)"

definition km_wf :: "crypto \<Rightarrow> key_manager \<Rightarrow> bool" where
  "km_wf K km \<longleftrightarrow>
     length (km_previousKeys km) \<le> 5 \<and>
     km_cachedJwksJson km = jwks_json (km_activeKey km) (km_previousKeys km) \<and>
     (\<forall>k\<in>set (km_keys km). key_ok K k)"

lemma createKeyRecord_sel [simp]:
  "sk_kid (createKeyRecord K kid priv pub) = kid"
  "sk_privateKeyPem (createKeyRecord K kid priv pub) = priv"
  "sk_publicKeyPem (createKeyRecord K kid priv pub) = pub"
  by (simp_all add: createKeyRecord_def split: prod.split)

lemma key_ok_createKeyRecord [simp]: "key_ok K (createKeyRecord K kid priv pub)"
  by (simp add: key_ok_def)

lemma new_key_manager_wf: "km_wf K (new_key_manager K r kid priv pub)"
  by (simp add: new_key_manager_def rebuildJwksJsonLocked_def km_wf_def km_keys_def case_prod_beta)

lemma rotateKey_wf:
  assumes "km_wf K km"
  shows "km_wf K (rotateKey K r now kid km)"
proof -
  have "set (tl (km_previousKeys km @ [km_activeKey km])) \<subseteq> set (km_keys km)"
    by (cases "km_previousKeys km") (auto simp: km_keys_def)
  with assms show ?thesis
    by (auto simp: rotateKey_def rebuildJwksJsonLocked_def km_wf_def km_keys_def case_prod_beta Let_def)
qed

text \<open>Where the keys are after a rotation: the active one comes last among the old ones.\<close>

lemma rotateKey_sel:
  "km_previousKeys (rotateKey K r now kid km) =
     (let prev = km_previousKeys km @ [km_activeKey km] in if length prev > 5 then tl prev else prev)"
  "sk_kid (km_activeKey (rotateKey K r now kid km)) =
     (if kid = [] then ''key-'' @ string_of_int (to_epoch now) else kid)"
  by (simp_all add: rotateKey_def rebuildJwksJsonLocked_def case_prod_beta Let_def)

text \<open>A run of rotations, one per pair of random bytes, time and requested name.\<close>

type_synonym rotation = "(nat \<Rightarrow> byte) \<times> time \<times> string"

fun rotations :: "crypto \<Rightarrow> rotation list \<Rightarrow> key_manager \<Rightarrow> key_manager" where
  "rotations K [] km = km"
| "rotations K ((r, now, kid) # rs) km = rotations K rs (rotateKey K r now kid km)"

definition rotation_kid :: "rotation \<Rightarrow> string" where
  "rotation_kid x = (case x of (r, now, kid) \<Rightarrow>
     if kid = [] then ''key-'' @ string_of_int (to_epoch now) else kid)"

lemma rotations_wf: "km_wf K km \<Longrightarrow> km_wf K (rotations K rs km)"
  by (induction K rs km rule: rotations.induct) (auto simp: rotateKey_wf)

text \<open>
  The keys in the order of their creation. A rotation appends one and keeps the last six, so
  the history of a run is the end of all keys ever made.
\<close>

definition km_history :: "key_manager \<Rightarrow> signing_key list" where
  "km_history km = km_previousKeys km @ [km_activeKey km]"

definition rotation_key :: "crypto \<Rightarrow> rotation \<Rightarrow> signing_key" where
  "rotation_key K x =
     (let (priv, pub) = cr_generateRsaKeypair K (fst x) 2048
      in createKeyRecord K (rotation_kid x) priv pub)"

lemma rotation_key_kid [simp]: "sk_kid (rotation_key K x) = rotation_kid x"
  by (simp add: rotation_key_def case_prod_beta)

lemma rotation_key_kids [simp]: "sk_kid \<circ> rotation_key K = rotation_kid"
  by (rule ext) simp

lemma history_rotateKey:
  assumes "length (km_history km) \<le> 6"
  shows "km_history (rotateKey K r now kid km) =
    drop (length (km_history km) - 5) (km_history km) @ [rotation_key K (r, now, kid)]"
proof (cases "km_previousKeys km")
  case Nil
  then show ?thesis
    by (simp add: km_history_def rotateKey_def rebuildJwksJsonLocked_def case_prod_beta Let_def
        rotation_kid_def rotation_key_def)
next
  case (Cons k ks)
  with assms show ?thesis
    by (cases "length ks = 4") (auto simp: km_history_def rotateKey_def rebuildJwksJsonLocked_def case_prod_beta Let_def
        rotation_kid_def rotation_key_def)
qed

lemma history_rotations:
  assumes "length (km_history km) \<le> 6"
  shows "km_history (rotations K rs km) =
    (let all = km_history km @ map (rotation_key K) rs in drop (length all - 6) all)"
  using assms
proof (induction K rs km rule: rotations.induct)
  case (1 K km)
  then show ?case by simp
next
  case (2 K r now kid rs km)
  let ?h = "km_history km" and ?h' = "km_history (rotateKey K r now kid km)"
  let ?k = "rotation_key K (r, now, kid)" and ?ks = "map (rotation_key K) rs"
  have h': "?h' = drop (length ?h - 5) ?h @ [?k]"
    using history_rotateKey[OF 2(2)] by simp
  then have "length ?h' \<le> 6" using 2(2) by simp
  from 2(1)[OF this] have
    "km_history (rotations K ((r, now, kid) # rs) km) = drop (length (?h' @ ?ks) - 6) (?h' @ ?ks)"
    by (simp add: Let_def)
  also have "?h' @ ?ks = drop (length ?h - 5) (?h @ ?k # ?ks)"
    by (simp add: h')
  also have "drop (length (drop (length ?h - 5) (?h @ ?k # ?ks)) - 6) (drop (length ?h - 5) (?h @ ?k # ?ks)) =
      drop (length (?h @ ?k # ?ks) - 6) (?h @ ?k # ?ks)"
  proof (cases "length ?h \<le> 5")
    case True
    then show ?thesis by simp
  next
    case False
    with 2(2) have "length ?h = 6" by simp
    then show ?thesis by simp
  qed
  finally show ?case by (simp add: Let_def)
qed

lemma lookup_history:
  assumes "distinct (map sk_kid (km_history km))"
  shows "getVerificationPublicKeyPem km kid =
    map_of (map (\<lambda>k. (sk_kid k, sk_publicKeyPem k)) (km_history km)) kid"
proof -
  have f: "map_option sk_publicKeyPem (find (\<lambda>k. sk_kid k = kid) ks) =
      map_of (map (\<lambda>k. (sk_kid k, sk_publicKeyPem k)) ks) kid" for ks
    by (induction ks) auto
  have "kid = sk_kid (km_activeKey km) \<Longrightarrow>
      map_of (map (\<lambda>k. (sk_kid k, sk_publicKeyPem k)) (km_previousKeys km)) kid = None"
    using assms by (auto simp: km_history_def map_of_eq_None_iff)
  then show ?thesis
    by (auto simp: getVerificationPublicKeyPem_def f km_history_def map_add_def split: option.splits)
qed

lemma key_lookup:
  assumes "distinct (map sk_kid ks)" and "set xs \<subseteq> set ks" and "distinct (map sk_kid xs)"
    and "a \<in> set ks"
  shows "map_of (map (\<lambda>k. (sk_kid k, sk_publicKeyPem k)) xs) (sk_kid a) =
    (if a \<in> set xs then Some (sk_publicKeyPem a) else None)"
proof (cases "a \<in> set xs")
  case True
  with assms(3) show ?thesis by (auto intro!: map_of_is_SomeI simp: comp_def)
next
  case False
  have "sk_kid k \<noteq> sk_kid a" if "k \<in> set xs" for k
    using assms(1,2,4) that False by (auto simp: distinct_map inj_on_def)
  then have "map_of (map (\<lambda>k. (sk_kid k, sk_publicKeyPem k)) xs) (sk_kid a) = None"
    by (fastforce simp: map_of_eq_None_iff)
  with False show ?thesis by simp
qed

lemma rotation_lookup:
  assumes "km_wf K km"
    and "distinct (map sk_kid (km_history km) @ map rotation_kid rs)"
  shows "getVerificationPublicKeyPem (rotations K rs km) (sk_kid (km_activeKey km)) =
      (if length rs \<le> 5 then Some (sk_publicKeyPem (km_activeKey km)) else None)"
proof -
  let ?all = "km_history km @ map (rotation_key K) rs" and ?a = "km_activeKey km"
  have len: "length (km_history km) \<le> 6" using assms(1) by (simp add: km_wf_def km_history_def)
  have h: "km_history (rotations K rs km) = drop (length ?all - 6) ?all"
    using history_rotations[OF len, of K rs] by (simp add: Let_def)
  have d: "distinct (map sk_kid ?all)" using assms(2) by simp
  then have dd: "distinct (map sk_kid (drop n ?all))" for n
    by (metis distinct_drop drop_map)
  have split: "?all = km_previousKeys km @ ?a # map (rotation_key K) rs" by (simp add: km_history_def)
  have mem: "?a \<in> set (drop n ?all) \<longleftrightarrow> n \<le> length (km_previousKeys km)" for n
  proof -
    have "?a \<notin> set (map (rotation_key K) rs)" using d unfolding split by auto
    moreover have "?a \<notin> set (km_previousKeys km)" using d unfolding split by auto
    ultimately show ?thesis
      unfolding split by (auto dest: in_set_dropD simp: drop_Cons' dest: set_drop_subset[THEN subsetD])
  qed
  have "getVerificationPublicKeyPem (rotations K rs km) (sk_kid ?a) =
      map_of (map (\<lambda>k. (sk_kid k, sk_publicKeyPem k)) (drop (length ?all - 6) ?all)) (sk_kid ?a)"
    unfolding h[symmetric] by (rule lookup_history) (unfold h, rule dd)
  also have "\<dots> = (if ?a \<in> set (drop (length ?all - 6) ?all) then Some (sk_publicKeyPem ?a) else None)"
    by (rule key_lookup[OF d set_drop_subset dd]) (simp add: split)
  also have "?a \<in> set (drop (length ?all - 6) ?all) \<longleftrightarrow> length rs \<le> 5"
    using mem[of "length ?all - 6"] len by (auto simp: km_history_def)
  finally show ?thesis .
qed

text \<open>
  Rotation keeps old tokens verifiable for five rotations and no longer, and publishes what
  it keeps: as long as key names do not repeat, the public key that was active before a run of
  rotations is found under its name after at most five of them and not after more; the store
  never holds more than six keys, and the cached key set document always shows exactly these.
\<close>

theorem key_rotation_keeps_five:
  assumes "km_wf K km"
    and "distinct (map sk_kid (km_history km) @ map rotation_kid rs)"
  shows "getVerificationPublicKeyPem (rotations K rs km) (sk_kid (km_activeKey km)) =
      (if length rs \<le> 5 then Some (sk_publicKeyPem (km_activeKey km)) else None) \<and>
    length (km_keys (rotations K rs km)) \<le> 6 \<and>
    getJwksJson (rotations K rs km) =
      jwks_json (km_activeKey (rotations K rs km)) (km_previousKeys (rotations K rs km))"
  using rotation_lookup[OF assms] rotations_wf[OF assms(1), of rs]
  by (simp add: km_wf_def km_keys_def getJwksJson_def)

text \<open>A key store, and a run of six rotations under fresh names.\<close>

definition demo_crypto :: crypto where
  "demo_crypto =
     \<lparr>cr_pbkdf2 = (\<lambda>pw salt n len. take len (map byte_of_char pw @ replicate len 0)),
      cr_sha256 = (\<lambda>s. take 32 (map byte_of_char s @ replicate 32 0)),
      cr_generateRsaKeypair = (\<lambda>r n. (''priv'', ''pub'')),
      cr_rsaPublicParams = (\<lambda>pem. Some ([1], [3])),
      cr_sign = (\<lambda>priv m. Some (map byte_of_char m)),
      cr_verify = (\<lambda>pub m sig. sig = map byte_of_char m)\<rparr>"

definition demo_km :: key_manager where
  "demo_km = new_key_manager demo_crypto (\<lambda>_. 0) ''k0'' ''priv'' ''pub''"

lemma key_rotation_keeps_five_witness:
  "let rot = \<lambda>ks. rotations demo_crypto (map (\<lambda>k. (\<lambda>_. 0, 0, k)) ks) demo_km in
   getVerificationPublicKeyPem (rot [''a'', ''b'', ''c'', ''d'', ''e'']) ''k0'' = Some ''pub'' \<and>
   getVerificationPublicKeyPem (rot [''a'', ''b'', ''c'', ''d'', ''e'', ''f'']) ''k0'' = None"
proof -
  let ?rs = "map (\<lambda>k. (\<lambda>_. 0, 0, k)) :: string list \<Rightarrow> rotation list"
  have wf: "km_wf demo_crypto demo_km" unfolding demo_km_def by (rule new_key_manager_wf)
  have k: "sk_kid (km_activeKey demo_km) = ''k0''" "sk_publicKeyPem (km_activeKey demo_km) = ''pub''"
      "map sk_kid (km_history demo_km) = [''k0'']"
    by (simp_all add: demo_km_def new_key_manager_def rebuildJwksJsonLocked_def km_history_def)
  have d5: "distinct (map sk_kid (km_history demo_km) @
      map rotation_kid (?rs [''a'', ''b'', ''c'', ''d'', ''e'']))"
    and d6: "distinct (map sk_kid (km_history demo_km) @
      map rotation_kid (?rs [''a'', ''b'', ''c'', ''d'', ''e'', ''f'']))"
    by (simp_all add: k rotation_kid_def)
  show ?thesis
    using key_rotation_keeps_five[OF wf d5] key_rotation_keeps_five[OF wf d6] k by (simp add: Let_def)
qed

text \<open>
  A name can repeat: \<^verbatim>\<open>rotateKey()\<close> without a name uses the current second, so of two rotations
  in one second the first key is shadowed by the second and its tokens no longer verify.
\<close>

lemma rotation_in_one_second_shadows:
  assumes "to_epoch t = to_epoch t'" and "km' = rotateKey K r t [] km"
    and "sk_publicKeyPem (km_activeKey (rotateKey K r' t' [] km')) \<noteq> sk_publicKeyPem (km_activeKey km')"
  shows "getVerificationPublicKeyPem (rotateKey K r' t' [] km') (sk_kid (km_activeKey km')) \<noteq>
    Some (sk_publicKeyPem (km_activeKey km'))"
  using assms by (simp add: getVerificationPublicKeyPem_def rotateKey_sel)

end
