(* ===== verification/Json_Example.thy ===== *)
theory Json_Example
  imports Json
begin

text \<open>
  A small JSON library that prints and parses flat objects, at which the witnesses evaluate the
  properties that are parametric in the library of Crow. Its text format is its own: strings
  are written with a mark in front of every character.
\<close>

datatype demo_json = D_str string | D_int int | D_bool bool | D_obj "(string \<times> demo_json) list"

fun enc_str :: "string \<Rightarrow> string" where
  "enc_str [] = [CHR 0x00]"
| "enc_str (c # s) = CHR 0x01 # c # enc_str s"

fun dec_str :: "string \<Rightarrow> string \<times> string" where
  "dec_str (a # c # r) =
     (if a = CHR 0x01 then (let (s, t) = dec_str r in (c # s, t)) else ([], c # r))"
| "dec_str _ = ([], [])"

lemma dec_enc_str [simp]: "dec_str (enc_str s @ t) = (s, t)"
  by (induction s) (cases t; simp)+

definition int_of_string :: "string \<Rightarrow> int" where
  "int_of_string s =
     (case s of
        c # r \<Rightarrow> if c = CHR ''-'' then - int (digits_value r) else int (digits_value s)
      | [] \<Rightarrow> 0)"

lemma int_of_string_of_int [simp]: "int_of_string (string_of_int i) = i"
proof (cases "i < 0")
  case True
  then show ?thesis by (simp add: int_of_string_def string_of_int_def)
next
  case False
  obtain c r where n: "string_of_nat (nat i) = c # r"
    using string_of_nat_nonempty by (cases "string_of_nat (nat i)") blast+
  moreover have "c \<noteq> CHR ''-''"
    using string_of_nat_digits[of "nat i"] n by (auto simp: is_digit_def)
  moreover have "digits_value (c # r) = nat i"
    using digits_value_string_of_nat[of "nat i"] n by simp
  ultimately show ?thesis using False by (simp add: int_of_string_def string_of_int_def)
qed

fun enc_value :: "'j wvalue \<Rightarrow> string" where
  "enc_value (W_str s) = CHR ''s'' # enc_str s"
| "enc_value (W_int i) = CHR ''i'' # enc_str (string_of_int i)"
| "enc_value (W_bool b) = CHR ''b'' # enc_str (if b then ''t'' else [])"
| "enc_value _ = CHR ''n'' # enc_str []"

fun enc_fields :: "(string \<times> 'j wvalue) list \<Rightarrow> string" where
  "enc_fields [] = []"
| "enc_fields ((k, v) # kvs) = enc_str k @ enc_value v @ enc_fields kvs"

definition dec_value :: "char \<Rightarrow> string \<Rightarrow> demo_json" where
  "dec_value c s =
     (if c = CHR ''s'' then D_str s else if c = CHR ''i'' then D_int (int_of_string s)
      else D_bool (s \<noteq> []))"

fun dec_fields :: "nat \<Rightarrow> string \<Rightarrow> (string \<times> demo_json) list" where
  "dec_fields 0 _ = []"
| "dec_fields (Suc n) s =
     (if s = [] then []
      else case dec_str s of
        (k, c # r) \<Rightarrow> (let (v, t) = dec_str r in (k, dec_value c v) # dec_fields n t)
      | _ \<Rightarrow> [])"

fun demo_kind :: "demo_json \<Rightarrow> json_kind" where
  "demo_kind (D_str s) = JString"
| "demo_kind (D_int i) = JNumber"
| "demo_kind (D_bool b) = (if b then JTrue else JFalse)"
| "demo_kind (D_obj kvs) = JObject"

fun demo_at :: "demo_json \<Rightarrow> string \<Rightarrow> demo_json outcome" where
  "demo_at (D_obj kvs) k = (case map_of kvs k of Some v \<Rightarrow> Return v | None \<Rightarrow> Throw)"
| "demo_at _ k = Throw"

definition demo_json_api :: "demo_json json_api" where
  "demo_json_api =
     \<lparr>js_load = (\<lambda>s. Some (D_obj (dec_fields (length s) s))),
      js_kind = demo_kind,
      js_has = (\<lambda>j k. demo_at j k \<noteq> Throw),
      js_at = demo_at,
      js_s = (\<lambda>j. case j of D_str s \<Rightarrow> Return s | _ \<Rightarrow> Throw),
      js_i = (\<lambda>j. case j of D_int i \<Rightarrow> Return i | _ \<Rightarrow> Throw),
      js_b = (\<lambda>j. case j of D_bool b \<Rightarrow> Return b | _ \<Rightarrow> Throw),
      js_dump = (\<lambda>w. case w of W_obj kvs \<Rightarrow> enc_fields kvs | _ \<Rightarrow> [])\<rparr>"

fun demo_of_value :: "'j wvalue \<Rightarrow> demo_json" where
  "demo_of_value (W_str s) = D_str s"
| "demo_of_value (W_int i) = D_int i"
| "demo_of_value (W_bool b) = D_bool b"
| "demo_of_value _ = D_bool False"

lemma enc_str_nonempty [simp]: "enc_str s \<noteq> []"
  by (cases s) simp_all

lemma enc_value_cases: "\<exists>c s. enc_value v = c # enc_str s \<and> dec_value c s = demo_of_value v"
proof (cases v)
  case (W_bool b)
  show ?thesis
    by (rule exI[of _ "CHR ''b''"], rule exI[of _ "if b then ''t'' else []"])
      (simp add: W_bool dec_value_def)
qed (auto simp: dec_value_def intro: exI[of _ "[]"])

lemma dec_enc_fields:
  "length (enc_fields kvs) \<le> n \<Longrightarrow> dec_fields n (enc_fields kvs) = map (\<lambda>(k, v). (k, demo_of_value v)) kvs"
proof (induction kvs arbitrary: n)
  case Nil
  then show ?case by (cases n) simp_all
next
  case (Cons kv kvs)
  obtain k v where kv: "kv = (k, v)" by fastforce
  obtain c s where v: "enc_value v = c # enc_str s" "dec_value c s = demo_of_value v"
    using enc_value_cases by blast
  obtain m where n: "n = Suc m" using Cons.prems kv v by (cases n) simp_all
  have "length (enc_fields kvs) \<le> m" using Cons.prems kv v n by simp
  from Cons.IH[OF this] show ?case by (simp add: kv v n)
qed

lemma demo_json_laws: "json_laws demo_json_api"
  by (auto simp: json_laws_def demo_json_api_def split: demo_json.splits if_splits)

lemma demo_reads_value: "flat_value v \<Longrightarrow> reads_value demo_json_api v (demo_of_value v)"
  by (cases v) (simp_all add: demo_json_api_def)

lemma demo_json_roundtrip: "json_roundtrip demo_json_api"
proof -
  have "\<exists>j. js_load demo_json_api (js_dump demo_json_api (W_obj kvs)) = Some j \<and> reads_object demo_json_api kvs j"
    if flat: "\<forall>v\<in>snd ` set kvs. flat_value v" for kvs
  proof (intro exI conjI)
    let ?j = "D_obj (map (\<lambda>(k, v). (k, demo_of_value v)) kvs)"
    show "js_load demo_json_api (js_dump demo_json_api (W_obj kvs)) = Some ?j"
      by (simp add: demo_json_api_def dec_enc_fields)
    have m: "map_of (map (\<lambda>(k, v). (k, demo_of_value v)) kvs) k = map_option demo_of_value (map_of kvs k)" for k
      by (induction kvs) auto
    have "reads_value demo_json_api v (demo_of_value v)" if "map_of kvs k = Some v" for k v
      using that flat by (intro demo_reads_value) (force dest: map_of_SomeD)
    then show "reads_object demo_json_api kvs ?j"
      by (auto simp: reads_object_def m) (auto simp: demo_json_api_def m split: option.splits)
  qed
  then show ?thesis by (auto simp: json_roundtrip_def)
qed

end
