(* ===== verification/Jwt_Service.thy ===== *)
theory Jwt_Service
  imports Key_Manager Json_Example
begin

text \<open>
  \<^verbatim>\<open>Infrastructure/src/Security/JwtService.cpp\<close>: access tokens as JSON Web Tokens, signed with
  the active key of the key manager and verified with any key it still knows.
\<close>

section \<open>createAccessToken\<close>

definition jwt_header :: "string \<Rightarrow> (string \<times> 'j wvalue) list" where
  "jwt_header kid = [(''alg'', W_str ''RS256''), (''typ'', W_str ''JWT''), (''kid'', W_str kid)]"

definition jwt_payload ::
    "string \<Rightarrow> string \<Rightarrow> int \<Rightarrow> string \<Rightarrow> string \<Rightarrow> string \<Rightarrow> string \<Rightarrow> int \<Rightarrow> (string \<times> 'j wvalue) list" where
  "jwt_payload issuer audience iat userId rl sessionId jti ttl =
     [(''iss'', W_str issuer), (''sub'', W_str userId), (''aud'', W_str audience),
      (''iat'', W_int iat), (''nbf'', W_int iat), (''exp'', W_int (iat + ttl)),
      (''jti'', W_str jti), (''sid'', W_str sessionId), (''role'', W_str rl)]"

definition b64_text :: "string \<Rightarrow> string" where
  "b64_text s = base64UrlEncode (map byte_of_char s)"

definition createAccessToken ::
    "crypto \<Rightarrow> 'j json_api \<Rightarrow> string \<Rightarrow> string \<Rightarrow> key_manager \<Rightarrow> time \<Rightarrow> string \<Rightarrow> string \<Rightarrow> string \<Rightarrow>
     string \<Rightarrow> int \<Rightarrow> string" where
  "createAccessToken K J issuer audience km now userId rl sessionId jti ttl =
     (let signingKey = getActiveSigningKey km;
          iat = to_epoch now;
          headerB64 = b64_text (js_dump J (W_obj (jwt_header (sk_kid signingKey))));
          payloadB64 = b64_text (js_dump J (W_obj
            (jwt_payload issuer audience iat userId rl sessionId jti ttl)));
          signingInput = headerB64 @ ''.'' @ payloadB64
      in case signRs256 K (sk_privateKeyPem signingKey) signingInput of
           None \<Rightarrow> []
         | Some sig \<Rightarrow> signingInput @ ''.'' @ sig)"

section \<open>validateAccessToken\<close>

definition jwt_refused :: "string \<Rightarrow> string \<Rightarrow> 'a dresult outcome" where
  "jwt_refused msg detail = Return (Err (mk_error msg 401 [detail]))"

text \<open>
  The three segments of a token (lines 67 to 83): the positions of the first two dots, when
  there is no third.
\<close>

definition jwt_dots :: "string \<Rightarrow> (nat \<times> nat) option dresult" where
  "jwt_dots token =
     (case str_find (CHR ''.'') 0 token of
        None \<Rightarrow> Err (mk_error ''Malformed token format'' 401
                       [''Token does not contain expected dot delimiters.''])
      | Some firstDot \<Rightarrow>
          (case str_find (CHR ''.'') (firstDot + 1) token of
             None \<Rightarrow> Ok None
           | Some secondDot \<Rightarrow>
               if str_find (CHR ''.'') (secondDot + 1) token \<noteq> None then Ok None
               else Ok (Some (firstDot, secondDot))))"

text \<open>The header (lines 85 to 112): the name of the key of a token that claims RS256.\<close>

definition jwt_kid :: "'j json_api \<Rightarrow> string \<Rightarrow> string dresult outcome" where
  "jwt_kid J headerB64 =
     (case base64UrlDecode headerB64 of
        None \<Rightarrow> jwt_refused ''Invalid token header'' ''Base64URL decoding failed for header.''
      | Some text \<Rightarrow>
          (case js_load J text of
             None \<Rightarrow> jwt_refused ''Invalid token header syntax'' ''Header is not valid JSON.''
           | Some j \<Rightarrow>
               obind (if js_has J j ''alg''
                      then obind (read_string J j ''alg'') (\<lambda>a. Return (a = ''RS256''))
                      else Return False) (\<lambda>algOk.
                 if \<not> algOk then
                   jwt_refused ''Unsupported token algorithm'' ''Only RS256 algorithm is permitted.''
                 else
                   obind (has_string J j ''kid'') (\<lambda>kidOk.
                     if \<not> kidOk then
                       jwt_refused ''Missing key identifier'' ''JWS header must contain 'kid'.''
                     else obind (read_string J j ''kid'') (\<lambda>kid. Return (Ok kid))))))"

text \<open>
  The claims of a payload whose signature was verified (lines 131 to 195), read in the order of
  the code.
\<close>

definition read_int :: "'j json_api \<Rightarrow> 'j \<Rightarrow> string \<Rightarrow> int outcome" where
  "read_int J j k = obind (js_at J j k) (js_i J)"

definition optional_int :: "'j json_api \<Rightarrow> 'j \<Rightarrow> string \<Rightarrow> int outcome" where
  "optional_int J j k = (if js_has J j k then read_int J j k else Return 0)"

definition jwt_claims_of ::
    "'j json_api \<Rightarrow> string \<Rightarrow> string \<Rightarrow> string \<Rightarrow> time \<Rightarrow> 'j \<Rightarrow> jwt_claims dresult outcome" where
  "jwt_claims_of J issuer audience kid now j =
     (if \<not> list_all (js_has J j) [''iss'', ''sub'', ''aud'', ''exp'', ''jti'', ''sid''] then
        jwt_refused ''Missing mandatory JWT claims'' ''Claims must include iss, sub, aud, exp, jti, sid.''
      else
        obind (read_string J j ''iss'') (\<lambda>iss.
        if iss \<noteq> issuer then
          jwt_refused ''Invalid token issuer'' ''Issuer does not match expected authority.''
        else
        obind (read_string J j ''aud'') (\<lambda>aud.
        if aud \<noteq> audience then
          jwt_refused ''Invalid token audience'' ''Audience does not match expected target.''
        else
        obind (read_int J j ''exp'') (\<lambda>ex.
        if to_epoch now \<ge> ex then
          jwt_refused ''Token has expired'' ''Token expiration timestamp has passed.''
        else
        obind (optional_int J j ''nbf'') (\<lambda>nbf.
        if to_epoch now < nbf then
          jwt_refused ''Token not yet valid'' ''Current time is before token nbf timestamp.''
        else
        obind (read_string J j ''sub'') (\<lambda>sub.
        obind (optional_int J j ''iat'') (\<lambda>iat.
        obind (read_string J j ''jti'') (\<lambda>jti.
        obind (read_string J j ''sid'') (\<lambda>sid.
        obind (if js_has J j ''role'' then read_string J j ''role'' else Return ''user'') (\<lambda>rl.
          Return (Ok \<lparr>jc_iss = iss, jc_sub = sub, jc_aud = aud, jc_iat = iat, jc_nbf = nbf,
                      jc_exp = ex, jc_jti = jti, jc_sid = sid, jc_role = rl,
                      jc_kid = kid\<rparr>)))))))))))"

definition validateAccessToken ::
    "crypto \<Rightarrow> 'j json_api \<Rightarrow> string \<Rightarrow> string \<Rightarrow> key_manager \<Rightarrow> time \<Rightarrow> string
     \<Rightarrow> jwt_claims dresult outcome" where
  "validateAccessToken K J issuer audience km now token =
     (case jwt_dots token of
        Err e \<Rightarrow> Return (Err e)
      | Ok None \<Rightarrow> jwt_refused ''Malformed token format'' ''Token must have exactly 3 segments.''
      | Ok (Some (firstDot, secondDot)) \<Rightarrow>
          (let headerB64 = substr 0 firstDot token;
               payloadB64 = substr (firstDot + 1) (secondDot - (firstDot + 1)) token;
               sigB64 = drop (secondDot + 1) token
           in case jwt_kid J headerB64 of
                Throw \<Rightarrow> Throw
              | Return (Err e) \<Rightarrow> Return (Err e)
              | Return (Ok kid) \<Rightarrow>
                  (case getVerificationPublicKeyPem km kid of
                     None \<Rightarrow> jwt_refused ''Unknown signing key''
                               (''Key ID '' @ quoted kid @ '' not recognized.'')
                   | Some pub \<Rightarrow>
                       if \<not> verifyRs256 K pub (headerB64 @ ''.'' @ payloadB64) sigB64 then
                         jwt_refused ''Invalid signature'' ''Cryptographic signature verification failed.''
                       else case base64UrlDecode payloadB64 of
                         None \<Rightarrow> jwt_refused ''Invalid token payload'' ''Base64URL decoding failed for payload.''
                       | Some text \<Rightarrow>
                           (case js_load J text of
                              None \<Rightarrow> jwt_refused ''Invalid token payload syntax'' ''Payload is not valid JSON.''
                            | Some j \<Rightarrow> jwt_claims_of J issuer audience kid now j))))"

section \<open>Segments\<close>

lemma jwt_dots_Some:
  "jwt_dots token = Ok (Some (a, b)) \<longleftrightarrow>
     (\<exists>h p s. token = h @ ''.'' @ p @ ''.'' @ s \<and> CHR ''.'' \<notin> set h \<and> CHR ''.'' \<notin> set p \<and>
        CHR ''.'' \<notin> set s \<and> a = length h \<and> b = length h + 1 + length p)" (is "?L = ?R")
proof
  assume ?R
  then obtain h p s where t: "token = h @ ''.'' @ p @ ''.'' @ s" "CHR ''.'' \<notin> set h"
      "CHR ''.'' \<notin> set p" "CHR ''.'' \<notin> set s" "a = length h" "b = length h + 1 + length p" by blast
  have "str_find (CHR ''.'') 0 token = Some (length h)"
    using t str_find_hit[of 0 h "CHR ''.''" "p @ ''.'' @ s"] by simp
  moreover have "str_find (CHR ''.'') (length h + 1) token = Some (length h + 1 + length p)"
    using t str_find_hit[of "length h + 1" "h @ ''.'' @ p" "CHR ''.''" s] by simp
  moreover have "str_find (CHR ''.'') (length h + 1 + length p + 1) token = None"
    using t by (simp add: str_find_None_iff)
  ultimately show ?L using t(5,6) by (simp add: jwt_dots_def)
next
  assume ?L
  then have f: "str_find (CHR ''.'') 0 token = Some a" "str_find (CHR ''.'') (a + 1) token = Some b"
      "str_find (CHR ''.'') (b + 1) token = None"
    by (auto simp: jwt_dots_def split: option.splits if_splits)
  note A = str_find_SomeD[OF f(1)] and B = str_find_SomeD[OF f(2)]
  let ?h = "take a token" and ?p = "take (b - (a + 1)) (drop (a + 1) token)" and ?s = "drop (b + 1) token"
  have "drop a token = CHR ''.'' # drop (a + 1) token"
    using A by (metis Cons_nth_drop_Suc Suc_eq_plus1)
  moreover have "drop (a + 1) token = ?p @ drop b token"
    using B by (metis append_take_drop_id drop_drop le_add_diff_inverse2)
  moreover have "drop b token = CHR ''.'' # ?s"
    using B by (metis Cons_nth_drop_Suc Suc_eq_plus1)
  ultimately have "token = ?h @ ''.'' @ ?p @ ''.'' @ ?s"
    by (metis append_Cons append_Nil append_take_drop_id)
  moreover have "CHR ''.'' \<notin> set ?h"
    using A by (auto simp: in_set_conv_nth)
  moreover have "CHR ''.'' \<notin> set ?p"
    using B by (auto simp: in_set_conv_nth)
  moreover have "CHR ''.'' \<notin> set ?s" using f(3) by (simp add: str_find_None_iff)
  moreover have "a = length ?h" "b = length ?h + 1 + length ?p" using A B by auto
  ultimately show ?R by blast
qed

lemma b64_text_no_dot [simp]: "CHR ''.'' \<notin> set (b64_text s)"
  using base64UrlEncode_alphabet[of "map byte_of_char s"] by (auto simp: b64_text_def b64Chars_def)

lemma base64UrlDecode_b64_text [simp]: "base64UrlDecode (b64_text s) = Some s"
  by (simp add: b64_text_def comp_def)

section \<open>What an accepted token proves\<close>

lemma jwt_refused_not_Ok [simp]: "jwt_refused m x \<noteq> Return (Ok c)"
  by (simp add: jwt_refused_def)

lemma jwt_claims_of_Ok:
  assumes "jwt_claims_of J issuer audience kid now j = Return (Ok c)"
  shows "jc_iss c = issuer \<and> jc_aud c = audience \<and> jc_kid c = kid \<and>
    jc_nbf c \<le> to_epoch now \<and> to_epoch now < jc_exp c \<and>
    read_string J j ''iss'' = Return issuer \<and> read_string J j ''aud'' = Return audience \<and>
    read_string J j ''sub'' = Return (jc_sub c) \<and> read_string J j ''jti'' = Return (jc_jti c) \<and>
    read_string J j ''sid'' = Return (jc_sid c) \<and> read_int J j ''exp'' = Return (jc_exp c)"
  using assms
  by (auto simp: jwt_claims_of_def obind_Return_iff split: if_splits)

text \<open>Every check that an accepted token has passed.\<close>

lemma validate_Ok:
  assumes "validateAccessToken K J issuer audience km now token = Return (Ok c)"
  obtains h p sig kid pub dec j where "token = h @ ''.'' @ p @ ''.'' @ sig"
    "getVerificationPublicKeyPem km kid = Some pub" "verifyRs256 K pub (h @ ''.'' @ p) sig"
    "base64UrlDecode p = Some dec" "js_load J dec = Some j"
    "jwt_claims_of J issuer audience kid now j = Return (Ok c)"
proof -
  obtain a b where d: "jwt_dots token = Ok (Some (a, b))"
    using assms by (auto simp: validateAccessToken_def split: result.splits option.splits)
  then obtain h p sig where t: "token = h @ ''.'' @ p @ ''.'' @ sig" "a = length h"
      "b = length h + 1 + length p"
    using jwt_dots_Some by blast
  have seg: "substr 0 a token = h" "substr (Suc a) (b - Suc a) token = p" "drop (Suc b) token = sig"
    using t by (simp_all add: substr_def)
  note V = validateAccessToken_def d seg Let_def
  obtain kid where kid: "jwt_kid J h = Return (Ok kid)"
    using assms by (auto simp: V split: outcome.splits result.splits)
  obtain pub where pub: "getVerificationPublicKeyPem km kid = Some pub"
    using assms by (auto simp: V kid split: option.splits)
  have v: "verifyRs256 K pub (h @ ''.'' @ p) sig"
    using assms by (auto simp: V kid pub split: if_splits)
  obtain dec where dec: "base64UrlDecode p = Some dec"
    using assms v by (auto simp: V kid pub split: option.splits)
  obtain j where j: "js_load J dec = Some j"
    using assms v by (auto simp: V kid pub dec split: option.splits)
  have "jwt_claims_of J issuer audience kid now j = Return (Ok c)"
    using assms v by (simp add: V kid pub dec j)
  from that[OF t(1) pub v dec j this] show thesis .
qed

text \<open>
  C10. Only signed tokens are accepted: claims that \<^verbatim>\<open>validateAccessToken\<close> returns come from a
  token of exactly three segments whose first two were signed with a key the manager knows
  under the name in the header; they are the claims of its second segment, they were issued
  by and for this service, and the token is in its period of validity.
\<close>

theorem accepted_token_is_signed:
  assumes "validateAccessToken K J issuer audience km now token = Return (Ok c)"
  shows "\<exists>h p sig pub dec j. token = h @ ''.'' @ p @ ''.'' @ sig \<and>
    getVerificationPublicKeyPem km (jc_kid c) = Some pub \<and>
    verifyRs256 K pub (h @ ''.'' @ p) sig \<and>
    base64UrlDecode p = Some dec \<and> js_load J dec = Some j \<and>
    read_string J j ''sub'' = Return (jc_sub c) \<and> read_string J j ''sid'' = Return (jc_sid c) \<and>
    read_string J j ''jti'' = Return (jc_jti c) \<and>
    jc_iss c = issuer \<and> jc_aud c = audience \<and>
    jc_nbf c \<le> to_epoch now \<and> to_epoch now < jc_exp c"
  using assms by (rule validate_Ok) (use jwt_claims_of_Ok in fastforce)

definition issued_claims ::
    "string \<Rightarrow> string \<Rightarrow> int \<Rightarrow> string \<Rightarrow> string \<Rightarrow> string \<Rightarrow> string \<Rightarrow> int \<Rightarrow> string \<Rightarrow> jwt_claims" where
  "issued_claims iss aud iat uid rl sid jti ttl kid =
     \<lparr>jc_iss = iss, jc_sub = uid, jc_aud = aud, jc_iat = iat, jc_nbf = iat, jc_exp = iat + ttl,
      jc_jti = jti, jc_sid = sid, jc_role = rl, jc_kid = kid\<rparr>"

text \<open>The shape of a token the service created: its segments, and the key its header names.\<close>

lemma created_segments:
  assumes "json_roundtrip J" and "\<And>m. cr_sign K (sk_privateKeyPem (km_activeKey km)) m \<noteq> None"
  obtains h sig where
    "createAccessToken K J iss aud km now uid rl sid jti ttl =
       h @ ''.'' @ b64_text (js_dump J (W_obj (jwt_payload iss aud (to_epoch now) uid rl sid jti ttl))) @ ''.'' @ sig"
    "signRs256 K (sk_privateKeyPem (km_activeKey km))
       (h @ ''.'' @ b64_text (js_dump J (W_obj (jwt_payload iss aud (to_epoch now) uid rl sid jti ttl)))) = Some sig"
    "jwt_kid J h = Return (Ok (sk_kid (km_activeKey km)))" "CHR ''.'' \<notin> set h" "CHR ''.'' \<notin> set sig"
proof -
  let ?k = "km_activeKey km"
  let ?H = "jwt_header (sk_kid ?k)" and ?P = "jwt_payload iss aud (to_epoch now) uid rl sid jti ttl"
  let ?h = "b64_text (js_dump J (W_obj ?H))" and ?p = "b64_text (js_dump J (W_obj ?P))"
  obtain sig where sig: "signRs256 K (sk_privateKeyPem ?k) (?h @ ''.'' @ ?p) = Some sig"
    using assms(2)[of "?h @ ''.'' @ ?p"] by (cases "cr_sign K (sk_privateKeyPem ?k) (?h @ ''.'' @ ?p)")
      (auto simp: signRs256_def)
  obtain jh where jh: "js_load J (js_dump J (W_obj ?H)) = Some jh" "reads_object J ?H jh"
    by (rule json_roundtripE[OF assms(1), of ?H]) (auto simp: jwt_header_def)
  show thesis
  proof (rule that[of ?h sig])
    show "createAccessToken K J iss aud km now uid rl sid jti ttl = ?h @ ''.'' @ ?p @ ''.'' @ sig"
      using sig by (simp add: createAccessToken_def getActiveSigningKey_def Let_def)
    show "jwt_kid J ?h = Return (Ok (sk_kid ?k))"
      using reads_object_string[OF jh(2), of "''alg''" "''RS256''"]
        reads_object_string[OF jh(2), of "''kid''" "sk_kid ?k"] jh(1)
      by (simp add: jwt_kid_def jwt_header_def)
  qed (use sig signature_no_dot[OF sig] in simp_all)
qed

text \<open>The checks of a token of three segments, up to the signature.\<close>

lemma validate_segments:
  assumes "CHR ''.'' \<notin> set h" "CHR ''.'' \<notin> set p" "CHR ''.'' \<notin> set sig" and "jwt_kid J h = Return (Ok kid)"
  shows "validateAccessToken K J iss aud km now (h @ ''.'' @ p @ ''.'' @ sig) =
    (case getVerificationPublicKeyPem km kid of
       None \<Rightarrow> jwt_refused ''Unknown signing key'' (''Key ID '' @ quoted kid @ '' not recognized.'')
     | Some pub \<Rightarrow>
         if \<not> verifyRs256 K pub (h @ ''.'' @ p) sig then
           jwt_refused ''Invalid signature'' ''Cryptographic signature verification failed.''
         else case base64UrlDecode p of
           None \<Rightarrow> jwt_refused ''Invalid token payload'' ''Base64URL decoding failed for payload.''
         | Some text \<Rightarrow>
             (case js_load J text of
                None \<Rightarrow> jwt_refused ''Invalid token payload syntax'' ''Payload is not valid JSON.''
              | Some j \<Rightarrow> jwt_claims_of J iss aud kid now j))"
proof -
  have "jwt_dots (h @ ''.'' @ p @ ''.'' @ sig) = Ok (Some (length h, length h + 1 + length p))"
    using assms(1-3) by (subst jwt_dots_Some) (intro exI conjI; simp)
  then show ?thesis
    using assms(4) by (simp add: validateAccessToken_def substr_def split: option.split)
qed

text \<open>A token made with another key of the same name fails the check of its signature.\<close>

lemma foreign_token_refused:
  assumes "json_roundtrip J" and "\<And>m. cr_sign K (sk_privateKeyPem (km_activeKey km)) m \<noteq> None"
    and "getVerificationPublicKeyPem km' (sk_kid (km_activeKey km)) = Some pub'"
    and "\<And>m sig. cr_sign K (sk_privateKeyPem (km_activeKey km)) m = Some sig \<Longrightarrow> \<not> cr_verify K pub' m sig"
  shows "validateAccessToken K J iss aud km' now'
      (createAccessToken K J iss aud km now uid rl sid jti ttl) =
    jwt_refused ''Invalid signature'' ''Cryptographic signature verification failed.''"
proof (rule created_segments[where km = km and iss = iss and aud = aud and now = now and uid = uid and rl = rl and
      sid = sid and jti = jti and ttl = ttl, OF assms(1,2)])
  fix h sig
  let ?p = "b64_text (js_dump J (W_obj (jwt_payload iss aud (to_epoch now) uid rl sid jti ttl)))"
  assume t: "createAccessToken K J iss aud km now uid rl sid jti ttl = h @ ''.'' @ ?p @ ''.'' @ sig"
    and sig: "signRs256 K (sk_privateKeyPem (km_activeKey km)) (h @ ''.'' @ ?p) = Some sig"
    and kid: "jwt_kid J h = Return (Ok (sk_kid (km_activeKey km)))"
    and dots: "CHR ''.'' \<notin> set h" "CHR ''.'' \<notin> set sig"
  have "\<not> verifyRs256 K pub' (h @ ''.'' @ ?p) sig"
    using sig assms(4) by (auto simp: signRs256_def verifyRs256_def comp_def)
  then show ?thesis
    unfolding t validate_segments[OF dots(1) b64_text_no_dot dots(2) kid] by (simp add: assms(3))
qed

text \<open>
  A token the service created, checked by a manager that may have been rotated since: what
  the answer is for a key that is still known and for one that is not.
\<close>

lemma created_token:
  assumes "json_roundtrip J" and "int8 (to_epoch now)" and "int8 (to_epoch now + ttl)"
    and "key_pair K (sk_privateKeyPem (km_activeKey km)) pub"
    and "\<And>m. cr_sign K (sk_privateKeyPem (km_activeKey km)) m \<noteq> None"
    and "getVerificationPublicKeyPem km' (sk_kid (km_activeKey km)) \<in> {None, Some pub}"
    and "to_epoch now \<le> to_epoch now'"
  shows "validateAccessToken K J iss aud km' now'
      (createAccessToken K J iss aud km now uid rl sid jti ttl) =
    (case getVerificationPublicKeyPem km' (sk_kid (km_activeKey km)) of
       None \<Rightarrow> jwt_refused ''Unknown signing key''
                 (''Key ID '' @ quoted (sk_kid (km_activeKey km)) @ '' not recognized.'')
     | Some pub' \<Rightarrow>
         if to_epoch now' < to_epoch now + ttl then
           Return (Ok (issued_claims iss aud (to_epoch now) uid rl sid jti ttl (sk_kid (km_activeKey km))))
         else jwt_refused ''Token has expired'' ''Token expiration timestamp has passed.'')"
proof (rule created_segments[where km = km and iss = iss and aud = aud and now = now and uid = uid and rl = rl and
      sid = sid and jti = jti and ttl = ttl, OF assms(1,5)])
  let ?k = "km_activeKey km" and ?P = "jwt_payload iss aud (to_epoch now) uid rl sid jti ttl"
  let ?p = "b64_text (js_dump J (W_obj ?P))"
  fix h sig
  assume t: "createAccessToken K J iss aud km now uid rl sid jti ttl = h @ ''.'' @ ?p @ ''.'' @ sig"
    and sig: "signRs256 K (sk_privateKeyPem ?k) (h @ ''.'' @ ?p) = Some sig"
    and kid: "jwt_kid J h = Return (Ok (sk_kid ?k))"
    and dots: "CHR ''.'' \<notin> set h" "CHR ''.'' \<notin> set sig"
  obtain jp where jp: "js_load J (js_dump J (W_obj ?P)) = Some jp" "reads_object J ?P jp"
    by (rule json_roundtripE[OF assms(1), of ?P]) (use assms(2,3) in \<open>auto simp: jwt_payload_def\<close>)
  have v: "verifyRs256 K pub (h @ ''.'' @ ?p) sig"
    using assms(4) sig by (rule verify_signed)
  note S = reads_object_string[OF jp(2)] and I = reads_object_int[OF jp(2)]
  have claims: "jwt_claims_of J iss aud (sk_kid ?k) now' jp =
    (if to_epoch now' < to_epoch now + ttl then
       Return (Ok (issued_claims iss aud (to_epoch now) uid rl sid jti ttl (sk_kid ?k)))
     else jwt_refused ''Token has expired'' ''Token expiration timestamp has passed.'')"
    using assms(7)
      S(1,2)[of "''iss''" iss] S(1,2)[of "''sub''" uid] S(1,2)[of "''aud''" aud]
      S(1,2)[of "''jti''" jti] S(1,2)[of "''sid''" sid] S(1,2)[of "''role''" rl]
      I[of "''exp''" "to_epoch now + ttl"] I[of "''nbf''" "to_epoch now"] I[of "''iat''" "to_epoch now"]
    by (simp add: jwt_payload_def jwt_claims_of_def optional_int_def read_int_def issued_claims_def)
  show ?thesis
    unfolding t validate_segments[OF dots(1) b64_text_no_dot dots(2) kid]
    using v assms(6) jp(1) claims by auto
qed

text \<open>
  C11. The life of an access token: a token the service created comes back with the claims that
  were put into it until the second it expires, and is refused as expired from then on; it
  stays valid over up to five rotations of the signing key and is refused as signed by an
  unknown key after more.
\<close>

theorem access_token_life:
  assumes "json_roundtrip J" and "int8 (to_epoch now)" and "int8 (to_epoch now + ttl)"
    and "km_wf K km" and "distinct (map sk_kid (km_history km) @ map rotation_kid rs)"
    and "key_pair K (sk_privateKeyPem (km_activeKey km)) (sk_publicKeyPem (km_activeKey km))"
    and "\<And>m. cr_sign K (sk_privateKeyPem (km_activeKey km)) m \<noteq> None"
    and "to_epoch now \<le> to_epoch now'"
  shows "validateAccessToken K J iss aud (rotations K rs km) now'
      (createAccessToken K J iss aud km now uid rl sid jti ttl) =
    (if 5 < length rs then
       jwt_refused ''Unknown signing key''
         (''Key ID '' @ quoted (sk_kid (km_activeKey km)) @ '' not recognized.'')
     else if to_epoch now' < to_epoch now + ttl then
       Return (Ok (issued_claims iss aud (to_epoch now) uid rl sid jti ttl (sk_kid (km_activeKey km))))
     else jwt_refused ''Token has expired'' ''Token expiration timestamp has passed.'')"
  using created_token[OF assms(1,2,3,6,7) _ assms(8), of "rotations K rs km"]
    rotation_lookup[OF assms(4,5)]
  by auto

lemma demo_km_keys:
  "km_wf demo_crypto demo_km" "sk_kid (km_activeKey demo_km) = ''k0''"
  "sk_privateKeyPem (km_activeKey demo_km) = ''priv''" "sk_publicKeyPem (km_activeKey demo_km) = ''pub''"
  "map sk_kid (km_history demo_km) = [''k0'']"
  "key_pair demo_crypto (sk_privateKeyPem (km_activeKey demo_km)) (sk_publicKeyPem (km_activeKey demo_km))"
  "cr_sign demo_crypto priv m \<noteq> None"
  by (simp_all add: demo_km_def new_key_manager_wf)
    (simp_all add: new_key_manager_def rebuildJwksJsonLocked_def km_history_def key_pair_def demo_crypto_def)

abbreviation demo_token :: string where
  "demo_token \<equiv>
     createAccessToken demo_crypto demo_json_api ''i'' ''a'' demo_km 0 ''u1'' ''user'' ''s1'' ''j1'' 900"

lemma access_token_life_witness:
  "let v = \<lambda>ks t. validateAccessToken demo_crypto demo_json_api ''i'' ''a''
         (rotations demo_crypto (map (\<lambda>k. (\<lambda>_. 0, 0, k)) ks) demo_km) (seconds t) demo_token in
   v [] 899 = Return (Ok (issued_claims ''i'' ''a'' 0 ''u1'' ''user'' ''s1'' ''j1'' 900 ''k0'')) \<and>
   v [''a''] 900 = jwt_refused ''Token has expired'' ''Token expiration timestamp has passed.'' \<and>
   v [''a'', ''b'', ''c'', ''d'', ''e'', ''f''] 1 =
     jwt_refused ''Unknown signing key'' (''Key ID '' @ quoted ''k0'' @ '' not recognized.'')"
proof -
  let ?rs = "map (\<lambda>k. (\<lambda>_. 0, 0, k)) :: string list \<Rightarrow> rotation list"
  have d: "distinct (map sk_kid (km_history demo_km) @ map rotation_kid (?rs ks))"
    if "distinct (''k0'' # ks)" "[] \<notin> set ks" for ks
    using that by (auto simp: demo_km_keys rotation_kid_def comp_def distinct_map inj_on_def)
  have e: "to_epoch 0 = 0" "to_epoch (seconds t) = t" for t
    using to_epoch_from_epoch[of t] by (simp_all add: to_epoch_def seconds_def from_epoch_def)
  note L = access_token_life[OF demo_json_roundtrip _ _ demo_km_keys(1) d demo_km_keys(6,7),
      where now = 0 and ttl = 900 and iss = "''i''" and aud = "''a''" and uid = "''u1''" and
        rl = "''user''" and sid = "''s1''" and jti = "''j1''"]
  show ?thesis
    using L[of "[]" "seconds 899"] L[of "[''a'']" "seconds 900"]
      L[of "[''a'', ''b'', ''c'', ''d'', ''e'', ''f'']" "seconds 1"]
    by (simp add: Let_def e int8_def demo_km_keys)
qed

lemma accepted_token_is_signed_witness:
  "\<exists>h p sig. demo_token = h @ ''.'' @ p @ ''.'' @ sig \<and> verifyRs256 demo_crypto ''pub'' (h @ ''.'' @ p) sig"
proof -
  have "validateAccessToken demo_crypto demo_json_api ''i'' ''a'' demo_km 0 demo_token =
      Return (Ok (issued_claims ''i'' ''a'' 0 ''u1'' ''user'' ''s1'' ''j1'' 900 ''k0''))"
    using created_token[OF demo_json_roundtrip _ _ demo_km_keys(6,7), where now = 0 and ttl = 900 and now' = 0
        and km' = demo_km]
    by (simp add: demo_km_keys getVerificationPublicKeyPem_def to_epoch_def int8_def)
  from accepted_token_is_signed[OF this] show ?thesis
    by (auto simp: issued_claims_def getVerificationPublicKeyPem_def demo_km_keys)
qed

end
