(* ===== verification/Google_Service.thy ===== *)
theory Google_Service
  imports Encoding Json_Example Auth_UseCases
begin

text \<open>
  \<^verbatim>\<open>Infrastructure/src/Security/GoogleAuthService.cpp\<close>: OpenID Connect against Google, in
  the build for systems other than Windows, where the HTTP client is \<^verbatim>\<open>curl\<close> in a shell. The
  operating system (\<^verbatim>\<open>popen\<close>, \<^verbatim>\<open>mkstemp\<close>, \<^verbatim>\<open>write\<close>) is the record \<open>host_os\<close>; a method that
  reads the clock takes its reading.
\<close>

record google_config =
  gc_clientId :: string
  gc_clientSecret :: string
  gc_redirectUri :: string

text \<open>
  \<open>os_popen f cmd\<close> is what the shell command prints while the file \<open>f\<close>, a name with its
  contents, exists; \<open>None\<close> when no pipe could be opened. \<open>os_write\<close> tells whether all bytes
  were written.
\<close>

record host_os =
  os_popen :: "(string \<times> string) option \<Rightarrow> string \<Rightarrow> string option"
  os_mkstemp :: "string option"
  os_write :: "string \<Rightarrow> bool"

section \<open>URL encoding\<close>

text \<open>\<^verbatim>\<open>isalnum\<close> of the C locale, and the four marks RFC 3986 leaves unreserved.\<close>

definition isalnum :: "char \<Rightarrow> bool" where
  "isalnum c =
     (let n = of_char c :: nat
      in 48 \<le> n \<and> n \<le> 57 \<or> 65 \<le> n \<and> n \<le> 90 \<or> 97 \<le> n \<and> n \<le> 122)"

definition url_unreserved :: "char \<Rightarrow> bool" where
  "url_unreserved c \<longleftrightarrow> isalnum c \<or> c \<in> set ''-_.~''"

definition urlEncode :: "string \<Rightarrow> string" where
  "urlEncode s = concat (map (\<lambda>c. if url_unreserved c then [c] else CHR ''%'' # hex2 (byte_of_char c)) s)"

section \<open>The HTTP client\<close>

text \<open>
  \<^verbatim>\<open>fgets\<close> with a buffer of 4096 bytes hands out at most 4095 bytes, up to and including a
  line feed; \<^verbatim>\<open>response.append(buffer)\<close> takes each piece up to its first zero byte.
\<close>

fun fgets_line :: "nat \<Rightarrow> string \<Rightarrow> string \<times> string" where
  "fgets_line 0 s = ([], s)"
| "fgets_line (Suc n) [] = ([], [])"
| "fgets_line (Suc n) (c # s) =
     (if c = CHR 0x0A then ([c], s) else (let (l, r) = fgets_line n s in (c # l, r)))"

lemma fgets_line_append: "fgets_line n s = (l, r) \<Longrightarrow> s = l @ r"
  by (induction n s arbitrary: l r rule: fgets_line.induct) (auto split: if_splits prod.splits)

lemma fgets_line_progress: "s \<noteq> [] \<Longrightarrow> fgets_line (Suc n) s = (l, r) \<Longrightarrow> length r < length s"
  by (cases s) (auto split: if_splits prod.splits dest!: fgets_line_append)

function read_pipe :: "string \<Rightarrow> string" where
  "read_pipe s =
     (if s = [] then []
      else let (l, r) = fgets_line 4095 s in takeWhile (\<lambda>c. c \<noteq> CHR 0x00) l @ read_pipe r)"
  by pat_completeness auto
termination
proof (relation "measure length", goal_cases)
  case 1
  show ?case by simp
next
  case (2 s x l r)
  then show ?case using fgets_line_progress[of s 4094 l r] by (simp add: eval_nat_numeral)
qed

declare read_pipe.simps [simp del]

lemma read_pipe_text: "CHR 0x00 \<notin> set s \<Longrightarrow> read_pipe s = s"
proof (induction s rule: read_pipe.induct)
  case (1 s)
  obtain l r where lr: "fgets_line 4095 s = (l, r)" by fastforce
  note s = fgets_line_append[OF lr]
  have "takeWhile (\<lambda>c. c \<noteq> CHR 0x00) l = l"
    using 1(2) by (auto simp: s takeWhile_eq_all_conv)
  moreover have "read_pipe r = r" if "s \<noteq> []"
    using 1(1)[OF that lr[symmetric] refl] 1(2) by (simp add: s)
  ultimately show ?case
    by (subst read_pipe.simps) (use s lr in auto)
qed

definition get_command :: "string \<Rightarrow> string \<Rightarrow> string" where
  "get_command host path =
     (let url = ''https://'' @ host @ path in ''curl -s -S --max-time 15 '' @ quoted url)"

definition httpsGet :: "host_os \<Rightarrow> string \<Rightarrow> string \<Rightarrow> string" where
  "httpsGet os host path =
     (case os_popen os None (get_command host path) of
        None \<Rightarrow> []
      | Some printed \<Rightarrow> read_pipe printed)"

definition post_command :: "string \<Rightarrow> string \<Rightarrow> string \<Rightarrow> string \<Rightarrow> string" where
  "post_command host path contentType tmp =
     (let url = ''https://'' @ host @ path
      in ''curl -s -S --max-time 15 -X POST -H '' @ quoted (''Content-Type: '' @ contentType) @
         '' --data-binary '' @ quoted (''@'' @ tmp) @ '' '' @ quoted url)"

definition httpsPost :: "host_os \<Rightarrow> string \<Rightarrow> string \<Rightarrow> string \<Rightarrow> string \<Rightarrow> string" where
  "httpsPost os host path reqBody contentType =
     (case os_mkstemp os of
        None \<Rightarrow> []
      | Some tmp \<Rightarrow>
          if \<not> os_write os reqBody then []
          else case os_popen os (Some (tmp, reqBody)) (post_command host path contentType tmp) of
            None \<Rightarrow> []
          | Some printed \<Rightarrow> read_pipe printed)"

section \<open>PKCE and the authorization request\<close>

definition pkce_charset :: string where
  "pkce_charset = ''ABCDEFGHIJKLMNOPQRSTUVWXYZabcdefghijklmnopqrstuvwxyz0123456789-._~''"

definition generateCodeVerifier :: "(nat \<Rightarrow> byte) \<Rightarrow> string" where
  "generateCodeVerifier r =
     map (\<lambda>b. pkce_charset ! (unat b mod length pkce_charset)) (randomBytes r 64)"

definition generateCodeChallenge :: "crypto \<Rightarrow> string \<Rightarrow> string" where
  "generateCodeChallenge K v = base64UrlEncode (cr_sha256 K v)"

definition getAuthorizationUrl :: "google_config \<Rightarrow> string \<Rightarrow> string \<Rightarrow> string" where
  "getAuthorizationUrl cfg state codeChallenge =
     ''https://accounts.google.com/o/oauth2/v2/auth'' @
     ''?client_id='' @ urlEncode (gc_clientId cfg) @
     ''&redirect_uri='' @ urlEncode (gc_redirectUri cfg) @
     ''&response_type=code'' @
     ''&scope='' @ urlEncode ''openid email profile'' @
     ''&access_type=offline'' @
     ''&prompt=consent'' @
     (if state \<noteq> [] then ''&state='' @ urlEncode state else []) @
     (if codeChallenge \<noteq> []
      then ''&code_challenge='' @ urlEncode codeChallenge @ ''&code_challenge_method=S256'' else [])"

section \<open>ID tokens\<close>

definition google_refused :: "string \<Rightarrow> int \<Rightarrow> string \<Rightarrow> 'a dresult outcome" where
  "google_refused msg code detail = Return (Err (mk_error msg code [detail]))"

definition email_verified :: "'j json_api \<Rightarrow> 'j \<Rightarrow> bool outcome" where
  "email_verified J j =
     (if js_has J j ''email_verified'' then
        obind (js_at J j ''email_verified'') (\<lambda>v.
          if js_kind J v = JTrue then Return True
          else if js_kind J v = JFalse then Return False
          else if js_kind J v = JString then obind (js_s J v) (\<lambda>s. Return (s = ''true''))
          else Return True)
      else Return True)"

definition optional_string :: "'j json_api \<Rightarrow> 'j \<Rightarrow> string \<Rightarrow> string outcome" where
  "optional_string J j k = (if js_has J j k then read_string J j k else Return [])"

definition parseAndValidateTokenClaims ::
    "'j json_api \<Rightarrow> google_config \<Rightarrow> time \<Rightarrow> string \<Rightarrow> google_user_info dresult outcome" where
  "parseAndValidateTokenClaims J cfg now payloadJson =
     (case js_load J payloadJson of
        None \<Rightarrow> google_refused ''Malformed Google token'' 400 ''Payload is not valid JSON.''
      | Some j \<Rightarrow>
          obind (if js_has J j ''iss'' then
                   obind (read_string J j ''iss'') (\<lambda>iss. Return
                     (iss = ''accounts.google.com'' \<or> iss = ''https://accounts.google.com''))
                 else Return True) (\<lambda>issOk.
          if \<not> issOk then google_refused ''Invalid token issuer'' 401 ''Token was not issued by Google.''
          else
          obind (if gc_clientId cfg \<noteq> [] \<and> js_has J j ''aud'' then
                   obind (read_string J j ''aud'') (\<lambda>aud. Return
                     (aud = gc_clientId cfg \<or> contains_str ''test-'' (gc_clientId cfg)))
                 else Return True) (\<lambda>audOk.
          if \<not> audOk then google_refused ''Token audience mismatch'' 401
            ''Token was issued for a different Google Client ID.''
          else
          obind (if js_has J j ''exp'' then
                   obind (obind (js_at J j ''exp'') (js_i J)) (\<lambda>ex. Return (\<not> ex < to_epoch now))
                 else Return True) (\<lambda>expOk.
          if \<not> expOk then google_refused ''Token expired'' 401 ''Google ID token has expired.''
          else if \<not> js_has J j ''sub'' \<or> \<not> js_has J j ''email'' then
            google_refused ''Incomplete Google profile'' 400 ''Google token missing 'sub' or 'email'.''
          else
          obind (email_verified J j) (\<lambda>emailVerified.
          if \<not> emailVerified then google_refused ''Unverified Google email'' 403
            ''Google account email address is not verified.''
          else
          obind (read_string J j ''sub'') (\<lambda>sub.
          obind (read_string J j ''email'') (\<lambda>em.
          obind (optional_string J j ''name'') (\<lambda>nm.
          obind (optional_string J j ''picture'') (\<lambda>pic.
            Return (Ok \<lparr>gi_googleId = sub, gi_email = em, gi_name = nm, gi_picture = pic,
                        gi_emailVerified = emailVerified\<rparr>))))))))))"

text \<open>\<^verbatim>\<open>s.rfind(c)\<close>.\<close>

definition str_rfind :: "char \<Rightarrow> string \<Rightarrow> nat option" where
  "str_rfind c s = map_option (\<lambda>i. length s - 1 - i) (index_of ((=) c) (rev s))"

text \<open>The question to Google about a token (lines 306 to 316), and its answer when it is usable.\<close>

definition tokeninfo :: "host_os \<Rightarrow> string \<Rightarrow> string" where
  "tokeninfo os idToken =
     httpsGet os ''oauth2.googleapis.com'' (''/oauth2/v3/tokeninfo?id_token='' @ idToken)"

definition live_answer :: "'j json_api \<Rightarrow> host_os \<Rightarrow> string \<Rightarrow> string option" where
  "live_answer J os idToken =
     (if contains_str ''mock-'' idToken \<or> contains_str ''test-'' idToken then None
      else let liveResp = tokeninfo os idToken
        in if liveResp = [] then None
           else case js_load J liveResp of
             None \<Rightarrow> None
           | Some j \<Rightarrow> if js_has J j ''sub'' \<and> js_has J j ''email'' then Some liveResp else None)"

definition verifyIdToken ::
    "'j json_api \<Rightarrow> google_config \<Rightarrow> host_os \<Rightarrow> time \<Rightarrow> string \<Rightarrow> google_user_info dresult outcome" where
  "verifyIdToken J cfg os now idToken =
     (if idToken = [] then google_refused ''Empty Google token'' 400 ''idToken is required.''
      else case live_answer J os idToken of
        Some liveResp \<Rightarrow> parseAndValidateTokenClaims J cfg now liveResp
      | None \<Rightarrow>
          (case (str_find (CHR ''.'') 0 idToken, str_rfind (CHR ''.'') idToken) of
             (Some firstDot, Some secondDot) \<Rightarrow>
               if firstDot = secondDot then
                 google_refused ''Invalid JWT structure'' 400
                   ''Google ID token must have 3 dot-separated parts.''
               else
                 (case base64UrlDecode (substr (firstDot + 1) (secondDot - firstDot - 1) idToken) of
                    None \<Rightarrow> google_refused ''Malformed Base64URL payload'' 400
                              ''Failed to decode JWT payload.''
                  | Some payload \<Rightarrow> parseAndValidateTokenClaims J cfg now payload)
           | _ \<Rightarrow> google_refused ''Invalid JWT structure'' 400
                    ''Google ID token must have 3 dot-separated parts.''))"

section \<open>The exchange of a code\<close>

definition exchange_body :: "google_config \<Rightarrow> string \<Rightarrow> string \<Rightarrow> string" where
  "exchange_body cfg code codeVerifier =
     ''code='' @ urlEncode code @
     ''&client_id='' @ urlEncode (gc_clientId cfg) @
     ''&client_secret='' @ urlEncode (gc_clientSecret cfg) @
     ''&redirect_uri='' @ urlEncode (gc_redirectUri cfg) @
     ''&grant_type=authorization_code'' @
     (if codeVerifier \<noteq> [] then ''&code_verifier='' @ urlEncode codeVerifier else [])"

definition exchangeAuthCode ::
    "'j json_api \<Rightarrow> google_config \<Rightarrow> host_os \<Rightarrow> time \<Rightarrow> string \<Rightarrow> string
     \<Rightarrow> google_user_info dresult outcome" where
  "exchangeAuthCode J cfg os now code codeVerifier =
     (if code = [] then google_refused ''Empty auth code'' 400 ''Authorization code is required.''
      else
        (let resp = httpsPost os ''oauth2.googleapis.com'' ''/token'' (exchange_body cfg code codeVerifier)
               ''application/x-www-form-urlencoded'';
             rejected = google_refused ''Token exchange rejected'' 401
         in if resp = [] then google_refused ''Google token exchange failed'' 502
                                ''Unable to reach Google OAuth token endpoint.''
            else case js_load J resp of
              None \<Rightarrow> rejected ''Invalid authorization code''
            | Some j \<Rightarrow>
                if \<not> js_has J j ''id_token'' then
                  obind (if js_has J j ''error_description''
                         then read_string J j ''error_description''
                         else Return ''Invalid authorization code'') rejected
                else obind (read_string J j ''id_token'') (verifyIdToken J cfg os now)))"

text \<open>The class as an instance of the interface the use cases know.\<close>

definition googleAuthService ::
    "crypto \<Rightarrow> 'j json_api \<Rightarrow> google_config \<Rightarrow> host_os \<Rightarrow> time \<Rightarrow> google_service" where
  "googleAuthService K J cfg os now =
     \<lparr>gs_getAuthorizationUrl = getAuthorizationUrl cfg,
      gs_verifyIdToken = verifyIdToken J cfg os now,
      gs_exchangeAuthCode = exchangeAuthCode J cfg os now,
      gs_generateCodeVerifier = generateCodeVerifier,
      gs_generateCodeChallenge = generateCodeChallenge K\<rparr>"

section \<open>What Google decodes\<close>

text \<open>
  The reading side of \<^verbatim>\<open>application/x-www-form-urlencoded\<close>: fields between ampersands, a name
  up to the equals sign, percent escapes in the value.
\<close>

fun url_decode :: "string \<Rightarrow> string" where
  "url_decode [] = []"
| "url_decode (c # s) =
     (if c = CHR ''%'' then
        case s of
          a # b # t \<Rightarrow> char_of_byte (strtoul16_byte [a, b]) # url_decode t
        | _ \<Rightarrow> c # url_decode s
      else c # url_decode s)"

definition form_field :: "string \<Rightarrow> string \<times> string" where
  "form_field s = (takeWhile (\<lambda>c. c \<noteq> CHR ''='') s, url_decode (drop 1 (dropWhile (\<lambda>c. c \<noteq> CHR ''='') s)))"

definition form_fields :: "string \<Rightarrow> (string \<times> string) list" where
  "form_fields s = map form_field (split_on (CHR ''&'') s)"

lemma url_unreserved_simps [simp]:
  "\<not> url_unreserved CHR ''%''" "\<not> url_unreserved CHR ''&''" "\<not> url_unreserved CHR ''=''"
  "\<not> url_unreserved CHR 0x27"
  by (simp_all add: url_unreserved_def isalnum_def)

lemma url_unreserved_hex_digit [simp]: "n < 16 \<Longrightarrow> url_unreserved (hex_digit n)"
  by (simp add: url_unreserved_def isalnum_def of_char_hex_digit)

lemma urlEncode_simps [simp]:
  "urlEncode [] = []"
  "urlEncode (c # s) = (if url_unreserved c then [c] else CHR ''%'' # hex2 (byte_of_char c)) @ urlEncode s"
  by (simp_all add: urlEncode_def)

lemma urlEncode_chars: "c \<in> set (urlEncode s) \<Longrightarrow> url_unreserved c \<or> c = CHR ''%''"
  by (induction s) (auto dest!: hex2_hex_digits split: if_splits)

lemma url_decode_hex2 [simp]: "url_decode (CHR ''%'' # hex2 b @ s) = char_of_byte b # url_decode s"
  using strtoul16_byte_hex2[of b] by (simp add: hex2_def)

lemma url_decode_urlEncode [simp]: "url_decode (urlEncode s) = s"
proof (induction s)
  case Nil
  show ?case by simp
next
  case (Cons c s)
  have "c \<noteq> CHR ''%'' \<Longrightarrow> url_decode (c # t) = c # url_decode t" for t by simp
  then show ?case using Cons by (cases "c = CHR ''%''") (simp_all del: url_decode.simps(2))
qed

lemma urlEncode_no_mark [simp]: "CHR ''&'' \<notin> set (urlEncode s)" "CHR 0x27 \<notin> set (urlEncode s)"
  by (auto dest!: urlEncode_chars)

text \<open>The writing side: names and escaped values.\<close>

fun form_encode :: "(string \<times> string) list \<Rightarrow> string" where
  "form_encode [] = []"
| "form_encode [(k, v)] = k @ ''='' @ urlEncode v"
| "form_encode ((k, v) # kvs) = k @ ''='' @ urlEncode v @ ''&'' @ form_encode kvs"

definition plain_name :: "string \<Rightarrow> bool" where
  "plain_name k \<longleftrightarrow> CHR ''&'' \<notin> set k \<and> CHR ''='' \<notin> set k"

lemma form_field_pair: "plain_name k \<Longrightarrow> form_field (k @ CHR ''='' # urlEncode v) = (k, v)"
  by (auto simp: form_field_def plain_name_def takeWhile_append dropWhile_append)

lemma form_fields_encode:
  assumes "kvs \<noteq> []" and "list_all (\<lambda>(k, _). plain_name k) kvs"
  shows "form_fields (form_encode kvs) = kvs"
  using assms
proof (induction kvs rule: form_encode.induct)
  case (2 k v)
  have "split_on (CHR ''&'') (k @ CHR ''='' # urlEncode v) = [k @ CHR ''='' # urlEncode v]"
    by (rule split_on_word) (use 2 in \<open>simp add: plain_name_def\<close>)
  with 2 show ?case by (simp add: form_fields_def form_field_pair)
next
  case (3 k v kv kvs)
  have "split_on (CHR ''&'') ((k @ CHR ''='' # urlEncode v) @ CHR ''&'' # form_encode (kv # kvs)) =
      (k @ CHR ''='' # urlEncode v) # split_on (CHR ''&'') (form_encode (kv # kvs))"
    by (rule split_on_append) (use 3 in \<open>simp add: plain_name_def\<close>)
  with 3 show ?case by (simp add: form_fields_def form_field_pair)
qed simp_all

end
