(* ===== verification/Google_Identity.thy ===== *)
theory Google_Identity
  imports Google_Service Key_Manager
begin

text \<open>
  What the Google service promises and what it does not: the requests it builds are read as
  they were meant, its PKCE pairs have the form of RFC 7636, but an ID token is believed
  without a signature, and it reaches a shell.
\<close>

section \<open>Requests\<close>

text \<open>
  Google reads the parameters the program meant: the body of the token request and the
  query of the authorization URL, split at the ampersands and percent-decoded, are the listed
  names with the values as they were, whatever characters the code, the state or the
  configuration contain.
\<close>

theorem google_requests_decode:
  "form_fields (exchange_body cfg code verifier) =
     [(''code'', code), (''client_id'', gc_clientId cfg), (''client_secret'', gc_clientSecret cfg),
      (''redirect_uri'', gc_redirectUri cfg), (''grant_type'', ''authorization_code'')] @
     (if verifier \<noteq> [] then [(''code_verifier'', verifier)] else []) \<and>
   (\<exists>q. getAuthorizationUrl cfg state challenge = ''https://accounts.google.com/o/oauth2/v2/auth?'' @ q \<and>
     form_fields q =
       [(''client_id'', gc_clientId cfg), (''redirect_uri'', gc_redirectUri cfg), (''response_type'', ''code''),
        (''scope'', ''openid email profile''), (''access_type'', ''offline''), (''prompt'', ''consent'')] @
       (if state \<noteq> [] then [(''state'', state)] else []) @
       (if challenge \<noteq> []
        then [(''code_challenge'', challenge), (''code_challenge_method'', ''S256'')] else []))"
proof -
  let ?body = "[(''code'', code), (''client_id'', gc_clientId cfg), (''client_secret'', gc_clientSecret cfg),
      (''redirect_uri'', gc_redirectUri cfg), (''grant_type'', ''authorization_code'')] @
     (if verifier \<noteq> [] then [(''code_verifier'', verifier)] else [])"
  let ?query = "[(''client_id'', gc_clientId cfg), (''redirect_uri'', gc_redirectUri cfg), (''response_type'', ''code''),
        (''scope'', ''openid email profile''), (''access_type'', ''offline''), (''prompt'', ''consent'')] @
       (if state \<noteq> [] then [(''state'', state)] else []) @
       (if challenge \<noteq> []
        then [(''code_challenge'', challenge), (''code_challenge_method'', ''S256'')] else [])"
  note plain = url_unreserved_def isalnum_def
  have "exchange_body cfg code verifier = form_encode ?body"
    by (simp add: exchange_body_def plain)
  moreover have "form_fields (form_encode ?body) = ?body"
    by (rule form_fields_encode) (simp_all add: plain_name_def)
  moreover have "getAuthorizationUrl cfg state challenge =
      ''https://accounts.google.com/o/oauth2/v2/auth?'' @ form_encode ?query"
    by (simp add: getAuthorizationUrl_def plain)
  moreover have "form_fields (form_encode ?query) = ?query"
    by (rule form_fields_encode) (simp_all add: plain_name_def)
  ultimately show ?thesis by metis
qed

section \<open>PKCE\<close>

text \<open>
  PKCE pairs have the form RFC 7636 asks for: a verifier of 64 unreserved characters, and,
  with a hash of 32 bytes, a challenge of 43 characters of the base64url alphabet.
\<close>

theorem pkce_pair_well_formed:
  assumes "crypto_laws K"
  shows "length (generateCodeVerifier r) = 64 \<and> list_all url_unreserved (generateCodeVerifier r) \<and>
    length (generateCodeChallenge K v) = 43 \<and>
    list_all url_unreserved (generateCodeChallenge K v)"
proof -
  have u: "list_all url_unreserved pkce_charset" "list_all url_unreserved b64Chars"
    by (simp_all add: pkce_charset_def b64Chars_def url_unreserved_def isalnum_def)
  have n: "length pkce_charset = 66" by (simp add: pkce_charset_def)
  have "pkce_charset ! (unat b mod length pkce_charset) \<in> set pkce_charset" for b :: byte
    by (rule nth_mem) (simp add: n)
  moreover have "length (cr_sha256 K v) = 32" using assms by (simp add: crypto_laws_def)
  ultimately show ?thesis
    using u base64UrlEncode_alphabet[of "cr_sha256 K v"]
    by (auto simp: generateCodeVerifier_def generateCodeChallenge_def length_base64UrlEncode list_all_iff)
qed

lemma pkce_pair_well_formed_witness:
  "length (generateCodeVerifier (\<lambda>_. 255)) = 64 \<and> length (generateCodeChallenge demo_crypto ''v'') = 43"
proof -
  have "crypto_laws demo_crypto" by (simp add: crypto_laws_def demo_crypto_def min_def)
  from pkce_pair_well_formed[OF this] show ?thesis by blast
qed

section \<open>Forged ID tokens\<close>

text \<open>
  A token nobody signed: the word \<^verbatim>\<open>mock-\<close>, the claims of the attacker's choice, and an empty
  signature.
\<close>

definition forged_token :: "'j json_api \<Rightarrow> string \<Rightarrow> string \<Rightarrow> string" where
  "forged_token J gid email =
     ''mock-'' @ ''.'' @
     base64UrlEncode (map byte_of_char (js_dump J (W_obj [(''sub'', W_str gid), (''email'', W_str email)]))) @ ''.''"

definition claimed_user :: "string \<Rightarrow> string \<Rightarrow> google_user_info" where
  "claimed_user gid email =
     \<lparr>gi_googleId = gid, gi_email = email, gi_name = [], gi_picture = [], gi_emailVerified = True\<rparr>"

lemma claims_of_forged:
  fixes J :: "'j json_api"
  assumes "json_roundtrip J"
  shows "parseAndValidateTokenClaims J cfg now (js_dump J (W_obj [(''sub'', W_str gid), (''email'', W_str email)])) =
    Return (Ok (claimed_user gid email))"
proof -
  let ?kvs = "[(''sub'', W_str gid), (''email'', W_str email)] :: (string \<times> 'j wvalue) list"
  obtain j where j: "js_load J (js_dump J (W_obj ?kvs)) = Some j" "reads_object J ?kvs j"
    using json_roundtripE[OF assms, of ?kvs] by auto
  have "js_has J j k \<longleftrightarrow> map_of ?kvs k \<noteq> None" for k
    by (rule conjunct1[OF j(2)[unfolded reads_object_def], THEN spec])
  moreover have "read_string J j ''sub'' = Return gid" "read_string J j ''email'' = Return email"
    using reads_object_string[OF j(2)] by simp_all
  ultimately show ?thesis
    by (simp add: parseAndValidateTokenClaims_def j(1) email_verified_def optional_string_def claimed_user_def)
qed

lemma str_rfind_last: "str_rfind c (s @ [c]) = Some (length s)"
  by (simp add: str_rfind_def)

lemma verify_forged:
  assumes "json_roundtrip J"
  shows "verifyIdToken J cfg os now (forged_token J gid email) = Return (Ok (claimed_user gid email))"
proof -
  let ?p = "base64UrlEncode (map byte_of_char (js_dump J (W_obj [(''sub'', W_str gid), (''email'', W_str email)])))"
  let ?t = "forged_token J gid email"
  have t: "?t = (''mock-.'' @ ?p) @ [CHR ''.'']" by (simp add: forged_token_def)
  have "contains_str ''mock-'' ?t" by (simp add: t starts_with_def)
  then have live: "live_answer J os ?t = None" by (simp add: live_answer_def)
  have first: "str_find (CHR ''.'') 0 ?t = Some 5"
    using str_find_hit[of 0 "''mock-''" "CHR ''.''" "?p @ ''.''"] by (simp add: t)
  have last: "str_rfind (CHR ''.'') ?t = Some (6 + length ?p)"
    unfolding t by (subst str_rfind_last) simp
  have seg: "substr (5 + 1) (6 + length ?p - 5 - 1) ?t = ?p" by (simp add: substr_def t)
  have dec: "base64UrlDecode ?p = Some (js_dump J (W_obj [(''sub'', W_str gid), (''email'', W_str email)]))"
    by (simp add: comp_def)
  have "?t \<noteq> []" by (simp add: t)
  then show ?thesis
    by (simp only: verifyIdToken_def live first last option.case prod.case if_False seg dec
        claims_of_forged[OF assms]) simp
qed

lemma update_by_id_row:
  assumes "find (\<lambda>r. ur_id r = u) (db_users d) = Some row" and "\<And>r. ur_id (f r) = ur_id r"
  shows "\<exists>row'. find (\<lambda>r. ur_id r = u) (db_users (snd (users_update_by_id P c d uid f))) = Some row' \<and>
    (row' = row \<or> row' = f row)"
  using assms by (simp add: users_update_by_id_def find_update_where split: option.split)

lemma link_keeps_identity:
  assumes "find (\<lambda>r. ur_id r = u) (db_users d) = Some row"
  shows "\<exists>row'. find (\<lambda>r. ur_id r = u) (db_users (snd (users_linkGoogleAccount P c d uid gid av))) = Some row' \<and>
    ur_id row' = ur_id row \<and> ur_role row' = ur_role row \<and> ur_is_active row' = ur_is_active row"
proof -
  have upd: "\<exists>row'. find (\<lambda>r. ur_id r = u) (db_users (snd (users_update_by_id P c d uid f))) = Some row' \<and>
    ur_id row' = ur_id row \<and> ur_role row' = ur_role row \<and> ur_is_active row' = ur_is_active row"
    if "\<And>r. ur_id (f r) = ur_id r" "\<And>r. ur_role (f r) = ur_role r" "\<And>r. ur_is_active (f r) = ur_is_active r"
    for f
    using update_by_id_row[of u d row f P c uid, OF assms that(1)] that by auto
  show ?thesis
    by (cases "pg_varchar P 128 gid"; cases "text_opt P (if av = [] then None else Some av)")
      (auto simp: users_linkGoogleAccount_def assms intro!: upd)
qed

text \<open>
  C14. Anybody can sign in as anybody: a token that merely contains \<^verbatim>\<open>mock-\<close> is believed without
  asking Google and without a signature, in every configuration. For the email of a stored
  account the Google sign-in goes on with that account, after linking it to the Google id the
  attacker made up.
\<close>

theorem forged_google_token_accepted:
  assumes J: "json_roundtrip J" and wf: "db_wf P d" and row: "row \<in> set (db_users d)"
    and ok: "\<And>n. dbOk (E n)" and gid: "\<forall>r\<in>set (db_users d). ur_google_id r \<noteq> Some gid"
    and rq: "gq_idToken rq = forged_token J gid (ur_email row)"
  shows "google_identity (googleAuthService K J cfg os now) hasCache E d rq =
      (Return (Ok (claimed_user gid (ur_email row))), d) \<and>
    (\<exists>usr. fst (google_account P E d (claimed_user gid (ur_email row)) ip ua) = Ok (Some usr) \<and>
      u_id usr = ur_id row \<and> u_role usr = ur_role row \<and> u_isActive usr = ur_is_active row)"
proof
  have "gq_idToken rq \<noteq> []" by (simp add: rq forged_token_def)
  then show "google_identity (googleAuthService K J cfg os now) hasCache E d rq =
      (Return (Ok (claimed_user gid (ur_email row))), d)"
    by (simp add: google_identity_def googleAuthService_def rq verify_forged[OF J])
next
  let ?i = "claimed_user gid (ur_email row)"
  have u: "distinct (map ur_id (db_users d))" "distinct (map ur_email (db_users d))"
      "pg_uuid P (ur_id row) = Some (ur_id row)"
    using wf row by (auto simp: db_wf_def users_wf_def)
  have "find (\<lambda>r. ur_google_id r = Some gid) (db_users d) = None"
    using gid by (simp add: find_None_iff)
  then have a: "users_findByGoogleId P (E 4) d (gi_googleId ?i) = None"
    by (simp add: users_findByGoogleId_def claimed_user_def)
  have b: "users_findByEmail P (E 5) d (gi_email ?i) = Some (mapUserRow (sysNow (E 5)) row)"
    using find_key[OF u(2) row] ok by (simp add: users_findByEmail_def claimed_user_def)
  obtain b1 d1 where l: "users_linkGoogleAccount P (E 6) d (ur_id row) gid [] = (b1, d1)" by fastforce
  obtain row' where r': "find (\<lambda>r. ur_id r = ur_id row) (db_users d1) = Some row'"
      "ur_id row' = ur_id row" "ur_role row' = ur_role row" "ur_is_active row' = ur_is_active row"
    using link_keeps_identity[OF find_key[OF u(1) row], of P "E 6" "ur_id row" gid "[]"]
    by (auto simp: l)
  then show "\<exists>usr. fst (google_account P E d ?i ip ua) = Ok (Some usr) \<and>
      u_id usr = ur_id row \<and> u_role usr = ur_role row \<and> u_isActive usr = ur_is_active row"
    using a b l u(3) ok
    by (auto simp: google_account_def claimed_user_def case_prod_beta Let_def users_findById_def)
qed

lemma forged_google_token_accepted_witness:
  "let G = googleAuthService demo_crypto demo_json_api
         \<lparr>gc_clientId = ''prod'', gc_clientSecret = ''x'', gc_redirectUri = ''y''\<rparr>
         \<lparr>os_popen = (\<lambda>_ _. None), os_mkstemp = None, os_write = (\<lambda>_. True)\<rparr> 0;
       rq = \<lparr>gq_idToken = forged_token demo_json_api ''evil'' ''a@b.io'', gq_code = [], gq_codeVerifier = [],
              gq_state = [], gq_deviceName = [], gq_clientType = []\<rparr>
   in google_identity G True (demo_env 0) demo_db rq =
        (Return (Ok (claimed_user ''evil'' ''a@b.io'')), demo_db) \<and>
      (\<exists>usr. fst (google_account demo_pg (demo_env 0) demo_db (claimed_user ''evil'' ''a@b.io'') ''ip'' ''ua'') =
        Ok (Some usr) \<and> u_id usr = ''u1'')"
proof -
  have u: "demo_user \<in> set (db_users demo_db)" by (simp add: demo_db_def)
  have g: "\<forall>r\<in>set (db_users demo_db). ur_google_id r \<noteq> Some ''evil''"
    by (simp add: demo_db_def demo_user_def)
  have sel: "ur_email demo_user = ''a@b.io''" "ur_id demo_user = ''u1''" by (simp_all add: demo_user_def)
  have ok: "\<And>n. dbOk (demo_env 0 n)" by (simp add: demo_site_def)
  note F = forged_google_token_accepted[where E = "demo_env 0", OF demo_json_roundtrip demo_db_wf u ok g, unfolded sel]
  show ?thesis
    unfolding Let_def
  proof (rule conjI)
    show "\<exists>usr. fst (google_account demo_pg (demo_env 0) demo_db (claimed_user ''evil'' ''a@b.io'') ''ip'' ''ua'') =
        Ok (Some usr) \<and> u_id usr = ''u1''"
      using F[OF google_login_request.select_convs(1), THEN conjunct2] by blast
  qed (rule F[THEN conjunct1], simp)
qed

section \<open>The shell\<close>

text \<open>
  Where a POSIX shell separates commands: at semicolons outside single quotes.
\<close>

fun shell_commands :: "bool \<Rightarrow> string \<Rightarrow> string list" where
  "shell_commands quoting [] = [[]]"
| "shell_commands quoting (c # s) =
     (if c = CHR '';'' \<and> \<not> quoting then [] # shell_commands quoting s
      else case shell_commands (if c = CHR 0x27 then \<not> quoting else quoting) s of
        [] \<Rightarrow> [[c]] | w # ws \<Rightarrow> (c # w) # ws)"

fun prepend :: "string \<Rightarrow> string list \<Rightarrow> string list" where
  "prepend s [] = [s]"
| "prepend s (w # ws) = (s @ w) # ws"

lemma prepend_Nil [simp]: "ws \<noteq> [] \<Longrightarrow> prepend [] ws = ws"
  by (cases ws) simp_all

lemma prepend_prepend [simp]: "prepend s (prepend t ws) = prepend (s @ t) ws"
  by (cases ws) simp_all

lemma prepend_nonempty [simp]: "prepend s ws \<noteq> []"
  by (cases ws) simp_all

lemma shell_commands_Cons [simp]:
  "shell_commands q (c # s) =
     (if c = CHR '';'' \<and> \<not> q then [] # shell_commands q s
      else prepend [c] (shell_commands (if c = CHR 0x27 then \<not> q else q) s))"
  by (auto split: list.split)

declare shell_commands.simps(2) [simp del]

lemma shell_commands_nonempty [simp]: "shell_commands q s \<noteq> []"
  by (cases s) simp_all

lemma shell_quoted:
  "CHR 0x27 \<notin> set s \<Longrightarrow> shell_commands True (s @ t) = prepend s (shell_commands True t)"
  by (induction s) auto

lemma shell_plain:
  "CHR 0x27 \<notin> set s \<Longrightarrow> CHR '';'' \<notin> set s \<Longrightarrow>
     shell_commands False (s @ t) = prepend s (shell_commands False t)"
  by (induction s) auto

lemma shell_argument:
  "CHR 0x27 \<notin> set s \<Longrightarrow>
     shell_commands False (CHR 0x27 # s @ CHR 0x27 # t) = prepend (quoted s) (shell_commands False t)"
  by (simp add: shell_quoted quoted_def)



end
