(* ===== verification/Server.thy ===== *)
theory Server
  imports Router Jwt_Service Google_Identity
begin

text \<open>
  \<^verbatim>\<open>main\<close> of \<^verbatim>\<open>Core/Core.cpp\<close>: the services as they are wired together. The use cases and
  controllers, so far proved for any services, run here on the password hasher, the token
  generator, the JWT service and the Google service of the program.
\<close>

section \<open>The wiring\<close>

definition core_services ::
    "crypto \<Rightarrow> 'j json_api \<Rightarrow> key_manager \<Rightarrow> google_config \<Rightarrow> host_os \<Rightarrow> time \<Rightarrow> services" where
  "core_services K J km cfg os now =
     \<lparr>sv_hashPassword = hashPassword K,
      sv_verifyPassword = verifyPassword K,
      sv_generateSecureToken = generateSecureToken,
      sv_sha256Hex = sha256Hex K,
      sv_generateUuid = generateUuidV4,
      sv_createAccessToken = createAccessToken K J ''crow-api-auth'' ''crow-api-clients'' km,
      sv_validateAccessToken = validateAccessToken K J ''crow-api-auth'' ''crow-api-clients'' km,
      sv_google = Some (googleAuthService K J cfg os now),
      sv_hasCache = True\<rparr>"

lemma core_services_sel [simp]:
  "sv_hashPassword (core_services K J km cfg os now) = hashPassword K"
  "sv_verifyPassword (core_services K J km cfg os now) = verifyPassword K"
  "sv_generateSecureToken (core_services K J km cfg os now) = generateSecureToken"
  "sv_sha256Hex (core_services K J km cfg os now) = sha256Hex K"
  "sv_generateUuid (core_services K J km cfg os now) = generateUuidV4"
  "sv_createAccessToken (core_services K J km cfg os now) =
     createAccessToken K J ''crow-api-auth'' ''crow-api-clients'' km"
  "sv_validateAccessToken (core_services K J km cfg os now) =
     validateAccessToken K J ''crow-api-auth'' ''crow-api-clients'' km"
  "sv_google (core_services K J km cfg os now) = Some (googleAuthService K J cfg os now)"
  by (simp_all add: core_services_def)

section \<open>Refusals of the guard\<close>

lemma jwt_refused_401 [simp]: "jwt_refused m x = Return (Err e) \<Longrightarrow> err_statusCode e = 401"
  by (auto simp: jwt_refused_def)

lemma obind_Err_401:
  assumes "obind m f = Return (Err e)" and "\<And>x. f x = Return (Err e) \<Longrightarrow> P"
  shows P
  using assms by (cases m) auto

lemma jwt_dots_401: "jwt_dots token = Err e \<Longrightarrow> err_statusCode e = 401"
  by (auto simp: jwt_dots_def split: option.splits if_splits)

lemma jwt_kid_401: "jwt_kid J h = Return (Err e) \<Longrightarrow> err_statusCode e = 401"
  by (auto simp: jwt_kid_def elim!: obind_Err_401 split: option.splits if_splits)

lemma jwt_claims_401:
  "jwt_claims_of J iss aud kid now j = Return (Err e) \<Longrightarrow> err_statusCode e = 401"
  by (auto simp: jwt_claims_of_def elim!: obind_Err_401 split: if_splits)

lemma validate_401:
  "validateAccessToken K J iss aud km now token = Return (Err e) \<Longrightarrow> err_statusCode e = 401"
  by (auto simp: validateAccessToken_def Let_def dest: jwt_dots_401 jwt_kid_401 jwt_claims_401
      split: result.splits option.splits outcome.splits if_splits)

lemma guard_401:
  assumes "extractAuthenticatedUser P (core_services K J km cfg os t0) E d header = Return (Err e)"
  shows "err_statusCode e = 401"
  using assms
  by (auto simp: extractAuthenticatedUser_def Let_def dest: validate_401
      split: if_splits outcome.splits result.splits option.splits)

section \<open>Protected routes\<close>

lemma error_of_domain_code [simp]: "hr_code (error_of_domain now e) = err_statusCode e"
  by (simp add: error_of_domain_def error_response_def)

text \<open>A protected handler that does more than answer 401 has been let through by the guard.\<close>

lemma guarded_effect:
  assumes "needs_token e" and S: "app_services A = core_services K J km cfg os t0"
    and h: "handle A E d e rq = (out, d')"
    and "d' \<noteq> d \<or> (\<exists>resp. out = Return resp \<and> hr_code resp \<noteq> 401)"
  obtains au where "extractAuthenticatedUser (app_pg A) (app_services A) E d (hq_header rq ''Authorization'') = Return (Ok au)"
proof -
  let ?H = "hq_header rq ''Authorization''"
  let ?g = "extractAuthenticatedUser (app_pg A) (app_services A) E d ?H"
  obtain k where k: "handle A E d e rq = guarded A E d rq k"
    using handle_guarded[OF assms(1)] by blast
  show thesis
  proof (cases ?g)
    case Throw
    then show thesis using h assms(4) by (simp add: k guarded_def require_def)
  next
    case (Return res)
    then show thesis
      using h assms(4) that guard_401[of _ K J km cfg os t0 E d ?H]
      by (cases res) (auto simp: k guarded_def require_def S)
  qed
qed


section \<open>From login to the guard\<close>

lemma issue_session_users:
  "db_users (snd (issue_session P S E d usr now life ip ua dev client ev why msg)) =
     db_users (users_resetFailedAttempts P (E 0) d (u_id usr))"
  by (simp add: issue_session_def Let_def case_prod_beta sessions_create_def split: option.split)

lemma issue_session_revocations:
  "db_revocations (snd (issue_session P S E d usr now life ip ua dev client ev why msg)) =
     db_revocations d"
  by (simp add: issue_session_def Let_def case_prod_beta sessions_create_def
      users_resetFailedAttempts_def users_update_by_id_def split: option.split)

text \<open>Three facts about the state after a login: its token, its session and its user.\<close>

lemma fresh_jti_unrevoked:
  assumes "db_wf P d" and "r \<in> set (db_sessions d)" and "sr_revoked_at r = None"
    and "\<forall>rv\<in>set (db_revocations d). rv_jti rv \<noteq> sr_jti r"
  shows "\<not> sessions_isTokenRevoked c d (sr_jti r)"
proof -
  have "x = r" if "x \<in> set (db_sessions d)" "sr_jti x = sr_jti r" for x
    using assms(1,2) that by (auto simp: db_wf_def sessions_wf_def distinct_map inj_on_def)
  then show ?thesis using assms(3,4) by (auto simp: sessions_isTokenRevoked_def)
qed

lemma user_after_reset:
  assumes "db_wf P d" and row: "row \<in> set (db_users d)" "usr = mapUserRow t row" and "dbOk c'"
    and d': "db_users d' = db_users (users_resetFailedAttempts P c d (u_id usr))"
  obtains usr' where "users_findById P c' d' (u_id usr) = Some usr'" "u_id usr' = u_id usr"
    "u_email usr' = u_email usr" "u_role usr' = u_role usr" "u_isActive usr' = u_isActive usr"
proof -
  let ?f = "\<lambda>r. r\<lparr>ur_failed_login_attempts := 0, ur_locked_until := None, ur_updated_at := dbNow c\<rparr>"
  have ids: "distinct (map ur_id (db_users d))" "pg_uuid P (ur_id row) = Some (ur_id row)"
    using assms(1) row(1) by (auto simp: db_wf_def users_wf_def)
  have "db_users d' = db_users (snd (users_update_by_id P c d (ur_id row) ?f))"
    by (simp add: d' row(2) users_resetFailedAttempts_def)
  then obtain row' where "find (\<lambda>r. ur_id r = ur_id row) (db_users d') = Some row'" "row' = row \<or> row' = ?f row"
    using update_by_id_row[OF find_key[OF ids(1) row(1)], of ?f P c "ur_id row"] by auto
  then show thesis
    using that[of "mapUserRow (sysNow c') row'"] assms(4) ids(2) row(2)
    by (auto simp: users_findById_def)
qed


text \<open>The server at which the properties are evaluated: one user, no session, a fresh key.\<close>

definition demo_core :: services where
  "demo_core = core_services demo_crypto demo_json_api demo_km
     \<lparr>gc_clientId = ''prod'', gc_clientSecret = ''x'', gc_redirectUri = ''y''\<rparr>
     \<lparr>os_popen = (\<lambda>_ _. None), os_mkstemp = None, os_write = (\<lambda>_. True)\<rparr> 0"

definition demo_hash :: string where
  "demo_hash = hashPassword demo_crypto (\<lambda>_. 7) ''secret12''"

definition core_db :: db where
  "core_db = empty_db\<lparr>db_users := [demo_user\<lparr>ur_password_hash := Some demo_hash\<rparr>]\<rparr>"

lemma core_db_wf: "db_wf demo_pg core_db"
  using demo_db_wf
  by (simp add: db_wf_def core_db_def empty_db_def sessions_wf_def audit_wf_def todos_wf_def
      cache_wf_def queue_wf_def documents_wf_def users_wf_def demo_user_def demo_pg_def int4_def)

lemma demo_env_ok: "sites_ok demo_pg (demo_env t)" "dbOk (demo_env t n)" "dbUuid (demo_env t n) \<noteq> []"
  by (simp_all add: sites_ok_def site_ok_def demo_pg_def demo_site_def)

lemma demo_crypto_laws: "crypto_laws demo_crypto"
  by (simp add: crypto_laws_def demo_crypto_def min_def)

lemma length_generateUuidV4: "length (generateUuidV4 r) = 36"
  by (simp add: generateUuidV4_def Let_def length_concat comp_def upt_rec)

text \<open>
  With any primitives that hash to 32 bytes, and any key manager, that user signs in; the
  session is the only one, and its id is not its token's.
\<close>

definition user_db :: "crypto \<Rightarrow> db" where
  "user_db K = empty_db
     \<lparr>db_users := [demo_user\<lparr>ur_password_hash := Some (hashPassword K (\<lambda>_. 7) ''secret12'')\<rparr>]\<rparr>"

lemma user_db_login:
  assumes "crypto_laws K" and S: "S = core_services K J km cfg os t0"
  obtains resp d' where
    "login demo_pg S (demo_env 0) (user_db K)
       \<lparr>lq_email = ''a@b.io'', lq_password = ''secret12''\<rparr> ''ip'' ''ua'' ''dev'' ''browser'' = Return (Ok resp, d')"
    "ids_apart d'"
proof -
  let ?rq = "\<lparr>lq_email = ''a@b.io'', lq_password = ''secret12''\<rparr>"
  let ?h = "hashPassword K (\<lambda>_. 7) ''secret12''"
  let ?u = "mapUserRow 0 (demo_user\<lparr>ur_password_hash := Some ?h\<rparr>)"
  have "isOk (validateLogin ?rq)" by code_simp
  then obtain x where x: "validateLogin ?rq = Ok x" by auto
  have f: "users_findByEmail demo_pg (demo_env 0 0) (user_db K) ''a@b.io'' = Some ?u"
    by (simp add: users_findByEmail_def user_db_def demo_user_def demo_site_def)
  have "?h \<noteq> []" by (simp add: hashPassword_def hash_prefix_def Let_def)
  then have c: "login_check demo_pg S (demo_env 0) (user_db K) ?rq ''ip'' ''ua'' = Return (Ok (?u, 2), user_db K)"
    using x f by (simp add: login_check_def Let_def demo_user_def S verify_hashPassword) (simp add: demo_site_def)
  let ?E = "\<lambda>n. demo_env 0 (n + 7)"
  let ?tok = "generateSecureToken (rnd (demo_env 0 9)) 32"
  let ?s = "new_session ?u (generateUuidV4 (rnd (demo_env 0 8))) (sha256Hex K ?tok) 2 (hours 168)
      ''ip'' ''ua'' ''dev'' ''browser''"
  have "length (sha256Hex K ?tok) = 64"
    by (rule length_sha256Hex[OF assms(1)])
  then obtain r where r: "session_row_of demo_pg (demo_env 0 10) ?s = Some r"
    by (simp add: session_row_of_def new_session_def demo_pg_def demo_user_def length_generateUuidV4)
  note f = session_row_of_fields[OF r]
  have "\<not> session_conflict r (user_db K)"
    using f(2) by (simp add: session_conflict_def user_db_def empty_db_def demo_user_def demo_pg_def new_session_def)
  then have "\<exists>resp d'. issue_session demo_pg S ?E (user_db K) ?u 2 (hours 168) ''ip'' ''ua'' ''dev'' ''browser''
      ''LOGIN_SUCCESS'' ''Session initiated on device: dev'' ''Login successful'' = (Ok resp, d') \<and> r_statusCode resp = 200"
    by (rule issue_session_ok[rotated]) (use r in \<open>simp_all add: S demo_site_def\<close>)
  then obtain resp d' where l: "login_issue demo_pg S ?E (user_db K) ?u 2 ''ip'' ''ua'' ''dev'' ''browser'' =
      (Ok resp, d')"
    by (auto simp: login_issue_def)
  have "ids_apart d'"
  proof (cases rule: issue_session_cases[of demo_pg S ?E "user_db K" ?u 2 "hours (24 * 7)" "''ip''" "''ua''"
        "''dev''" "''browser''" "''LOGIN_SUCCESS''" "''Session initiated on device: '' @ ''dev''" "''Login successful''"])
    case (stored tk resp' d'' r')
    note g = session_row_of_fields[OF stored(4)]
    have "sr_jti r' = generateUuidV4 (rnd (demo_env 0 8))"
      using g(3) by (simp add: S new_session_def demo_pg_def length_generateUuidV4)
    moreover have "length (sr_id r') \<noteq> 36"
      using g(1) by (simp add: demo_site_def string_of_nat.simps)
    moreover have "db_sessions d' = [r']"
      using l stored(1,5) by (simp add: login_issue_def user_db_def empty_db_def)
    ultimately show ?thesis
      using length_generateUuidV4[of "rnd (demo_env 0 8)"] by (auto simp: ids_apart_def)
  next
    case (failed e d'')
    with l show ?thesis by (simp add: login_issue_def)
  qed
  with l c show thesis by (intro that[of resp d']) (simp_all add: login_def)
qed

lemma demo_core_login:
  obtains resp d' where
    "login demo_pg demo_core (demo_env 0) core_db
       \<lparr>lq_email = ''a@b.io'', lq_password = ''secret12''\<rparr> ''ip'' ''ua'' ''dev'' ''browser'' = Return (Ok resp, d')"
    "ids_apart d'"
proof -
  have eq: "core_db = user_db demo_crypto" by (simp add: core_db_def user_db_def demo_hash_def)
  show thesis
    by (rule user_db_login[OF demo_crypto_laws demo_core_def]) (rule that[unfolded eq])
qed


abbreviation core_token :: string where
  "core_token \<equiv> createAccessToken demo_crypto demo_json_api ''crow-api-auth'' ''crow-api-clients'' demo_km 0
     ''u1'' ''user'' ''s1'' ''j1'' 900"

definition demo_app :: "demo_json app" where
  "demo_app = \<lparr>app_json = demo_json_api, app_pg = demo_pg, app_services = demo_core, app_jwksJson = [],
     app_startTime = 0, app_openApi = [], app_swaggerHtml = [], app_moveFirst = False\<rparr>"

definition request_with :: "string \<Rightarrow> http_request" where
  "request_with auth = \<lparr>hq_header = (\<lambda>k. if k = ''Authorization'' then auth else []),
     hq_param = (\<lambda>_. None), hq_body = [], hq_remoteIp = []\<rparr>"

lemma core_token_admitted:
  "extractAuthenticatedUser demo_pg demo_core (demo_env 0) demo_db (''Bearer '' @ core_token) =
     Return (Ok \<lparr>au_id = ''u1'', au_email = ''a@b.io'', au_role = ''user'', au_sessionId = ''s1'', au_jti = ''j1''\<rparr>)"
proof -
  have "to_epoch 0 = 0" by (simp add: to_epoch_def)
  then have v: "sv_validateAccessToken demo_core (sysNow (demo_env 0 0)) core_token =
      Return (Ok (issued_claims ''crow-api-auth'' ''crow-api-clients'' 0 ''u1'' ''user'' ''s1'' ''j1'' 900 ''k0''))"
    using created_token[OF demo_json_roundtrip _ _ demo_km_keys(6,7), where now = 0 and ttl = 900 and now' = 0
        and km' = demo_km]
    by (simp add: demo_core_def demo_site_def demo_km_keys getVerificationPublicKeyPem_def int8_def)
  have s: "sessions_findById (demo_env 0 2) demo_db ''s1'' = Some (session_of_row (demo_session ''s1'' ''j1'' ''h1'' None))"
    by (simp add: sessions_findById_def demo_db_def demo_site_def id_or_jti_def demo_session_def)
  have u: "users_findById demo_pg (demo_env 0 4) demo_db ''u1'' = Some (mapUserRow 4 demo_user)"
    by (simp add: users_findById_def demo_db_def demo_site_def demo_pg_def demo_user_def)
  have j: "\<not> sessions_isTokenRevoked (demo_env 0 1) demo_db ''j1''"
    by (simp add: sessions_isTokenRevoked_def demo_db_def empty_db_def demo_session_def)
  have e: "\<not> s_isRevoked (session_of_row (demo_session ''s1'' ''j1'' ''h1'' None))"
      "\<not> s_isExpired (sysNow (demo_env 0 3)) (session_of_row (demo_session ''s1'' ''j1'' ''h1'' None))"
    by (simp_all add: demo_session_def s_isExpired_def demo_site_def seconds_def epoch_bigint_def from_epoch_def)
  show ?thesis
    using v s u j e
    by (simp add: extractAuthenticatedUser_def Let_def issued_claims_def starts_with_def demo_user_def)
qed


section \<open>Passwords and verifiers across components\<close>

text \<open>
  A password that was set signs in: after a successful set-password with the program's own
  hasher, the first phase of login accepts that password for the account, whatever salt was
  drawn, and hands the account's stored identity on.
\<close>

theorem set_password_then_sign_in:
  assumes "db_wf P d" and S: "S = core_services K J km cfg os t0"
    and col: "\<And>salt. pg_varchar P 255 (hashPassword K salt pw) = Some (hashPassword K salt pw)"
    and "setPassword P S E d uid pw = (Ok resp, d')"
  shows "\<exists>row\<in>set (db_users d'). pg_uuid P uid = Some (ur_id row) \<and>
    (ur_is_active row \<and> \<not> auth_isAllWhitespace (ur_email row) \<longrightarrow>
      (\<forall>F ip ua. dbOk (F 0) \<longrightarrow>
         login_check P S F d' \<lparr>lq_email = ur_email row, lq_password = pw\<rparr> ip ua =
           Return (Ok (mapUserRow (sysNow (F 0)) row, sysNow (F 2)), d')))"
  by (rule password_hasher.login_check_after_setPassword[OF openssl.password_hasher_axioms assms(1) _ _ col assms(4)])
    (simp_all add: S)

lemma length_hashPassword: "length (hashPassword K salt pw) = 150"
proof -
  have "length (string_of_nat 100000) = 6" by (simp add: string_of_nat.simps)
  then show ?thesis by (simp add: hashPassword_def Let_def hash_prefix_def)
qed

lemma set_password_then_sign_in_witness:
  "\<exists>resp d' row ip ua. setPassword demo_pg demo_core (demo_env 0) core_db ''u1'' ''new-secret'' = (Ok resp, d') \<and>
     row \<in> set (db_users d') \<and> ur_id row = ''u1'' \<and>
     (ur_is_active row \<and> \<not> auth_isAllWhitespace (ur_email row) \<longrightarrow>
        login_check demo_pg demo_core (demo_env 9) d' \<lparr>lq_email = ur_email row, lq_password = ''new-secret''\<rparr> ip ua =
          Return (Ok (mapUserRow 9 row, 11), d'))"
proof -
  have col: "pg_varchar demo_pg 255 (hashPassword demo_crypto salt pw) = Some (hashPassword demo_crypto salt pw)" for salt pw
    by (simp add: demo_pg_def length_hashPassword)
  let ?h = "hashPassword demo_crypto (rnd (demo_env 0 1)) ''new-secret''"
  have f: "users_findById demo_pg (demo_env 0 0) core_db ''u1'' \<noteq> None"
    by (simp add: users_findById_def core_db_def demo_site_def demo_user_def demo_pg_def)
  obtain d1 where u: "users_setPassword demo_pg (demo_env 0 2) core_db ''u1'' ?h = (True, d1)"
    by (simp add: users_setPassword_def col users_update_by_id_def core_db_def demo_site_def demo_user_def)
      (simp add: demo_pg_def affected_def)
  have "sv_hashPassword demo_core = hashPassword demo_crypto" by (simp add: demo_core_def)
  then obtain resp d' where s: "setPassword demo_pg demo_core (demo_env 0) core_db ''u1'' ''new-secret'' = (Ok resp, d')"
    using f u by (auto simp: setPassword_def Let_def)
  have "demo_site 9 u n = demo_site 9 u n \<and> dbOk (demo_env 9 0)" for u n by (simp add: demo_site_def)
  then show ?thesis
    using set_password_then_sign_in[OF core_db_wf demo_core_def col s] s
    by (fastforce simp: demo_pg_def demo_site_def)
qed

text \<open>
  C34. The PKCE verifier is public: the verifier that the Google URL endpoint stored for a state is
  served by the cache endpoint to any request, without any credentials, while it is alive.
\<close>

theorem pkce_verifier_public:
  assumes "cache_wf (db_cache d)" and G: "sv_google (app_services A) = Some G" "sv_hasCache (app_services A)"
    and st: "hq_param rq ''state'' = Some st" "st \<noteq> []"
    and "cache_storable (app_pg A) (pkce_key st) (gs_generateCodeVerifier G (rnd (E 11)))"
    and ok: "dbOk (E 12)" "dbOk (F 10)" "dbNow (F 10) < dbNow (E 12) + seconds 600"
  shows "let d' = snd (handle A E d R_googleUrl rq) in
    \<exists>resp. handle A F d' (R_cacheGet (pkce_key st)) anyone = (Return (success_cache resp), d') \<and>
      r_statusCode resp = 200 \<and>
      cr_value (the (r_data resp)) = gs_generateCodeVerifier G (rnd (E 11))"
proof -
  let ?v = "gs_generateCodeVerifier G (rnd (E 11))"
  let ?d = "cache_set (app_pg A) (E 12) d (pkce_key st) ?v 600"
  have d': "snd (handle A E d R_googleUrl rq) = ?d"
    using st by (simp add: auth_getGoogleAuthUrl_def getGoogleAuthUrl_def G Let_def uc_def answered_def)
  have "map_option ce_value (cache_get (F 10) ?d (pkce_key st)) = Some ?v"
    using pgc.get_after_put[OF assms(1) ok(1,2) assms(6), of 600] ok(3) by simp
  then obtain entry where "cache_get (F 10) ?d (pkce_key st) = Some entry" "ce_value entry = ?v" by auto
  then show ?thesis
    unfolding Let_def d'
    by (intro exI[of _ "api_ok (sysNow (F 12)) (cacheResponse_fromDomain (sysNow (F 11)) entry) ''Cache hit'' 200"])
      (simp add: cache_getKey_def answered_def answer_def cacheUC_get_def uc_def pkce_key_def
        cacheResponse_fromDomain_def)
qed

lemma pkce_verifier_public_witness:
  "\<exists>resp. handle demo_app (demo_env 99)
       (snd (handle demo_app (demo_env 0) demo_db R_googleUrl
          ((request_with [])\<lparr>hq_param := (\<lambda>_. Some ''s'')\<rparr>)))
       (R_cacheGet (pkce_key ''s'')) (request_with []) =
     (Return (success_cache resp), snd (handle demo_app (demo_env 0) demo_db R_googleUrl
          ((request_with [])\<lparr>hq_param := (\<lambda>_. Some ''s'')\<rparr>))) \<and>
     cr_value (the (r_data resp)) = generateCodeVerifier (\<lambda>_. 0)"
proof -
  let ?rq = "(request_with [])\<lparr>hq_param := (\<lambda>_. Some ''s'')\<rparr>"
  have app: "app_services demo_app = demo_core" "app_pg demo_app = demo_pg" by (simp_all add: demo_app_def)
  obtain G where G: "sv_google demo_core = Some G" "gs_generateCodeVerifier G = generateCodeVerifier"
    by (simp add: demo_core_def googleAuthService_def)
  have wf: "cache_wf (db_cache demo_db)" using demo_db_wf by (simp add: db_wf_def)
  have st: "cache_storable demo_pg (pkce_key ''s'') v" for v
    by (simp add: cache_storable_def demo_pg_def pkce_key_def)
  have "sv_hasCache demo_core" by (simp add: demo_core_def core_services_def)
  with pkce_verifier_public[where A = demo_app and rq = ?rq and st = "''s''" and E = "demo_env 0" and
      F = "demo_env 99" and anyone = "request_with []" and G = G, unfolded app, OF wf G(1)] st
  show ?thesis by (auto simp: Let_def G(2) demo_site_def seconds_def)
qed

section \<open>The invariant of the running server\<close>

text \<open>
  C1. The server keeps its database sound: whatever requests arrive, valid or not, with whatever
  faults of the database, the invariant of all tables holds after each of them, and users,
  sessions, messages and the audit log only move forward: no user or session disappears,
  no revocation is undone, no audit row changes.
\<close>

theorem requests_keep_database:
  assumes "db_wf (app_pg A) d" and "list_all (\<lambda>(_, _, E). sites_ok (app_pg A) E) log"
  shows "db_wf (app_pg A) (serve A d log) \<and> db_le d (serve A d log)"
  using dbs.run[OF serve_txns[OF assms(2)] assms(1)] by simp

lemma requests_keep_database_witness:
  "let d = serve demo_app demo_db
       [(R_logout, request_with (''Bearer '' @ core_token), demo_env 0),
        (R_cacheRemove ''k'', request_with [], demo_env 50), (R_register, request_with [], demo_env 90)]
   in db_wf demo_pg d \<and> db_le demo_db d"
proof -
  have pg: "app_pg demo_app = demo_pg" by (simp add: demo_app_def)
  show ?thesis
    unfolding Let_def
    by (rule requests_keep_database[of demo_app demo_db, unfolded pg, OF demo_db_wf])
      (simp only: list.pred_inject prod.case demo_env_ok(1) simp_thms)
qed

end
