(* ===== verification/Openssl.thy ===== *)
theory Openssl
  imports Encoding
begin

text \<open>
  \<^verbatim>\<open>Infrastructure/src/Security/OpenSslCrypto.cpp\<close>, the bodies around the calls of OpenSSL:
  key generation, PEM texts, signatures and digests, with each early return. The single
  calls of the library are the fields of the record \<open>openssl\<close>; the rest of the development
  uses the functions defined here through the record \<open>crypto\<close>, which \<open>crypto_of\<close> builds.
\<close>

section \<open>The calls of the library\<close>

text \<open>
  \<open>'k\<close> stands for an \<^verbatim>\<open>EVP_PKEY\<close>, \<open>'c\<close> for the state of an \<^verbatim>\<open>EVP_MD_CTX\<close>. A call that fails, by a
  null pointer or a result that is not positive, is \<open>None\<close>. \<open>ossl_ctx_new\<close> is the fresh context,
  \<open>ossl_mem_buf\<close> whether a reading buffer could be made over a text; the two parameters of an RSA
  key come as the bytes that \<^verbatim>\<open>BN_bn2bin\<close> writes. The three digest calls are not checked by the
  code: the first two leave some state behind in any case, and the last one, when it fails,
  leaves the length at zero.
\<close>

record ('k, 'c) openssl =
  ossl_keygen :: "(nat \<Rightarrow> byte) \<Rightarrow> nat \<Rightarrow> 'k option"
  ossl_write_private :: "'k \<Rightarrow> string option"
  ossl_write_public :: "'k \<Rightarrow> string option"
  ossl_mem_buf :: "string \<Rightarrow> bool"
  ossl_read_private :: "string \<Rightarrow> 'k option"
  ossl_read_public :: "string \<Rightarrow> 'k option"
  ossl_rsa_n :: "'k \<Rightarrow> byte list option"
  ossl_rsa_e :: "'k \<Rightarrow> byte list option"
  ossl_ctx_new :: "'c option"
  ossl_sign_init :: "'c \<Rightarrow> 'k \<Rightarrow> 'c option"
  ossl_sign_update :: "'c \<Rightarrow> string \<Rightarrow> 'c option"
  ossl_sign_size :: "'c \<Rightarrow> nat option"
  ossl_sign_final :: "'c \<Rightarrow> byte list option"
  ossl_verify_init :: "'c \<Rightarrow> 'k \<Rightarrow> 'c option"
  ossl_verify_update :: "'c \<Rightarrow> string \<Rightarrow> 'c option"
  ossl_verify_final :: "'c \<Rightarrow> byte list \<Rightarrow> bool"
  ossl_digest_init :: "'c \<Rightarrow> 'c"
  ossl_digest_update :: "'c \<Rightarrow> string \<Rightarrow> 'c"
  ossl_digest_final :: "'c \<Rightarrow> byte list option"
  ossl_pbkdf2 :: "string \<Rightarrow> byte list \<Rightarrow> int \<Rightarrow> nat \<Rightarrow> byte list"

section \<open>The functions of the class\<close>

definition generateRsaKeypair ::
    "('k, 'c) openssl \<Rightarrow> (nat \<Rightarrow> byte) \<Rightarrow> nat \<Rightarrow> string \<times> string" where
  "generateRsaKeypair L r bits =
     (case ossl_keygen L r bits of
        None \<Rightarrow> ([], [])
      | Some pkey \<Rightarrow>
          (case ossl_write_private L pkey of
             None \<Rightarrow> ([], [])
           | Some privPem \<Rightarrow>
               (case ossl_write_public L pkey of
                  None \<Rightarrow> ([], [])
                | Some pubPem \<Rightarrow> (privPem, pubPem))))"

definition read_key ::
    "('k, 'c) openssl \<Rightarrow> (string \<Rightarrow> 'k option) \<Rightarrow> string \<Rightarrow> 'k option" where
  "read_key L read pem = (if ossl_mem_buf L pem then read pem else None)"

definition rsaPublicParams :: "('k, 'c) openssl \<Rightarrow> string \<Rightarrow> (byte list \<times> byte list) option" where
  "rsaPublicParams L publicKeyPem =
     (case read_key L (ossl_read_public L) publicKeyPem of
        None \<Rightarrow> None
      | Some pkey \<Rightarrow>
          (case ossl_rsa_n L pkey of
             None \<Rightarrow> None
           | Some n \<Rightarrow> map_option (Pair n) (ossl_rsa_e L pkey)))"

definition signature_of :: "('k, 'c) openssl \<Rightarrow> 'k \<Rightarrow> string \<Rightarrow> byte list option" where
  "signature_of L pkey message =
     Option.bind (ossl_ctx_new L) (\<lambda>ctx.
     Option.bind (ossl_sign_init L ctx pkey) (\<lambda>ctx.
     Option.bind (ossl_sign_update L ctx message) (\<lambda>ctx.
     Option.bind (ossl_sign_size L ctx) (\<lambda>sigLen.
       if sigLen = 0 then None else ossl_sign_final L ctx))))"

definition signRsa :: "('k, 'c) openssl \<Rightarrow> string \<Rightarrow> string \<Rightarrow> byte list option" where
  "signRsa L privateKeyPem message =
     Option.bind (read_key L (ossl_read_private L) privateKeyPem) (\<lambda>pkey. signature_of L pkey message)"

definition accepts_signature :: "('k, 'c) openssl \<Rightarrow> 'k \<Rightarrow> string \<Rightarrow> byte list \<Rightarrow> bool" where
  "accepts_signature L pkey message rawSig =
     (case ossl_ctx_new L of
        None \<Rightarrow> False
      | Some ctx \<Rightarrow>
          (case ossl_verify_init L ctx pkey of
             None \<Rightarrow> False
           | Some ctx \<Rightarrow>
               (case ossl_verify_update L ctx message of
                  None \<Rightarrow> False
                | Some ctx \<Rightarrow> ossl_verify_final L ctx rawSig)))"

definition verifyRsa :: "('k, 'c) openssl \<Rightarrow> string \<Rightarrow> string \<Rightarrow> byte list \<Rightarrow> bool" where
  "verifyRsa L publicKeyPem message rawSig =
     (case read_key L (ossl_read_public L) publicKeyPem of
        None \<Rightarrow> False
      | Some pkey \<Rightarrow> accepts_signature L pkey message rawSig)"

definition sha256Raw :: "('k, 'c) openssl \<Rightarrow> string \<Rightarrow> byte list" where
  "sha256Raw L data =
     (case ossl_ctx_new L of
        None \<Rightarrow> []
      | Some ctx \<Rightarrow>
          (case ossl_digest_final L (ossl_digest_update L (ossl_digest_init L ctx) data) of
             None \<Rightarrow> []
           | Some hash \<Rightarrow> hash))"

definition crypto_of :: "('k, 'c) openssl \<Rightarrow> crypto" where
  "crypto_of L =
     \<lparr>cr_pbkdf2 = ossl_pbkdf2 L, cr_sha256 = sha256Raw L,
      cr_generateRsaKeypair = generateRsaKeypair L, cr_rsaPublicParams = rsaPublicParams L,
      cr_sign = signRsa L, cr_verify = verifyRsa L\<rparr>"

lemma crypto_of_sel [simp]:
  "cr_sha256 (crypto_of L) = sha256Raw L" "cr_generateRsaKeypair (crypto_of L) = generateRsaKeypair L"
  "cr_rsaPublicParams (crypto_of L) = rsaPublicParams L" "cr_sign (crypto_of L) = signRsa L"
  "cr_verify (crypto_of L) = verifyRsa L"
  by (simp_all add: crypto_of_def)

section \<open>With a library that works\<close>

text \<open>
  What OpenSSL documents: a written key can be read again, a private key as itself and a public
  key as one that accepts the signatures of the pair; a signature is made by every key, and a
  SHA-256 digest has 32 bytes.
\<close>

definition openssl_laws :: "('k, 'c) openssl \<Rightarrow> bool" where
  "openssl_laws L \<longleftrightarrow>
     (\<forall>pem. ossl_mem_buf L pem) \<and> ossl_ctx_new L \<noteq> None \<and>
     (\<forall>k pem. ossl_write_private L k = Some pem \<longrightarrow> ossl_read_private L pem = Some k) \<and>
     (\<forall>k pem. ossl_write_public L k = Some pem \<longrightarrow>
        (\<exists>k'. ossl_read_public L pem = Some k' \<and>
           (\<forall>m. \<exists>sig. signature_of L k m = Some sig \<and> accepts_signature L k' m sig))) \<and>
     (\<forall>c m. \<exists>h. ossl_digest_final L (ossl_digest_update L (ossl_digest_init L c) m) = Some h \<and>
        length h = 32)"

lemma openssl_crypto_laws: "openssl_laws L \<Longrightarrow> crypto_laws (crypto_of L)"
proof -
  assume L: "openssl_laws L"
  then obtain c where c: "ossl_ctx_new L = Some c" by (auto simp: openssl_laws_def)
  have "length (sha256Raw L m) = 32" for m
  proof -
    obtain h where "ossl_digest_final L (ossl_digest_update L (ossl_digest_init L c) m) = Some h" "length h = 32"
      using L unfolding openssl_laws_def by blast
    then show ?thesis by (simp add: sha256Raw_def c)
  qed
  then show ?thesis by (simp add: crypto_laws_def)
qed

text \<open>What the generated texts are good for, or that there are none.\<close>

lemma generated_keys:
  assumes "openssl_laws L" and "generateRsaKeypair L r bits = (priv, pub)"
  shows "(\<forall>m. cr_sign (crypto_of L) priv m \<noteq> None) \<and> key_pair (crypto_of L) priv pub \<or>
    priv = [] \<and> pub = []"
proof (cases "\<exists>k. ossl_keygen L r bits = Some k \<and> ossl_write_private L k = Some priv \<and> ossl_write_public L k = Some pub")
  case True
  then obtain k where k: "ossl_write_private L k = Some priv" "ossl_write_public L k = Some pub" by blast
  have priv: "read_key L (ossl_read_private L) priv = Some k"
    using assms(1) k(1) by (simp add: openssl_laws_def read_key_def)
  obtain k' where pub: "read_key L (ossl_read_public L) pub = Some k'"
    and sig: "\<forall>m. \<exists>sig. signature_of L k m = Some sig \<and> accepts_signature L k' m sig"
    using assms(1) k(2) unfolding openssl_laws_def read_key_def by metis
  have "\<exists>s. cr_sign (crypto_of L) priv m = Some s \<and> cr_verify (crypto_of L) pub m s" for m
    using sig by (simp add: signRsa_def verifyRsa_def priv pub)
  then have "\<forall>m. \<exists>s. cr_sign (crypto_of L) priv m = Some s \<and> cr_verify (crypto_of L) pub m s" by blast
  then have "\<forall>m. cr_sign (crypto_of L) priv m \<noteq> None \<and>
      (\<forall>s. cr_sign (crypto_of L) priv m = Some s \<longrightarrow> cr_verify (crypto_of L) pub m s)"
    by (metis option.discI option.inject)
  then show ?thesis by (simp add: key_pair_def)
next
  case False
  then show ?thesis
    using assms(2) by (auto simp: generateRsaKeypair_def split: option.splits)
qed

section \<open>With a library that does not\<close>

lemma no_key_generated:
  "ossl_keygen L r bits = None \<Longrightarrow> generateRsaKeypair L r bits = ([], [])"
  by (simp add: generateRsaKeypair_def)

lemma empty_pem_signs_nothing:
  assumes "ossl_read_private L [] = None" and "ossl_read_public L [] = None"
  shows "signRs256 (crypto_of L) [] m = None \<and> \<not> verifyRs256 (crypto_of L) [] m sig"
  using assms by (simp add: signRs256_def verifyRs256_def signRsa_def verifyRsa_def read_key_def split: option.split)

text \<open>
  The digest has no error value: when no context can be allocated, every text has the same,
  empty, hash.
\<close>

lemma digest_fault_is_empty_hash:
  assumes "ossl_ctx_new L = None"
  shows "sha256Hex (crypto_of L) s = []"
  using assms by (simp add: sha256Hex_def sha256Raw_def bytesToHex_def)

section \<open>An instance\<close>

text \<open>
  A library whose keys are numbers, whose signatures repeat the key and the text, and whose
  generator fails on demand.
\<close>

definition demo_openssl :: "(nat, nat \<times> string) openssl" where
  "demo_openssl =
     \<lparr>ossl_keygen = (\<lambda>r bits. if r 0 = 0 then None else Some (unat (r 0))),
      ossl_write_private = (\<lambda>k. Some (replicate (Suc k) (CHR ''k''))),
      ossl_write_public = (\<lambda>k. Some (replicate (Suc k) (CHR ''k''))),
      ossl_mem_buf = (\<lambda>_. True),
      ossl_read_private = (\<lambda>s. if s = [] then None else Some (length s - 1)),
      ossl_read_public = (\<lambda>s. if s = [] then None else Some (length s - 1)),
      ossl_rsa_n = (\<lambda>k. Some [of_nat k]), ossl_rsa_e = (\<lambda>k. Some [3]),
      ossl_ctx_new = Some (0, []),
      ossl_sign_init = (\<lambda>_ k. Some (k, [])), ossl_sign_update = (\<lambda>(k, s) m. Some (k, s @ m)),
      ossl_sign_size = (\<lambda>_. Some 1), ossl_sign_final = (\<lambda>(k, s). Some (of_nat k # map byte_of_char s)),
      ossl_verify_init = (\<lambda>_ k. Some (k, [])), ossl_verify_update = (\<lambda>(k, s) m. Some (k, s @ m)),
      ossl_verify_final = (\<lambda>(k, s) sig. sig = of_nat k # map byte_of_char s),
      ossl_digest_init = (\<lambda>_. (0, [])), ossl_digest_update = (\<lambda>(k, s) m. (k, s @ m)),
      ossl_digest_final = (\<lambda>(k, s). Some (take 32 (map byte_of_char s @ replicate 32 0))),
      ossl_pbkdf2 = (\<lambda>pw salt n len. map byte_of_char pw)\<rparr>"

lemma demo_openssl_laws: "openssl_laws demo_openssl"
  by (simp add: openssl_laws_def demo_openssl_def signature_of_def accepts_signature_def min_def)

end
