(* ===== verification/Json_Text.thy ===== *)
theory Json_Text
  imports Std_Text
begin

text \<open>
  JSON as text. The program has two documents that it writes without a JSON library, the API
  description and the published key set. \<open>json_doc\<close> is a document with its layout, as it stands
  in the source; \<open>parse_json\<close> is a reader of JSON after RFC 8259, for documents without
  fractions, negative numbers and coded characters (it lets leading zeros pass). What is shown here for every document and
  layout is that the reader gives back what was written.
\<close>

section \<open>Documents with a layout\<close>

datatype layout = Inline | Block

datatype json_doc =
    J_str string
  | J_bool bool
  | J_num nat
  | J_list layout "json_doc list"
  | J_obj layout "(string \<times> json_doc) list"

datatype json_value =
    V_str string
  | V_bool bool
  | V_num nat
  | V_list "json_value list"
  | V_obj "(string \<times> json_value) list"

fun value_of :: "json_doc \<Rightarrow> json_value" where
  "value_of (J_str s) = V_str s"
| "value_of (J_bool b) = V_bool b"
| "value_of (J_num n) = V_num n"
| "value_of (J_list l ds) = V_list (map value_of ds)"
| "value_of (J_obj l kvs) = V_obj (map (\<lambda>kv. (fst kv, value_of (snd kv))) kvs)"

section \<open>Writing\<close>

definition escaped :: "char \<Rightarrow> string" where
  "escaped c = (if c = CHR 0x22 \<or> c = CHR 0x5C then [CHR 0x5C, c] else [c])"

definition json_string :: "string \<Rightarrow> string" where
  "json_string s = CHR 0x22 # concat (map escaped s) @ [CHR 0x22]"

fun join :: "string \<Rightarrow> string list \<Rightarrow> string" where
  "join sep [] = []"
| "join sep [t] = t"
| "join sep (t # ts) = t @ sep @ join sep ts"

text \<open>
  Brackets around texts: \<open>a\<close> before the first, \<open>b\<close> after each comma, \<open>c\<close> after the last.
\<close>

definition bracketed :: "char \<Rightarrow> char \<Rightarrow> string \<Rightarrow> string \<Rightarrow> string \<Rightarrow> string list \<Rightarrow> string" where
  "bracketed x y a b c ts =
     (if ts = [] then [x, y] else x # a @ join ('','' @ b) ts @ c @ [y])"

definition indent :: "nat \<Rightarrow> string" where
  "indent n = nl @ replicate n CHR '' ''"

definition enclosed :: "char \<Rightarrow> char \<Rightarrow> string \<Rightarrow> layout \<Rightarrow> nat \<Rightarrow> string list \<Rightarrow> string" where
  "enclosed x y pad l n ts =
     (case l of
        Inline \<Rightarrow> bracketed x y pad '' '' pad ts
      | Block \<Rightarrow> bracketed x y (indent (n + 2)) (indent (n + 2)) (indent n) ts)"

definition deeper :: "layout \<Rightarrow> nat \<Rightarrow> nat" where
  "deeper l n = (case l of Inline \<Rightarrow> n | Block \<Rightarrow> n + 2)"

fun print_json :: "nat \<Rightarrow> json_doc \<Rightarrow> string" where
  "print_json n (J_str s) = json_string s"
| "print_json n (J_bool b) = (if b then ''true'' else ''false'')"
| "print_json n (J_num k) = string_of_nat k"
| "print_json n (J_list l ds) =
     enclosed (CHR ''['') (CHR '']'') [] l n (map (print_json (deeper l n)) ds)"
| "print_json n (J_obj l kvs) =
     enclosed (CHR ''{'') (CHR ''}'') '' '' l n
       (map (\<lambda>kv. json_string (fst kv) @ '': '' @ print_json (deeper l n) (snd kv)) kvs)"

section \<open>Reading\<close>

definition is_json_space :: "char \<Rightarrow> bool" where
  "is_json_space c \<longleftrightarrow> c \<in> {CHR '' '', CHR 0x09, CHR 0x0A, CHR 0x0D}"

definition skip_space :: "string \<Rightarrow> string" where
  "skip_space s = dropWhile is_json_space s"

text \<open>The rest of a string, after its opening quote.\<close>

fun read_chars :: "string \<Rightarrow> (string \<times> string) option" where
  "read_chars [] = None"
| "read_chars [c] = (if c = CHR 0x22 then Some ([], []) else None)"
| "read_chars (c # d # s) =
     (if c = CHR 0x22 then Some ([], d # s)
      else if c = CHR 0x5C then
        (if d = CHR 0x22 \<or> d = CHR 0x5C
         then map_option (\<lambda>(t, r). (d # t, r)) (read_chars s) else None)
      else if (of_char c :: nat) < 32 then None
      else map_option (\<lambda>(t, r). (c # t, r)) (read_chars (d # s)))"

text \<open>The first character that is no space, and what follows it.\<close>

definition next_char :: "string \<Rightarrow> (char \<times> string) option" where
  "next_char s = (case skip_space s of [] \<Rightarrow> None | c # r \<Rightarrow> Some (c, r))"

fun read_value :: "nat \<Rightarrow> string \<Rightarrow> (json_value \<times> string) option"
  and read_elements :: "nat \<Rightarrow> string \<Rightarrow> (json_value list \<times> string) option"
  and read_members :: "nat \<Rightarrow> string \<Rightarrow> ((string \<times> json_value) list \<times> string) option" where
  "read_value 0 s = None"
| "read_value (Suc n) s =
     (case next_char s of
        None \<Rightarrow> None
      | Some (c, r) \<Rightarrow>
          if c = CHR 0x22 then map_option (\<lambda>(t, r). (V_str t, r)) (read_chars r)
          else if c = CHR ''['' then
            (case next_char r of
               None \<Rightarrow> None
             | Some (d, r') \<Rightarrow>
                 if d = CHR '']'' then Some (V_list [], r')
                 else map_option (\<lambda>(vs, r). (V_list vs, r)) (read_elements n r))
          else if c = CHR ''{'' then
            (case next_char r of
               None \<Rightarrow> None
             | Some (d, r') \<Rightarrow>
                 if d = CHR ''}'' then Some (V_obj [], r')
                 else map_option (\<lambda>(kvs, r). (V_obj kvs, r)) (read_members n r))
          else if starts_with ''true'' (c # r) then Some (V_bool True, drop 3 r)
          else if starts_with ''false'' (c # r) then Some (V_bool False, drop 4 r)
          else if is_digit c then
            Some (V_num (digits_value (takeWhile is_digit (c # r))), dropWhile is_digit (c # r))
          else None)"
| "read_elements 0 s = None"
| "read_elements (Suc n) s =
     (case read_value n s of
        None \<Rightarrow> None
      | Some (v, r) \<Rightarrow>
          (case next_char r of
             None \<Rightarrow> None
           | Some (c, r') \<Rightarrow>
               if c = CHR '','' then map_option (\<lambda>(vs, r). (v # vs, r)) (read_elements n r')
               else if c = CHR '']'' then Some ([v], r') else None))"
| "read_members 0 s = None"
| "read_members (Suc n) s =
     (case next_char s of
        None \<Rightarrow> None
      | Some (q, r) \<Rightarrow>
          if q \<noteq> CHR 0x22 then None
          else case read_chars r of
            None \<Rightarrow> None
          | Some (k, r1) \<Rightarrow>
              (case next_char r1 of
                 None \<Rightarrow> None
               | Some (c1, r2) \<Rightarrow>
                   if c1 \<noteq> CHR '':'' then None
                   else case read_value n r2 of
                     None \<Rightarrow> None
                   | Some (v, r3) \<Rightarrow>
                       (case next_char r3 of
                          None \<Rightarrow> None
                        | Some (c, r4) \<Rightarrow>
                            if c = CHR '','' then
                              map_option (\<lambda>(kvs, r). ((k, v) # kvs, r)) (read_members n r4)
                            else if c = CHR ''}'' then Some ([(k, v)], r4) else None)))"

definition parse_json :: "string \<Rightarrow> json_value option" where
  "parse_json s =
     (case read_value (length s) s of
        Some (v, r) \<Rightarrow> if skip_space r = [] then Some v else None
      | None \<Rightarrow> None)"

section \<open>Reading back\<close>

named_theorems json_text

lemma next_char_Cons [json_text]: "\<not> is_json_space c \<Longrightarrow> next_char (c # s) = Some (c, s)"
  by (simp add: next_char_def skip_space_def)

lemma skip_space_append: "\<forall>c\<in>set w. is_json_space c \<Longrightarrow> skip_space (w @ s) = skip_space s"
  by (simp add: skip_space_def dropWhile_append2)

lemma next_char_space [json_text]: "\<forall>c\<in>set w. is_json_space c \<Longrightarrow> next_char (w @ s) = next_char s"
  by (simp add: next_char_def skip_space_append)

lemma read_value_space [json_text]:
  "\<forall>c\<in>set w. is_json_space c \<Longrightarrow> read_value n (w @ s) = read_value n s"
  by (cases n) (simp_all add: next_char_space)

lemma space_chars [simp]: "is_json_space (CHR '' '')" "is_json_space (CHR 0x0A)"
  "\<not> is_json_space (CHR 0x22)" "\<not> is_json_space (CHR '','')" "\<not> is_json_space (CHR '':'')"
  "\<not> is_json_space (CHR ''['')" "\<not> is_json_space (CHR '']'')" "\<not> is_json_space (CHR ''{'')"
  "\<not> is_json_space (CHR ''}'')"
  by (simp_all add: is_json_space_def)

lemma indent_space [simp]: "c \<in> set (indent n) \<Longrightarrow> is_json_space c"
  by (auto simp: indent_def nl_def)

text \<open>Texts that can stand in a quoted string: no control characters.\<close>

definition printable :: "string \<Rightarrow> bool" where
  "printable s \<longleftrightarrow> (\<forall>c\<in>set s. 32 \<le> (of_char c :: nat))"

fun visible :: "char \<Rightarrow> bool" where
  "visible (Char b0 b1 b2 b3 b4 b5 b6 b7) \<longleftrightarrow> b5 \<or> b6 \<or> b7"

lemma visible_iff: "visible c \<longleftrightarrow> 32 \<le> (of_char c :: nat)"
  by (cases c) (simp add: of_char_def of_bool_def)

lemma printable_code [code]: "printable s \<longleftrightarrow> list_all visible s"
  by (simp add: printable_def visible_iff list_all_iff)

lemma read_chars_escaped:
  "printable s \<Longrightarrow> read_chars (concat (map escaped s) @ CHR 0x22 # r) = Some (s, r)"
proof (induction s)
  case Nil
  show ?case by (cases r) simp_all
next
  case (Cons c s)
  obtain d t where t: "concat (map escaped s) @ CHR 0x22 # r = d # t"
    by (cases "concat (map escaped s) @ CHR 0x22 # r") auto
  have IH: "read_chars (d # t) = Some (s, r)"
    using Cons by (simp add: printable_def t[symmetric])
  have "32 \<le> (of_char c :: nat)" using Cons.prems by (simp add: printable_def)
  then show ?case
    using IH by (simp add: escaped_def[of c] t)
qed

lemma read_json_string [json_text]:
  "printable s \<Longrightarrow> read_chars (tl (json_string s) @ r) = Some (s, r)"
  by (simp add: json_string_def read_chars_escaped)

text \<open>
  \<open>parses t v\<close>: wherever the text \<open>t\<close> stands before something that is no digit, the reader takes
  it, all of it, for the value \<open>v\<close>; as many steps as \<open>t\<close> has characters are enough.
\<close>

definition delimited :: "string \<Rightarrow> bool" where
  "delimited r \<longleftrightarrow> r = [] \<or> \<not> is_digit (hd r)"

definition parses :: "string \<Rightarrow> json_value \<Rightarrow> bool" where
  "parses t v \<longleftrightarrow>
     t \<noteq> [] \<and> \<not> is_json_space (hd t) \<and>
     (\<forall>n r. length t \<le> n \<longrightarrow> delimited r \<longrightarrow> read_value n (t @ r) = Some (v, r))"

lemma parsesD: "parses t v \<Longrightarrow> length t \<le> n \<Longrightarrow> delimited r \<Longrightarrow> read_value n (t @ r) = Some (v, r)"
  by (simp add: parses_def)

lemma parsesI:
  assumes "\<not> is_json_space c"
    and "\<And>n r. length t \<le> n \<Longrightarrow> delimited r \<Longrightarrow> read_value (Suc n) (c # t @ r) = Some (v, r)"
  shows "parses (c # t) v"
  unfolding parses_def
proof (intro conjI allI impI)
  fix n r
  assume "length (c # t) \<le> n" "delimited r"
  then show "read_value n ((c # t) @ r) = Some (v, r)"
    using assms(2)[of "n - 1" r] by (cases n) simp_all
qed (use assms(1) in simp_all)

lemma space_no_digit: "is_json_space c \<Longrightarrow> \<not> is_digit c"
  unfolding is_json_space_def by (elim insertE emptyE) (simp_all add: is_digit_def)

lemma delimited_space:
  assumes "\<forall>x\<in>set w. is_json_space x" and "\<not> is_digit c"
  shows "delimited (w @ c # r)"
  using assms by (cases w) (simp_all add: delimited_def space_no_digit)

lemma no_digits [simp]: "\<not> is_digit (CHR '','')" "\<not> is_digit (CHR '']'')" "\<not> is_digit (CHR ''}'')"
  by (simp_all add: is_digit_def)

lemma parses_str: "printable s \<Longrightarrow> parses (json_string s) (V_str s)"
  unfolding json_string_def
proof (rule parsesI)
  fix n r
  assume "printable s"
  then show "read_value (Suc n) (CHR 0x22 # (concat (map escaped s) @ [CHR 0x22]) @ r) = Some (V_str s, r)"
    by (simp add: next_char_Cons read_chars_escaped)
qed simp

lemma parses_bool: "parses (if b then ''true'' else ''false'') (V_bool b)"
proof -
  have "parses ''true'' (V_bool True)" "parses ''false'' (V_bool False)"
    by (rule parsesI; simp add: is_json_space_def next_char_Cons starts_with_def)+
  then show ?thesis by simp
qed

lemma parses_num: "parses (string_of_nat k) (V_num k)"
proof -
  obtain c t where t: "string_of_nat k = c # t"
    using string_of_nat_nonempty by (cases "string_of_nat k") blast+
  have dig: "\<forall>x\<in>set (c # t). is_digit x" using string_of_nat_digits[of k] by (simp add: t)
  then have c: "is_digit c" "\<not> is_json_space c" "c \<noteq> CHR 0x22" "c \<noteq> CHR ''[''" "c \<noteq> CHR ''{''" "c \<noteq> CHR ''t''" "c \<noteq> CHR ''f''"
    by (auto simp: is_digit_def is_json_space_def)
  have v: "digits_value (c # t) = k" using digits_value_string_of_nat[of k] by (simp only: t)
  show ?thesis
    unfolding t
  proof (rule parsesI)
    fix n r
    assume "delimited r"
    then have "takeWhile is_digit (c # t @ r) = c # t" "dropWhile is_digit (c # t @ r) = r"
      using dig by (cases r; simp add: delimited_def takeWhile_append2 dropWhile_append2)+
    then show "read_value (Suc n) (c # t @ r) = Some (V_num k, r)"
      using c v by (simp add: next_char_Cons starts_with_def)
  qed (rule c(2))
qed

lemma read_elements_join:
  assumes "list_all2 parses ts vs" and "ts \<noteq> []"
    and "\<forall>x\<in>set a. is_json_space x" "\<forall>x\<in>set b. is_json_space x" "\<forall>x\<in>set c. is_json_space x"
    and "length (a @ join ('','' @ b) ts) < n"
  shows "read_elements n (a @ join ('','' @ b) ts @ c @ CHR '']'' # r) = Some (vs, r)"
  using assms
proof (induction ts vs arbitrary: a n rule: list_all2_induct)
  case Nil
  then show ?case by simp
next
  case (Cons t ts v vs)
  from Cons.prems(5) obtain m where n: "n = Suc m" by (cases n) simp_all
  show ?case
  proof (cases ts)
    case Nil
    then have "vs = []" using Cons.hyps(2) by simp
    moreover have "read_value m (t @ c @ CHR '']'' # r) = Some (v, c @ CHR '']'' # r)"
      using Cons.prems Nil by (intro parsesD Cons.hyps(1) delimited_space) (auto simp: n)
    ultimately show ?thesis using Cons.prems Nil by (simp add: n json_text)
  next
    case (Cons t' ts')
    let ?rest = "b @ join ('','' @ b) ts @ c @ CHR '']'' # r"
    have e: "read_elements m ?rest = Some (vs, r)"
      using Cons.IH Cons.prems Cons by (simp add: n)
    have "read_value m (t @ CHR '','' # ?rest) = Some (v, CHR '','' # ?rest)"
      using Cons.prems Cons by (intro parsesD Cons.hyps(1)) (auto simp: n delimited_def)
    then show ?thesis using e Cons.prems Cons by (simp add: n json_text)
  qed
qed

definition member_text :: "string \<times> string \<Rightarrow> string" where
  "member_text kt = json_string (fst kt) @ '': '' @ snd kt"

definition parses_member :: "string \<times> string \<Rightarrow> string \<times> json_value \<Rightarrow> bool" where
  "parses_member kt kv \<longleftrightarrow> fst kv = fst kt \<and> printable (fst kt) \<and> parses (snd kt) (snd kv)"

lemma read_member:
  assumes "parses_member kt (k, v)" and "\<forall>x\<in>set a. is_json_space x" and "delimited r"
    and "length (member_text kt) \<le> n"
  obtains r1 r2 where "next_char (a @ member_text kt @ r) = Some (CHR 0x22, r1)"
    "read_chars r1 = Some (k, '': '' @ r2)" "read_value n ('' '' @ r2) = Some (v, r)"
proof (rule that)
  let ?t = "snd kt"
  show "next_char (a @ member_text kt @ r) =
      Some (CHR 0x22, concat (map escaped k) @ CHR 0x22 # '': '' @ ?t @ r)"
    using assms(1,2) by (simp add: member_text_def json_string_def parses_member_def json_text)
  show "read_chars (concat (map escaped k) @ CHR 0x22 # '': '' @ ?t @ r) = Some (k, '': '' @ ?t @ r)"
    using assms(1) by (simp only: read_chars_escaped parses_member_def fst_conv)
  have "read_value n (?t @ r) = Some (v, r)"
    using assms by (intro parsesD) (auto simp: parses_member_def member_text_def)
  then show "read_value n ('' '' @ ?t @ r) = Some (v, r)"
    using read_value_space[of "'' ''" n "?t @ r"] by simp
qed

lemma read_members_join:
  assumes "list_all2 parses_member ms kvs" and "ms \<noteq> []"
    and "\<forall>x\<in>set a. is_json_space x" "\<forall>x\<in>set b. is_json_space x" "\<forall>x\<in>set c. is_json_space x"
    and "length (a @ join ('','' @ b) (map member_text ms)) < n"
  shows "read_members n (a @ join ('','' @ b) (map member_text ms) @ c @ CHR ''}'' # r) = Some (kvs, r)"
  using assms
proof (induction ms kvs arbitrary: a n rule: list_all2_induct)
  case Nil
  then show ?case by simp
next
  case (Cons kt ms kv kvs)
  from Cons.prems(5) obtain m where n: "n = Suc m" by (cases n) simp_all
  obtain k v where kv: "kv = (k, v)" by fastforce
  note M = Cons.hyps(1)[unfolded kv]
  show ?case
  proof (cases ms)
    case Nil
    then have e: "kvs = []" using Cons.hyps(2) by simp
    have "delimited (c @ CHR ''}'' # r)" "length (member_text kt) \<le> m"
      using Cons.prems Nil by (auto simp: n intro: delimited_space)
    then show ?thesis
      using Cons.prems Nil e by - (rule read_member[OF M, where a = a and n = m], auto simp: n kv json_text)
  next
    case (Cons kt' ms')
    let ?rest = "b @ join ('','' @ b) (map member_text ms) @ c @ CHR ''}'' # r"
    have e: "read_members m ?rest = Some (kvs, r)"
      using Cons.IH Cons.prems Cons by (simp add: n)
    have "delimited (CHR '','' # ?rest)" "length (member_text kt) \<le> m"
      using Cons.prems Cons by (auto simp: n delimited_def)
    then show ?thesis
      using Cons.prems Cons e by - (rule read_member[OF M, where a = a and n = m], auto simp: n kv json_text)
  qed
qed

lemma parses_not_close:
  assumes "parses t v"
  shows "hd t \<noteq> CHR '']''"
proof
  assume c: "hd t = CHR '']''"
  then obtain t' where t: "t = CHR '']'' # t'" using assms by (cases t) (simp_all add: parses_def)
  have "read_value (length t) (t @ []) = Some (v, [])"
    using assms by (intro parsesD) (simp_all add: delimited_def)
  then show False by (simp add: t json_text starts_with_def)
qed

lemma parses_list:
  assumes "list_all2 parses ts vs"
    and "\<forall>x\<in>set a. is_json_space x" "\<forall>x\<in>set b. is_json_space x" "\<forall>x\<in>set c. is_json_space x"
  shows "parses (bracketed (CHR ''['') (CHR '']'') a b c ts) (V_list vs)"
proof (cases ts)
  case Nil
  then have "parses ''[]'' (V_list vs)"
    using assms(1) by (intro parsesI) (simp_all add: json_text)
  then show ?thesis using Nil by (simp add: bracketed_def)
next
  case (Cons t ts')
  then obtain x t' where t: "t = x # t'" "\<not> is_json_space x" "x \<noteq> CHR '']''"
    using assms(1) parses_not_close[of t] by (cases t) (auto simp: list_all2_Cons1 parses_def)
  let ?body = "join ('','' @ b) ts"
  have "parses (CHR ''['' # a @ ?body @ c @ [CHR '']'']) (V_list vs)"
  proof (rule parsesI)
    fix n r
    assume "length (a @ ?body @ c @ [CHR '']'']) \<le> n"
    then have e: "read_elements n (a @ ?body @ c @ CHR '']'' # r) = Some (vs, r)"
      using assms Cons by (intro read_elements_join) auto
    obtain y where "next_char (a @ ?body @ c @ CHR '']'' # r) = Some (x, y)"
      using assms(2) Cons t by (cases ts') (simp_all add: json_text)
    with e t(3) show "read_value (Suc n) (CHR ''['' # (a @ ?body @ c @ [CHR '']'']) @ r) = Some (V_list vs, r)"
      by (simp add: json_text)
  qed simp
  then show ?thesis using Cons by (simp add: bracketed_def)
qed

lemma parses_obj:
  assumes "list_all2 parses_member ms kvs"
    and "\<forall>x\<in>set a. is_json_space x" "\<forall>x\<in>set b. is_json_space x" "\<forall>x\<in>set c. is_json_space x"
  shows "parses (bracketed (CHR ''{'') (CHR ''}'') a b c (map member_text ms)) (V_obj kvs)"
proof (cases ms)
  case Nil
  then have "parses ''{}'' (V_obj kvs)"
    using assms(1) by (intro parsesI) (simp_all add: json_text)
  then show ?thesis using Nil by (simp add: bracketed_def)
next
  case (Cons m ms')
  let ?body = "join ('','' @ b) (map member_text ms)"
  have "parses (CHR ''{'' # a @ ?body @ c @ [CHR ''}'']) (V_obj kvs)"
  proof (rule parsesI)
    fix n r
    assume "length (a @ ?body @ c @ [CHR ''}'']) \<le> n"
    then have e: "read_members n (a @ ?body @ c @ CHR ''}'' # r) = Some (kvs, r)"
      using assms Cons by (intro read_members_join) auto
    obtain y where "next_char (a @ ?body @ c @ CHR ''}'' # r) = Some (CHR 0x22, y)"
      using assms(2) Cons by (cases ms') (simp_all add: json_text member_text_def json_string_def)
    with e show "read_value (Suc n) (CHR ''{'' # (a @ ?body @ c @ [CHR ''}'']) @ r) = Some (V_obj kvs, r)"
      by (simp add: json_text)
  qed simp
  then show ?thesis using Cons by (simp add: bracketed_def)
qed

text \<open>Documents whose texts and names have no control characters.\<close>

fun doc_printable :: "json_doc \<Rightarrow> bool" where
  "doc_printable (J_str s) \<longleftrightarrow> printable s"
| "doc_printable (J_list l ds) \<longleftrightarrow> (\<forall>d\<in>set ds. doc_printable d)"
| "doc_printable (J_obj l kvs) \<longleftrightarrow> (\<forall>kv\<in>set kvs. printable (fst kv) \<and> doc_printable (snd kv))"
| "doc_printable _ \<longleftrightarrow> True"

lemma parses_print: "doc_printable d \<Longrightarrow> parses (print_json n d) (value_of d)"
proof (induction n d rule: print_json.induct)
  case (4 n l ds)
  then have "list_all2 parses (map (print_json (deeper l n)) ds) (map value_of ds)"
    by (auto simp: list_all2_map1 list_all2_map2 list_all2_same)
  then show ?case by (cases l) (auto simp: enclosed_def intro!: parses_list)
next
  case (5 n l kvs)
  let ?ms = "map (\<lambda>kv. (fst kv, print_json (deeper l n) (snd kv))) kvs"
  have "list_all2 parses_member ?ms (map (\<lambda>kv. (fst kv, value_of (snd kv))) kvs)"
    using 5 by (auto simp: list_all2_map1 list_all2_map2 list_all2_same parses_member_def)
  then have "parses (enclosed (CHR ''{'') (CHR ''}'') '' '' l n (map member_text ?ms))
      (V_obj (map (\<lambda>kv. (fst kv, value_of (snd kv))) kvs))"
    by (cases l) (auto simp: enclosed_def simp del: map_map intro!: parses_obj)
  moreover have "print_json n (J_obj l kvs) = enclosed (CHR ''{'') (CHR ''}'') '' '' l n (map member_text ?ms)"
    by (simp add: member_text_def comp_def)
  ultimately show ?case by (simp only: value_of.simps)
qed (simp_all add: parses_str parses_bool parses_num)

lemma parse_json_parses: "parses t v \<Longrightarrow> parse_json t = Some v"
  using parsesD[of t v "length t" "[]"] by (simp add: parse_json_def delimited_def skip_space_def)

lemma parse_print: "doc_printable d \<Longrightarrow> parse_json (print_json n d) = Some (value_of d)"
  by (intro parse_json_parses parses_print)

end
