(* ===== verification/OpenApi.thy ===== *)
theory OpenApi
  imports Json_Text
begin

text \<open>
  \<^verbatim>\<open>Application/src/Common/OpenApiSpec.cpp\<close>: the two documents that describe the API. The JSON
  literal is kept as the document it writes down, section by section, with the layout it has in
  the source; \<open>print_json\<close> turns it into the text.
\<close>

section \<open>The API description\<close>

definition openapi_info :: "json_doc" where
  "openapi_info =
    J_obj Block
    [(''title'', J_str ''CrowApi Multi-Paradigm Clean Architecture API''),
     (''version'', J_str ''1.0.0''),
     (''description'', J_str ''High-performance modern C++20 REST API using Crow framework and PostgreSQL 18.6 across 4 operational roles: Relational SQL Database, Redis Alternative (Key-Value Cache with TTL), Kafka Alternative (Message Queue with SKIP LOCKED), and MongoDB Alternative (Schemaless JSONB Document Store).'')]"

definition openapi_servers :: "json_doc" where
  "openapi_servers =
    J_list Block
    [J_obj Block
      [(''url'', J_str ''http://localhost:8080''),
       (''description'', J_str ''Local Development Server'')]]"

definition openapi_tags :: "json_doc" where
  "openapi_tags =
    J_list Block
    [J_obj Inline
      [(''name'', J_str ''Health''),
       (''description'', J_str ''Service health checks and uptime'')],
     J_obj Inline
      [(''name'', J_str ''Authentication''),
       (''description'', J_str ''User registration, RS256 JWT login, refresh rotation, and session logout'')],
     J_obj Inline
      [(''name'', J_str ''JWKS''),
       (''description'', J_str ''RFC 7517 JSON Web Key Set discovery for public asymmetric key verification'')],
     J_obj Inline
      [(''name'', J_str ''Sessions''),
       (''description'', J_str ''User active multi-session management and device revocation'')],
     J_obj Inline
      [(''name'', J_str ''Admin Sessions''),
       (''description'', J_str ''Administrative session tracking and global user revocation'')],
     J_obj Inline
      [(''name'', J_str ''Relational SQL (Todos)''),
       (''description'', J_str ''ACID relational CRUD operations on PostgreSQL table'')],
     J_obj Inline
      [(''name'', J_str ''Redis Alternative (Cache)''),
       (''description'', J_str ''High-performance key-value caching with TTL and eviction in PostgreSQL'')],
     J_obj Inline
      [(''name'', J_str ''Kafka Alternative (Queue)''),
       (''description'', J_str ''Transactional message queuing and concurrent consumer polling via FOR UPDATE SKIP LOCKED'')],
     J_obj Inline
      [(''name'', J_str ''MongoDB Alternative (Documents)''),
       (''description'', J_str ''Schemaless JSONB document collections with GIN indexing'')],
     J_obj Inline
      [(''name'', J_str ''Documentation''),
       (''description'', J_str ''OpenAPI specification'')]]"

definition openapi_health :: "(string \<times> json_doc) list" where
  "openapi_health =
    [(''/api/health'', J_obj Block
      [(''get'', J_obj Block
        [(''tags'', J_list Inline [J_str ''Health'']),
         (''summary'', J_str ''Health check''),
         (''description'', J_str ''Returns service health, version, uptime, and current timestamp.''),
         (''responses'', J_obj Block
          [(''200'', J_obj Inline [(''description'', J_str ''Service is healthy'')])])])])]"

definition openapi_todos :: "(string \<times> json_doc) list" where
  "openapi_todos =
    [(''/api/todos'', J_obj Block
      [(''get'', J_obj Block
        [(''tags'', J_list Inline [J_str ''Relational SQL (Todos)'']),
         (''summary'', J_str ''List all todos''),
         (''parameters'', J_list Block
          [J_obj Block
            [(''name'', J_str ''completed''),
             (''in'', J_str ''query''),
             (''required'', J_bool False),
             (''schema'', J_obj Inline [(''type'', J_str ''boolean'')]),
             (''description'', J_str ''Filter by completion status'')]]),
         (''responses'', J_obj Block
          [(''200'', J_obj Inline [(''description'', J_str ''List of todos retrieved successfully'')])])]),
       (''post'', J_obj Block
        [(''tags'', J_list Inline [J_str ''Relational SQL (Todos)'']),
         (''summary'', J_str ''Create a new todo''),
         (''requestBody'', J_obj Block
          [(''required'', J_bool True),
           (''content'', J_obj Block
            [(''application/json'', J_obj Block
              [(''schema'', J_obj Block
                [(''type'', J_str ''object''),
                 (''required'', J_list Inline [J_str ''title'']),
                 (''properties'', J_obj Block
                  [(''title'', J_obj Inline
                    [(''type'', J_str ''string''),
                     (''example'', J_str ''Learn C++20'')]),
                   (''description'', J_obj Inline
                    [(''type'', J_str ''string''),
                     (''example'', J_str ''Explore concepts and ranges'')])])])])])]),
         (''responses'', J_obj Block
          [(''201'', J_obj Inline [(''description'', J_str ''Todo created successfully'')]),
           (''400'', J_obj Inline [(''description'', J_str ''Validation failed'')])])])]),
     (''/api/todos/{id}'', J_obj Block
      [(''get'', J_obj Block
        [(''tags'', J_list Inline [J_str ''Relational SQL (Todos)'']),
         (''summary'', J_str ''Get todo by ID''),
         (''parameters'', J_list Block
          [J_obj Inline
            [(''name'', J_str ''id''),
             (''in'', J_str ''path''),
             (''required'', J_bool True),
             (''schema'', J_obj Inline [(''type'', J_str ''integer'')])]]),
         (''responses'', J_obj Block
          [(''200'', J_obj Inline [(''description'', J_str ''Todo found'')]),
           (''404'', J_obj Inline [(''description'', J_str ''Todo not found'')])])]),
       (''put'', J_obj Block
        [(''tags'', J_list Inline [J_str ''Relational SQL (Todos)'']),
         (''summary'', J_str ''Update todo''),
         (''parameters'', J_list Block
          [J_obj Inline
            [(''name'', J_str ''id''),
             (''in'', J_str ''path''),
             (''required'', J_bool True),
             (''schema'', J_obj Inline [(''type'', J_str ''integer'')])]]),
         (''requestBody'', J_obj Block
          [(''required'', J_bool True),
           (''content'', J_obj Block
            [(''application/json'', J_obj Block
              [(''schema'', J_obj Block
                [(''type'', J_str ''object''),
                 (''properties'', J_obj Block
                  [(''title'', J_obj Inline [(''type'', J_str ''string'')]),
                   (''description'', J_obj Inline [(''type'', J_str ''string'')]),
                   (''completed'', J_obj Inline [(''type'', J_str ''boolean'')])])])])])]),
         (''responses'', J_obj Block
          [(''200'', J_obj Inline [(''description'', J_str ''Todo updated successfully'')]),
           (''404'', J_obj Inline [(''description'', J_str ''Todo not found'')])])]),
       (''delete'', J_obj Block
        [(''tags'', J_list Inline [J_str ''Relational SQL (Todos)'']),
         (''summary'', J_str ''Delete todo''),
         (''parameters'', J_list Block
          [J_obj Inline
            [(''name'', J_str ''id''),
             (''in'', J_str ''path''),
             (''required'', J_bool True),
             (''schema'', J_obj Inline [(''type'', J_str ''integer'')])]]),
         (''responses'', J_obj Block
          [(''200'', J_obj Inline [(''description'', J_str ''Todo deleted'')]),
           (''404'', J_obj Inline [(''description'', J_str ''Todo not found'')])])])])]"

definition openapi_cache :: "(string \<times> json_doc) list" where
  "openapi_cache =
    [(''/api/cache/{key}'', J_obj Block
      [(''get'', J_obj Block
        [(''tags'', J_list Inline [J_str ''Redis Alternative (Cache)'']),
         (''summary'', J_str ''Get cache entry by key''),
         (''parameters'', J_list Block
          [J_obj Inline
            [(''name'', J_str ''key''),
             (''in'', J_str ''path''),
             (''required'', J_bool True),
             (''schema'', J_obj Inline [(''type'', J_str ''string'')])]]),
         (''responses'', J_obj Block
          [(''200'', J_obj Inline [(''description'', J_str ''Cache hit'')]),
           (''404'', J_obj Inline [(''description'', J_str ''Cache miss or expired'')])])]),
       (''delete'', J_obj Block
        [(''tags'', J_list Inline [J_str ''Redis Alternative (Cache)'']),
         (''summary'', J_str ''Evict cache entry by key''),
         (''parameters'', J_list Block
          [J_obj Inline
            [(''name'', J_str ''key''),
             (''in'', J_str ''path''),
             (''required'', J_bool True),
             (''schema'', J_obj Inline [(''type'', J_str ''string'')])]]),
         (''responses'', J_obj Block
          [(''200'', J_obj Inline [(''description'', J_str ''Evicted'')]),
           (''404'', J_obj Inline [(''description'', J_str ''Key not found'')])])])]),
     (''/api/cache'', J_obj Block
      [(''post'', J_obj Block
        [(''tags'', J_list Inline [J_str ''Redis Alternative (Cache)'']),
         (''summary'', J_str ''Set key-value in cache with TTL''),
         (''requestBody'', J_obj Block
          [(''required'', J_bool True),
           (''content'', J_obj Block
            [(''application/json'', J_obj Block
              [(''schema'', J_obj Block
                [(''type'', J_str ''object''),
                 (''required'', J_list Inline [J_str ''key'', J_str ''value'']),
                 (''properties'', J_obj Block
                  [(''key'', J_obj Inline
                    [(''type'', J_str ''string''),
                     (''example'', J_str ''session:user:101'')]),
                   (''value'', J_obj Inline
                    [(''type'', J_str ''string''),
                     (''example'', J_str ''token_abc123'')]),
                   (''ttlSeconds'', J_obj Inline [(''type'', J_str ''integer''), (''example'', J_num 3600)])])])])])]),
         (''responses'', J_obj Block [(''200'', J_obj Inline [(''description'', J_str ''Cache entry set'')])])])]),
     (''/api/cache/cleanup'', J_obj Block
      [(''post'', J_obj Block
        [(''tags'', J_list Inline [J_str ''Redis Alternative (Cache)'']),
         (''summary'', J_str ''Purge all expired cache entries''),
         (''responses'', J_obj Block
          [(''200'', J_obj Inline [(''description'', J_str ''Expired entries purged'')])])])])]"

definition openapi_queue :: "(string \<times> json_doc) list" where
  "openapi_queue =
    [(''/api/queue/publish'', J_obj Block
      [(''post'', J_obj Block
        [(''tags'', J_list Inline [J_str ''Kafka Alternative (Queue)'']),
         (''summary'', J_str ''Publish message to topic''),
         (''requestBody'', J_obj Block
          [(''required'', J_bool True),
           (''content'', J_obj Block
            [(''application/json'', J_obj Block
              [(''schema'', J_obj Block
                [(''type'', J_str ''object''),
                 (''required'', J_list Inline [J_str ''topic'', J_str ''payload'']),
                 (''properties'', J_obj Block
                  [(''topic'', J_obj Inline
                    [(''type'', J_str ''string''),
                     (''example'', J_str ''order-events'')]),
                   (''payload'', J_obj Inline
                    [(''type'', J_str ''string''),
                     (''example'', J_str ''{\"orderId\": 99, \"amount\": 49.99}'')])])])])])]),
         (''responses'', J_obj Block
          [(''201'', J_obj Inline [(''description'', J_str ''Message published with generated ID'')])])])]),
     (''/api/queue/poll'', J_obj Block
      [(''post'', J_obj Block
        [(''tags'', J_list Inline [J_str ''Kafka Alternative (Queue)'']),
         (''summary'', J_str ''Poll next message with atomic worker lock''),
         (''description'', J_str ''Atomically locks and returns the next pending message in the topic using FOR UPDATE SKIP LOCKED.''),
         (''requestBody'', J_obj Block
          [(''required'', J_bool True),
           (''content'', J_obj Block
            [(''application/json'', J_obj Block
              [(''schema'', J_obj Block
                [(''type'', J_str ''object''),
                 (''required'', J_list Inline [J_str ''topic'']),
                 (''properties'', J_obj Block
                  [(''topic'', J_obj Inline
                    [(''type'', J_str ''string''),
                     (''example'', J_str ''order-events'')])])])])])]),
         (''responses'', J_obj Block
          [(''200'', J_obj Inline
            [(''description'', J_str ''Message locked and returned for processing'')]),
           (''404'', J_obj Inline [(''description'', J_str ''No pending messages in topic'')])])])]),
     (''/api/queue/ack/{id}'', J_obj Block
      [(''post'', J_obj Block
        [(''tags'', J_list Inline [J_str ''Kafka Alternative (Queue)'']),
         (''summary'', J_str ''Acknowledge message processing completion''),
         (''parameters'', J_list Block
          [J_obj Inline
            [(''name'', J_str ''id''),
             (''in'', J_str ''path''),
             (''required'', J_bool True),
             (''schema'', J_obj Inline [(''type'', J_str ''integer'')])]]),
         (''responses'', J_obj Block
          [(''200'', J_obj Inline [(''description'', J_str ''Message marked as COMPLETED'')]),
           (''404'', J_obj Inline [(''description'', J_str ''Message not found'')])])])]),
     (''/api/queue/metrics'', J_obj Block
      [(''get'', J_obj Block
        [(''tags'', J_list Inline [J_str ''Kafka Alternative (Queue)'']),
         (''summary'', J_str ''Get queue metrics across topics''),
         (''responses'', J_obj Block
          [(''200'', J_obj Inline [(''description'', J_str ''Queue counts grouped by topic and status'')])])])])]"

definition openapi_documents :: "(string \<times> json_doc) list" where
  "openapi_documents =
    [(''/api/documents/{collection}'', J_obj Block
      [(''post'', J_obj Block
        [(''tags'', J_list Inline [J_str ''MongoDB Alternative (Documents)'']),
         (''summary'', J_str ''Insert schemaless JSON document into collection''),
         (''parameters'', J_list Block
          [J_obj Inline
            [(''name'', J_str ''collection''),
             (''in'', J_str ''path''),
             (''required'', J_bool True),
             (''schema'', J_obj Inline [(''type'', J_str ''string'')])]]),
         (''requestBody'', J_obj Block
          [(''required'', J_bool True),
           (''content'', J_obj Block
            [(''application/json'', J_obj Block [(''schema'', J_obj Inline [(''type'', J_str ''object'')])])])]),
         (''responses'', J_obj Block
          [(''201'', J_obj Inline [(''description'', J_str ''Document inserted with generated UUID'')])])])]),
     (''/api/documents/{collection}/{id}'', J_obj Block
      [(''get'', J_obj Block
        [(''tags'', J_list Inline [J_str ''MongoDB Alternative (Documents)'']),
         (''summary'', J_str ''Get document by UUID''),
         (''parameters'', J_list Block
          [J_obj Inline
            [(''name'', J_str ''collection''),
             (''in'', J_str ''path''),
             (''required'', J_bool True),
             (''schema'', J_obj Inline [(''type'', J_str ''string'')])],
           J_obj Inline
            [(''name'', J_str ''id''),
             (''in'', J_str ''path''),
             (''required'', J_bool True),
             (''schema'', J_obj Inline [(''type'', J_str ''string'')])]]),
         (''responses'', J_obj Block
          [(''200'', J_obj Inline [(''description'', J_str ''Document found'')]),
           (''404'', J_obj Inline [(''description'', J_str ''Document not found'')])])]),
       (''put'', J_obj Block
        [(''tags'', J_list Inline [J_str ''MongoDB Alternative (Documents)'']),
         (''summary'', J_str ''Update document by UUID''),
         (''parameters'', J_list Block
          [J_obj Inline
            [(''name'', J_str ''collection''),
             (''in'', J_str ''path''),
             (''required'', J_bool True),
             (''schema'', J_obj Inline [(''type'', J_str ''string'')])],
           J_obj Inline
            [(''name'', J_str ''id''),
             (''in'', J_str ''path''),
             (''required'', J_bool True),
             (''schema'', J_obj Inline [(''type'', J_str ''string'')])]]),
         (''requestBody'', J_obj Block
          [(''required'', J_bool True),
           (''content'', J_obj Inline
            [(''application/json'', J_obj Inline [(''schema'', J_obj Inline [(''type'', J_str ''object'')])])])]),
         (''responses'', J_obj Block [(''200'', J_obj Inline [(''description'', J_str ''Document updated'')])])]),
       (''delete'', J_obj Block
        [(''tags'', J_list Inline [J_str ''MongoDB Alternative (Documents)'']),
         (''summary'', J_str ''Delete document by UUID''),
         (''parameters'', J_list Block
          [J_obj Inline
            [(''name'', J_str ''collection''),
             (''in'', J_str ''path''),
             (''required'', J_bool True),
             (''schema'', J_obj Inline [(''type'', J_str ''string'')])],
           J_obj Inline
            [(''name'', J_str ''id''),
             (''in'', J_str ''path''),
             (''required'', J_bool True),
             (''schema'', J_obj Inline [(''type'', J_str ''string'')])]]),
         (''responses'', J_obj Block [(''200'', J_obj Inline [(''description'', J_str ''Document removed'')])])])]),
     (''/api/documents/{collection}/query'', J_obj Block
      [(''post'', J_obj Block
        [(''tags'', J_list Inline [J_str ''MongoDB Alternative (Documents)'']),
         (''summary'', J_str ''Query documents using JSONB containment filter''),
         (''description'', J_str ''Performs high-speed GIN index JSONB containment query (WHERE data @> filter).''),
         (''parameters'', J_list Block
          [J_obj Inline
            [(''name'', J_str ''collection''),
             (''in'', J_str ''path''),
             (''required'', J_bool True),
             (''schema'', J_obj Inline [(''type'', J_str ''string'')])]]),
         (''requestBody'', J_obj Block
          [(''required'', J_bool True),
           (''content'', J_obj Block
            [(''application/json'', J_obj Block
              [(''schema'', J_obj Block
                [(''type'', J_str ''object''),
                 (''example'', J_obj Inline [(''status'', J_str ''active''), (''category'', J_str ''books'')])])])])]),
         (''responses'', J_obj Block
          [(''200'', J_obj Inline [(''description'', J_str ''Matching documents returned'')])])])])]"

definition openapi_jwks :: "(string \<times> json_doc) list" where
  "openapi_jwks =
    [(''/.well-known/jwks.json'', J_obj Block
      [(''get'', J_obj Block
        [(''tags'', J_list Inline [J_str ''JWKS'']),
         (''summary'', J_str ''RFC 7517 JSON Web Key Set discovery''),
         (''description'', J_str ''Returns public RSA keys used to verify RS256 JWT tokens.''),
         (''responses'', J_obj Block
          [(''200'', J_obj Inline [(''description'', J_str ''Active and rotated JWK public keys'')])])])])]"

definition openapi_auth :: "(string \<times> json_doc) list" where
  "openapi_auth =
    [(''/api/v1/auth/register'', J_obj Block
      [(''post'', J_obj Block
        [(''tags'', J_list Inline [J_str ''Authentication'']),
         (''summary'', J_str ''Register new user account''),
         (''requestBody'', J_obj Block
          [(''required'', J_bool True),
           (''content'', J_obj Block
            [(''application/json'', J_obj Block
              [(''schema'', J_obj Block
                [(''type'', J_str ''object''),
                 (''required'', J_list Inline [J_str ''email'', J_str ''password'']),
                 (''properties'', J_obj Block
                  [(''email'', J_obj Inline
                    [(''type'', J_str ''string''),
                     (''format'', J_str ''email''),
                     (''example'', J_str ''user@example.com'')]),
                   (''password'', J_obj Inline
                    [(''type'', J_str ''string''),
                     (''format'', J_str ''password''),
                     (''example'', J_str ''SecurePass123!'')]),
                   (''displayName'', J_obj Inline
                    [(''type'', J_str ''string''),
                     (''example'', J_str ''John Doe'')])])])])])]),
         (''responses'', J_obj Block
          [(''201'', J_obj Inline [(''description'', J_str ''User created successfully'')]),
           (''400'', J_obj Inline [(''description'', J_str ''Validation error'')]),
           (''409'', J_obj Inline [(''description'', J_str ''Email already exists'')])])])]),
     (''/api/v1/auth/login'', J_obj Block
      [(''post'', J_obj Block
        [(''tags'', J_list Inline [J_str ''Authentication'']),
         (''summary'', J_str ''Authenticate user and issue tokens''),
         (''requestBody'', J_obj Block
          [(''required'', J_bool True),
           (''content'', J_obj Block
            [(''application/json'', J_obj Block
              [(''schema'', J_obj Block
                [(''type'', J_str ''object''),
                 (''required'', J_list Inline [J_str ''email'', J_str ''password'']),
                 (''properties'', J_obj Block
                  [(''email'', J_obj Inline [(''type'', J_str ''string''), (''format'', J_str ''email'')]),
                   (''password'', J_obj Inline
                    [(''type'', J_str ''string''),
                     (''format'', J_str ''password'')]),
                   (''deviceName'', J_obj Inline
                    [(''type'', J_str ''string''),
                     (''example'', J_str ''Chrome on Windows'')]),
                   (''clientType'', J_obj Inline
                    [(''type'', J_str ''string''),
                     (''example'', J_str ''browser'')])])])])])]),
         (''responses'', J_obj Block
          [(''200'', J_obj Inline
            [(''description'', J_str ''Authentication successful, returns RS256 JWT access token and refresh token'')]),
           (''401'', J_obj Inline [(''description'', J_str ''Invalid credentials or account locked'')])])])]),
     (''/api/v1/auth/refresh'', J_obj Block
      [(''post'', J_obj Block
        [(''tags'', J_list Inline [J_str ''Authentication'']),
         (''summary'', J_str ''Rotate refresh token and issue new access token''),
         (''requestBody'', J_obj Block
          [(''required'', J_bool True),
           (''content'', J_obj Block
            [(''application/json'', J_obj Block
              [(''schema'', J_obj Block
                [(''type'', J_str ''object''),
                 (''required'', J_list Inline [J_str ''refreshToken'']),
                 (''properties'', J_obj Block [(''refreshToken'', J_obj Inline [(''type'', J_str ''string'')])])])])])]),
         (''responses'', J_obj Block
          [(''200'', J_obj Inline [(''description'', J_str ''Tokens refreshed and rotated'')]),
           (''401'', J_obj Inline
            [(''description'', J_str ''Invalid, expired, or reused refresh token (reuse revokes all user sessions)'')])])])]),
     (''/api/v1/auth/logout'', J_obj Block
      [(''post'', J_obj Block
        [(''tags'', J_list Inline [J_str ''Authentication'']),
         (''summary'', J_str ''Revoke current session''),
         (''security'', J_list Inline [J_obj Inline [(''bearerAuth'', J_list Inline [])]]),
         (''responses'', J_obj Block
          [(''200'', J_obj Inline [(''description'', J_str ''Session revoked successfully'')]),
           (''401'', J_obj Inline [(''description'', J_str ''Unauthorized'')])])])]),
     (''/api/v1/auth/logout-all'', J_obj Block
      [(''post'', J_obj Block
        [(''tags'', J_list Inline [J_str ''Authentication'']),
         (''summary'', J_str ''Revoke all active sessions for authenticated user''),
         (''security'', J_list Inline [J_obj Inline [(''bearerAuth'', J_list Inline [])]]),
         (''responses'', J_obj Block
          [(''200'', J_obj Inline [(''description'', J_str ''All sessions revoked'')]),
           (''401'', J_obj Inline [(''description'', J_str ''Unauthorized'')])])])])]"

definition openapi_google :: "(string \<times> json_doc) list" where
  "openapi_google =
    [(''/api/v1/auth/google/url'', J_obj Block
      [(''get'', J_obj Block
        [(''tags'', J_list Inline [J_str ''Authentication'']),
         (''summary'', J_str ''Generate Google OAuth2 authorization URL with RFC 7636 PKCE''),
         (''description'', J_str ''Generates authorization URL containing S256 code_challenge and anti-CSRF state. The code_verifier is securely encapsulated in server-side cache and never returned to the client.''),
         (''responses'', J_obj Block
          [(''200'', J_obj Block
            [(''description'', J_str ''Google authorization URL generated''),
             (''content'', J_obj Block
              [(''application/json'', J_obj Block
                [(''schema'', J_obj Block
                  [(''type'', J_str ''object''),
                   (''properties'', J_obj Block
                    [(''authUrl'', J_obj Inline
                      [(''type'', J_str ''string''),
                       (''example'', J_str ''https://accounts.google.com/o/oauth2/v2/auth?client_id=...&state=...&code_challenge=...&code_challenge_method=S256'')])]),
                   (''required'', J_list Inline [J_str ''authUrl''])])])])])])])]),
     (''/api/v1/auth/google/callback'', J_obj Block
      [(''get'', J_obj Block
        [(''tags'', J_list Inline [J_str ''Authentication'']),
         (''summary'', J_str ''Google OAuth2 redirect callback''),
         (''description'', J_str ''Processes Google redirect, validates anti-CSRF state token, evicts cached PKCE code verifier (single-use replay defense), exchanges authorization code with Google token endpoint, and issues RS256 JWT access and refresh tokens.''),
         (''parameters'', J_list Block
          [J_obj Inline
            [(''name'', J_str ''code''),
             (''in'', J_str ''query''),
             (''required'', J_bool True),
             (''schema'', J_obj Inline [(''type'', J_str ''string'')]),
             (''description'', J_str ''Google OAuth authorization code'')],
           J_obj Inline
            [(''name'', J_str ''state''),
             (''in'', J_str ''query''),
             (''required'', J_bool True),
             (''schema'', J_obj Inline [(''type'', J_str ''string'')]),
             (''description'', J_str ''Anti-CSRF state token'')]]),
         (''responses'', J_obj Block
          [(''200'', J_obj Inline
            [(''description'', J_str ''Authentication successful, returns tokens and user profile'')]),
           (''401'', J_obj Inline [(''description'', J_str ''Invalid, forged, or expired state token'')])])])]),
     (''/api/v1/auth/google'', J_obj Block
      [(''post'', J_obj Block
        [(''tags'', J_list Inline [J_str ''Authentication'']),
         (''summary'', J_str ''Direct Google OAuth login with client-supplied PKCE or ID Token''),
         (''requestBody'', J_obj Block
          [(''required'', J_bool True),
           (''content'', J_obj Block
            [(''application/json'', J_obj Block
              [(''schema'', J_obj Block
                [(''type'', J_str ''object''),
                 (''properties'', J_obj Block
                  [(''code'', J_obj Inline [(''type'', J_str ''string'')]),
                   (''codeVerifier'', J_obj Inline [(''type'', J_str ''string'')]),
                   (''idToken'', J_obj Inline [(''type'', J_str ''string'')]),
                   (''state'', J_obj Inline [(''type'', J_str ''string'')])])])])])]),
         (''responses'', J_obj Block
          [(''200'', J_obj Inline
            [(''description'', J_str ''Authentication successful, returns tokens and user profile'')]),
           (''401'', J_obj Inline
            [(''description'', J_str ''Invalid credentials or code verification failure'')])])])]),
     (''/api/v1/auth/set-password'', J_obj Block
      [(''post'', J_obj Block
        [(''tags'', J_list Inline [J_str ''Authentication'']),
         (''summary'', J_str ''Set password on Google-registered account (Bidirectional Account Linking)''),
         (''security'', J_list Inline [J_obj Inline [(''bearerAuth'', J_list Inline [])]]),
         (''requestBody'', J_obj Block
          [(''required'', J_bool True),
           (''content'', J_obj Block
            [(''application/json'', J_obj Block
              [(''schema'', J_obj Block
                [(''type'', J_str ''object''),
                 (''required'', J_list Inline [J_str ''password'']),
                 (''properties'', J_obj Block
                  [(''password'', J_obj Inline
                    [(''type'', J_str ''string''),
                     (''format'', J_str ''password''),
                     (''minLength'', J_num 8)])])])])])]),
         (''responses'', J_obj Block
          [(''200'', J_obj Inline
            [(''description'', J_str ''Password set successfully. Account enabled for local password and Google OAuth login.'')]),
           (''400'', J_obj Inline [(''description'', J_str ''Validation error'')]),
           (''401'', J_obj Inline [(''description'', J_str ''Unauthorized'')])])])])]"

definition openapi_sessions :: "(string \<times> json_doc) list" where
  "openapi_sessions =
    [(''/api/v1/sessions'', J_obj Block
      [(''get'', J_obj Block
        [(''tags'', J_list Inline [J_str ''Sessions'']),
         (''summary'', J_str ''List all active sessions for authenticated user''),
         (''security'', J_list Inline [J_obj Inline [(''bearerAuth'', J_list Inline [])]]),
         (''responses'', J_obj Block
          [(''200'', J_obj Inline
            [(''description'', J_str ''List of user sessions with current session flag'')]),
           (''401'', J_obj Inline [(''description'', J_str ''Unauthorized'')])])])]),
     (''/api/v1/sessions/{sessionId}'', J_obj Block
      [(''delete'', J_obj Block
        [(''tags'', J_list Inline [J_str ''Sessions'']),
         (''summary'', J_str ''Revoke specific session owned by user''),
         (''security'', J_list Inline [J_obj Inline [(''bearerAuth'', J_list Inline [])]]),
         (''parameters'', J_list Block
          [J_obj Inline
            [(''name'', J_str ''sessionId''),
             (''in'', J_str ''path''),
             (''required'', J_bool True),
             (''schema'', J_obj Inline [(''type'', J_str ''string''), (''format'', J_str ''uuid'')])]]),
         (''responses'', J_obj Block
          [(''200'', J_obj Inline [(''description'', J_str ''Session revoked'')]),
           (''403'', J_obj Inline
            [(''description'', J_str ''Forbidden - Cannot revoke session owned by another user'')]),
           (''404'', J_obj Inline [(''description'', J_str ''Session not found'')])])])])]"

definition openapi_admin :: "(string \<times> json_doc) list" where
  "openapi_admin =
    [(''/api/v1/admin/sessions'', J_obj Block
      [(''get'', J_obj Block
        [(''tags'', J_list Inline [J_str ''Admin Sessions'']),
         (''summary'', J_str ''Search all system sessions (Admin only)''),
         (''security'', J_list Inline [J_obj Inline [(''bearerAuth'', J_list Inline [])]]),
         (''parameters'', J_list Block
          [J_obj Inline
            [(''name'', J_str ''userId''),
             (''in'', J_str ''query''),
             (''schema'', J_obj Inline [(''type'', J_str ''string'')])],
           J_obj Inline
            [(''name'', J_str ''status''),
             (''in'', J_str ''query''),
             (''schema'', J_obj Inline
              [(''type'', J_str ''string''),
               (''enum'', J_list Inline [J_str ''active'', J_str ''revoked'', J_str ''expired''])])],
           J_obj Inline
            [(''name'', J_str ''ipAddress''),
             (''in'', J_str ''query''),
             (''schema'', J_obj Inline [(''type'', J_str ''string'')])],
           J_obj Inline
            [(''name'', J_str ''limit''),
             (''in'', J_str ''query''),
             (''schema'', J_obj Inline [(''type'', J_str ''integer''), (''default'', J_num 50)])],
           J_obj Inline
            [(''name'', J_str ''offset''),
             (''in'', J_str ''query''),
             (''schema'', J_obj Inline [(''type'', J_str ''integer''), (''default'', J_num 0)])]]),
         (''responses'', J_obj Block
          [(''200'', J_obj Inline [(''description'', J_str ''List of matched sessions'')]),
           (''403'', J_obj Inline
            [(''description'', J_str ''Forbidden - Requires session:read:all permission'')])])])]),
     (''/api/v1/admin/sessions/{sessionId}'', J_obj Block
      [(''delete'', J_obj Block
        [(''tags'', J_list Inline [J_str ''Admin Sessions'']),
         (''summary'', J_str ''Administrative revocation of any session''),
         (''security'', J_list Inline [J_obj Inline [(''bearerAuth'', J_list Inline [])]]),
         (''parameters'', J_list Block
          [J_obj Inline
            [(''name'', J_str ''sessionId''),
             (''in'', J_str ''path''),
             (''required'', J_bool True),
             (''schema'', J_obj Inline [(''type'', J_str ''string''), (''format'', J_str ''uuid'')])]]),
         (''responses'', J_obj Block
          [(''200'', J_obj Inline [(''description'', J_str ''Session revoked by administrator'')]),
           (''403'', J_obj Inline
            [(''description'', J_str ''Forbidden - Requires session:revoke:all permission'')])])])]),
     (''/api/v1/admin/users/{userId}/sessions/revoke-all'', J_obj Block
      [(''post'', J_obj Block
        [(''tags'', J_list Inline [J_str ''Admin Sessions'']),
         (''summary'', J_str ''Administrative revocation of all sessions for a user''),
         (''security'', J_list Inline [J_obj Inline [(''bearerAuth'', J_list Inline [])]]),
         (''parameters'', J_list Block
          [J_obj Inline
            [(''name'', J_str ''userId''),
             (''in'', J_str ''path''),
             (''required'', J_bool True),
             (''schema'', J_obj Inline [(''type'', J_str ''string''), (''format'', J_str ''uuid'')])]]),
         (''responses'', J_obj Block
          [(''200'', J_obj Inline [(''description'', J_str ''All sessions for target user revoked'')]),
           (''403'', J_obj Inline
            [(''description'', J_str ''Forbidden - Requires session:revoke:all permission'')])])])])]"

definition openapi_self :: "(string \<times> json_doc) list" where
  "openapi_self =
    [(''/api/openapi.json'', J_obj Block
      [(''get'', J_obj Block
        [(''tags'', J_list Inline [J_str ''Documentation'']),
         (''summary'', J_str ''OpenAPI 3.1.0 JSON specification''),
         (''responses'', J_obj Block [(''200'', J_obj Inline [(''description'', J_str ''OpenAPI JSON spec'')])])])])]"

definition openapi_components :: "json_doc" where
  "openapi_components =
    J_obj Block
    [(''securitySchemes'', J_obj Block
      [(''bearerAuth'', J_obj Block
        [(''type'', J_str ''http''),
         (''scheme'', J_str ''bearer''),
         (''bearerFormat'', J_str ''JWT'')])])]"

definition openapi_paths :: "(string \<times> json_doc) list" where
  "openapi_paths =
     openapi_health @ openapi_todos @ openapi_cache @ openapi_queue @ openapi_documents @
     openapi_jwks @ openapi_auth @ openapi_google @ openapi_sessions @ openapi_admin @ openapi_self"

definition openapi_doc :: json_doc where
  "openapi_doc =
     J_obj Block
      [(''openapi'', J_str ''3.1.0''),
       (''info'', openapi_info),
       (''servers'', openapi_servers),
       (''tags'', openapi_tags),
       (''paths'', J_obj Block openapi_paths),
       (''components'', openapi_components)]"

definition generateJson :: string where
  "generateJson = print_json 0 openapi_doc"

section \<open>The page that shows it\<close>

definition generateSwaggerHtml :: string where
  "generateSwaggerHtml = join nl
    [''<!DOCTYPE html>'',
     ''<html lang=\"en\">'',
     ''<head>'',
     ''  <meta charset=\"UTF-8\">'',
     ''  <title>CrowApi Swagger UI</title>'',
     ''  <link rel=\"stylesheet\" type=\"text/css\" href=\"https://unpkg.com/swagger-ui-dist@5/swagger-ui.css\" />'',
     ''  <link rel=\"icon\" type=\"image/png\" href=\"https://unpkg.com/swagger-ui-dist@5/favicon-32x32.png\" sizes=\"32x32\" />'',
     ''  <style>'',
     ''    html { box-sizing: border-box; overflow: -moz-scrollbars-vertical; overflow-y: scroll; }'',
     ''    *, *:before, *:after { box-sizing: inherit; }'',
     ''    body { margin: 0; background: #fafafa; font-family: sans-serif; }'',
     ''    .topbar { background-color: #1b1b1b !important; }'',
     ''  </style>'',
     ''</head>'',
     ''<body>'',
     ''  <div id=\"swagger-ui\"></div>'',
     ''  <script src=\"https://unpkg.com/swagger-ui-dist@5/swagger-ui-bundle.js\" charset=\"UTF-8\"></script>'',
     ''  <script src=\"https://unpkg.com/swagger-ui-dist@5/swagger-ui-standalone-preset.js\" charset=\"UTF-8\"></script>'',
     ''  <script>'',
     ''    window.onload = function() {'',
     ''      window.ui = SwaggerUIBundle({'',
     ''        url: \"/api/openapi.json\",'',
     ''        dom_id: '#swagger-ui','',
     ''        deepLinking: true,'',
     ''        presets: ['',
     ''          SwaggerUIBundle.presets.apis,'',
     ''          SwaggerUIStandalonePreset'',
     ''        ],'',
     ''        plugins: ['',
     ''          SwaggerUIBundle.plugins.DownloadUrl'',
     ''        ],'',
     ''        layout: \"StandaloneLayout\"'',
     ''      });'',
     ''    };'',
     ''  </script>'',
     ''</body>'',
     ''</html>'']"

section \<open>The text is JSON\<close>

lemma openapi_printable:
  "doc_printable openapi_info" "doc_printable openapi_servers" "doc_printable openapi_tags"
  "doc_printable openapi_components"
  "list_all (\<lambda>kv. printable (fst kv) \<and> doc_printable (snd kv)) openapi_health"
  "list_all (\<lambda>kv. printable (fst kv) \<and> doc_printable (snd kv)) openapi_todos"
  "list_all (\<lambda>kv. printable (fst kv) \<and> doc_printable (snd kv)) openapi_cache"
  "list_all (\<lambda>kv. printable (fst kv) \<and> doc_printable (snd kv)) openapi_queue"
  "list_all (\<lambda>kv. printable (fst kv) \<and> doc_printable (snd kv)) openapi_documents"
  "list_all (\<lambda>kv. printable (fst kv) \<and> doc_printable (snd kv)) openapi_jwks"
  "list_all (\<lambda>kv. printable (fst kv) \<and> doc_printable (snd kv)) openapi_auth"
  "list_all (\<lambda>kv. printable (fst kv) \<and> doc_printable (snd kv)) openapi_google"
  "list_all (\<lambda>kv. printable (fst kv) \<and> doc_printable (snd kv)) openapi_sessions"
  "list_all (\<lambda>kv. printable (fst kv) \<and> doc_printable (snd kv)) openapi_admin"
  "list_all (\<lambda>kv. printable (fst kv) \<and> doc_printable (snd kv)) openapi_self"
  by code_simp+

lemma parse_generateJson: "parse_json generateJson = Some (value_of openapi_doc)"
proof -
  have "list_all (\<lambda>kv. printable (fst kv) \<and> doc_printable (snd kv)) openapi_paths"
    using openapi_printable unfolding list_all_iff[symmetric] by (simp only: openapi_paths_def list_all_append simp_thms)
  moreover have "printable ''openapi''" "printable ''info''" "printable ''servers''" "printable ''tags''"
      "printable ''paths''" "printable ''components''" "printable ''3.1.0''"
    by (simp_all add: printable_def)
  ultimately have "doc_printable openapi_doc"
    using openapi_printable(1-4) unfolding list_all_iff
    by (simp only: openapi_doc_def doc_printable.simps set_simps ball_simps fst_conv snd_conv simp_thms)
  then show ?thesis unfolding generateJson_def by (rule parse_print)
qed

end
