(* ===== verification/Jwks.thy ===== *)
theory Jwks
  imports Key_Manager Json_Text
begin

text \<open>
  The published key set (RFC 7517), which \<^verbatim>\<open>rebuildJwksJsonLocked\<close> writes line by line, read
  back as JSON.
\<close>

section \<open>The text as a document\<close>

text \<open>Texts that need no escape between quotes.\<close>

definition plain :: "string \<Rightarrow> bool" where
  "plain s \<longleftrightarrow> (\<forall>c\<in>set s. 32 \<le> (of_char c :: nat) \<and> c \<noteq> CHR 0x22 \<and> c \<noteq> CHR 0x5C)"

lemma plain_printable: "plain s \<Longrightarrow> printable s"
  by (simp add: plain_def printable_def)

lemma plain_json_string: "plain s \<Longrightarrow> json_string s = dq s"
proof -
  have "plain s \<Longrightarrow> concat (map escaped s) = s"
    by (induction s) (simp_all add: plain_def escaped_def[of "_ :: char"])
  then show "plain s \<Longrightarrow> json_string s = dq s" by (simp add: json_string_def dq_def)
qed

definition jwk_fields :: "jwk_key \<Rightarrow> (string \<times> string) list" where
  "jwk_fields jwk =
     [(''kty'', jw_kty jwk), (''use'', jw_use jwk), (''alg'', jw_alg jwk), (''kid'', jw_kid jwk),
      (''n'', jw_n jwk), (''e'', jw_e jwk)]"

definition jwk_value :: "jwk_key \<Rightarrow> json_value" where
  "jwk_value jwk = V_obj (map (\<lambda>kv. (fst kv, V_str (snd kv))) (jwk_fields jwk))"

definition jwk_text :: "jwk_key \<Rightarrow> string" where
  "jwk_text jwk = bracketed (CHR ''{'') (CHR ''}'') (indent 6) (indent 6) (indent 4)
     (map member_text (map (\<lambda>kv. (fst kv, json_string (snd kv))) (jwk_fields jwk)))"

definition plain_jwk :: "jwk_key \<Rightarrow> bool" where
  "plain_jwk jwk \<longleftrightarrow> (\<forall>kv\<in>set (jwk_fields jwk). plain (snd kv))"

lemma plain_names: "plain ''kty''" "plain ''use''" "plain ''alg''" "plain ''kid''" "plain ''n''" "plain ''e''" "plain ''keys''"
  by (simp_all add: plain_def)

lemma parses_jwk: "plain_jwk jwk \<Longrightarrow> parses (jwk_text jwk) (jwk_value jwk)"
  unfolding jwk_text_def jwk_value_def
  by (rule parses_obj) (auto simp: list_all2_map1 list_all2_map2 parses_member_def plain_jwk_def jwk_fields_def
      plain_names plain_printable parses_str)

lemma writeJwk_text:
  "plain_jwk jwk \<Longrightarrow> writeJwk jwk isLast = ''    '' @ jwk_text jwk @ (if isLast then nl else '','' @ nl)"
  by (simp add: writeJwk_def jwk_text_def bracketed_def jwk_fields_def member_text_def jwk_member_def
      plain_jwk_def plain_json_string plain_names indent_def eval_nat_numeral)

lemma write_previous_text:
  "list_all plain_jwk (map sk_jwk ks) \<Longrightarrow> ks \<noteq> [] \<Longrightarrow>
     write_previous ks = ''    '' @ join ('','' @ indent 4) (map (\<lambda>k. jwk_text (sk_jwk k)) ks) @ nl"
proof (induction ks)
  case (Cons k ks)
  then show ?case
    by (cases ks) (simp_all add: writeJwk_text indent_def eval_nat_numeral)
qed simp

lemma jwks_json_text:
  assumes "list_all plain_jwk (map sk_jwk (active # previous))"
  shows "jwks_json active previous = bracketed (CHR ''{'') (CHR ''}'') (indent 2) [] (indent 0)
    (map member_text [(''keys'', bracketed (CHR ''['') (CHR '']'') (indent 4) (indent 4) (indent 2)
      (map (\<lambda>k. jwk_text (sk_jwk k)) (active # previous)))])"
  using write_previous_text[of previous] assms
  by (cases previous) (simp_all add: jwks_json_def writeJwk_text bracketed_def member_text_def
      plain_json_string plain_names indent_def eval_nat_numeral)

section \<open>What is published\<close>

lemma base64Url_plain: "plain (base64UrlEncode bs)"
  using base64UrlEncode_alphabet[of bs] by (auto simp: plain_def b64Chars_def)

lemma key_ok_plain: "key_ok K k \<Longrightarrow> plain (sk_kid k) \<Longrightarrow> plain_jwk (sk_jwk k)"
  unfolding key_ok_def
  by (erule ssubst) (auto simp: createKeyRecord_def plain_jwk_def jwk_fields_def base64Url_plain plain_def[of "[]"]
      extractRsaPublicParams_def plain_def[of "''RSA''"] plain_def[of "''sig''"] plain_def[of "''RS256''"]
      split: prod.splits option.splits)

lemma jwks_parses:
  assumes "km_wf K km" and "\<forall>k\<in>set (km_keys km). plain (sk_kid k)"
  shows "parse_json (getJwksJson km) =
    Some (V_obj [(''keys'', V_list (map (\<lambda>k. jwk_value (sk_jwk k)) (km_keys km)))])"
proof -
  have p: "list_all plain_jwk (map sk_jwk (km_keys km))"
    using assms key_ok_plain by (auto simp: km_wf_def list_all_iff)
  then have "list_all2 parses (map (\<lambda>k. jwk_text (sk_jwk k)) (km_keys km)) (map (\<lambda>k. jwk_value (sk_jwk k)) (km_keys km))"
    by (auto simp: list_all2_map1 list_all2_map2 list_all2_same list_all_iff parses_jwk)
  then have "parses (bracketed (CHR ''['') (CHR '']'') (indent 4) (indent 4) (indent 2)
      (map (\<lambda>k. jwk_text (sk_jwk k)) (km_keys km))) (V_list (map (\<lambda>k. jwk_value (sk_jwk k)) (km_keys km)))"
    by (rule parses_list) simp_all
  then have "parses (jwks_json (km_activeKey km) (km_previousKeys km))
      (V_obj [(''keys'', V_list (map (\<lambda>k. jwk_value (sk_jwk k)) (km_keys km)))])"
    unfolding jwks_json_text[OF p[unfolded km_keys_def]] km_keys_def
    by (intro parses_obj) (simp_all add: parses_member_def plain_names plain_printable)
  then show ?thesis
    using assms(1) parse_json_parses by (simp add: getJwksJson_def km_wf_def)
qed

text \<open>
  C36. The published key set is the key set: in every state of the key manager whose key names
  contain no quote, backslash or control character, the document served for key discovery is
  well-formed JSON, and it lists exactly the active key and the previous ones, in order, with
  their six members.
\<close>

theorem published_keys_are_json:
  assumes "km_wf K km" and "\<forall>k\<in>set (km_keys km). plain (sk_kid k)"
  shows "parse_json (getJwksJson km) =
    Some (V_obj [(''keys'', V_list (map (\<lambda>k. jwk_value (sk_jwk k)) (km_keys km)))])"
  using assms by (rule jwks_parses)

lemma published_keys_are_json_witness:
  "parse_json (getJwksJson demo_km) =
     Some (V_obj [(''keys'', V_list [V_obj
       [(''kty'', V_str ''RSA''), (''use'', V_str ''sig''), (''alg'', V_str ''RS256''),
        (''kid'', V_str ''k0''), (''n'', V_str ''AQ''), (''e'', V_str ''Aw'')]])])"
proof -
  have "plain ''k0''" by (simp add: plain_def)
  then have "parse_json (getJwksJson demo_km) =
      Some (V_obj [(''keys'', V_list (map (\<lambda>k. jwk_value (sk_jwk k)) (km_keys demo_km)))])"
    by (intro published_keys_are_json[where K = demo_crypto])
      (simp_all add: demo_km_def new_key_manager_wf, simp add: km_keys_def new_key_manager_def rebuildJwksJsonLocked_def Let_def split: prod.split)
  moreover have "base64UrlEncode [1] = ''AQ''" "base64UrlEncode [3] = ''Aw''" by code_simp+
  ultimately show ?thesis
    by (simp add: demo_km_def new_key_manager_def rebuildJwksJsonLocked_def km_keys_def jwk_value_def
        jwk_fields_def createKeyRecord_def extractRsaPublicParams_def demo_crypto_def)
qed

text \<open>The names are not escaped: one quote in the configured key name, and no reader takes the document.\<close>

lemma quote_in_key_name_breaks_key_set:
  "parse_json (getJwksJson (new_key_manager demo_crypto (\<lambda>_. 0) (CHR 0x22 # ''k'') ''priv'' ''pub'')) = None"
proof -
  have "base64UrlEncode [1] = ''AQ''" "base64UrlEncode [3] = ''Aw''" by code_simp+
  then have "getJwksJson (new_key_manager demo_crypto (\<lambda>_. 0) (CHR 0x22 # ''k'') ''priv'' ''pub'') =
    ''{'' @ nl @ ''  '' @ dq ''keys'' @ '': ['' @ nl @ ''    {'' @ nl @ jwk_member ''kty'' ''RSA'' @ '','' @ nl @
     jwk_member ''use'' ''sig'' @ '','' @ nl @ jwk_member ''alg'' ''RS256'' @ '','' @ nl @
     jwk_member ''kid'' (CHR 0x22 # ''k'') @ '','' @ nl @ jwk_member ''n'' ''AQ'' @ '','' @ nl @
     jwk_member ''e'' ''Aw'' @ nl @ ''    }'' @ nl @ ''  ]'' @ nl @ ''}''"
    by (simp add: new_key_manager_def rebuildJwksJsonLocked_def getJwksJson_def jwks_json_def writeJwk_def
        createKeyRecord_def extractRsaPublicParams_def demo_crypto_def)
  also have "parse_json \<dots> = None" by code_simp
  finally show ?thesis .
qed

end
