(* ===== verification/Env_Config.thy ===== *)
theory Env_Config
  imports Google_Service
begin

text \<open>
  \<^verbatim>\<open>Infrastructure/src/Config/EnvLoader.cpp\<close>: the \<^verbatim>\<open>.env\<close> file, the process environment and
  \<^verbatim>\<open>AppConfig\<close>; the command line of \<^verbatim>\<open>main\<close> in \<^verbatim>\<open>Core/Core.cpp\<close>. The file system is a record of
  functions; the in-memory map and the environment of the process are the state.
\<close>

section \<open>Reading a line\<close>

definition trim :: "string \<Rightarrow> string" where
  "trim s = rev (dropWhile is_blank_char (rev (dropWhile is_blank_char s)))"

definition parseValue :: "string \<Rightarrow> string" where
  "parseValue rawVal =
     (let val = trim rawVal
      in if length val \<ge> 2 \<and>
            (hd val = CHR 0x22 \<and> last val = CHR 0x22 \<or> hd val = CHR 0x27 \<and> last val = CHR 0x27)
         then substr 1 (length val - 2) val
         else case str_find (CHR ''#'') 0 val of
           Some hashPos \<Rightarrow> trim (substr 0 hashPos val)
         | None \<Rightarrow> val)"

text \<open>The key and the value of a line, when it has any (lines 103 to 116).\<close>

definition env_line :: "string \<Rightarrow> (string \<times> string) option" where
  "env_line line =
     (let trimmed = trim line
      in if trimmed = [] \<or> hd trimmed = CHR ''#'' then None
         else case str_find (CHR ''='') 0 trimmed of
           None \<Rightarrow> None
         | Some eqPos \<Rightarrow>
             if eqPos = 0 then None
             else
               (let key = trim (substr 0 eqPos trimmed)
                in if key = [] then None
                   else Some (key, parseValue (drop (eqPos + 1) trimmed))))"

text \<open>\<^verbatim>\<open>std::getline\<close> until the end; an empty last piece has no assignment and is no line.\<close>

definition env_entries :: "string \<Rightarrow> (string \<times> string) list" where
  "env_entries s = List.map_filter env_line (split_on (CHR 0x0A) s)"

section \<open>The loader\<close>

record file_system =
  fs_file :: "string \<Rightarrow> bool"
  fs_read :: "string \<Rightarrow> string option"
  fs_cwd :: string
  fs_parent :: "string \<Rightarrow> string option"
  fs_join :: "string \<Rightarrow> string \<Rightarrow> string"

text \<open>
  \<open>fs_file\<close>: exists and is no directory; \<open>fs_parent\<close>: the parent path, \<open>None\<close> when there is none
  or it is the path itself. The walk looks into at most five directories.
\<close>

fun find_up :: "file_system \<Rightarrow> string \<Rightarrow> nat \<Rightarrow> string \<Rightarrow> string option" where
  "find_up fs name 0 current = None"
| "find_up fs name (Suc n) current =
     (let candidate = fs_join fs current name
      in if fs_file fs candidate then Some candidate
         else case fs_parent fs current of
           None \<Rightarrow> None
         | Some up \<Rightarrow> find_up fs name n up)"

definition findEnvFile :: "file_system \<Rightarrow> string \<Rightarrow> string" where
  "findEnvFile fs fileName =
     (if fs_file fs fileName then fileName
      else case find_up fs fileName 5 (fs_cwd fs) of None \<Rightarrow> fileName | Some p \<Rightarrow> p)"

text \<open>\<open>ev_os\<close>: an unset variable and one set to the empty text read the same.\<close>

record env =
  ev_map :: "string \<Rightarrow> string option"
  ev_os :: "string \<Rightarrow> string"

definition env_set :: "env \<Rightarrow> string \<Rightarrow> string \<Rightarrow> env" where
  "env_set e key value = e\<lparr>ev_map := (ev_map e)(key \<mapsto> value), ev_os := (ev_os e)(key := value)\<rparr>"

definition env_clear :: "env \<Rightarrow> env" where
  "env_clear e = e\<lparr>ev_map := Map.empty\<rparr>"

definition load_entry :: "bool \<Rightarrow> env \<Rightarrow> string \<times> string \<Rightarrow> env" where
  "load_entry overwriteExisting e kv =
     (case kv of (key, value) \<Rightarrow>
        (let existingOsVal = ev_os e key; alreadyInOs = existingOsVal \<noteq> [];
             alreadyInMap = ev_map e key \<noteq> None
         in if overwriteExisting then env_set e key value
            else if alreadyInOs then
              (if \<not> alreadyInMap then e\<lparr>ev_map := (ev_map e)(key \<mapsto> existingOsVal)\<rparr> else e)
            else if \<not> alreadyInMap then env_set e key value
            else e))"

definition env_load :: "file_system \<Rightarrow> bool \<Rightarrow> string \<Rightarrow> env \<Rightarrow> bool \<times> env" where
  "env_load fs overwriteExisting filePath e =
     (case fs_read fs (findEnvFile fs filePath) of
        None \<Rightarrow> (False, e)
      | Some s \<Rightarrow> (True, foldl (load_entry overwriteExisting) e (env_entries s)))"

definition env_get :: "env \<Rightarrow> string \<Rightarrow> string \<Rightarrow> string" where
  "env_get e key defaultValue =
     (case ev_map e key of
        Some v \<Rightarrow> v
      | None \<Rightarrow> if ev_os e key \<noteq> [] then ev_os e key else defaultValue)"

definition env_getInt :: "env \<Rightarrow> string \<Rightarrow> int \<Rightarrow> int" where
  "env_getInt e key defaultValue =
     (let val = env_get e key []
      in if val = [] then defaultValue
         else case stoi val of Return n \<Rightarrow> n | Throw \<Rightarrow> defaultValue)"

definition env_getBool :: "env \<Rightarrow> string \<Rightarrow> bool \<Rightarrow> bool" where
  "env_getBool e key defaultValue =
     (let val = env_get e key []
      in if val = [] then defaultValue
         else map tolower val \<in> {''true'', ''1'', ''yes'', ''on''})"

section \<open>AppConfig\<close>

record app_config =
  cfg_serverHost :: string
  cfg_serverPort :: "16 word"
  cfg_logLevel :: string
  cfg_serverThreads :: int
  cfg_dbHost :: string
  cfg_dbPort :: string
  cfg_dbName :: string
  cfg_dbUser :: string
  cfg_dbPassword :: string
  cfg_dbMaxPoolSize :: "64 word"
  cfg_dbConnectTimeout :: int
  cfg_jwtKeyId :: string
  cfg_jwtAccessTokenTtlSeconds :: int
  cfg_jwtRefreshTokenTtlDays :: int
  cfg_authMaxFailedAttempts :: int
  cfg_authLockoutMinutes :: int
  cfg_googleClientId :: string
  cfg_googleClientSecret :: string
  cfg_googleRedirectUri :: string

definition fromEnv :: "env \<Rightarrow> app_config" where
  "fromEnv e =
     \<lparr>cfg_serverHost = env_get e ''SERVER_HOST'' ''0.0.0.0'',
      cfg_serverPort = word_of_int (env_getInt e ''SERVER_PORT'' 8080),
      cfg_logLevel = env_get e ''LOG_LEVEL'' ''info'',
      cfg_serverThreads = env_getInt e ''SERVER_THREADS'' 16,
      cfg_dbHost = env_get e ''DB_HOST'' ''localhost'',
      cfg_dbPort = env_get e ''DB_PORT'' ''5432'',
      cfg_dbName = env_get e ''DB_NAME'' ''crowapi_db'',
      cfg_dbUser = env_get e ''DB_USER'' ''postgres'',
      cfg_dbPassword = env_get e ''DB_PASSWORD'' ''postgres'',
      cfg_dbMaxPoolSize = word_of_int (env_getInt e ''DB_MAX_POOL_SIZE'' 20),
      cfg_dbConnectTimeout = env_getInt e ''DB_CONNECT_TIMEOUT'' 5,
      cfg_jwtKeyId = env_get e ''JWT_KEY_ID'' ''key-2026-prod-01'',
      cfg_jwtAccessTokenTtlSeconds = env_getInt e ''JWT_ACCESS_TOKEN_TTL_SECONDS'' 900,
      cfg_jwtRefreshTokenTtlDays = env_getInt e ''JWT_REFRESH_TOKEN_TTL_DAYS'' 30,
      cfg_authMaxFailedAttempts = env_getInt e ''AUTH_MAX_FAILED_ATTEMPTS'' 5,
      cfg_authLockoutMinutes = env_getInt e ''AUTH_LOCKOUT_MINUTES'' 15,
      cfg_googleClientId = env_get e ''GOOGLE_CLIENT_ID'' [],
      cfg_googleClientSecret = env_get e ''GOOGLE_CLIENT_SECRET'' [],
      cfg_googleRedirectUri = env_get e ''GOOGLE_REDIRECT_URI'' []\<rparr>"

definition toDbConnectionString :: "app_config \<Rightarrow> string" where
  "toDbConnectionString cfg =
     ''host='' @ cfg_dbHost cfg @ '' port='' @ cfg_dbPort cfg @ '' dbname='' @ cfg_dbName cfg @
     '' user='' @ cfg_dbUser cfg @ '' password='' @ cfg_dbPassword cfg @
     '' connect_timeout='' @ string_of_int (cfg_dbConnectTimeout cfg)"

section \<open>The command line\<close>

text \<open>
  \<^verbatim>\<open>main\<close>, lines 53 to 70: port and log level after the argument number \<open>i\<close>; a number that
  \<^verbatim>\<open>std::stoi\<close> refuses leaves the port alone.
\<close>

definition to_port :: "int \<Rightarrow> 16 word" where
  "to_port n = word_of_int n"

definition cli_argument :: "16 word \<times> string \<Rightarrow> nat \<times> string \<Rightarrow> 16 word \<times> string" where
  "cli_argument st iarg =
     (case (st, iarg) of ((port, logLevelStr), (i, arg)) \<Rightarrow>
        if starts_with ''--port='' arg then
          (case stoi (drop 7 arg) of Return n \<Rightarrow> (to_port n, logLevelStr) | Throw \<Rightarrow> (port, logLevelStr))
        else if starts_with ''--log-level='' arg then (port, drop 12 arg)
        else if i = 1 then
          (case stoi arg of Return n \<Rightarrow> (to_port n, logLevelStr) | Throw \<Rightarrow> (port, arg))
        else if i = 2 then (port, arg)
        else (port, logLevelStr))"

definition cli_settings :: "app_config \<Rightarrow> string list \<Rightarrow> 16 word \<times> string" where
  "cli_settings cfg args =
     foldl cli_argument (cfg_serverPort cfg, cfg_logLevel cfg) (enumerate 1 args)"

section \<open>Precedence\<close>

text \<open>What a variable is before any default: the map first, then the environment.\<close>

definition known :: "env \<Rightarrow> string \<Rightarrow> string option" where
  "known e k =
     (case ev_map e k of Some v \<Rightarrow> Some v | None \<Rightarrow> if ev_os e k \<noteq> [] then Some (ev_os e k) else None)"

lemma env_get_known: "env_get e k dflt = (case known e k of Some v \<Rightarrow> v | None \<Rightarrow> dflt)"
  by (simp add: env_get_def known_def split: option.split)

lemma known_load_entry:
  "known (load_entry False e (k, v)) k' =
     (case known e k' of Some x \<Rightarrow> Some x | None \<Rightarrow> if k' = k then Some v else None)"
  by (auto simp: known_def load_entry_def env_set_def Let_def split: option.split)

lemma known_load_entries:
  "known (foldl (load_entry False) e kvs) k =
     (case known e k of Some x \<Rightarrow> Some x | None \<Rightarrow> map_of kvs k)"
proof (induction kvs arbitrary: e)
  case Nil
  show ?case by (simp split: option.split)
next
  case (Cons kv kvs)
  obtain a b where "kv = (a, b)" by fastforce
  with Cons show ?case by (auto simp: known_load_entry split: option.split)
qed

text \<open>
  C38. What is set wins, and the first assignment wins: after \<^verbatim>\<open>EnvLoader::load\<close> a variable has
  the value it already had in the loader or in the environment of the process; one that had
  none has the value of its first assignment in the file; only then the default counts.
\<close>

theorem env_precedence:
  assumes "fs_read fs (findEnvFile fs path) = Some s" and "env_load fs False path e = (loaded, e')"
  shows "loaded \<and> env_get e' k dflt =
    (case ev_map e k of
       Some v \<Rightarrow> v
     | None \<Rightarrow>
         if ev_os e k \<noteq> [] then ev_os e k
         else case map_of (env_entries s) k of Some v \<Rightarrow> v | None \<Rightarrow> dflt)"
proof -
  have "loaded" "e' = foldl (load_entry False) e (env_entries s)"
    using assms by (auto simp: env_load_def)
  then show ?thesis
    by (simp add: env_get_known known_load_entries) (simp add: known_def split: option.split)
qed

lemma env_precedence_witness:
  "let fs = \<lparr>fs_file = (\<lambda>p. p = ''/.env''), fs_read = (\<lambda>p. if p = ''/.env'' then Some ''A=1'' else None),
             fs_cwd = ''/x'', fs_parent = (\<lambda>p. if p = ''/x'' then Some [] else None),
             fs_join = (\<lambda>a b. a @ ''/'' @ b)\<rparr>;
       e' = snd (env_load fs False ''.env'' \<lparr>ev_map = Map.empty, ev_os = (\<lambda>_. [])\<rparr>)
   in env_get e' ''A'' ''0'' = ''1''"
proof -
  let ?fs = "\<lparr>fs_file = (\<lambda>p. p = ''/.env''), fs_read = (\<lambda>p. if p = ''/.env'' then Some ''A=1'' else None),
             fs_cwd = ''/x'', fs_parent = (\<lambda>p. if p = ''/x'' then Some [] else None),
             fs_join = (\<lambda>a b. a @ ''/'' @ b)\<rparr>"
  have f: "fs_read ?fs (findEnvFile ?fs ''.env'') = Some ''A=1''"
    by (simp add: findEnvFile_def eval_nat_numeral)
  have "env_entries ''A=1'' = [(''A'', ''1'')]"
    by (simp add: env_entries_def env_line_def map_filter_def trim_def is_blank_char_def str_find_def
        substr_def parseValue_def Let_def)
  with env_precedence[OF f, of "\<lparr>ev_map = Map.empty, ev_os = (\<lambda>_. [])\<rparr>" _ _ "''A''" "''0''", OF surjective_pairing]
  show ?thesis by (simp add: Let_def)
qed

section \<open>Writing and reading back\<close>

text \<open>A file of quoted assignments, one to a line.\<close>

definition quoted_assignment :: "string \<times> string \<Rightarrow> string" where
  "quoted_assignment kv = fst kv @ CHR ''='' # CHR 0x22 # snd kv @ [CHR 0x22]"

definition env_file :: "(string \<times> string) list \<Rightarrow> string" where
  "env_file kvs = concat (map (\<lambda>kv. quoted_assignment kv @ [CHR 0x0A]) kvs)"

definition assignable :: "string \<times> string \<Rightarrow> bool" where
  "assignable kv \<longleftrightarrow>
     fst kv \<noteq> [] \<and> hd (fst kv) \<noteq> CHR ''#'' \<and>
     list_all (\<lambda>c. c \<noteq> CHR ''='' \<and> \<not> is_blank_char c) (fst kv) \<and> CHR 0x0A \<notin> set (snd kv)"

lemma trim_id:
  assumes "s \<noteq> []" "\<not> is_blank_char (hd s)" "\<not> is_blank_char (last s)"
  shows "trim s = s"
proof -
  have "dropWhile is_blank_char s = s" using assms(1,2) by (cases s) simp_all
  moreover have "dropWhile is_blank_char (rev s) = rev s"
    using assms(1,3) by (cases s rule: rev_cases) simp_all
  ultimately show ?thesis by (simp add: trim_def)
qed

lemma parseValue_quoted [simp]: "parseValue (CHR 0x22 # v @ [CHR 0x22]) = v"
proof -
  have "trim (CHR 0x22 # v @ [CHR 0x22]) = CHR 0x22 # v @ [CHR 0x22]"
    by (rule trim_id) (simp_all add: is_blank_char_def)
  then show ?thesis by (simp add: parseValue_def substr_def)
qed

lemma env_line_quoted:
  assumes "assignable (k, v)"
  shows "env_line (quoted_assignment (k, v)) = Some (k, v)"
proof -
  let ?l = "k @ CHR ''='' # CHR 0x22 # v @ [CHR 0x22]"
  have k: "k \<noteq> []" "hd k \<noteq> CHR ''#''" "\<forall>c\<in>set k. c \<noteq> CHR ''='' \<and> \<not> is_blank_char c"
    using assms by (auto simp: assignable_def list_all_iff)
  have "\<not> is_blank_char (hd k)" "\<not> is_blank_char (last k)"
    using bspec[OF k(3) hd_in_set[OF k(1)]] bspec[OF k(3) last_in_set[OF k(1)]] by simp_all
  moreover have "\<not> is_blank_char CHR 0x22" by (simp add: is_blank_char_def)
  ultimately have t: "trim ?l = ?l" and tk: "trim k = k"
    using k(1) by (simp_all add: trim_id)
  have "str_find (CHR ''='') 0 ?l = Some (length k)"
    using k by (intro str_find_hit[of 0 k, simplified]) auto
  moreover have "hd ?l = hd k" "?l \<noteq> []" "substr 0 (length k) ?l = k"
      "drop (length k + 1) ?l = CHR 0x22 # v @ [CHR 0x22]"
    using k(1) by (simp_all add: substr_def)
  ultimately show ?thesis
    using k(1,2) by (simp only: env_line_def quoted_assignment_def fst_conv snd_conv t tk Let_def option.case
        parseValue_quoted simp_thms if_False length_0_conv)
qed

lemma env_entries_Cons:
  "CHR 0x0A \<notin> set l \<Longrightarrow> env_line l = Some kv \<Longrightarrow> env_entries (l @ CHR 0x0A # s) = kv # env_entries s"
  by (simp add: env_entries_def split_on_append map_filter_simps)

text \<open>
  A configuration survives the file: names without blanks and any values without a line
  break, written as quoted assignments, are read back exactly, in order; blanks, comment signs,
  equals signs and quotes inside a value do no harm.
\<close>

theorem env_file_roundtrip:
  assumes "list_all assignable kvs"
  shows "env_entries (env_file kvs) = kvs"
  using assms
proof (induction kvs)
  case Nil
  show ?case by (simp add: env_file_def env_entries_def env_line_def trim_def map_filter_simps)
next
  case (Cons kv kvs)
  obtain k v where kv: "kv = (k, v)" by fastforce
  then have a: "assignable (k, v)" and ih: "env_entries (env_file kvs) = kvs"
    using Cons by simp_all
  have "CHR 0x0A \<notin> set (quoted_assignment (k, v))"
    using a by (auto simp: assignable_def quoted_assignment_def list_all_iff is_blank_char_def)
  from env_entries_Cons[OF this env_line_quoted[OF a], of "env_file kvs"] ih
  show ?case by (simp add: kv env_file_def)
qed

lemma env_file_roundtrip_witness:
  "env_entries (env_file [(''DB_PASSWORD'', '' a#b=c '')]) = [(''DB_PASSWORD'', '' a#b=c '')]"
  by (rule env_file_roundtrip) (simp add: assignable_def is_blank_char_def)

text \<open>A comment behind a quoted value leaves the quotes in the value.\<close>

lemma quotes_kept_before_comment: "parseValue [CHR 0x22, CHR ''a'', CHR 0x22, CHR '' '', CHR ''#'', CHR ''c''] =
    [CHR 0x22, CHR ''a'', CHR 0x22]"
  by (simp add: parseValue_def trim_def is_blank_char_def str_find_def substr_def Let_def)

end
