(* ===== verification/Connection_Pool.thy ===== *)
theory Connection_Pool
  imports Prelude
begin

text \<open>
  \<^verbatim>\<open>PostgresDb\<close> (\<^verbatim>\<open>Infrastructure/src/Persistence/PostgresDb.cpp\<close>): the pool of
  connections. The body of each method runs under the pool's mutex, so a method is one step. A connection is its identity; whether it is open, and what
  \<^verbatim>\<open>pqxx::connection\<close> answers, comes from the environment.
\<close>

section \<open>The pool\<close>

type_synonym conn = nat

record pool =
  po_maxPoolSize :: nat
  po_createdCount :: nat
  po_pool :: "conn list"

definition new_pool :: "nat \<Rightarrow> pool" where
  "new_pool maxPoolSize = \<lparr>po_maxPoolSize = maxPoolSize, po_createdCount = 0, po_pool = []\<rparr>"

definition dropped :: "pool \<Rightarrow> pool" where
  "dropped p = (if 0 < po_createdCount p then p\<lparr>po_createdCount := po_createdCount p - 1\<rparr> else p)"

text \<open>
  \<open>create\<close> and \<open>reconnect\<close> are the two constructor calls, \<open>Throw\<close> when they throw. The answer
  \<open>None\<close> is a caller that waits on the condition variable.
\<close>

definition getConnection ::
    "(conn \<Rightarrow> bool) \<Rightarrow> conn outcome \<Rightarrow> conn outcome \<Rightarrow> pool \<Rightarrow> (conn outcome \<times> pool) option" where
  "getConnection is_open create reconnect p =
     (if po_pool p = [] \<and> \<not> po_createdCount p < po_maxPoolSize p then None
      else
        (let taken =
               (if po_pool p \<noteq> [] then (Return (last (po_pool p)), p\<lparr>po_pool := butlast (po_pool p)\<rparr>)
                else case create of
                  Throw \<Rightarrow> (Throw, p)
                | Return c \<Rightarrow> (Return c, p\<lparr>po_createdCount := po_createdCount p + 1\<rparr>))
         in case taken of
              (Throw, p') \<Rightarrow> Some (Throw, p')
            | (Return c, p') \<Rightarrow>
                if is_open c then Some (Return c, p')
                else case reconnect of
                  Return c' \<Rightarrow> Some (Return c', p')
                | Throw \<Rightarrow> Some (Throw, dropped p')))"

definition returnConnection :: "(conn \<Rightarrow> bool) \<Rightarrow> conn \<Rightarrow> pool \<Rightarrow> pool" where
  "returnConnection is_open c p =
     (if is_open c then p\<lparr>po_pool := po_pool p @ [c]\<rparr> else dropped p)"

definition testConnection :: "conn outcome \<Rightarrow> (conn \<Rightarrow> bool) \<Rightarrow> bool" where
  "testConnection create is_open =
     (case create of Return c \<Rightarrow> is_open c | Throw \<Rightarrow> False)"

definition getDefaultConnectionString :: "(string \<Rightarrow> string) \<Rightarrow> string" where
  "getDefaultConnectionString getEnv =
     (let dflt = \<lambda>name d. if getEnv name = [] then d else getEnv name
      in if getEnv ''DATABASE_URL'' \<noteq> [] then getEnv ''DATABASE_URL''
         else if getEnv ''POSTGRES_CONN_STR'' \<noteq> [] then getEnv ''POSTGRES_CONN_STR''
         else ''host='' @ dflt ''DB_HOST'' ''localhost'' @ '' port='' @ dflt ''DB_PORT'' ''5432'' @
              '' dbname='' @ dflt ''DB_NAME'' ''crowapi_db'' @ '' user='' @ dflt ''DB_USER'' ''postgres'' @
              '' password='' @ dflt ''DB_PASSWORD'' ''postgres'' @
              '' connect_timeout='' @ dflt ''DB_CONNECT_TIMEOUT'' ''5'')"

section \<open>The pool and its users\<close>

text \<open>
  All threads together: the pool, and the connections that are checked out, one entry for
  each \<^verbatim>\<open>shared_ptr\<close> that has not been released.
\<close>

inductive pool_step :: "pool \<times> conn list \<Rightarrow> pool \<times> conn list \<Rightarrow> bool" where
  acquire: "getConnection is_open create reconnect p = Some (Return c, p') \<Longrightarrow> pool_step (p, out) (p', c # out)"
| refused: "getConnection is_open create reconnect p = Some (Throw, p') \<Longrightarrow> pool_step (p, out) (p', out)"
| release: "c \<in> set out \<Longrightarrow> pool_step (p, out) (returnConnection is_open c p, remove1 c out)"

inductive_cases pool_stepE: "pool_step s t"

definition pool_inv :: "nat \<Rightarrow> pool \<times> conn list \<Rightarrow> bool" where
  "pool_inv m s \<longleftrightarrow>
     (case s of (p, out) \<Rightarrow>
        po_maxPoolSize p = m \<and> po_createdCount p = length (po_pool p) + length out \<and> po_createdCount p \<le> m)"

lemma getConnection_inv:
  assumes "pool_inv m (p, out)" and "getConnection is_open create reconnect p = Some (r, p')"
  shows "case r of Return c \<Rightarrow> pool_inv m (p', c # out) | Throw \<Rightarrow> pool_inv m (p', out)"
  using assms
  by (cases "po_pool p" rule: rev_cases)
    (auto simp: pool_inv_def getConnection_def dropped_def Let_def split: if_splits outcome.splits)

lemma returnConnection_inv:
  assumes "pool_inv m (p, out)" and "c \<in> set out"
  shows "pool_inv m (returnConnection is_open c p, remove1 c out)"
proof -
  obtain k where "length out = Suc k" using assms(2) by (cases out) auto
  with assms show ?thesis
    by (auto simp: pool_inv_def returnConnection_def dropped_def length_remove1)
qed

lemma pool_step_inv: "pool_step s t \<Longrightarrow> pool_inv m s \<Longrightarrow> pool_inv m t"
  by (induction rule: pool_step.induct)
    (auto dest: getConnection_inv returnConnection_inv)

lemma pool_steps_inv:
  assumes "pool_step\<^sup>*\<^sup>* (new_pool m, []) s"
  shows "pool_inv m s"
  using assms
proof (induction rule: rtranclp_induct)
  case base
  show ?case by (simp add: pool_inv_def new_pool_def)
next
  case (step s t)
  then show ?case by (blast intro: pool_step_inv)
qed

lemma getConnection_waits:
  assumes "pool_inv m (p, out)"
  shows "getConnection is_open create reconnect p = None \<longleftrightarrow> length out = m"
proof -
  have "getConnection is_open create reconnect p = None \<longleftrightarrow> po_pool p = [] \<and> \<not> po_createdCount p < po_maxPoolSize p"
    by (auto simp: getConnection_def Let_def split: outcome.split)
  also have "\<dots> \<longleftrightarrow> length out = m"
    using assms by (cases "po_pool p") (auto simp: pool_inv_def)
  finally show ?thesis .
qed

text \<open>
  C24. The pool counts right: whatever threads acquire and release, and whichever connections
  break or cannot be opened, at most the configured number of connections is out, the
  counter is the number of connections that exist, and a caller waits exactly when all of
  them are out, so no connection is ever lost to the pool.
\<close>

theorem pool_waits_iff_exhausted:
  assumes "pool_step\<^sup>*\<^sup>* (new_pool m, []) (p, out)"
  shows "length out \<le> m \<and> po_createdCount p = length (po_pool p) + length out \<and>
    (getConnection is_open create reconnect p = None \<longleftrightarrow> length out = m)"
proof -
  have i: "po_maxPoolSize p = m" "po_createdCount p = length (po_pool p) + length out" "po_createdCount p \<le> m"
    using pool_steps_inv[OF assms] by (simp_all add: pool_inv_def)
  with getConnection_waits[OF pool_steps_inv[OF assms]] show ?thesis by simp
qed

lemma pool_waits_iff_exhausted_witness:
  "getConnection (\<lambda>_. True) (Return 2) (Return 3)
     \<lparr>po_maxPoolSize = 1, po_createdCount = 1, po_pool = []\<rparr> = None \<and>
   getConnection (\<lambda>_. True) (Return 1) (Return 3) (new_pool 0) = None"
proof -
  have "getConnection (\<lambda>_. True) (Return 1) Throw (new_pool 1) =
      Some (Return 1, \<lparr>po_maxPoolSize = 1, po_createdCount = 1, po_pool = []\<rparr>)"
    by (simp add: getConnection_def new_pool_def)
  then have "pool_step\<^sup>*\<^sup>* (new_pool 1, []) (\<lparr>po_maxPoolSize = 1, po_createdCount = 1, po_pool = []\<rparr>, [1])"
    by (blast intro: r_into_rtranclp pool_step.acquire)
  from pool_waits_iff_exhausted[OF this] pool_waits_iff_exhausted[OF rtranclp.rtrancl_refl[of pool_step "(new_pool 0, [])"]]
  show ?thesis by simp
qed

end
