(* ===== verification/Revocation_Listener.thy ===== *)
theory Revocation_Listener
  imports Prelude
begin

text \<open>
  \<^verbatim>\<open>PostgresSessionRevocationListener\<close>
  (\<^verbatim>\<open>Infrastructure/src/Persistence/PostgresSessionRevocationListener.cpp\<close>): the thread that waits
  for the notifications of revoked sessions, and when it ends.
\<close>

text \<open>
  \<open>li_running\<close> is the atomic flag, \<open>li_thread\<close> whether a worker thread is joinable.
\<close>

record listener =
  li_running :: bool
  li_thread :: bool

definition listener_start :: "listener \<Rightarrow> listener" where
  "listener_start l = (if li_running l then l else l\<lparr>li_running := True, li_thread := True\<rparr>)"

definition listener_stop :: "listener \<Rightarrow> listener" where
  "listener_stop l = (if \<not> li_running l then l else l\<lparr>li_running := False, li_thread := False\<rparr>)"

text \<open>
  One turn of the worker's loop: what the flag says when the turn begins, the payloads that
  \<^verbatim>\<open>await_notification\<close> hands to the callback, and whether the call throws after them. An
  exception ends the loop, and so does a cleared flag; otherwise there is a next turn, so the
  loop need not end. The value is the payloads of all turns, \<open>None\<close> when the loop does not
  return.
\<close>

type_synonym turn = "bool \<times> string list \<times> bool"

partial_function (option) listen_loop :: "(nat \<Rightarrow> turn) \<Rightarrow> nat \<Rightarrow> string list option" where
  "listen_loop turns n =
     (case turns n of (running, payloads, throws) \<Rightarrow>
        if \<not> running then Some []
        else if throws then Some payloads
        else Option.bind (listen_loop turns (Suc n)) (\<lambda>later. Some (payloads @ later)))"

text \<open>The calls of \<open>m_callback\<close> when the worker returns.\<close>

definition runListener :: "bool \<Rightarrow> bool \<Rightarrow> (nat \<Rightarrow> turn) \<Rightarrow> string list option" where
  "runListener connected hasCallback turns =
     (if \<not> connected then Some []
      else map_option (\<lambda>calls. if hasCallback then calls else []) (listen_loop turns 0))"

section \<open>When the worker returns\<close>

definition last_turn :: "turn \<Rightarrow> bool" where
  "last_turn t = (\<not> fst t \<or> snd (snd t))"

definition delivered :: "turn \<Rightarrow> string list" where
  "delivered t = (if fst t then fst (snd t) else [])"

lemma listen_loop_turn:
  "listen_loop turns n =
     (if last_turn (turns n) then Some (delivered (turns n))
      else map_option ((@) (delivered (turns n))) (listen_loop turns (Suc n)))"
  by (subst listen_loop.simps)
    (cases "listen_loop turns (Suc n)"; auto simp: last_turn_def delivered_def split: prod.split)

lemma listen_loop_returns:
  assumes "last_turn (turns n)" and "m \<le> n" and "\<forall>i. m \<le> i \<and> i < n \<longrightarrow> \<not> last_turn (turns i)"
  shows "listen_loop turns m = Some (concat (map (\<lambda>i. delivered (turns i)) [m..<Suc n]))"
  using assms(2,3)
proof (induction "n - m" arbitrary: m)
  case 0
  then have "m = n" by simp
  then show ?case using assms(1) by (simp add: listen_loop_turn[of turns n])
next
  case (Suc k)
  then have m: "m < n" and now: "\<not> last_turn (turns m)" by simp_all
  have "listen_loop turns (Suc m) = Some (concat (map (\<lambda>i. delivered (turns i)) [Suc m..<Suc n]))"
    using Suc by (intro Suc.hyps) simp_all
  then show ?case
    using m now by (simp add: listen_loop_turn[of turns m] upt_conv_Cons[of m "Suc n"] del: upt_Suc)
qed

lemma listen_loop_ends:
  assumes "listen_loop turns m = Some calls"
  shows "\<exists>n\<ge>m. last_turn (turns n)"
proof (rule listen_loop.raw_induct[OF _ assms])
  fix rec turns m calls
  assume IH: "\<And>turns m calls. rec turns m = Some calls \<Longrightarrow> \<exists>n\<ge>m. last_turn (turns n)"
    and body: "(case turns m of (running, payloads, throws) \<Rightarrow>
        if \<not> running then Some []
        else if throws then Some payloads
        else Option.bind (rec turns (Suc m)) (\<lambda>later. Some (payloads @ later))) = Some calls"
  show "\<exists>n\<ge>m. last_turn (turns n)"
  proof (cases "last_turn (turns m)")
    case False
    then obtain later where later: "rec turns (Suc m) = Some later"
      using body by (auto simp: last_turn_def split: prod.splits if_splits Option.bind_splits)
    obtain n where "Suc m \<le> n" and "last_turn (turns n)" using IH[OF later] by auto
    then show ?thesis by (intro exI[of _ n]) simp
  qed auto
qed

text \<open>
  C26. When the worker of the listener ends: it returns exactly when its connection cannot be
  opened, or at some turn the flag is found cleared or the wait throws; a stop, which clears
  the flag for good, therefore gets its join. What the callback has been given by then is the
  payloads of all turns up to the first such turn, in order.
\<close>

theorem listener_returns_iff:
  "(runListener connected hasCallback turns \<noteq> None \<longleftrightarrow>
      \<not> connected \<or> (\<exists>n. \<not> fst (turns n) \<or> snd (snd (turns n)))) \<and>
   ((\<exists>k. \<forall>n\<ge>k. \<not> fst (turns n)) \<longrightarrow> runListener connected hasCallback turns \<noteq> None) \<and>
   (connected \<and> hasCallback \<and> last_turn (turns n) \<and> (\<forall>i<n. \<not> last_turn (turns i)) \<longrightarrow>
      runListener connected hasCallback turns = Some (concat (map (\<lambda>i. delivered (turns i)) [0..<Suc n])))"
proof -
  have ends: "listen_loop turns 0 \<noteq> None \<longleftrightarrow> (\<exists>n. last_turn (turns n))"
  proof
    show "\<exists>n. last_turn (turns n)" if "listen_loop turns 0 \<noteq> None"
      using that listen_loop_ends[of turns 0] by auto
  next
    assume "\<exists>n. last_turn (turns n)"
    then obtain n where "last_turn (turns n)" "\<forall>i<n. \<not> last_turn (turns i)"
      using exists_least_iff[of "\<lambda>n. last_turn (turns n)"] by auto
    then show "listen_loop turns 0 \<noteq> None"
      using listen_loop_returns[of turns n 0] by simp
  qed
  then have iff: "runListener connected hasCallback turns \<noteq> None \<longleftrightarrow> \<not> connected \<or> (\<exists>n. last_turn (turns n))"
    by (simp add: runListener_def)
  have "(\<exists>k. \<forall>n\<ge>k. \<not> fst (turns n)) \<longrightarrow> (\<exists>n. last_turn (turns n))"
    by (auto simp: last_turn_def)
  moreover have "connected \<and> hasCallback \<and> last_turn (turns n) \<and> (\<forall>i<n. \<not> last_turn (turns i)) \<longrightarrow>
      runListener connected hasCallback turns = Some (concat (map (\<lambda>i. delivered (turns i)) [0..<Suc n]))"
    using listen_loop_returns[of turns n 0] by (simp add: runListener_def del: upt_Suc)
  ultimately show ?thesis
    unfolding iff by (intro conjI) (simp_all add: last_turn_def del: upt_Suc)
qed

text \<open>A concrete run: two turns that deliver, then the flag is found cleared.\<close>

lemma listener_returns_iff_witness:
  "runListener True True (\<lambda>n. (n < 2, [replicate n (CHR ''s'')], False)) = Some ['''', ''s'']"
proof -
  have "runListener True True (\<lambda>n. (n < 2, [replicate n (CHR ''s'')], False)) =
      Some (concat (map (\<lambda>i. delivered (i < 2, [replicate i (CHR ''s'')], False)) [0..<Suc 2]))"
    using listener_returns_iff[of True True "\<lambda>n. (n < 2, [replicate n (CHR ''s'')], False)" 2]
    by (simp add: last_turn_def del: upt_Suc)
  also have "\<dots> = Some ['''', ''s'']"
    by (simp add: delivered_def upt_rec)
  finally show ?thesis .
qed

text \<open>
  A fault of the connection ends the worker for good: the flag stays set, so that a later start
  does nothing.
\<close>

lemma listener_dead_after_fault:
  "listen_loop (\<lambda>n. (True, [], n = 0)) 0 = Some [] \<and> (li_running l \<longrightarrow> listener_start l = l)"
  by (simp add: listener_start_def listen_loop.simps)

end
