(* ===== verification/Logging.thy ===== *)
theory Logging
  imports Std_Text
begin

text \<open>
  \<^verbatim>\<open>Presentation/include/Presentation/Middleware/LoggingMiddleware.h\<close>: the log levels of the
  application and what the middleware writes about a request.
\<close>

datatype AppLogLevel = Verbose | Debug | Info | Warning | Error | Critical

text \<open>The underlying values of the enumeration, by which the code compares levels.\<close>

fun level_value :: "AppLogLevel \<Rightarrow> nat" where
  "level_value Verbose = 0"
| "level_value Debug = 1"
| "level_value Info = 2"
| "level_value Warning = 3"
| "level_value Error = 4"
| "level_value Critical = 5"

lemma level_value_inj: "level_value a = level_value b \<longleftrightarrow> a = b"
  by (cases a; cases b) simp_all

instantiation AppLogLevel :: linorder
begin

definition less_eq_AppLogLevel :: "AppLogLevel \<Rightarrow> AppLogLevel \<Rightarrow> bool" where
  "a \<le> b \<longleftrightarrow> level_value a \<le> level_value b"

definition less_AppLogLevel :: "AppLogLevel \<Rightarrow> AppLogLevel \<Rightarrow> bool" where
  "a < b \<longleftrightarrow> level_value a < level_value b"

instance
  by standard (auto simp: less_eq_AppLogLevel_def less_AppLogLevel_def level_value_inj)

end

definition parseLogLevel :: "string \<Rightarrow> AppLogLevel" where
  "parseLogLevel s =
     (if s \<in> {''verbose'', ''VERBOSE'', ''trace'', ''TRACE''} then Verbose
      else if s \<in> {''debug'', ''DEBUG''} then Debug
      else if s \<in> {''info'', ''INFO''} then Info
      else if s \<in> {''warning'', ''warn'', ''WARN'', ''WARNING''} then Warning
      else if s \<in> {''error'', ''ERROR'', ''err'', ''ERR''} then Error
      else if s \<in> {''critical'', ''CRITICAL'', ''fatal'', ''FATAL''} then Critical
      else Info)"

fun logLevelToString :: "AppLogLevel \<Rightarrow> string" where
  "logLevelToString Verbose = ''VERBOSE''"
| "logLevelToString Debug = ''DEBUG''"
| "logLevelToString Info = ''INFO''"
| "logLevelToString Warning = ''WARNING''"
| "logLevelToString Error = ''ERROR''"
| "logLevelToString Critical = ''CRITICAL''"

datatype crow_level = Crow_Debug | Crow_Info | Crow_Warning | Crow_Error | Crow_Critical

fun toCrowLogLevel :: "AppLogLevel \<Rightarrow> crow_level" where
  "toCrowLogLevel Verbose = Crow_Debug"
| "toCrowLogLevel Debug = Crow_Debug"
| "toCrowLogLevel Info = Crow_Info"
| "toCrowLogLevel Warning = Crow_Warning"
| "toCrowLogLevel Error = Crow_Error"
| "toCrowLogLevel Critical = Crow_Critical"

text \<open>
  What the two hooks hand to Crow's logger: a level and a text; the elapsed time, a
  \<^verbatim>\<open>double\<close> the stream prints, is a parameter.
\<close>

definition before_handle :: "AppLogLevel \<Rightarrow> string \<Rightarrow> string \<Rightarrow> nat \<Rightarrow> (crow_level \<times> string) option" where
  "before_handle current method_name url body_size =
     (if current \<le> Verbose then
        Some (Crow_Debug, ''[VERBOSE] Incoming '' @ method_name @ '' '' @ url @ '' (content-length: '' @
          string_of_nat body_size @ '')'')
      else None)"

definition should_log :: "AppLogLevel \<Rightarrow> int \<Rightarrow> bool" where
  "should_log current code =
     (if current \<le> Info then True
      else if current = Warning then code \<ge> 400
      else if current \<ge> Error then code \<ge> 500
      else False)"

definition after_handle ::
    "AppLogLevel \<Rightarrow> string \<Rightarrow> string \<Rightarrow> int \<Rightarrow> string \<Rightarrow> nat \<Rightarrow> (crow_level \<times> string) option" where
  "after_handle current method_name url code elapsedMs body_size =
     (let line = ''['' @ method_name @ ''] '' @ url @ '' -> Status '' @ string_of_int code @ '' ('' @ elapsedMs @ '' ms)''
      in if \<not> should_log current code then None
         else if code \<ge> 500 then Some (Crow_Error, line @ '' [SERVER ERROR]'')
         else if code \<ge> 400 then Some (Crow_Warning, line @ '' [CLIENT ERROR]'')
         else if current = Verbose then
           Some (Crow_Info, ''[VERBOSE] '' @ line @ '' [bytes: '' @ string_of_nat body_size @ '']'')
         else Some (Crow_Info, line))"

text \<open>A level's own name is read back as the level; any unknown text is the level Info.\<close>

lemma parse_logLevelToString [simp]: "parseLogLevel (logLevelToString l) = l"
  by (cases l) (simp_all add: parseLogLevel_def)

text \<open>
  Raising the log level only ever silences: what a higher level still logs about a request,
  every lower level logs as well, and a server error is logged at every level.
\<close>

theorem log_level_monotone:
  "(a \<le> b \<and> should_log b code \<longrightarrow> should_log a code) \<and> (500 \<le> code \<longrightarrow> after_handle l m u code t n \<noteq> None)"
  by (cases a; cases b; cases l)
    (auto simp: should_log_def after_handle_def Let_def less_eq_AppLogLevel_def)

end
