(* ===== verification/Startup.thy ===== *)
theory Startup
  imports Server Openssl OpenApi Jwks Env_Config Connection_Pool Revocation_Listener Logging
begin

text \<open>
  \<^verbatim>\<open>main\<close> of \<^verbatim>\<open>Core/Core.cpp\<close> up to the start of Crow: what a node of the service is made of,
  from its configuration, its command line and the randomness of its keys; and what two nodes,
  or one node before and after a restart, have in common.
\<close>

section \<open>A node\<close>

text \<open>What the program finds on its host: the libraries it calls and its files.\<close>

record 'j host =
  ho_crypto :: crypto
  ho_json :: "'j json_api"
  ho_pg :: pg
  ho_os :: host_os
  ho_files :: file_system
  ho_moveFirst :: bool

record 'j node =
  nd_app :: "'j app"
  nd_keys :: key_manager
  nd_port :: "16 word"
  nd_threads :: int
  nd_logLevel :: AppLogLevel
  nd_crowLevel :: crow_level
  nd_connStr :: string
  nd_pool :: pool
  nd_listener :: listener

definition load_config :: "file_system \<Rightarrow> env \<Rightarrow> app_config" where
  "load_config fs e = fromEnv (snd (env_load fs False ''.env'' e))"

definition google_settings :: "app_config \<Rightarrow> google_config" where
  "google_settings cfg =
     \<lparr>gc_clientId = cfg_googleClientId cfg, gc_clientSecret = cfg_googleClientSecret cfg,
      gc_redirectUri = cfg_googleRedirectUri cfg\<rparr>"

text \<open>The callback of the listener: all it does with a revoked session is to print its id.\<close>

definition evicted_line :: "string \<Rightarrow> string" where
  "evicted_line sessionId =
     ''[SessionRevocationListener] Evicted cross-instance session: '' @ sessionId"

text \<open>
  \<open>r\<close>: the random bytes of the key pair; \<open>start\<close>: the clock when the \<^verbatim>\<open>HealthController\<close> is
  made; \<open>now\<close>: the clock the Google service reads.
\<close>

definition startup ::
    "'j host \<Rightarrow> env \<Rightarrow> string list \<Rightarrow> (nat \<Rightarrow> byte) \<Rightarrow> time \<Rightarrow> time \<Rightarrow> 'j node" where
  "startup H e args r start now =
     (let config = load_config (ho_files H) e;
          (port, logLevelStr) = cli_settings config args;
          appLogLevel = parseLogLevel logLevelStr;
          connStr = toDbConnectionString config;
          keyManager = new_key_manager (ho_crypto H) r (cfg_jwtKeyId config) [] [];
          services = core_services (ho_crypto H) (ho_json H) keyManager (google_settings config)
                       (ho_os H) now
      in \<lparr>nd_app = \<lparr>app_json = ho_json H, app_pg = ho_pg H, app_services = services,
                    app_jwksJson = getJwksJson keyManager, app_startTime = start,
                    app_openApi = generateJson, app_swaggerHtml = generateSwaggerHtml,
                    app_moveFirst = ho_moveFirst H\<rparr>,
          nd_keys = keyManager, nd_port = port, nd_threads = cfg_serverThreads config,
          nd_logLevel = appLogLevel, nd_crowLevel = toCrowLogLevel appLogLevel,
          nd_connStr = connStr, nd_pool = new_pool (unat (cfg_dbMaxPoolSize config)),
          nd_listener = listener_start \<lparr>li_running = False, li_thread = False\<rparr>\<rparr>)"

lemma startup_services:
  "app_services (nd_app (startup H e args r start now)) =
     core_services (ho_crypto H) (ho_json H) (nd_keys (startup H e args r start now))
       (google_settings (load_config (ho_files H) e)) (ho_os H) now"
  by (simp add: startup_def Let_def split: prod.split)

lemma startup_keys:
  "km_wf (ho_crypto H) (nd_keys (startup H e args r start now))"
  "getJwksJson (nd_keys (startup H e args r start now)) =
     app_jwksJson (nd_app (startup H e args r start now))"
  by (simp_all add: startup_def Let_def new_key_manager_wf split: prod.split)

lemma startup_active_key:
  assumes "cr_generateRsaKeypair (ho_crypto H) r 2048 = (priv, pub)"
  shows "sk_kid (km_activeKey (nd_keys (startup H e args r start now))) =
      cfg_jwtKeyId (load_config (ho_files H) e)"
    "sk_privateKeyPem (km_activeKey (nd_keys (startup H e args r start now))) = priv"
    "sk_publicKeyPem (km_activeKey (nd_keys (startup H e args r start now))) = pub"
  using assms
  by (simp_all add: startup_def new_key_manager_def rebuildJwksJsonLocked_def Let_def split: prod.split)

lemma startup_previous: "km_previousKeys (nd_keys (startup H e args r start now)) = []"
  by (simp add: startup_def new_key_manager_def rebuildJwksJsonLocked_def Let_def split: prod.split)

section \<open>What a node publishes\<close>

text \<open>
  A node serves its API description: the answer to \<^verbatim>\<open>GET /api/openapi.json\<close> is a text that a
  reader of JSON takes, all of it, for the described document.
\<close>

theorem node_serves_description:
  "\<exists>resp t. handle (nd_app (startup H e args r start now)) E d R_openApi rq = (Return resp, d) \<and>
     hr_code resp = 200 \<and> hr_body resp = Text_body t \<and> parse_json t = Some (value_of openapi_doc)"
  by (simp add: getOpenApiJson_def startup_def Let_def parse_generateJson split: prod.split)

section \<open>Nodes and their tokens\<close>

text \<open>
  C12. A token is good on one node only: every start makes a fresh key pair, under the key name of
  the configuration. Two nodes with the same configuration, or one node before and after a
  restart, know each other's key by name and nothing else: a token that one of them issued is
  refused by the guard of the other, with 401 and the reason of a forged signature, whatever
  is in the database they share.
\<close>

theorem node_refuses_other_nodes_token:
  assumes J: "json_roundtrip (ho_json H)"
    and k1: "cr_generateRsaKeypair (ho_crypto H) r1 2048 = (priv1, pub1)"
    and k2: "cr_generateRsaKeypair (ho_crypto H) r2 2048 = (priv2, pub2)"
    and signs: "\<And>m. cr_sign (ho_crypto H) priv1 m \<noteq> None"
    and apart: "\<And>m sig. cr_sign (ho_crypto H) priv1 m = Some sig \<Longrightarrow> \<not> cr_verify (ho_crypto H) pub2 m sig"
    and n1: "n1 = startup H e args1 r1 start1 now1"
    and n2: "n2 = startup H e args2 r2 start2 now2"
  shows "extractAuthenticatedUser P (app_services (nd_app n2)) E d
      (''Bearer '' @ sv_createAccessToken (app_services (nd_app n1)) now uid rl sid jti ttl) =
    Return (Err (mk_error ''Invalid signature'' 401 [''Cryptographic signature verification failed.'']))"
proof -
  note A1 = startup_active_key[OF k1] and A2 = startup_active_key[OF k2]
  have "getVerificationPublicKeyPem (nd_keys n2) (sk_kid (km_activeKey (nd_keys n1))) = Some pub2"
    by (simp add: n1 n2 getVerificationPublicKeyPem_def A1 A2)
  then have "sv_validateAccessToken (app_services (nd_app n2)) (sysNow (E 0))
      (sv_createAccessToken (app_services (nd_app n1)) now uid rl sid jti ttl) =
    jwt_refused ''Invalid signature'' ''Cryptographic signature verification failed.''"
    using foreign_token_refused[OF J, of "ho_crypto H" "nd_keys n1" "nd_keys n2" pub2] signs apart
    by (simp add: n1 n2 startup_services A1)
  then show ?thesis
    by (simp add: extractAuthenticatedUser_def starts_with_def jwt_refused_def)
qed

text \<open>Two nodes of one configuration, and the token of the first at the second.\<close>

definition paired_crypto :: crypto where
  "paired_crypto = demo_crypto\<lparr>
     cr_generateRsaKeypair := (\<lambda>r n. if r 0 = 0 then (''A'', ''A'') else (''B'', ''B'')),
     cr_sign := (\<lambda>priv m. Some (map byte_of_char (priv @ m))),
     cr_verify := (\<lambda>pub m sig. sig = map byte_of_char (pub @ m))\<rparr>"

definition demo_host :: "demo_json host" where
  "demo_host = \<lparr>ho_crypto = paired_crypto, ho_json = demo_json_api, ho_pg = demo_pg,
     ho_os = \<lparr>os_popen = (\<lambda>_ _. None), os_mkstemp = None, os_write = (\<lambda>_. True)\<rparr>,
     ho_files = \<lparr>fs_file = (\<lambda>_. False), fs_read = (\<lambda>_. None), fs_cwd = ''/'',
                 fs_parent = (\<lambda>_. None), fs_join = (\<lambda>a b. a @ b)\<rparr>,
     ho_moveFirst = False\<rparr>"

definition demo_node :: "byte \<Rightarrow> demo_json node" where
  "demo_node b = startup demo_host \<lparr>ev_map = Map.empty, ev_os = (\<lambda>_. [])\<rparr> [] (\<lambda>_. b) 0 0"

lemma node_refuses_other_nodes_token_witness:
  "extractAuthenticatedUser demo_pg (app_services (nd_app (demo_node 1))) (demo_env 0) demo_db
      (''Bearer '' @ sv_createAccessToken (app_services (nd_app (demo_node 0))) 0 ''u1'' ''user'' ''s1'' ''j1'' 900) =
    Return (Err (mk_error ''Invalid signature'' 401 [''Cryptographic signature verification failed.'']))"
proof (rule node_refuses_other_nodes_token[OF _ _ _ _ _ demo_node_def demo_node_def])
  show "json_roundtrip (ho_json demo_host)" by (simp add: demo_host_def demo_json_roundtrip)
  show "cr_generateRsaKeypair (ho_crypto demo_host) (\<lambda>_. 0) 2048 = (''A'', ''A'')"
    "cr_generateRsaKeypair (ho_crypto demo_host) (\<lambda>_. 1) 2048 = (''B'', ''B'')"
    by (simp_all add: demo_host_def paired_crypto_def)
  show "cr_sign (ho_crypto demo_host) ''A'' m \<noteq> None" for m
    by (simp add: demo_host_def paired_crypto_def)
  show "\<not> cr_verify (ho_crypto demo_host) ''B'' m sig" if "cr_sign (ho_crypto demo_host) ''A'' m = Some sig" for m sig
    using that by (auto simp: demo_host_def paired_crypto_def byte_of_char_def)
qed

section \<open>Nodes without keys\<close>

text \<open>
  A node whose OpenSSL works, and whose key generation did: its key signs, and its public key
  accepts the signatures.
\<close>

lemma started_node_keys:
  assumes "ho_crypto H = crypto_of L" and "openssl_laws L"
    and "sk_privateKeyPem (km_activeKey (nd_keys (startup H e args r start now))) \<noteq> []"
  shows "key_pair (ho_crypto H) (sk_privateKeyPem (km_activeKey (nd_keys (startup H e args r start now))))
      (sk_publicKeyPem (km_activeKey (nd_keys (startup H e args r start now))))"
proof -
  obtain priv pub where k: "generateRsaKeypair L r 2048 = (priv, pub)" by force
  then have A: "cr_generateRsaKeypair (ho_crypto H) r 2048 = (priv, pub)" using assms(1) by simp
  show ?thesis
    using generated_keys[OF assms(2) k] assms(3) by (simp add: startup_active_key[OF A] assms(1))
qed


definition keyless_host :: "demo_json host" where
  "keyless_host = demo_host\<lparr>ho_crypto := crypto_of demo_openssl\<rparr>"

definition keyless_demo :: "demo_json node" where
  "keyless_demo = startup keyless_host \<lparr>ev_map = Map.empty, ev_os = (\<lambda>_. [])\<rparr> [] (\<lambda>_. 0) 0 0"


end
