(* ===== verification/Banner.thy ===== *)
theory Banner
  imports Startup
begin

text \<open>
  What \<^verbatim>\<open>main\<close> of \<^verbatim>\<open>Core/Core.cpp\<close> prints before it hands over to Crow: the settings it runs
  with and the list of endpoints, which is written out by hand beside the table of routes.
\<close>

section \<open>The printed lines\<close>

definition rule_line :: string where
  "rule_line = replicate 65 (CHR ''='')"

definition settings_lines :: "16 word \<Rightarrow> string \<Rightarrow> app_config \<Rightarrow> string list" where
  "settings_lines port logLevelStr config =
     [rule_line,
      ''  Crow Modern C++20 REST API Service                             '',
      ''  Architecture : Clean Architecture (Multi-Module CMake)         '',
      ''  Database     : PostgreSQL 18.6 (4-in-1 Multi-Paradigm Engine)   '',
      ''                 1. Relational SQL DB     -> todos               '',
      ''                 2. Redis KV Cache        -> cache_store         '',
      ''                 3. Kafka Message Queue   -> message_queue       '',
      ''                 4. MongoDB Document DB   -> documents (JSONB)   '',
      ''  Port         : '' @ string_of_nat (unat port),
      ''  Log Level    : '' @ logLevelStr,
      ''  Threads      : '' @ string_of_int (cfg_serverThreads config),
      ''  Key ID       : '' @ cfg_jwtKeyId config,
      rule_line]"

definition connecting_line :: "app_config \<Rightarrow> string" where
  "connecting_line config =
     ''[PostgresDb] Connecting to: host='' @ cfg_dbHost config @ '' port='' @ cfg_dbPort config @
     '' dbname='' @ cfg_dbName config @
     '' (pool size: '' @ string_of_nat (unat (cfg_dbMaxPoolSize config)) @ '')...''"

definition documentation_lines :: "16 word \<Rightarrow> string list" where
  "documentation_lines port =
     [[], ''API Documentation available at:'',
      ''  Swagger UI   : http://localhost:'' @ string_of_nat (unat port) @ ''/docs'',
      ''  OpenAPI 3.1  : http://localhost:'' @ string_of_nat (unat port) @ ''/api/openapi.json'', []]"

text \<open>
  An entry of the list: its label, a method and the paths. The columns are padded
  with spaces.
\<close>

definition pad_right :: "nat \<Rightarrow> string \<Rightarrow> string" where
  "pad_right n s = s @ replicate (n - length s) (CHR '' '')"

fun method_text :: "http_method \<Rightarrow> string" where
  "method_text GET = ''GET''"
| "method_text POST = ''POST''"
| "method_text PUT = ''PUT''"
| "method_text DELETE = ''DELETE''"

type_synonym listed = "string \<times> http_method \<times> string list"

definition listed_endpoints :: "listed list" where
  "listed_endpoints =
     [(''System'', GET, [''/health'', ''/api/health'']),
      (''JWKS'', GET, [''/.well-known/jwks.json'']),
      (''Auth'', POST, [''/api/v1/auth/register'']),
      (''Auth'', POST, [''/api/v1/auth/login'']),
      (''Auth'', POST, [''/api/v1/auth/refresh'']),
      (''Auth'', POST, [''/api/v1/auth/logout'']),
      (''Auth'', POST, [''/api/v1/auth/logout-all'']),
      (''Sessions'', GET, [''/api/v1/sessions'']),
      (''Sessions'', DELETE, [''/api/v1/sessions/<id>'']),
      (''Admin'', GET, [''/api/v1/admin/sessions'']),
      (''Admin'', DELETE, [''/api/v1/admin/sessions/<id>'']),
      (''Admin'', POST, [''/api/v1/admin/users/<id>/sessions/revoke-all'']),
      (''SQL DB'', GET, [''/api/todos'']),
      (''SQL DB'', POST, [''/api/todos'']),
      (''SQL DB'', GET, [''/api/todos/<id>'']),
      (''SQL DB'', PUT, [''/api/todos/<id>'']),
      (''SQL DB'', DELETE, [''/api/todos/<id>'']),
      (''Redis'', GET, [''/api/cache/<key>'']),
      (''Redis'', POST, [''/api/cache'']),
      (''Redis'', DELETE, [''/api/cache/<key>'']),
      (''Redis'', POST, [''/api/cache/cleanup'']),
      (''Kafka'', POST, [''/api/queue/publish'']),
      (''Kafka'', POST, [''/api/queue/poll'']),
      (''Kafka'', POST, [''/api/queue/ack/<id>'']),
      (''Kafka'', POST, [''/api/queue/fail/<id>'']),
      (''Kafka'', GET, [''/api/queue/metrics'']),
      (''MongoDB'', POST, [''/api/documents/<col>'']),
      (''MongoDB'', GET, [''/api/documents/<col>/<id>'']),
      (''MongoDB'', POST, [''/api/documents/<col>/query'']),
      (''MongoDB'', PUT, [''/api/documents/<col>/<id>'']),
      (''MongoDB'', DELETE, [''/api/documents/<col>/<id>''])]"

definition endpoint_line :: "listed \<Rightarrow> string" where
  "endpoint_line x =
     (case x of (label, verb, paths) \<Rightarrow>
        pad_right 13 (''  ['' @ label @ '']'') @ pad_right 7 (method_text verb) @
        join '', '' paths)"

definition banner :: "16 word \<Rightarrow> string \<Rightarrow> app_config \<Rightarrow> string list" where
  "banner port logLevelStr config =
     settings_lines port logLevelStr config @ [connecting_line config] @ documentation_lines port @
     [''Registered Endpoint Endpoints:''] @ map endpoint_line listed_endpoints @ [rule_line]"

text \<open>The output of a start with a configuration, environment and command line.\<close>

definition printed_at_start :: "'j host \<Rightarrow> env \<Rightarrow> string list \<Rightarrow> string list" where
  "printed_at_start H e args =
     (let config = load_config (ho_files H) e; (port, logLevelStr) = cli_settings config args
      in banner port logLevelStr config)"

section \<open>The list and the routes\<close>

text \<open>Paths up to the names of their parameters.\<close>

fun blank_names :: "bool \<Rightarrow> string \<Rightarrow> string" where
  "blank_names inside [] = []"
| "blank_names inside (c # s) =
     (if c = CHR ''<'' then c # blank_names True s
      else if c = CHR ''>'' then c # blank_names False s
      else if inside then blank_names True s else c # blank_names False s)"

definition listed_operations :: "(http_method \<times> string) list" where
  "listed_operations =
     concat (map (\<lambda>(label, verb, paths). map (\<lambda>p. (verb, blank_names False p)) paths) listed_endpoints)"

definition operation :: "endpoint \<Rightarrow> http_method \<times> string" where
  "operation e = (fst (route e), blank_names False (snd (route e)))"

definition unlisted :: "endpoint \<Rightarrow> bool" where
  "unlisted e \<longleftrightarrow>
     e \<in> {R_openApi, R_docs, R_swagger, R_googleUrl, R_googleCallback, R_google, R_setPassword}"

definition listed_routes :: "endpoint list" where
  "listed_routes =
     [R_health, R_apiHealth, R_jwks, R_register, R_login, R_refresh, R_logout, R_logoutAll, R_sessions,
      R_revokeSession [], R_adminSessions, R_adminRevokeSession [], R_adminRevokeAll [], R_todos,
      R_createTodo, R_todo 0, R_updateTodo 0, R_deleteTodo 0, R_cacheGet [], R_cacheSet,
      R_cacheRemove [], R_cacheCleanup, R_publish, R_poll, R_ack 0, R_fail 0, R_metrics,
      R_createDocument [], R_document [] [], R_queryDocuments [], R_updateDocument [] [],
      R_deleteDocument [] []]"

lemma listed_operations_routes: "listed_operations = map operation listed_routes"
  by (simp add: listed_operations_def listed_endpoints_def listed_routes_def operation_def)

text \<open>An operation does not depend on what a route captured.\<close>

fun generic :: "endpoint \<Rightarrow> endpoint" where
  "generic (R_revokeSession _) = R_revokeSession []"
| "generic (R_adminRevokeSession _) = R_adminRevokeSession []"
| "generic (R_adminRevokeAll _) = R_adminRevokeAll []"
| "generic (R_todo _) = R_todo 0"
| "generic (R_updateTodo _) = R_updateTodo 0"
| "generic (R_deleteTodo _) = R_deleteTodo 0"
| "generic (R_cacheGet _) = R_cacheGet []"
| "generic (R_cacheRemove _) = R_cacheRemove []"
| "generic (R_ack _) = R_ack 0"
| "generic (R_fail _) = R_fail 0"
| "generic (R_createDocument _) = R_createDocument []"
| "generic (R_document _ _) = R_document [] []"
| "generic (R_queryDocuments _) = R_queryDocuments []"
| "generic (R_updateDocument _ _) = R_updateDocument [] []"
| "generic (R_deleteDocument _ _) = R_deleteDocument [] []"
| "generic e = e"

lemma operation_generic: "operation (generic e) = operation e"
  by (cases e) (simp_all add: operation_def)

lemma generic_listed: "\<not> unlisted e \<Longrightarrow> generic e \<in> set listed_routes"
  by (cases e) (simp_all add: unlisted_def listed_routes_def)

lemma unlisted_operations:
  "unlisted e \<Longrightarrow> operation e \<notin> set listed_operations"
  by (auto simp: unlisted_def listed_operations_def listed_endpoints_def operation_def)

text \<open>
  What a start prints. The list of endpoints is the table of routes, up to the names of the
  parameters, except for the three documentation pages (two of which are announced above it), the
  three Google routes and the route to set a password; and everything that is listed is routed. No
  secret is printed: the output is the same whatever the database user, its password and the
  Google client secret are.
\<close>

theorem startup_output:
  "(operation e \<in> set listed_operations \<longleftrightarrow> \<not> unlisted e) \<and>
   (\<forall>x\<in>set listed_operations. \<exists>e. operation e = x) \<and>
   set (map endpoint_line listed_endpoints) \<subseteq> set (printed_at_start H env args) \<and>
   banner port lvl (cfg\<lparr>cfg_dbUser := u, cfg_dbPassword := p, cfg_googleClientSecret := g\<rparr>) = banner port lvl cfg"
proof (intro conjI)
  show "operation e \<in> set listed_operations \<longleftrightarrow> \<not> unlisted e"
    using unlisted_operations[of e] generic_listed[of e] operation_generic[of e]
    by (metis image_eqI listed_operations_routes set_map)
  show "\<forall>x\<in>set listed_operations. \<exists>e. operation e = x"
    by (auto simp: listed_operations_routes)
  show "set (map endpoint_line listed_endpoints) \<subseteq> set (printed_at_start H env args)"
    by (cases "cli_settings (load_config (ho_files H) env) args")
      (auto simp: printed_at_start_def banner_def Let_def)
  show "banner port lvl (cfg\<lparr>cfg_dbUser := u, cfg_dbPassword := p, cfg_googleClientSecret := g\<rparr>) =
      banner port lvl cfg"
    by (simp add: banner_def settings_lines_def connecting_line_def)
qed

end
