(* ===== verification/Todo_Refinement.thy ===== *)
theory Todo_Refinement
  imports Data_Services
begin

text \<open>
  The todo service as an abstract machine: a map from ids to contents, one step per use case,
  an answer of a status code and the todos shown. Both repositories refine it, so a client of
  the use cases cannot tell them apart.
\<close>

section \<open>The abstract machine\<close>

datatype todo_op =
    Op_create create_todo_request
  | Op_get "64 word"
  | Op_update "64 word" update_todo_request
  | Op_delete "64 word"
  | Op_list "bool option"

type_synonym todo_map = "64 word \<Rightarrow> todo_content option"

type_synonym todo_answer = "int \<times> todo_map"

fun todo_spec :: "64 word \<Rightarrow> todo_map \<Rightarrow> todo_op \<Rightarrow> todo_answer \<times> todo_map" where
  "todo_spec new m (Op_create rq) =
     (if isOk (validateCreate rq) then
        (let c = (ct_title rq, ct_description rq, False) in ((201, [new \<mapsto> c]), m(new \<mapsto> c)))
      else ((400, Map.empty), m))"
| "todo_spec new m (Op_get i) =
     (case m i of None \<Rightarrow> ((404, Map.empty), m) | Some c \<Rightarrow> ((200, [i \<mapsto> c]), m))"
| "todo_spec new m (Op_update i rq) =
     (if isOk (validateUpdate rq) then
        (case m i of
           None \<Rightarrow> ((404, Map.empty), m)
         | Some old \<Rightarrow> (let c = update_content rq old in ((200, [i \<mapsto> c]), m(i \<mapsto> c))))
      else ((400, Map.empty), m))"
| "todo_spec new m (Op_delete i) =
     (if m i = None then ((404, Map.empty), m) else ((200, Map.empty), m(i := None)))"
| "todo_spec new m (Op_list flt) =
     ((200, \<lambda>i. case m i of
        Some (ti, de, co) \<Rightarrow> if flt = None \<or> flt = Some co then Some (ti, de, co) else None
      | None \<Rightarrow> None), m)"

section \<open>The use cases, observed the same way\<close>

definition shown :: "todo_response list \<Rightarrow> todo_map" where
  "shown rs = map_of (map (\<lambda>r. (tr_id r, response_content r)) rs)"

definition todo_answer :: "todo_response api_result \<Rightarrow> todo_answer" where
  "todo_answer res =
     (case res of
        Err e \<Rightarrow> (err_statusCode e, Map.empty)
      | Ok r \<Rightarrow> (r_statusCode r, shown [the (r_data r)]))"

fun todo_exec :: "'s todo_repository \<Rightarrow> sites \<Rightarrow> 's \<Rightarrow> todo_op \<Rightarrow> todo_answer \<times> 's" where
  "todo_exec repo E s (Op_create rq) = (let (res, s') = createTodo repo E s rq in (todo_answer res, s'))"
| "todo_exec repo E s (Op_get i) = (todo_answer (getTodoById repo E s i), s)"
| "todo_exec repo E s (Op_update i rq) = (let (res, s') = updateTodo repo E s i rq in (todo_answer res, s'))"
| "todo_exec repo E s (Op_delete i) =
     (let (res, s') = deleteTodo repo E s i
      in ((case res of Err e \<Rightarrow> err_statusCode e | Ok r \<Rightarrow> r_statusCode r, Map.empty), s'))"
| "todo_exec repo E s (Op_list flt) =
     (let r = listTodos repo E s flt in ((r_statusCode r, shown (the (r_data r))), s))"

text \<open>What an operation is about to store.\<close>

fun stores :: "(string \<Rightarrow> string \<Rightarrow> bool) \<Rightarrow> todo_map \<Rightarrow> todo_op \<Rightarrow> bool" where
  "stores keeps m (Op_create rq) \<longleftrightarrow> keeps (ct_title rq) (ct_description rq)"
| "stores keeps m (Op_update i rq) \<longleftrightarrow>
     (case m i of
        None \<Rightarrow> True
      | Some old \<Rightarrow> (case update_content rq old of (ti, de, _) \<Rightarrow> keeps ti de))"
| "stores keeps m _ \<longleftrightarrow> True"

section \<open>Refinement\<close>

text \<open>The contract, with the id a new todo gets.\<close>

locale todo_contract_id = todo_contract +
  fixes newid :: "site \<Rightarrow> 'a \<Rightarrow> 64 word"
  assumes save_id:
    "\<lbrakk>inv s; works c; fresh c s; storable (t_title t) (t_description t); (t', s') = repo_save repo c s t\<rbrakk> \<Longrightarrow>
       t_id t' = newid c s"
begin

lemma shown_single [simp]: "shown [r] = [tr_id r \<mapsto> response_content r]"
  by (simp add: shown_def)

lemma create_refines:
  assumes "inv s" "works (E 1)" "fresh (E 1) s" "storable (ct_title rq) (ct_description rq)"
    and "todo_exec repo E s (Op_create rq) = (ans, s')"
  shows "inv s' \<and> todo_spec (newid (E 1) s) (abs s) (Op_create rq) = (ans, abs s')"
proof (cases "validateCreate rq")
  case (Err e)
  then have "err_statusCode e = 400" by (auto simp: validateCreate_def Let_def split: if_splits)
  with Err assms(1,5) show ?thesis by (auto simp: createTodo_def todo_answer_def)
next
  case (Ok x)
  let ?t = "\<lparr>t_id = 0, t_title = ct_title rq, t_description = ct_description rq,
      t_completed = False, t_createdAt = sysNow (E 0), t_updatedAt = sysNow (E 0)\<rparr>"
  obtain t' s1 where sv: "(t', s1) = repo_save repo (E 1) s ?t" by (metis surj_pair)
  have st: "storable (t_title ?t) (t_description ?t)" using assms(4) by simp
  note a = save_abs[OF assms(1-3) st sv] and i = save_id[OF assms(1-3) st sv]
  have c: "content ?t = (ct_title rq, ct_description rq, False)" by (simp add: content_def)
  show ?thesis
    using assms(5) Ok a i c by (auto simp: createTodo_def sv[symmetric] todo_answer_def simp del: One_nat_def)
qed

lemma get_refines:
  assumes "inv s" "works (E 0)"
  shows "todo_spec new (abs s) (Op_get i) = (todo_answer (getTodoById repo E s i), abs s)"
proof (cases "repo_findById repo (E 0) s i")
  case None
  then have "abs s i = None" using find_None_iff_abs[OF assms] by blast
  with None show ?thesis by (simp add: getTodoById_def todo_answer_def Let_def)
next
  case (Some t)
  then show ?thesis
    using find_Some_abs[OF assms Some] by (simp add: getTodoById_def todo_answer_def Let_def)
qed

lemma update_refines:
  assumes "inv s" "\<And>n. works (E n)" "stores storable (abs s) (Op_update i rq)"
    and ex: "todo_exec repo E s (Op_update i rq) = (ans, s')"
  shows "inv s' \<and> todo_spec new (abs s) (Op_update i rq) = (ans, abs s')"
proof (cases "validateUpdate rq")
  case (Err e)
  then have "err_statusCode e = 400" by (auto simp: validateUpdate_def Let_def split: if_splits)
  with Err assms(1) ex show ?thesis by (auto simp: updateTodo_def todo_answer_def)
next
  case (Ok x)
  show ?thesis
  proof (cases "abs s i")
    case None
    obtain e where "updateTodo repo E s i rq = (Err e, s)" "err_statusCode e = 404"
      using update_404[where E = E and rq = rq, OF assms(1) assms(2)[of 0] _ None] Ok by auto
    with ex Ok None assms(1) show ?thesis by (auto simp: todo_answer_def)
  next
    case (Some old)
    obtain ti de co where new: "update_content rq old = (ti, de, co)" by (metis surj_pair)
    then have "storable ti de" using assms(3) Some by simp
    then obtain r s1 where u: "updateTodo repo E s i rq = (result.Ok r, s1)" "inv s1"
        "tr_id (the (r_data r)) = i" "response_content (the (r_data r)) = (ti, de, co)"
        "abs s1 = (abs s)(i \<mapsto> (ti, de, co))"
      using update_spec[where E = E, OF assms(1) assms(2) _ Some new] Ok by auto
    moreover have "r_statusCode r = 200"
      using u(1) by (auto simp: updateTodo_def Let_def case_prod_beta split: result.splits option.splits)
    ultimately show ?thesis using ex Ok Some new by (auto simp: todo_answer_def)
  qed
qed

lemma delete_refines:
  assumes "inv s" "works (E 0)" and ex: "todo_exec repo E s (Op_delete i) = (ans, s')"
  shows "inv s' \<and> todo_spec new (abs s) (Op_delete i) = (ans, abs s')"
proof -
  obtain b s1 where rm: "(b, s1) = repo_remove repo (E 0) s i" by (metis surj_pair)
  show ?thesis
    using ex remove_abs[OF assms(1,2) rm] by (auto simp: deleteTodo_def Let_def rm[symmetric] split: if_splits)
qed

lemma list_refines:
  assumes "inv s" "works (E 0)"
  shows "todo_spec new (abs s) (Op_list flt) =
    ((200, shown (the (r_data (listTodos repo E s flt)))), abs s)"
proof -
  let ?rs = "the (r_data (listTodos repo E s flt))"
  have "r_data (listTodos repo E s flt) = Some ?rs" by (simp add: listTodos_def Let_def)
  note L = list_spec[OF assms this]
  have d: "distinct (map fst (map (\<lambda>r. (tr_id r, response_content r)) ?rs))"
    using L by (simp add: comp_def)
  have iff: "shown ?rs i = Some (ti, de, co) \<longleftrightarrow> abs s i = Some (ti, de, co) \<and> (flt = None \<or> flt = Some co)"
    for i ti de co
  proof -
    have "shown ?rs i = Some (ti, de, co) \<longleftrightarrow> (\<exists>r\<in>set ?rs. tr_id r = i \<and> response_content r = (ti, de, co))"
      unfolding shown_def map_of_eq_Some_iff[OF d] by auto
    with L show ?thesis by blast
  qed
  have "shown ?rs i = (case abs s i of
        Some (ti, de, co) \<Rightarrow> if flt = None \<or> flt = Some co then Some (ti, de, co) else None
      | None \<Rightarrow> None)" for i
  proof (cases "abs s i")
    case None
    then have "shown ?rs i \<noteq> Some v" for v using iff[of i "fst v" "fst (snd v)" "snd (snd v)"] by simp
    then show ?thesis using None by (cases "shown ?rs i") auto
  next
    case (Some v)
    obtain ti de co where v: "v = (ti, de, co)" by (metis surj_pair)
    have "shown ?rs i = Some w \<longleftrightarrow> w = v \<and> (flt = None \<or> flt = Some co)" for w
      using iff[of i "fst w" "fst (snd w)" "snd (snd w)"] Some v by auto
    then show ?thesis using Some v by (cases "shown ?rs i") auto
  qed
  then show ?thesis by (simp add: fun_eq_iff)
qed

lemma exec_refines:
  assumes "inv s" "\<And>n. works (E n)" "fresh (E 1) s" "stores storable (abs s) opn"
    and "todo_exec repo E s opn = (ans, s')"
  shows "inv s' \<and> todo_spec (newid (E 1) s) (abs s) opn = (ans, abs s')"
proof (cases opn)
  case (Op_create rq)
  with assms show ?thesis using create_refines[of s E rq] by simp
next
  case (Op_get i)
  with assms get_refines[of s E "newid (E 1) s" i] show ?thesis by auto
next
  case (Op_update i rq)
  with assms update_refines[of s E i rq] show ?thesis by simp
next
  case (Op_delete i)
  with assms delete_refines[of s E i] show ?thesis by simp
next
  case (Op_list flt)
  then have "ans = (200, shown (the (r_data (listTodos repo E s flt))))" "s' = s"
    using assms(5) by (auto simp: Let_def) (simp_all add: listTodos_def Let_def)
  with assms Op_list list_refines[of s E "newid (E 1) s" flt] show ?thesis by simp
qed

end

section \<open>Both repositories\<close>

interpretation mem: todo_contract_id memory_repository mem_inv mem_abs "\<lambda>_. True" mem_fresh
    "\<lambda>_ _. True" "\<lambda>_. im_nextId"
  by unfold_locales (simp add: memory_repository_def mem_save_def Let_def)

interpretation pgt: todo_contract_id "postgres_repository P" "\<lambda>d. todos_wf (db_todos d)" pgtodos_abs
    "\<lambda>c. dbOk c" seq_fresh "pg_keeps P" "\<lambda>c _. word_of_int (dbSeq c)" for P
  by unfold_locales
    (auto simp: postgres_repository_def pgtodos_save_def seq_fresh_def pg_keeps_def)

text \<open>
  C16. The todo service on PostgreSQL is a map: while the database answers, ids are fresh and the
  columns keep the texts, every use case does to the stored todos what the abstract machine
  does to a map from ids to contents, and answers with the same status and the same todos, on
  success, on 400 and on 404.
\<close>

theorem todo_refines_map:
  assumes "todos_wf (db_todos d)" and "\<And>n. dbOk (E n)" and "seq_fresh (E 1) d"
    and "stores (pg_keeps P) (pgtodos_abs d) opn"
  shows "let (ans, d') = todo_exec (postgres_repository P) E d opn in
    todos_wf (db_todos d') \<and>
    todo_spec (word_of_int (dbSeq (E 1))) (pgtodos_abs d) opn = (ans, pgtodos_abs d')"
proof -
  obtain ans d' where e: "todo_exec (postgres_repository P) E d opn = (ans, d')" by (metis surj_pair)
  from pgt.exec_refines[where E = E, OF assms(1) assms(2) assms(3,4) e] show ?thesis by (simp add: e)
qed


definition demo_todo_ops :: "todo_op list" where
  "demo_todo_ops =
     [Op_create demo_create, Op_get 7, Op_delete 7, Op_list None,
      Op_update 7 \<lparr>ut_title = Some ''m'', ut_description = None, ut_completed = None\<rparr>]"

abbreviation todo_env :: sites where
  "todo_env \<equiv> \<lambda>_. demo_site 0 [] 7"

lemma demo_todo_state:
  "todos_wf (db_todos empty_db)" "seq_fresh (demo_site 0 [] 7) empty_db" "dbOk (demo_site 0 [] 7)"
  "stores (pg_keeps demo_pg) (pgtodos_abs empty_db) (Op_create demo_create)"
  by (simp_all add: todos_wf_def empty_db_def seq_fresh_def demo_site_def bigserial_def
      pg_keeps_def demo_pg_def demo_create_def)

lemma todo_refines_map_witness:
  "\<exists>d'. todo_exec (postgres_repository demo_pg) todo_env empty_db (Op_create demo_create) =
      ((201, [7 \<mapsto> (''milk'', ''two'', False)]), d') \<and>
    pgtodos_abs d' = [7 \<mapsto> (''milk'', ''two'', False)]"
proof -
  have "pgtodos_abs empty_db = Map.empty" by (simp add: pgtodos_abs_def empty_db_def fun_eq_iff)
  moreover have "dbSeq (demo_site 0 [] 7) = 7" by (simp add: demo_site_def)
  ultimately show ?thesis
    using todo_refines_map[where E = todo_env, OF demo_todo_state(1,3,2,4)] demo_create_valid
    by (auto simp: demo_create_def Let_def split: prod.splits)
qed


end
