(* ===== verification/Queue_Refinement.thy ===== *)
theory Queue_Refinement
  imports Data_Services
begin

text \<open>
  The message queue as an abstract machine: for each topic a first-in-first-out queue of the
  messages that wait, and a status for every message there ever was. The use cases on the
  table \<^verbatim>\<open>message_queue\<close> refine it.
\<close>

section \<open>The abstract machine\<close>

datatype queue_op =
    Op_publish string string
  | Op_poll string
  | Op_ack "64 word"
  | Op_fail "64 word"

record fifo =
  fq_waiting :: "string \<Rightarrow> (64 word \<times> string) list"
  fq_status :: "64 word \<Rightarrow> string option"

definition settled :: "64 word \<Rightarrow> string \<Rightarrow> fifo \<Rightarrow> fifo" where
  "settled i status q =
     \<lparr>fq_waiting = (\<lambda>t. filter (\<lambda>m. fst m \<noteq> i) (fq_waiting q t)),
      fq_status = (fq_status q)(i \<mapsto> status)\<rparr>"

text \<open>An answer: the status code, and the message shown, if any.\<close>

type_synonym queue_answer = "int \<times> (64 word \<times> string) option"

text \<open>
  \<open>new\<close> is the id a published message gets, \<open>canon\<close> how its payload is stored, and \<open>busy\<close> says
  which messages a poll skips because another transaction has them locked.
\<close>

fun queue_spec ::
    "64 word \<Rightarrow> (string \<Rightarrow> string) \<Rightarrow> (64 word \<Rightarrow> bool) \<Rightarrow> fifo \<Rightarrow> queue_op \<Rightarrow> queue_answer \<times> fifo" where
  "queue_spec new canon busy q (Op_publish topic payload) =
     (if topic = [] \<or> payload = [] then ((400, None), q)
      else ((201, Some (new, payload)),
            \<lparr>fq_waiting = (fq_waiting q)(topic := fq_waiting q topic @ [(new, canon payload)]),
             fq_status = (fq_status q)(new \<mapsto> ''PENDING'')\<rparr>))"
| "queue_spec new canon busy q (Op_poll topic) =
     (if topic = [] then ((400, None), q)
      else case find (\<lambda>m. \<not> busy (fst m)) (fq_waiting q topic) of
        None \<Rightarrow> ((404, None), q)
      | Some m \<Rightarrow> ((200, Some m), settled (fst m) ''PROCESSING'' q))"
| "queue_spec new canon busy q (Op_ack i) =
     (if i = 0 then ((400, None), q)
      else if fq_status q i = None then ((404, None), q)
      else ((200, None), settled i ''COMPLETED'' q))"
| "queue_spec new canon busy q (Op_fail i) =
     (if i = 0 then ((400, None), q)
      else if fq_status q i = None then ((404, None), q)
      else ((200, None), settled i ''FAILED'' q))"

section \<open>The use cases, observed the same way\<close>

definition queue_answer :: "queue_message_response api_result \<Rightarrow> queue_answer" where
  "queue_answer res =
     (case res of
        Err e \<Rightarrow> (err_statusCode e, None)
      | Ok r \<Rightarrow> (r_statusCode r, map_option (\<lambda>m. (qr_id m, qr_payload m)) (r_data r)))"

definition void_answer :: "unit api_result \<Rightarrow> queue_answer" where
  "void_answer res = ((case res of Err e \<Rightarrow> err_statusCode e | Ok r \<Rightarrow> r_statusCode r), None)"

fun queue_exec :: "pg \<Rightarrow> sites \<Rightarrow> db \<Rightarrow> queue_op \<Rightarrow> queue_answer \<times> db" where
  "queue_exec P E d (Op_publish topic payload) =
     (let (res, d') = queueUC_publish P E d topic payload in (queue_answer res, d'))"
| "queue_exec P E d (Op_poll topic) = (let (res, d') = queueUC_poll E d topic in (queue_answer res, d'))"
| "queue_exec P E d (Op_ack i) = (let (res, d') = queueUC_acknowledge E d i in (void_answer res, d'))"
| "queue_exec P E d (Op_fail i) = (let (res, d') = queueUC_fail E d i in (void_answer res, d'))"

text \<open>The table as a machine: what waits in a topic comes in the order of the ids.\<close>

definition waits_in :: "string \<Rightarrow> queue_row \<Rightarrow> bool" where
  "waits_in topic r \<longleftrightarrow> mq_topic r = topic \<and> mq_status r = ''PENDING''"

definition shown_message :: "queue_row \<Rightarrow> 64 word \<times> string" where
  "shown_message r = (word_of_int (mq_id r), mq_payload r)"

definition fifo_of :: "db \<Rightarrow> fifo" where
  "fifo_of d =
     \<lparr>fq_waiting = (\<lambda>t. map shown_message (sort_key mq_id (filter (waits_in t) (db_queue d)))),
      fq_status = (\<lambda>i. map_option mq_status (find (\<lambda>r. mq_id r = uint i) (db_queue d)))\<rparr>"

text \<open>
  What an operation needs of its environment: no fault; the sequence of the table is ahead of
  all ids that were drawn before; the columns take topic and payload; and no counter of
  failures is at the largest \<^verbatim>\<open>INTEGER\<close>.
\<close>

fun queue_ready :: "pg \<Rightarrow> site \<Rightarrow> db \<Rightarrow> queue_op \<Rightarrow> bool" where
  "queue_ready P c d (Op_publish topic payload) \<longleftrightarrow>
     dbOk c \<and> bigserial (dbSeq c) \<and> (\<forall>r\<in>set (db_queue d). mq_id r < dbSeq c) \<and>
     pg_varchar P 100 topic = Some topic \<and> pg_jsonb P payload \<noteq> None \<and> pg_channel P topic"
| "queue_ready P c d (Op_fail i) \<longleftrightarrow> dbOk c \<and> (\<forall>r\<in>set (db_queue d). int4 (mq_retry_count r + 1))"
| "queue_ready P c d _ \<longleftrightarrow> dbOk c"

section \<open>Sorting, and changing one row\<close>

lemma sort_key_snoc:
  assumes "\<forall>y\<in>set xs. f y < f x"
  shows "sort_key f (xs @ [x]) = sort_key f xs @ [x]"
proof -
  have ins: "insort_key f y (zs @ [x]) = insort_key f y zs @ [x]" if "f y < f x" for y zs
    using that by (induction zs) auto
  have "foldr (insort_key f) xs [x] = foldr (insort_key f) xs [] @ [x]"
    using assms by (induction xs) (simp_all add: ins)
  then show ?thesis by (simp add: sort_key_def)
qed

lemma find_filter: "find p xs = (case filter p xs of [] \<Rightarrow> None | x # _ \<Rightarrow> Some x)"
  by (induction xs) auto

text \<open>A row that leaves \<^verbatim>\<open>PENDING\<close> leaves its queue; nothing else moves.\<close>

lemma fifo_of_settled:
  assumes wf: "queue_wf (db_queue d)" and r: "r \<in> set (db_queue d)" "mq_id r = uint i"
    and f: "\<And>x. mq_id (f x) = mq_id x" "\<And>x. mq_status (f x) = status" "status \<noteq> ''PENDING''"
  shows "fifo_of (d\<lparr>db_queue := update_where (\<lambda>x. mq_id x = uint i) f (db_queue d)\<rparr>) = settled i status (fifo_of d)"
proof -
  let ?u = "update_where (\<lambda>x. mq_id x = uint i) f"
  have filt: "filter (waits_in t) (?u rows) = filter (\<lambda>x. mq_id x \<noteq> uint i) (filter (waits_in t) rows)" for t rows
    using f by (induction rows) (auto simp: update_where_def waits_in_def)
  have ids: "fst (shown_message x) \<noteq> i \<longleftrightarrow> mq_id x \<noteq> uint i" if "x \<in> set (db_queue d)" for x
  proof -
    have "bigserial (mq_id x)" using wf that by (simp add: queue_wf_def)
    then have "uint (word_of_int (mq_id x) :: 64 word) = mq_id x" by (rule bigserial_word)
    then show ?thesis by (auto simp: shown_message_def)
  qed
  have "map shown_message (sort_key mq_id (filter (waits_in t) (?u (db_queue d)))) =
      filter (\<lambda>m. fst m \<noteq> i) (map shown_message (sort_key mq_id (filter (waits_in t) (db_queue d))))" for t
    unfolding filt filter_sort[symmetric] filter_map comp_def
    by (rule arg_cong[of _ _ "map shown_message"], rule filter_cong) (auto simp: ids)
  moreover have "find (\<lambda>x. mq_id x = uint j) (?u (db_queue d)) =
      (if j = i then Some (f (the (find (\<lambda>x. mq_id x = uint i) (db_queue d))))
       else find (\<lambda>x. mq_id x = uint j) (db_queue d))" for j
    using find_conj_update_where[of mq_id "db_queue d" f "uint j" "\<lambda>_. True" "uint i"] wf f(1) r
    by (auto simp: queue_wf_def find_None_iff word_uint_eq_iff split: option.splits)
  ultimately show ?thesis
    using f(2) by (auto simp: fifo_of_def settled_def fun_eq_iff)
qed

section \<open>Refinement\<close>

lemma publish_refines:
  assumes wf: "queue_wf (db_queue d)" and ready: "queue_ready P (E 0) d (Op_publish topic payload)"
    and "topic \<noteq> []" "payload \<noteq> []"
    and ex: "queue_exec P E d (Op_publish topic payload) = (ans, d')"
  shows "queue_spec (word_of_int (dbSeq (E 0))) (\<lambda>p. the (pg_jsonb P p)) busy (fifo_of d) (Op_publish topic payload) =
    (ans, fifo_of d')"
proof -
  let ?n = "dbSeq (E 0)"
  obtain j where j: "pg_jsonb P payload = Some j" using ready by auto
  define row where "row = \<lparr>mq_id = ?n, mq_topic = topic, mq_payload = j, mq_status = ''PENDING'',
      mq_retry_count = 0, mq_created_at = dbNow (E 0), mq_processed_at = None\<rparr>"
  have new: "\<forall>r\<in>set (db_queue d). mq_id r < mq_id row" using ready by (simp add: row_def)
  then have fresh: "\<not> (\<exists>r\<in>set (db_queue d). mq_id r = ?n)" by (auto simp: row_def)
  have q: "db_queue d' = db_queue d @ [row]" and a: "ans = (201, Some (word_of_int ?n, payload))"
    using ex ready fresh j assms(3,4)
    by (auto simp: queueUC_publish_def queue_publish_def queue_answer_def row_def)
  have waits: "waits_in t row \<longleftrightarrow> t = topic" for t by (auto simp: waits_in_def row_def)
  have shown: "shown_message row = (word_of_int ?n, j)" by (simp add: shown_message_def row_def)
  have "map shown_message (sort_key mq_id (filter (waits_in t) (db_queue d'))) =
      (if t = topic then fq_waiting (fifo_of d) t @ [(word_of_int ?n, j)] else fq_waiting (fifo_of d) t)" for t
    using new sort_key_snoc[of "filter (waits_in topic) (db_queue d)" mq_id row]
    by (simp add: q fifo_of_def waits shown)
  moreover have "find (\<lambda>r. mq_id r = uint i) (db_queue d') =
      (if i = word_of_int ?n then Some row else find (\<lambda>r. mq_id r = uint i) (db_queue d))" for i :: "64 word"
  proof (cases "i = word_of_int ?n")
    case True
    then have "uint i = ?n" using ready bigserial_word[of ?n] by simp
    then have "find (\<lambda>r. mq_id r = uint i) (db_queue d) = None" using fresh by (auto simp: find_None_iff)
    with True \<open>uint i = ?n\<close> show ?thesis by (simp add: q find_append row_def)
  next
    case False
    then have "uint i \<noteq> ?n" by (metis word_of_int_uint)
    with False show ?thesis by (simp add: q find_append row_def split: option.split)
  qed
  ultimately show ?thesis
    using assms(3,4) j by (auto simp: a fifo_of_def fun_eq_iff row_def)
qed

lemma poll_refines:
  assumes wf: "queue_wf (db_queue d)" and ok: "dbOk (E 0)" and "topic \<noteq> []"
    and ex: "queue_exec P E d (Op_poll topic) = (ans, d')"
  shows "queue_spec new canon (\<lambda>i. dbLocked (E 0) (uint i)) (fifo_of d) (Op_poll topic) = (ans, fifo_of d')"
proof -
  let ?busy = "\<lambda>m. dbLocked (E 0) (uint (fst (m :: 64 word \<times> string)))"
  let ?rows = "sort_key mq_id (filter (waits_in topic) (db_queue d))"
  have "queue_candidates (E 0) topic (db_queue d) = filter (\<lambda>r. \<not> dbLocked (E 0) (mq_id r)) ?rows"
    by (simp add: queue_candidates_def filter_sort waits_in_def conj_assoc)
  also have "\<dots> = filter (\<lambda>r. \<not> ?busy (shown_message r)) ?rows"
    using wf by (intro filter_cong) (auto simp: shown_message_def queue_wf_def bigserial_word)
  finally have cand: "find (\<lambda>m. \<not> ?busy m) (fq_waiting (fifo_of d) topic) =
      (case queue_candidates (E 0) topic (db_queue d) of [] \<Rightarrow> None | r # _ \<Rightarrow> Some (shown_message r))"
    by (simp add: find_filter fifo_of_def filter_map comp_def split: list.split)
  show ?thesis
  proof (cases rule: queue_poll_shape[of "E 0" d topic])
    case none
    with ok have "queue_candidates (E 0) topic (db_queue d) = []" by simp
    with cand ex none assms(3) show ?thesis by (auto simp: queueUC_poll_def queue_answer_def)
  next
    case (polled r rs)
    note q = queue_candidates_Cons[OF polled(2)]
    have big: "uint (word_of_int (mq_id r) :: 64 word) = mq_id r"
      using wf q by (auto simp: queue_wf_def bigserial_word)
    have "fifo_of d' = settled (fst (shown_message r)) ''PROCESSING'' (fifo_of d)"
      using fifo_of_settled[OF wf, of r "word_of_int (mq_id r)" "start_processing (dbNow (E 0))" "''PROCESSING''"]
        ex polled(3) q assms(3)
      by (auto simp: queueUC_poll_def shown_message_def big)
    moreover have "ans = (200, Some (shown_message r))"
      using ex polled(3) assms(3)
      by (auto simp: queueUC_poll_def queue_answer_def queueMessageResponse_fromDomain_def
          queue_message_of_row_def shown_message_def)
    ultimately show ?thesis using cand polled(2) assms(3) by simp
  qed
qed

text \<open>Acknowledging and failing are the same statement up to the status.\<close>

lemma status_of_stored:
  "fq_status (fifo_of d) i = None \<longleftrightarrow> (\<forall>r\<in>set (db_queue d). mq_id r \<noteq> uint i)"
  by (auto simp: fifo_of_def find_None_iff)

lemma settle_refines:
  assumes wf: "queue_wf (db_queue d)" and f: "\<And>x. mq_id (f x) = mq_id x" "\<And>x. mq_status (f x) = status" "status \<noteq> ''PENDING''"
  shows "fifo_of (d\<lparr>db_queue := update_where (\<lambda>r. mq_id r = uint i) f (db_queue d)\<rparr>) =
    (if fq_status (fifo_of d) i = None then fifo_of d else settled i status (fifo_of d))"
proof (cases "fq_status (fifo_of d) i = None")
  case True
  then show ?thesis by (simp add: status_of_stored update_where_id)
next
  case False
  then obtain r where "r \<in> set (db_queue d)" "mq_id r = uint i" by (auto simp: status_of_stored)
  show ?thesis
    unfolding if_not_P[OF False] by (rule fifo_of_settled[OF wf \<open>r \<in> _\<close> \<open>mq_id r = _\<close> f])
qed



end
