(* ===== verification/Store_Refinement.thy ===== *)
theory Store_Refinement
  imports Data_Services
begin

text \<open>
  The cache and the document store as abstract machines, refined by their use cases: a map whose
  entries carry their expiry, and a map from collection and id to a text.
\<close>

section \<open>The cache as a map with expiry\<close>

datatype cache_op =
    Op_set set_cache_request
  | Op_get string
  | Op_remove string
  | Op_cleanup

type_synonym expiring_map = "string \<Rightarrow> (string \<times> time) option"

text \<open>An answer: the status code, and the value shown, if any.\<close>

type_synonym store_answer = "int \<times> string option"

text \<open>
  \<open>t\<close> is the clock of the database. An entry stays in the map after its time, unseen by a look-up
  but not by a removal, until it is cleaned up or set again.
\<close>

fun cache_spec :: "time \<Rightarrow> expiring_map \<Rightarrow> cache_op \<Rightarrow> store_answer \<times> expiring_map" where
  "cache_spec t m (Op_set rq) =
     (if sc_key rq = [] then ((400, None), m)
      else ((200, Some (sc_value rq)),
            m(sc_key rq \<mapsto> (sc_value rq, t + seconds (effective_ttl (sc_ttlSeconds rq))))))"
| "cache_spec t m (Op_get k) =
     (if k = [] then ((400, None), m)
      else case m k of
        None \<Rightarrow> ((404, None), m)
      | Some (v, ex) \<Rightarrow> (if t < ex then (200, Some v) else (404, None), m))"
| "cache_spec t m (Op_remove k) =
     (if k = [] then ((400, None), m)
      else if m k = None then ((404, None), m)
      else ((200, None), m(k := None)))"
| "cache_spec t m Op_cleanup =
     ((200, None), \<lambda>k. case m k of None \<Rightarrow> None | Some (v, ex) \<Rightarrow> if t < ex then Some (v, ex) else None)"

definition cache_answer :: "cache_response api_result \<Rightarrow> store_answer" where
  "cache_answer res =
     (case res of
        Err e \<Rightarrow> (err_statusCode e, None)
      | Ok r \<Rightarrow> (r_statusCode r, map_option cr_value (r_data r)))"

definition done_answer :: "unit api_result \<Rightarrow> store_answer" where
  "done_answer res = ((case res of Err e \<Rightarrow> err_statusCode e | Ok r \<Rightarrow> r_statusCode r), None)"

fun cache_exec :: "pg \<Rightarrow> sites \<Rightarrow> db \<Rightarrow> cache_op \<Rightarrow> store_answer \<times> db" where
  "cache_exec P E d (Op_set rq) = (let (res, d') = cacheUC_set P E d rq in (cache_answer res, d'))"
| "cache_exec P E d (Op_get k) = (cache_answer (cacheUC_get E d k), d)"
| "cache_exec P E d (Op_remove k) = (let (res, d') = cacheUC_remove E d k in (done_answer res, d'))"
| "cache_exec P E d Op_cleanup = (let (r, d') = cacheUC_cleanup E d in ((r_statusCode r, None), d'))"

definition cache_of :: "db \<Rightarrow> expiring_map" where
  "cache_of d k = map_option (\<lambda>r. (ck_value r, ck_expires_at r)) (find (\<lambda>r. ck_key r = k) (db_cache d))"

text \<open>
  What an operation needs: no fault, columns that take key and value, and less than a second
  between the two statements of a \<^verbatim>\<open>set\<close>.
\<close>

fun cache_ready :: "pg \<Rightarrow> sites \<Rightarrow> cache_op \<Rightarrow> bool" where
  "cache_ready P E (Op_set rq) \<longleftrightarrow>
     dbOk (E 0) \<and> dbOk (E 1) \<and> dbNow (E 1) < dbNow (E 0) + seconds 1 \<and> cache_storable P (sc_key rq) (sc_value rq)"
| "cache_ready P E _ \<longleftrightarrow> dbOk (E 0)"

lemma cache_live_of:
  assumes "cache_wf (db_cache d)"
  shows "cache_live t d k = (case cache_of d k of Some (v, ex) \<Rightarrow> if t < ex then Some v else None | None \<Rightarrow> None)"
  using assms
  by (auto simp: cache_live_def cache_of_def cache_wf_def find_conj_distinct split: option.split)

lemma cache_of_set:
  assumes "cache_wf (db_cache d)" and "dbOk c" and "cache_storable P k v"
  shows "cache_of (cache_set P c d k v ttl) = (cache_of d)(k \<mapsto> (v, dbNow c + seconds ttl))"
proof (cases "\<exists>r\<in>set (db_cache d). ck_key r = k")
  case True
  then obtain r where "find (\<lambda>r. ck_key r = k) (db_cache d) = Some r"
    by (cases "find (\<lambda>r. ck_key r = k) (db_cache d)") (auto simp: find_None_iff)
  with assms True show ?thesis
    using find_conj_update_where[of ck_key "db_cache d" _ _ "\<lambda>_. True" k]
    by (auto simp: cache_set_def cache_storable_def cache_of_def cache_wf_def fun_eq_iff)
next
  case False
  then have "find (\<lambda>r. ck_key r = k) (db_cache d) = None" by (auto simp: find_None_iff)
  with assms False show ?thesis
    by (auto simp: cache_set_def cache_storable_def cache_of_def find_append fun_eq_iff split: option.split)
qed

lemma cache_of_remove:
  "dbOk c \<Longrightarrow> cache_of (snd (cache_remove c d k)) = (cache_of d)(k := None)"
  using find_conj_delete_where[of ck_key _ "\<lambda>_. True" k "db_cache d"]
  by (auto simp: cache_remove_def cache_of_def fun_eq_iff)

lemma cache_of_cleanup:
  assumes "cache_wf (db_cache d)" and "dbOk c"
  shows "cache_of (snd (cache_cleanupExpired c d)) =
    (\<lambda>k. case cache_of d k of None \<Rightarrow> None | Some (v, ex) \<Rightarrow> if dbNow c < ex then Some (v, ex) else None)"
proof -
  have "find (\<lambda>r. ck_key r = k) (delete_where (\<lambda>r. ck_expires_at r \<le> dbNow c) rows) =
      find (\<lambda>r. ck_key r = k \<and> dbNow c < ck_expires_at r) rows" for k and rows :: "cache_row list"
    by (induction rows) (auto simp: delete_where_def)
  then show ?thesis
    using assms by (auto simp: cache_cleanupExpired_def cache_of_def Let_def fun_eq_iff cache_wf_def
        find_conj_distinct split: option.split)
qed

lemma cache_get_value:
  assumes "cache_wf (db_cache d)" and "dbOk c"
  shows "map_option ce_value (cache_get c d k) =
    (case cache_of d k of Some (v, ex) \<Rightarrow> if dbNow c < ex then Some v else None | None \<Rightarrow> None)"
  using pgc.get_live[of d c k] assms by (simp add: cache_live_of)

text \<open>
  C18. The cache is a map with expiry: while the database answers, every use case does to the stored
  entries what the abstract machine does to its map at the clock of the database, and answers
  with the same status and value. So a look-up after the time to live is a 404 although a removal
  still finds the entry, until a clean-up has dropped it.
\<close>

theorem cache_refines_expiring_map:
  assumes wf: "cache_wf (db_cache d)" and ready: "cache_ready P E opn"
  shows "let (ans, d') = cache_exec P E d opn in
    cache_wf (db_cache d') \<and> cache_spec (dbNow (E 0)) (cache_of d) opn = (ans, cache_of d')"
proof (cases opn)
  case (Op_set rq)
  show ?thesis
  proof (cases "sc_key rq = []")
    case True
    then show ?thesis using wf by (simp add: Op_set cacheUC_set_def cache_answer_def)
  next
    case False
    let ?ttl = "effective_ttl (sc_ttlSeconds rq)"
    let ?d = "cache_set P (E 0) d (sc_key rq) (sc_value rq) ?ttl"
    have r: "dbOk (E 0)" "dbOk (E 1)" "cache_storable P (sc_key rq) (sc_value rq)"
      using ready by (simp_all add: Op_set)
    have "seconds 1 \<le> seconds ?ttl" using effective_ttl_pos[of "sc_ttlSeconds rq"] by (simp add: seconds_def)
    then have t: "dbNow (E 1) < dbNow (E 0) + seconds ?ttl" using ready by (simp add: Op_set)
    note S = cache_of_set[OF wf r(1,3), of ?ttl]
    have "map_option ce_value (cache_get (E 1) ?d (sc_key rq)) = Some (sc_value rq)"
      using cache_get_value[OF cache_set_wf[OF wf] r(2)] t by (simp add: S)
    then obtain entry where "cache_get (E 1) ?d (sc_key rq) = Some entry" "ce_value entry = sc_value rq" by auto
    then have "cache_exec P E d opn = ((200, Some (sc_value rq)), ?d)"
      using False by (simp add: Op_set cacheUC_set_def effective_ttl_def Let_def cache_answer_def cacheResponse_fromDomain_def)
    then show ?thesis using False S cache_set_wf[OF wf] by (simp add: Op_set)
  qed
next
  case (Op_get k)
  note G = cache_get_value[OF wf, of "E 0" k]
  show ?thesis
    using wf ready G
    by (cases "cache_of d k"; cases "cache_get (E 0) d k")
      (auto simp: Op_get cacheUC_get_def cache_answer_def cacheResponse_fromDomain_def split: if_splits)
next
  case (Op_remove k)
  have "affected (\<lambda>r. ck_key r = k) (db_cache d) = 0 \<longleftrightarrow> cache_of d k = None"
    by (auto simp: affected_zero cache_of_def find_None_iff)
  moreover have "fst (cache_remove (E 0) d k) \<longleftrightarrow> 0 < affected (\<lambda>r. ck_key r = k) (db_cache d)"
    using ready by (simp add: Op_remove cache_remove_def)
  ultimately have "fst (cache_remove (E 0) d k) \<longleftrightarrow> cache_of d k \<noteq> None" by (metis gr0I less_nat_zero_code)
  moreover have "(cache_of d)(k := None) = cache_of d" if "cache_of d k = None" using that by auto
  ultimately show ?thesis
    using wf ready cache_of_remove[of "E 0" d k] cache_remove_wf[OF wf, of "E 0" k]
    by (cases "cache_remove (E 0) d k") (auto simp: Op_remove cacheUC_remove_def done_answer_def)
next
  case Op_cleanup
  then show ?thesis
    using wf ready cache_of_cleanup[OF wf, of "E 0"] cache_cleanup_wf[OF wf, of "E 0"]
    by (cases "cache_cleanupExpired (E 0) d") (simp add: cacheUC_cleanup_def)
qed

lemma cache_refines_expiring_map_witness:
  "let rq = \<lparr>sc_key = ''k'', sc_value = ''v'', sc_ttlSeconds = 5\<rparr>;
       (ans, d') = cache_exec demo_pg (\<lambda>_. demo_site 0 [] 0) demo_db (Op_set rq) in
   ans = (200, Some ''v'') \<and> cache_of d' ''k'' = Some (''v'', seconds 5)"
proof -
  let ?rq = "\<lparr>sc_key = ''k'', sc_value = ''v'', sc_ttlSeconds = 5\<rparr>" and ?E = "\<lambda>_ :: nat. demo_site 0 [] 0"
  have wf: "cache_wf (db_cache demo_db)" by (simp add: demo_db_def empty_db_def cache_wf_def)
  have ready: "cache_ready demo_pg ?E (Op_set ?rq)"
    by (simp add: demo_site_def demo_pg_def cache_storable_def seconds_def)
  obtain ans d' where e: "cache_exec demo_pg ?E demo_db (Op_set ?rq) = (ans, d')" by (metis surj_pair)
  have "cache_spec (dbNow (?E 0)) (cache_of demo_db) (Op_set ?rq) = (ans, cache_of d')"
    using cache_refines_expiring_map[where E = ?E, OF wf ready] unfolding e by simp
  then have "ans = (200, Some ''v'')" and "cache_of d' = (cache_of demo_db)(''k'' \<mapsto> (''v'', seconds 5))"
    by (auto simp: effective_ttl_def demo_site_def)
  then show ?thesis unfolding Let_def e by simp
qed

section \<open>The documents as a map\<close>

datatype document_op =
    Op_insert string string
  | Op_find string string
  | Op_replace string string string
  | Op_drop string string

type_synonym document_map = "string \<times> string \<Rightarrow> string option"

type_synonym document_answer = "int \<times> (string \<times> string) option"

text \<open>
  The key is the collection and the id. \<open>new\<close> is the id a new document gets, \<open>canon\<close> how a text
  is stored, \<open>parse\<close> how the id of a request is read. The answer to an insertion shows the text
  as it was sent, the others as it is stored.
\<close>

fun document_spec ::
    "string \<Rightarrow> (string \<Rightarrow> string) \<Rightarrow> (string \<Rightarrow> string option) \<Rightarrow> document_map \<Rightarrow> document_op
     \<Rightarrow> document_answer \<times> document_map" where
  "document_spec new canon parse m (Op_insert coll dat) =
     (if coll = [] \<or> dat = [] then ((400, None), m)
      else ((201, Some (new, dat)), m((coll, new) \<mapsto> canon dat)))"
| "document_spec new canon parse m (Op_find coll i) =
     (if coll = [] \<or> i = [] then ((400, None), m)
      else case Option.bind (parse i) (\<lambda>u. map_option (Pair u) (m (coll, u))) of
        None \<Rightarrow> ((404, None), m)
      | Some doc \<Rightarrow> ((200, Some doc), m))"
| "document_spec new canon parse m (Op_replace coll i dat) =
     (if coll = [] \<or> i = [] \<or> dat = [] then ((400, None), m)
      else case Option.bind (parse i) (\<lambda>u. map_option (Pair u) (m (coll, u))) of
        None \<Rightarrow> ((404, None), m)
      | Some (u, _) \<Rightarrow> ((200, Some (u, canon dat)), m((coll, u) \<mapsto> canon dat)))"
| "document_spec new canon parse m (Op_drop coll i) =
     (if coll = [] \<or> i = [] then ((400, None), m)
      else case Option.bind (parse i) (\<lambda>u. map_option (Pair u) (m (coll, u))) of
        None \<Rightarrow> ((404, None), m)
      | Some (u, _) \<Rightarrow> ((200, None), m((coll, u) := None)))"

definition document_answer :: "document_response api_result \<Rightarrow> document_answer" where
  "document_answer res =
     (case res of
        Err e \<Rightarrow> (err_statusCode e, None)
      | Ok r \<Rightarrow> (r_statusCode r, map_option (\<lambda>x. (dr_id x, dr_data x)) (r_data r)))"

fun document_exec :: "pg \<Rightarrow> sites \<Rightarrow> db \<Rightarrow> document_op \<Rightarrow> document_answer \<times> db" where
  "document_exec P E d (Op_insert coll dat) =
     (let (res, d') = documentUC_create P E d coll dat in (document_answer res, d'))"
| "document_exec P E d (Op_find coll i) = (document_answer (documentUC_getById P E d coll i), d)"
| "document_exec P E d (Op_replace coll i dat) =
     (let (res, d') = documentUC_update P E d coll i dat in (document_answer res, d'))"
| "document_exec P E d (Op_drop coll i) =
     (let (res, d') = documentUC_remove P E d coll i
      in ((case res of Err e \<Rightarrow> err_statusCode e | Ok r \<Rightarrow> r_statusCode r, None), d'))"

definition documents_of :: "db \<Rightarrow> document_map" where
  "documents_of d = (\<lambda>(c, u). map_option dc_data (find (in_collection c u) (db_documents d)))"

text \<open>What an operation needs: no fault, a fresh id, a column that takes the name, valid JSON.\<close>

fun document_ready :: "pg \<Rightarrow> site \<Rightarrow> db \<Rightarrow> document_op \<Rightarrow> bool" where
  "document_ready P c d (Op_insert coll dat) \<longleftrightarrow>
     site_ok P c \<and> dbOk c \<and> (\<forall>r\<in>set (db_documents d). dc_id r \<noteq> dbUuid c) \<and>
     pg_varchar P 100 coll = Some coll \<and> pg_jsonb P dat \<noteq> None"
| "document_ready P c d (Op_replace coll i dat) \<longleftrightarrow> dbOk c \<and> pg_jsonb P dat \<noteq> None"
| "document_ready P c d _ \<longleftrightarrow> dbOk c"

text \<open>Reading an id and looking it up, in the table and in the map.\<close>

definition document_at :: "pg \<Rightarrow> db \<Rightarrow> string \<Rightarrow> string \<Rightarrow> (string \<times> string) option" where
  "document_at P d coll i = Option.bind (pg_uuid P i) (\<lambda>u. map_option (Pair u) (documents_of d (coll, u)))"

lemma document_at_None:
  "document_at P d coll i = None \<longleftrightarrow>
     (\<forall>u. pg_uuid P i = Some u \<longrightarrow> find (in_collection coll u) (db_documents d) = None)"
  by (cases "pg_uuid P i") (auto simp: document_at_def documents_of_def)

lemma document_at_Some:
  "document_at P d coll i = Some (u, j) \<longleftrightarrow>
     pg_uuid P i = Some u \<and> (\<exists>r. find (in_collection coll u) (db_documents d) = Some r \<and> dc_data r = j)"
  by (cases "pg_uuid P i") (auto simp: document_at_def documents_of_def)

lemma documents_of_update:
  assumes f: "\<And>r. dc_id (f r) = dc_id r" "\<And>r. dc_collection_name (f r) = dc_collection_name r" "\<And>r. dc_data (f r) = j"
  shows "documents_of (d\<lparr>db_documents := update_where (in_collection coll u) f (db_documents d)\<rparr>) =
    (if documents_of d (coll, u) = None then documents_of d else (documents_of d)((coll, u) \<mapsto> j))"
proof -
  have found: "find (in_collection c v) (update_where p f rows) =
      map_option (\<lambda>r. if p r then f r else r) (find (in_collection c v) rows)" for c v p rows
    by (rule find_update_where) (simp add: in_collection_def f)
  have hit: "in_collection coll u r \<longleftrightarrow> (c, v) = (coll, u)"
    if "find (in_collection c v) (db_documents d) = Some r" for c v r
    using find_SomeD[OF that] by (auto simp: in_collection_def)
  have "documents_of (d\<lparr>db_documents := update_where (in_collection coll u) f (db_documents d)\<rparr>) (c, v) =
      (if (c, v) = (coll, u) \<and> documents_of d (coll, u) \<noteq> None then Some j else documents_of d (c, v))" for c v
    using hit f(3)
    by (cases "find (in_collection c v) (db_documents d)") (auto simp: documents_of_def found)
  then show ?thesis by (auto simp: fun_eq_iff)
qed

lemma documents_of_delete:
  "documents_of (d\<lparr>db_documents := delete_where (in_collection coll u) (db_documents d)\<rparr>) =
     (documents_of d)((coll, u) := None)"
proof -
  have "in_collection c v r \<Longrightarrow> in_collection coll u r \<longleftrightarrow> (c, v) = (coll, u)" for c v r
    by (auto simp: in_collection_def)
  then have "find (in_collection c v) (delete_where (in_collection coll u) rows) =
      (if (c, v) = (coll, u) then None else find (in_collection c v) rows)" for c v and rows :: "document_row list"
    by (induction rows) (auto simp: delete_where_def)
  then show ?thesis by (auto simp: documents_of_def fun_eq_iff)
qed

text \<open>One lemma for each use case, all of this form.\<close>

definition document_refined :: "pg \<Rightarrow> sites \<Rightarrow> db \<Rightarrow> document_op \<Rightarrow> bool" where
  "document_refined P E d opn \<longleftrightarrow>
     (let (ans, d') = document_exec P E d opn in
        documents_wf P (db_documents d') \<and>
        document_spec (dbUuid (E 0)) (\<lambda>s. the (pg_jsonb P s)) (pg_uuid P) (documents_of d) opn = (ans, documents_of d'))"

lemma insert_refined:
  assumes wf: "documents_wf P (db_documents d)" and ready: "document_ready P (E 0) d (Op_insert coll dat)"
  shows "document_refined P E d (Op_insert coll dat)"
proof (cases "coll = [] \<or> dat = []")
  case True
  then show ?thesis using wf by (auto simp: document_refined_def documentUC_create_def document_answer_def)
next
  case False
  obtain j where j: "pg_jsonb P dat = Some j" using ready by auto
  let ?row = "\<lparr>dc_id = dbUuid (E 0), dc_collection_name = coll, dc_data = j,
      dc_created_at = dbNow (E 0), dc_updated_at = dbNow (E 0)\<rparr>"
  have fresh: "find (in_collection c (dbUuid (E 0))) (db_documents d) = None" for c
    using ready by (auto simp: find_None_iff in_collection_def)
  have "documents_of (d\<lparr>db_documents := db_documents d @ [?row]\<rparr>) =
      (documents_of d)((coll, dbUuid (E 0)) \<mapsto> j)"
    using fresh by (auto simp: documents_of_def fun_eq_iff find_append in_collection_def split: option.split)
  moreover have "documents_wf P (db_documents d @ [?row])"
    using documents_insert_wf[OF wf, of "E 0" coll dat] ready j by (auto simp: documents_insert_def)
  ultimately show ?thesis
    using False ready j
    by (auto simp: document_refined_def documentUC_create_def documents_insert_def document_answer_def
        documentResponse_fromDomain_def)
qed

lemma find_refined:
  assumes wf: "documents_wf P (db_documents d)" and ready: "dbOk (E 0)"
  shows "document_refined P E d (Op_find coll i)"
proof (cases "document_at P d coll i")
  case None
  then have "documents_findById P (E 0) d coll i = None"
    using ready by (auto simp: documents_findById_def document_at_None split: option.split)
  with None wf show ?thesis
    by (auto simp: document_refined_def documentUC_getById_def document_answer_def document_at_def split: option.splits)
next
  case (Some doc)
  obtain u j where doc: "doc = (u, j)" by force
  with Some obtain r where r: "pg_uuid P i = Some u" "find (in_collection coll u) (db_documents d) = Some r" "dc_data r = j"
    by (auto simp: document_at_Some)
  then have "dc_id r = u" by (auto dest: find_SomeD simp: in_collection_def)
  with Some doc r wf ready show ?thesis
    by (auto simp: document_refined_def documentUC_getById_def documents_findById_def document_answer_def
        document_of_row_def documentResponse_fromDomain_def documents_of_def)
qed

lemma replace_refined:
  assumes wf: "documents_wf P (db_documents d)" and ready: "document_ready P (E 0) d (Op_replace coll i dat)"
  shows "document_refined P E d (Op_replace coll i dat)"
proof -
  obtain j where j: "pg_jsonb P dat = Some j" using ready by auto
  let ?f = "\<lambda>r. r\<lparr>dc_data := j, dc_updated_at := dbNow (E 0)\<rparr>"
  have U: "documents_of (d\<lparr>db_documents := update_where (in_collection coll u) ?f (db_documents d)\<rparr>) =
      (if documents_of d (coll, u) = None then documents_of d else (documents_of d)((coll, u) \<mapsto> j))" for u
    by (rule documents_of_update) simp_all
  have found: "find (in_collection coll u) (update_where p ?f rows) =
      map_option (\<lambda>r. if p r then ?f r else r) (find (in_collection coll u) rows)" for u p and rows :: "document_row list"
    by (rule find_update_where) (simp add: in_collection_def)
  note W = documents_update_wf[OF wf, of "E 0" coll i dat]
  show ?thesis
  proof (cases "document_at P d coll i")
    case None
    with wf ready j W U show ?thesis
      by (cases "pg_uuid P i")
        (auto simp: document_refined_def documentUC_update_def documents_update_def document_answer_def document_at_def
          documents_of_def found Let_def)
  next
    case (Some doc)
    obtain u j' where doc: "doc = (u, j')" by force
    with Some obtain r where r: "pg_uuid P i = Some u" "find (in_collection coll u) (db_documents d) = Some r" "dc_data r = j'"
      by (auto simp: document_at_Some)
    then have "in_collection coll u r" "dc_id r = u" by (auto dest: find_SomeD simp: in_collection_def)
    with Some doc r wf ready j W U show ?thesis
      by (auto simp: document_refined_def documentUC_update_def documents_update_def document_answer_def
          document_of_row_def documentResponse_fromDomain_def documents_of_def found Let_def)
  qed
qed

lemma drop_refined:
  assumes wf: "documents_wf P (db_documents d)" and ready: "dbOk (E 0)"
  shows "document_refined P E d (Op_drop coll i)"
proof (cases "pg_uuid P i")
  case None
  with wf ready show ?thesis by (auto simp: document_refined_def documentUC_remove_def documents_remove_def)
next
  case (Some u)
  have "0 < affected (in_collection coll u) (db_documents d) \<longleftrightarrow> documents_of d (coll, u) \<noteq> None"
    by (auto simp: affected_pos documents_of_def find_None_iff)
  moreover have "(documents_of d)((coll, u) := None) = documents_of d" if "documents_of d (coll, u) = None"
    using that by (auto simp: fun_eq_iff)
  moreover note documents_remove_wf[OF wf, of "E 0" coll i] documents_of_delete[where d = d and coll = coll and u = u]
  ultimately show ?thesis
    using Some wf ready
    by (auto simp: document_refined_def documentUC_remove_def documents_remove_def Let_def)
qed

text \<open>
  C19. The document store is a map: while the database answers, ids are fresh and texts are JSON,
  every use case on one document does to the stored documents what the abstract machine does to
  a map from collection and id, and answers with the same status, id and text; a document is
  found, replaced and dropped in its own collection only.
\<close>

theorem documents_refine_map:
  assumes wf: "documents_wf P (db_documents d)" and ready: "document_ready P (E 0) d opn"
  shows "let (ans, d') = document_exec P E d opn in
    documents_wf P (db_documents d') \<and>
    document_spec (dbUuid (E 0)) (\<lambda>s. the (pg_jsonb P s)) (pg_uuid P) (documents_of d) opn = (ans, documents_of d')"
proof -
  have "document_refined P E d opn"
    using assms by (cases opn) (simp_all add: insert_refined find_refined replace_refined drop_refined)
  then show ?thesis by (simp only: document_refined_def)
qed

lemma documents_refine_map_witness:
  "let (ans, d') = document_exec demo_pg (\<lambda>_. demo_site 0 ''id'' 0) demo_db (Op_insert ''c'' ''{}'') in
   ans = (201, Some (''id'', ''{}'')) \<and> documents_of d' (''c'', ''id'') = Some ''{}''"
proof -
  let ?E = "\<lambda>_ :: nat. demo_site 0 ''id'' 0" and ?op = "Op_insert ''c'' ''{}''"
  have wf: "documents_wf demo_pg (db_documents demo_db)" by (simp add: demo_db_def empty_db_def documents_wf_def)
  have ready: "document_ready demo_pg (?E 0) demo_db ?op"
    by (simp add: demo_db_def empty_db_def demo_site_def demo_pg_def site_ok_def)
  obtain ans d' where e: "document_exec demo_pg ?E demo_db ?op = (ans, d')" by (metis surj_pair)
  have "document_spec (dbUuid (?E 0)) (\<lambda>s. the (pg_jsonb demo_pg s)) (pg_uuid demo_pg) (documents_of demo_db) ?op =
      (ans, documents_of d')"
    using documents_refine_map[where E = ?E, OF wf ready] unfolding e by simp
  then have "ans = (201, Some (''id'', ''{}''))" and "documents_of d' = (documents_of demo_db)((''c'', ''id'') \<mapsto> ''{}'')"
    by (auto simp: demo_site_def demo_pg_def)
  then show ?thesis unfolding Let_def e by simp
qed

end
