(* ===== verification/Answer_Codes.thy ===== *)
theory Answer_Codes
  imports Server
begin

text \<open>
  Which HTTP codes the server answers. Every use case has one code of success and refuses with
  codes from 400 on; so has every route, for the services that \<^verbatim>\<open>main\<close> wires together. What
  Crow answers when a handler throws is not part of the program.
\<close>

named_theorems answer_codes

section \<open>Parsers\<close>

text \<open>\<open>refuses p\<close>: every error that \<open>p\<close> reports has the code of a refusal.\<close>

definition refuses :: "'a dresult outcome \<Rightarrow> bool" where
  "refuses p \<longleftrightarrow> (\<forall>e. p = Return (Err e) \<longrightarrow> 400 \<le> err_statusCode e)"

lemma refuses_simps [simp]: "refuses Throw" "refuses (Return (Ok v))"
  "refuses (Return (Err e)) \<longleftrightarrow> 400 \<le> err_statusCode e" "refuses (bad_request m ds)"
  by (simp_all add: refuses_def bad_request_def)

lemma refuses_obind [answer_codes]: "(\<And>x. m = Return x \<Longrightarrow> refuses (f x)) \<Longrightarrow> refuses (obind m f)"
  by (cases m) simp_all

lemma refuses_with_json [answer_codes]: "(\<And>j. refuses (k j)) \<Longrightarrow> refuses (with_json J body x y k)"
  by (simp add: with_json_def split: option.split)

lemma refuses_Let [answer_codes]: "refuses (f x) \<Longrightarrow> refuses (Let x f)"
  by simp

lemma refuses_if [answer_codes]: "(b \<Longrightarrow> refuses p) \<Longrightarrow> (\<not> b \<Longrightarrow> refuses q) \<Longrightarrow> refuses (if b then p else q)"
  by simp

lemma refuses_option [answer_codes]:
  "(x = None \<Longrightarrow> refuses p) \<Longrightarrow> (\<And>y. x = Some y \<Longrightarrow> refuses (q y)) \<Longrightarrow> refuses (case x of None \<Rightarrow> p | Some y \<Rightarrow> q y)"
  by (cases x) simp_all

lemma refuses_pair [answer_codes]: "(\<And>a b. x = (a, b) \<Longrightarrow> refuses (p a b)) \<Longrightarrow> refuses (case x of (a, b) \<Rightarrow> p a b)"
  by (cases x) simp

lemma refuses_parsers:
  "refuses (parseCreateTodoRequest J body)" "refuses (parseUpdateTodoRequest J body)"
  "refuses (parseSetCacheRequest J body)" "refuses (parsePublishMessageRequest J body)"
  "refuses (parsePollMessageRequest J body)" "refuses (parseCreateDocumentRequest J coll body)"
  "refuses (parseQueryDocumentRequest J coll body)" "refuses (parseRegisterRequest J body)"
  "refuses (parseLoginRequest J body)" "refuses (parseGoogleLoginRequest J body)"
  "refuses (parseSetPasswordRequest J body)" "refuses (parseRefreshTokenRequest J body)"
  unfolding parseCreateTodoRequest_def parseUpdateTodoRequest_def parseSetCacheRequest_def
    parsePublishMessageRequest_def parsePollMessageRequest_def parseCreateDocumentRequest_def
    parseQueryDocumentRequest_def parseRegisterRequest_def parseLoginRequest_def
    parseGoogleLoginRequest_def parseSetPasswordRequest_def parseRefreshTokenRequest_def
  by (intro answer_codes; simp)+

section \<open>Use cases\<close>

definition answers :: "int \<Rightarrow> 'a api_result \<Rightarrow> bool" where
  "answers c r \<longleftrightarrow> (case r of Ok v \<Rightarrow> r_statusCode v = c | Err e \<Rightarrow> 400 \<le> err_statusCode e)"

lemma answers_simps [simp]:
  "answers c (Ok v) \<longleftrightarrow> r_statusCode v = c" "answers c (Err e) \<longleftrightarrow> 400 \<le> err_statusCode e"
  by (simp_all add: answers_def)

lemma validators_refuse:
  "validateRegister r = Err e \<Longrightarrow> err_statusCode e = 400" "validateLogin l = Err e \<Longrightarrow> err_statusCode e = 400"
  "validateRefreshToken t = Err e \<Longrightarrow> err_statusCode e = 400" "validateCreate cr = Err e \<Longrightarrow> err_statusCode e = 400"
  "validateUpdate ur = Err e \<Longrightarrow> err_statusCode e = 400"
  by (auto simp: validateRegister_def validateLogin_def validateRefreshToken_def validateCreate_def
      validateUpdate_def Let_def split: if_splits)

lemma todo_answers:
  "answers 201 (fst (createTodo repo E s cr))" "answers 200 (getTodoById repo E s i)"
  "r_statusCode (listTodos repo E s flt) = 200" "answers 200 (fst (updateTodo repo E s i ur))"
  "answers 200 (fst (deleteTodo repo E s i))"
  by (auto simp: createTodo_def getTodoById_def listTodos_def updateTodo_def deleteTodo_def Let_def
      api_ok_def api_void_ok_def case_prod_beta validators_refuse split: result.split option.split)

lemma cache_answers:
  "answers 200 (fst (cacheUC_set P E d sr))" "answers 200 (cacheUC_get E d key)"
  "answers 200 (fst (cacheUC_remove E d key))" "r_statusCode (fst (cacheUC_cleanup E d)) = 200"
  by (auto simp: cacheUC_set_def cacheUC_get_def cacheUC_remove_def cacheUC_cleanup_def Let_def
      api_ok_def api_void_ok_def case_prod_beta split: option.split)

lemma queue_answers:
  "answers 201 (fst (queueUC_publish P E d topic payload))" "answers 200 (fst (queueUC_poll E d topic))"
  "answers 200 (fst (queueUC_acknowledge E d i))" "answers 200 (fst (queueUC_fail E d i))"
  "r_statusCode (queueUC_getMetrics P E d) = 200"
  by (auto simp: queueUC_publish_def queueUC_poll_def queueUC_acknowledge_def queueUC_fail_def
      queueUC_getMetrics_def Let_def api_ok_def api_void_ok_def case_prod_beta split: option.split)

lemma document_answers:
  "answers 201 (fst (documentUC_create P E d coll dat))" "answers 200 (documentUC_getById P E d coll i)"
  "answers 200 (documentUC_query P mv E d coll flt)" "answers 200 (fst (documentUC_update P E d coll i dat))"
  "answers 200 (fst (documentUC_remove P E d coll i))"
  by (auto simp: documentUC_create_def documentUC_getById_def documentUC_query_def
      documentUC_update_def documentUC_remove_def Let_def api_ok_def api_void_ok_def case_prod_beta
      split: option.split)

lemma session_answers:
  "answers 200 (getUserSessions P E d uid sid)" "answers 200 (fst (revokeUserSession P E d uid sid ip ua))"
  "answers 200 (getAdminSessions P E d adm lim off fu fs fi)"
  "answers 200 (fst (revokeAdminSession P E d adm sid rsn ip ua))"
  "answers 200 (fst (revokeAllUserSessionsAdmin P E d adm uid rsn ip ua))"
  by (auto simp: getUserSessions_def revokeUserSession_def getAdminSessions_def revokeAdminSession_def
      revokeAllUserSessionsAdmin_def Let_def api_ok_def api_void_ok_def case_prod_beta forbidden_def
      split: option.split)

lemma account_answers:
  "answers 201 (fst (registerUser P S E d rr))" "answers 200 (fst (setPassword P S E d uid pw))"
  "answers 200 (fst (logout P E d sid uid ip ua))" "answers 200 (fst (logoutAll P E d uid ip ua))"
  "answers 200 (fst (issue_session P S E d usr now life ip ua dev client event rsn msg))"
  "answers 200 (fst (getGoogleAuthUrl P S E d st))"
  by (auto simp: registerUser_def setPassword_def logout_def logoutAll_def issue_session_def
      getGoogleAuthUrl_def session_error_def Let_def api_ok_def api_created_def api_void_ok_def
      case_prod_beta validators_refuse split: result.split option.split)

lemma refresh_answers: "answers 200 (fst (refresh P S E d tok ip ua))"
  by (auto simp: refresh_def refresh_rotate_def refresh_401_def Let_def api_ok_def case_prod_beta
      validators_refuse split: result.split option.split)

lemma login_answers: "login P S E d rq ip ua dev client = Return rd \<Longrightarrow> answers 200 (fst rd)"
  by (auto simp: login_def login_issue_def login_check_def Let_def validators_refuse
      invalid_credentials_def google_only_def account_answers
      split: outcome.splits result.splits option.splits if_splits bool.splits)

lemma google_account_refuses: "fst (google_account P E d info ip ua) = Err e \<Longrightarrow> 400 \<le> err_statusCode e"
  by (auto simp: google_account_def Let_def case_prod_beta split: option.splits if_splits)

lemma refuses_google [answer_codes]: "400 \<le> c \<Longrightarrow> refuses (google_refused m c x)"
  by (simp add: google_refused_def)

lemma google_service_refuses:
  "refuses (parseAndValidateTokenClaims J cfg now payload)" "refuses (verifyIdToken J cfg os now tok)"
  "refuses (exchangeAuthCode J cfg os now code verifier)"
proof -
  show parse: "refuses (parseAndValidateTokenClaims J cfg now payload)" for payload
    unfolding parseAndValidateTokenClaims_def by (intro answer_codes; simp)+
  show verify: "refuses (verifyIdToken J cfg os now tok)" for tok
    unfolding verifyIdToken_def
    by (auto simp: parse intro!: refuses_google split: option.split)
  show "refuses (exchangeAuthCode J cfg os now code verifier)"
    unfolding exchangeAuthCode_def Let_def
    by (auto simp: verify intro!: refuses_google refuses_obind split: option.split)
qed

lemma google_identity_refuses:
  "refuses (fst (google_identity (googleAuthService K J cfg os now) hc E d rq))"
  by (auto simp: google_identity_steps googleAuthService_def google_service_refuses Let_def case_prod_beta
      split: option.split)

lemma google_answers:
  assumes "loginWithGoogle P (core_services K J km cfg os t0) E d rq ip ua = (Return res, d')"
  shows "answers 200 res"
proof -
  let ?g = "google_identity (googleAuthService K J cfg os t0) True E d rq"
  have g: "fst ?g = Return (Err e) \<Longrightarrow> 400 \<le> err_statusCode e" for e
    using google_identity_refuses[of K J cfg os t0 True E d rq] by (simp add: refuses_def)
  show ?thesis
    using assms g account_answers(5) google_account_refuses
    by (auto simp: loginWithGoogle_def core_services_def Let_def case_prod_beta google_issue_def
        split: outcome.splits result.splits option.splits if_splits prod.splits)
qed

lemma guard_refuses: "refuses (extractAuthenticatedUser P (core_services K J km cfg os t0) E d header)"
  unfolding refuses_def using guard_401 by fastforce

section \<open>Handlers\<close>

definition answers_with :: "int \<Rightarrow> 'j handled \<Rightarrow> bool" where
  "answers_with c h \<longleftrightarrow> (case fst h of Throw \<Rightarrow> True | Return resp \<Rightarrow> hr_code resp = c \<or> 400 \<le> hr_code resp)"

lemma success_codes [simp]: "hr_code (success_todo x1) = r_statusCode x1"
  "hr_code (success_todos x2) = r_statusCode x2" "hr_code (success_health x3) = r_statusCode x3"
  "hr_code (success_void x4) = r_statusCode x4" "hr_code (success_cache x5) = r_statusCode x5"
  "hr_code (success_count x6) = r_statusCode x6" "hr_code (success_queue_message J x7) = r_statusCode x7"
  "hr_code (success_queue_metrics x8) = r_statusCode x8" "hr_code (success_document J x9) = r_statusCode x9"
  "hr_code (success_documents J xa) = r_statusCode xa" "hr_code (success_register xb) = r_statusCode xb"
  "hr_code (success_token xc) = r_statusCode xc" "hr_code (success_sessions xd) = r_statusCode xd"
  "hr_code (success_google_url xe) = r_statusCode xe"
  by (simp_all add: success_todo_def success_todos_def success_health_def success_void_def
      success_cache_def success_count_def success_queue_message_def success_queue_metrics_def
      success_document_def success_documents_def success_register_def success_token_def
      success_sessions_def success_google_url_def success_envelope_def)

lemma answers_with_answered:
  assumes "answers c (fst rd)" and "\<And>v. hr_code (ok v) = r_statusCode v"
  shows "answers_with c (answered E ok rd)"
  using assms by (auto simp: answers_with_def answered_def answer_def split: result.split)

lemma answers_with_require:
  assumes "refuses p" and "\<And>v. p = Return (Ok v) \<Longrightarrow> answers_with c (k v)"
  shows "answers_with c (require E d p k)"
  using assms by (auto simp: answers_with_def require_def refuses_def split: outcome.split result.split)

lemma answers_with_refuse: "400 \<le> code \<Longrightarrow> answers_with c (refuse E d code m ds)"
  by (simp add: answers_with_def refuse_def error_response_def)

lemma answers_with_Throw [simp]: "answers_with c (Throw, d)"
  by (simp add: answers_with_def)

lemma answers_with_guarded:
  assumes "app_services A = core_services K J km cfg os t0" and "\<And>u. answers_with c (k u)"
  shows "answers_with c (guarded A E d rq k)"
  unfolding guarded_def assms(1) by (rule answers_with_require[OF guard_refuses assms(2)])

lemma answers_with_admin:
  assumes "app_services A = core_services K J km cfg os t0" and "\<And>u. answers_with c (k u)"
  shows "answers_with c (with_admin A E d rq k)"
  unfolding with_admin_def using assms
  by (auto intro!: answers_with_guarded answers_with_refuse split: option.split)

lemma answers_with_google:
  assumes "\<And>res d'. rd = (Return res, d') \<Longrightarrow> answers 200 res"
  shows "answers_with 200 (google_answered E rd)"
  using assms by (cases rd) (auto simp: google_answered_def intro: answers_with_answered split: outcome.split)

text \<open>The code of success of each route.\<close>

fun success_code :: "endpoint \<Rightarrow> int" where
  "success_code R_register = 201"
| "success_code R_createTodo = 201"
| "success_code R_publish = 201"
| "success_code (R_createDocument _) = 201"
| "success_code _ = 200"

lemmas answers_intros =
  answers_with_require answers_with_answered answers_with_refuse

lemma data_handlers_code:
  "answers_with 200 (todo_getAll A E d rq)" "answers_with 200 (todo_getById A E d i)"
  "answers_with 201 (todo_create A E d rq)" "answers_with 200 (todo_update A E d i rq)"
  "answers_with 200 (todo_remove A E d i)" "answers_with 200 (cache_getKey E d key)"
  "answers_with 200 (cache_setKey A E d rq)" "answers_with 200 (cache_removeKey E d key)"
  "answers_with 200 (cache_cleanupAll E d)" "answers_with 201 (queueC_publish A E d rq)"
  "answers_with 200 (queueC_poll A E d rq)" "answers_with 200 (queueC_acknowledge E d i)"
  "answers_with 200 (queueC_fail E d i)" "answers_with 200 (queueC_getMetrics A E d)"
  "answers_with 201 (documentC_create A E d coll rq)" "answers_with 200 (documentC_getById A E d coll k)"
  "answers_with 200 (documentC_query A E d coll rq)" "answers_with 200 (documentC_update A E d coll k rq)"
  "answers_with 200 (documentC_remove A E d coll k)"
  unfolding todo_getAll_def todo_getById_def todo_create_def todo_update_def todo_remove_def
    cache_getKey_def cache_setKey_def cache_removeKey_def cache_cleanupAll_def queueC_publish_def
    queueC_poll_def queueC_acknowledge_def queueC_fail_def queueC_getMetrics_def documentC_create_def
    documentC_getById_def documentC_query_def documentC_update_def documentC_remove_def
    todo_repo_def invalid_id_def
  by (auto simp: refuses_parsers todo_answers cache_answers queue_answers document_answers
      case_prod_beta Let_def answers_with_def[of _ "(Return _, _)"] intro!: answers_intros
      split: option.split)

lemma auth_handlers_code:
  assumes "app_services A = core_services K J km cfg os t0"
  shows "answers_with 201 (auth_registerUser A E d rq)" "answers_with 200 (auth_login A E d rq)"
    "answers_with 200 (auth_googleLogin A E d rq)" "answers_with 200 (auth_getGoogleAuthUrl A E d rq)"
    "answers_with 200 (auth_googleCallback A E d rq)" "answers_with 200 (auth_setPassword A E d rq)"
    "answers_with 200 (auth_refresh A E d rq)" "answers_with 200 (auth_logout A E d rq)"
    "answers_with 200 (auth_logoutAll A E d rq)"
proof -
  note G = answers_with_guarded[OF assms] and D = account_answers refresh_answers refuses_parsers
  show "answers_with 201 (auth_registerUser A E d rq)" "answers_with 200 (auth_getGoogleAuthUrl A E d rq)"
    "answers_with 200 (auth_refresh A E d rq)"
    by (auto simp: auth_registerUser_def auth_getGoogleAuthUrl_def auth_refresh_def D Let_def
        intro!: answers_intros)
  show "answers_with 200 (auth_setPassword A E d rq)" "answers_with 200 (auth_logout A E d rq)"
    "answers_with 200 (auth_logoutAll A E d rq)"
    by (auto simp: auth_setPassword_def auth_logout_def auth_logoutAll_def D intro!: G answers_intros)
  show "answers_with 200 (auth_login A E d rq)"
    by (auto simp: auth_login_def D intro!: answers_intros dest: login_answers split: outcome.split)
  show "answers_with 200 (auth_googleLogin A E d rq)" "answers_with 200 (auth_googleCallback A E d rq)"
    by (auto simp: auth_googleLogin_def auth_googleCallback_def assms D Let_def
        intro!: answers_with_google google_answers answers_intros split: option.split list.split)
qed

lemma session_handlers_code:
  assumes "app_services A = core_services K J km cfg os t0"
  shows "answers_with 200 (session_getSessions A E d rq)" "answers_with 200 (session_revokeSession A E d rq sid)"
    "answers_with 200 (admin_getSessions A E d rq)" "answers_with 200 (admin_revokeSession A E d rq sid)"
    "answers_with 200 (admin_revokeAllUserSessions A E d rq uid)"
  unfolding session_getSessions_def session_revokeSession_def admin_getSessions_def
    admin_revokeSession_def admin_revokeAllUserSessions_def Let_def
  by (auto simp: session_answers intro!: answers_with_guarded[OF assms] answers_with_admin[OF assms]
      answers_with_answered split: outcome.split)

lemma handle_code:
  assumes "app_services A = core_services K J km cfg os t0"
  shows "answers_with (success_code e) (handle A E d e rq)"
  using auth_handlers_code[OF assms] session_handlers_code[OF assms]
  by (cases e) (simp_all add: data_handlers_code, simp_all add: answers_with_def getOpenApiJson_def
      getSwaggerUi_def auth_getJwks_def getHealth_def Let_def)

end
