(* ===== verification/Api_Contract.thy ===== *)
theory Api_Contract
  imports Answer_Codes OpenApi
begin

text \<open>
  What the API description promises, compared with what the router and the handlers do: the
  operations it lists, which of them ask for a token, which answers it names, and which
  fields and parameters it says are read.
\<close>

section \<open>The operations of the description\<close>

fun doc_members :: "json_doc \<Rightarrow> (string \<times> json_doc) list" where
  "doc_members (J_obj l kvs) = kvs"
| "doc_members _ = []"

fun doc_elements :: "json_doc \<Rightarrow> json_doc list" where
  "doc_elements (J_list l ds) = ds"
| "doc_elements _ = []"

fun doc_text :: "json_doc \<Rightarrow> string" where
  "doc_text (J_str s) = s"
| "doc_text _ = []"

definition doc_field :: "json_doc \<Rightarrow> string \<Rightarrow> json_doc" where
  "doc_field d k = (case map_of (doc_members d) k of Some x \<Rightarrow> x | None \<Rightarrow> J_obj Inline [])"

definition doc_has :: "json_doc \<Rightarrow> string \<Rightarrow> bool" where
  "doc_has d k \<longleftrightarrow> map_of (doc_members d) k \<noteq> None"

record api_operation =
  op_method :: http_method
  op_path :: string
  op_codes :: "int list"
  op_secured :: bool
  op_query :: "string list"
  op_required :: "string list"

definition method_named :: "string \<Rightarrow> http_method" where
  "method_named s =
     (if s = ''get'' then GET else if s = ''post'' then POST else if s = ''put'' then PUT else DELETE)"

definition params_in :: "string \<Rightarrow> json_doc \<Rightarrow> json_doc list" where
  "params_in place d = filter (\<lambda>p. doc_text (doc_field p ''in'') = place) (doc_elements (doc_field d ''parameters''))"

text \<open>
  A path with its parameters in braces, in the notation of Crow's rules: an \<^verbatim>\<open>integer\<close> is
  matched by \<^verbatim>\<open><uint>\<close>, a \<^verbatim>\<open>string\<close> by \<^verbatim>\<open><string>\<close>.
\<close>

definition crow_segment :: "json_doc \<Rightarrow> string \<Rightarrow> string" where
  "crow_segment d seg =
     (if seg \<noteq> [] \<and> hd seg = CHR ''{'' then
        (case find (\<lambda>p. doc_text (doc_field p ''name'') = butlast (tl seg)) (params_in ''path'' d) of
           None \<Rightarrow> []
         | Some p \<Rightarrow>
             if doc_text (doc_field (doc_field p ''schema'') ''type'') = ''integer'' then ''<uint>''
             else ''<string>'')
      else seg)"

definition operation_of :: "string \<Rightarrow> string \<times> json_doc \<Rightarrow> api_operation" where
  "operation_of path kd =
     (let d = snd kd;
          schema = doc_field (doc_field (doc_field (doc_field d ''requestBody'') ''content'')
                     ''application/json'') ''schema''
      in \<lparr>op_method = method_named (fst kd),
          op_path = join ''/'' (map (crow_segment d) (split_on (CHR ''/'') path)),
          op_codes = map (\<lambda>kr. int (digits_value (fst kr))) (doc_members (doc_field d ''responses'')),
          op_secured = doc_has d ''security'',
          op_query = map (\<lambda>p. doc_text (doc_field p ''name'')) (params_in ''query'' d),
          op_required = map doc_text (doc_elements (doc_field schema ''required''))\<rparr>)"

definition operations_of :: "(string \<times> json_doc) list \<Rightarrow> api_operation list" where
  "operations_of paths =
     concat (map (\<lambda>pd. map (operation_of (fst pd)) (doc_members (snd pd))) paths)"

definition api_operations :: "api_operation list" where
  "api_operations = operations_of openapi_paths"

lemma operations_of_append [simp]: "operations_of (xs @ ys) = operations_of xs @ operations_of ys"
  by (simp add: operations_of_def)

section \<open>The description, evaluated\<close>

lemma operations_health:
  "operations_of openapi_health =
    [\<lparr>op_method = GET, op_path = ''/api/health'', op_codes = [200],
      op_secured = False, op_query = [], op_required = []\<rparr>]"
  by code_simp

lemma operations_todos:
  "operations_of openapi_todos =
    [\<lparr>op_method = GET, op_path = ''/api/todos'', op_codes = [200],
      op_secured = False, op_query = [''completed''], op_required = []\<rparr>,
     \<lparr>op_method = POST, op_path = ''/api/todos'', op_codes = [201, 400],
      op_secured = False, op_query = [], op_required = [''title'']\<rparr>,
     \<lparr>op_method = GET, op_path = ''/api/todos/<uint>'', op_codes = [200, 404],
      op_secured = False, op_query = [], op_required = []\<rparr>,
     \<lparr>op_method = PUT, op_path = ''/api/todos/<uint>'', op_codes = [200, 404],
      op_secured = False, op_query = [], op_required = []\<rparr>,
     \<lparr>op_method = DELETE, op_path = ''/api/todos/<uint>'', op_codes = [200, 404],
      op_secured = False, op_query = [], op_required = []\<rparr>]"
  by code_simp

lemma operations_cache:
  "operations_of openapi_cache =
    [\<lparr>op_method = GET, op_path = ''/api/cache/<string>'', op_codes = [200, 404],
      op_secured = False, op_query = [], op_required = []\<rparr>,
     \<lparr>op_method = DELETE, op_path = ''/api/cache/<string>'', op_codes = [200, 404],
      op_secured = False, op_query = [], op_required = []\<rparr>,
     \<lparr>op_method = POST, op_path = ''/api/cache'', op_codes = [200],
      op_secured = False, op_query = [], op_required = [''key'', ''value'']\<rparr>,
     \<lparr>op_method = POST, op_path = ''/api/cache/cleanup'', op_codes = [200],
      op_secured = False, op_query = [], op_required = []\<rparr>]"
  by code_simp

lemma operations_queue:
  "operations_of openapi_queue =
    [\<lparr>op_method = POST, op_path = ''/api/queue/publish'', op_codes = [201],
      op_secured = False, op_query = [], op_required = [''topic'', ''payload'']\<rparr>,
     \<lparr>op_method = POST, op_path = ''/api/queue/poll'', op_codes = [200, 404],
      op_secured = False, op_query = [], op_required = [''topic'']\<rparr>,
     \<lparr>op_method = POST, op_path = ''/api/queue/ack/<uint>'', op_codes = [200, 404],
      op_secured = False, op_query = [], op_required = []\<rparr>,
     \<lparr>op_method = GET, op_path = ''/api/queue/metrics'', op_codes = [200],
      op_secured = False, op_query = [], op_required = []\<rparr>]"
  by code_simp

lemma operations_documents:
  "operations_of openapi_documents =
    [\<lparr>op_method = POST, op_path = ''/api/documents/<string>'', op_codes = [201],
      op_secured = False, op_query = [], op_required = []\<rparr>,
     \<lparr>op_method = GET, op_path = ''/api/documents/<string>/<string>'', op_codes = [200, 404],
      op_secured = False, op_query = [], op_required = []\<rparr>,
     \<lparr>op_method = PUT, op_path = ''/api/documents/<string>/<string>'', op_codes = [200],
      op_secured = False, op_query = [], op_required = []\<rparr>,
     \<lparr>op_method = DELETE, op_path = ''/api/documents/<string>/<string>'', op_codes = [200],
      op_secured = False, op_query = [], op_required = []\<rparr>,
     \<lparr>op_method = POST, op_path = ''/api/documents/<string>/query'', op_codes = [200],
      op_secured = False, op_query = [], op_required = []\<rparr>]"
  by code_simp

lemma operations_jwks:
  "operations_of openapi_jwks =
    [\<lparr>op_method = GET, op_path = ''/.well-known/jwks.json'', op_codes = [200],
      op_secured = False, op_query = [], op_required = []\<rparr>]"
  by code_simp

lemma operations_auth:
  "operations_of openapi_auth =
    [\<lparr>op_method = POST, op_path = ''/api/v1/auth/register'', op_codes = [201, 400, 409],
      op_secured = False, op_query = [], op_required = [''email'', ''password'']\<rparr>,
     \<lparr>op_method = POST, op_path = ''/api/v1/auth/login'', op_codes = [200, 401],
      op_secured = False, op_query = [], op_required = [''email'', ''password'']\<rparr>,
     \<lparr>op_method = POST, op_path = ''/api/v1/auth/refresh'', op_codes = [200, 401],
      op_secured = False, op_query = [], op_required = [''refreshToken'']\<rparr>,
     \<lparr>op_method = POST, op_path = ''/api/v1/auth/logout'', op_codes = [200, 401],
      op_secured = True, op_query = [], op_required = []\<rparr>,
     \<lparr>op_method = POST, op_path = ''/api/v1/auth/logout-all'', op_codes = [200, 401],
      op_secured = True, op_query = [], op_required = []\<rparr>]"
  by code_simp

lemma operations_google:
  "operations_of openapi_google =
    [\<lparr>op_method = GET, op_path = ''/api/v1/auth/google/url'', op_codes = [200],
      op_secured = False, op_query = [], op_required = []\<rparr>,
     \<lparr>op_method = GET, op_path = ''/api/v1/auth/google/callback'', op_codes = [200, 401],
      op_secured = False, op_query = [''code'', ''state''], op_required = []\<rparr>,
     \<lparr>op_method = POST, op_path = ''/api/v1/auth/google'', op_codes = [200, 401],
      op_secured = False, op_query = [], op_required = []\<rparr>,
     \<lparr>op_method = POST, op_path = ''/api/v1/auth/set-password'', op_codes = [200, 400, 401],
      op_secured = True, op_query = [], op_required = [''password'']\<rparr>]"
  by code_simp

lemma operations_sessions:
  "operations_of openapi_sessions =
    [\<lparr>op_method = GET, op_path = ''/api/v1/sessions'', op_codes = [200, 401],
      op_secured = True, op_query = [], op_required = []\<rparr>,
     \<lparr>op_method = DELETE, op_path = ''/api/v1/sessions/<string>'', op_codes = [200, 403, 404],
      op_secured = True, op_query = [], op_required = []\<rparr>]"
  by code_simp

lemma operations_admin:
  "operations_of openapi_admin =
    [\<lparr>op_method = GET, op_path = ''/api/v1/admin/sessions'', op_codes = [200, 403],
      op_secured = True, op_query = [''userId'', ''status'', ''ipAddress'', ''limit'', ''offset''], op_required = []\<rparr>,
     \<lparr>op_method = DELETE, op_path = ''/api/v1/admin/sessions/<string>'', op_codes = [200, 403],
      op_secured = True, op_query = [], op_required = []\<rparr>,
     \<lparr>op_method = POST, op_path = ''/api/v1/admin/users/<string>/sessions/revoke-all'', op_codes = [200, 403],
      op_secured = True, op_query = [], op_required = []\<rparr>]"
  by code_simp

lemma operations_self:
  "operations_of openapi_self =
    [\<lparr>op_method = GET, op_path = ''/api/openapi.json'', op_codes = [200],
      op_secured = False, op_query = [], op_required = []\<rparr>]"
  by code_simp

lemmas operations_eval =
  operations_health operations_todos operations_cache operations_queue operations_documents
  operations_jwks operations_auth operations_google operations_sessions operations_admin
  operations_self

text \<open>The operation that describes a route.\<close>

definition doc_of :: "endpoint \<Rightarrow> api_operation option" where
  "doc_of e = find (\<lambda>op. (op_method op, op_path op) = route e) api_operations"

lemma api_operations_eval: "api_operations = concat
    [operations_of openapi_health, operations_of openapi_todos, operations_of openapi_cache,
     operations_of openapi_queue, operations_of openapi_documents, operations_of openapi_jwks,
     operations_of openapi_auth, operations_of openapi_google, operations_of openapi_sessions,
     operations_of openapi_admin, operations_of openapi_self]"
  by (simp add: api_operations_def openapi_paths_def)

lemma doc_of_eval:
  "doc_of e = find (\<lambda>op. (op_method op, op_path op) = route e) (concat
    [operations_of openapi_health, operations_of openapi_todos, operations_of openapi_cache,
     operations_of openapi_queue, operations_of openapi_documents, operations_of openapi_jwks,
     operations_of openapi_auth, operations_of openapi_google, operations_of openapi_sessions,
     operations_of openapi_admin, operations_of openapi_self])"
  by (simp only: doc_of_def api_operations_eval)

lemma doc_of_simps [simp]:
  "doc_of R_openApi =
     Some \<lparr>op_method = GET, op_path = ''/api/openapi.json'', op_codes = [200],
       op_secured = False, op_query = [], op_required = []\<rparr>"
  "doc_of R_docs = None"
  "doc_of R_swagger = None"
  "doc_of R_jwks =
     Some \<lparr>op_method = GET, op_path = ''/.well-known/jwks.json'', op_codes = [200],
       op_secured = False, op_query = [], op_required = []\<rparr>"
  "doc_of R_register =
     Some \<lparr>op_method = POST, op_path = ''/api/v1/auth/register'', op_codes = [201, 400, 409],
       op_secured = False, op_query = [], op_required = [''email'', ''password'']\<rparr>"
  "doc_of R_login =
     Some \<lparr>op_method = POST, op_path = ''/api/v1/auth/login'', op_codes = [200, 401],
       op_secured = False, op_query = [], op_required = [''email'', ''password'']\<rparr>"
  "doc_of R_refresh =
     Some \<lparr>op_method = POST, op_path = ''/api/v1/auth/refresh'', op_codes = [200, 401],
       op_secured = False, op_query = [], op_required = [''refreshToken'']\<rparr>"
  "doc_of R_logout =
     Some \<lparr>op_method = POST, op_path = ''/api/v1/auth/logout'', op_codes = [200, 401],
       op_secured = True, op_query = [], op_required = []\<rparr>"
  "doc_of R_logoutAll =
     Some \<lparr>op_method = POST, op_path = ''/api/v1/auth/logout-all'', op_codes = [200, 401],
       op_secured = True, op_query = [], op_required = []\<rparr>"
  "doc_of R_googleUrl =
     Some \<lparr>op_method = GET, op_path = ''/api/v1/auth/google/url'', op_codes = [200],
       op_secured = False, op_query = [], op_required = []\<rparr>"
  "doc_of R_googleCallback =
     Some \<lparr>op_method = GET, op_path = ''/api/v1/auth/google/callback'', op_codes = [200, 401],
       op_secured = False, op_query = [''code'', ''state''], op_required = []\<rparr>"
  "doc_of R_google =
     Some \<lparr>op_method = POST, op_path = ''/api/v1/auth/google'', op_codes = [200, 401],
       op_secured = False, op_query = [], op_required = []\<rparr>"
  "doc_of R_setPassword =
     Some \<lparr>op_method = POST, op_path = ''/api/v1/auth/set-password'', op_codes = [200, 400, 401],
       op_secured = True, op_query = [], op_required = [''password'']\<rparr>"
  "doc_of R_sessions =
     Some \<lparr>op_method = GET, op_path = ''/api/v1/sessions'', op_codes = [200, 401],
       op_secured = True, op_query = [], op_required = []\<rparr>"
  "doc_of (R_revokeSession x1) =
     Some \<lparr>op_method = DELETE, op_path = ''/api/v1/sessions/<string>'', op_codes = [200, 403, 404],
       op_secured = True, op_query = [], op_required = []\<rparr>"
  "doc_of R_adminSessions =
     Some \<lparr>op_method = GET, op_path = ''/api/v1/admin/sessions'', op_codes = [200, 403],
       op_secured = True, op_query = [''userId'', ''status'', ''ipAddress'', ''limit'', ''offset''], op_required = []\<rparr>"
  "doc_of (R_adminRevokeSession x2) =
     Some \<lparr>op_method = DELETE, op_path = ''/api/v1/admin/sessions/<string>'', op_codes = [200, 403],
       op_secured = True, op_query = [], op_required = []\<rparr>"
  "doc_of (R_adminRevokeAll x3) =
     Some \<lparr>op_method = POST, op_path = ''/api/v1/admin/users/<string>/sessions/revoke-all'', op_codes = [200, 403],
       op_secured = True, op_query = [], op_required = []\<rparr>"
  "doc_of R_health = None"
  "doc_of R_apiHealth =
     Some \<lparr>op_method = GET, op_path = ''/api/health'', op_codes = [200],
       op_secured = False, op_query = [], op_required = []\<rparr>"
  "doc_of R_todos =
     Some \<lparr>op_method = GET, op_path = ''/api/todos'', op_codes = [200],
       op_secured = False, op_query = [''completed''], op_required = []\<rparr>"
  "doc_of R_createTodo =
     Some \<lparr>op_method = POST, op_path = ''/api/todos'', op_codes = [201, 400],
       op_secured = False, op_query = [], op_required = [''title'']\<rparr>"
  "doc_of (R_todo x4) =
     Some \<lparr>op_method = GET, op_path = ''/api/todos/<uint>'', op_codes = [200, 404],
       op_secured = False, op_query = [], op_required = []\<rparr>"
  "doc_of (R_updateTodo x5) =
     Some \<lparr>op_method = PUT, op_path = ''/api/todos/<uint>'', op_codes = [200, 404],
       op_secured = False, op_query = [], op_required = []\<rparr>"
  "doc_of (R_deleteTodo x6) =
     Some \<lparr>op_method = DELETE, op_path = ''/api/todos/<uint>'', op_codes = [200, 404],
       op_secured = False, op_query = [], op_required = []\<rparr>"
  "doc_of (R_cacheGet x7) =
     Some \<lparr>op_method = GET, op_path = ''/api/cache/<string>'', op_codes = [200, 404],
       op_secured = False, op_query = [], op_required = []\<rparr>"
  "doc_of R_cacheSet =
     Some \<lparr>op_method = POST, op_path = ''/api/cache'', op_codes = [200],
       op_secured = False, op_query = [], op_required = [''key'', ''value'']\<rparr>"
  "doc_of (R_cacheRemove x8) =
     Some \<lparr>op_method = DELETE, op_path = ''/api/cache/<string>'', op_codes = [200, 404],
       op_secured = False, op_query = [], op_required = []\<rparr>"
  "doc_of R_cacheCleanup =
     Some \<lparr>op_method = POST, op_path = ''/api/cache/cleanup'', op_codes = [200],
       op_secured = False, op_query = [], op_required = []\<rparr>"
  "doc_of R_publish =
     Some \<lparr>op_method = POST, op_path = ''/api/queue/publish'', op_codes = [201],
       op_secured = False, op_query = [], op_required = [''topic'', ''payload'']\<rparr>"
  "doc_of R_poll =
     Some \<lparr>op_method = POST, op_path = ''/api/queue/poll'', op_codes = [200, 404],
       op_secured = False, op_query = [], op_required = [''topic'']\<rparr>"
  "doc_of (R_ack x9) =
     Some \<lparr>op_method = POST, op_path = ''/api/queue/ack/<uint>'', op_codes = [200, 404],
       op_secured = False, op_query = [], op_required = []\<rparr>"
  "doc_of (R_fail x10) = None"
  "doc_of R_metrics =
     Some \<lparr>op_method = GET, op_path = ''/api/queue/metrics'', op_codes = [200],
       op_secured = False, op_query = [], op_required = []\<rparr>"
  "doc_of (R_createDocument x11) =
     Some \<lparr>op_method = POST, op_path = ''/api/documents/<string>'', op_codes = [201],
       op_secured = False, op_query = [], op_required = []\<rparr>"
  "doc_of (R_document x12 x13) =
     Some \<lparr>op_method = GET, op_path = ''/api/documents/<string>/<string>'', op_codes = [200, 404],
       op_secured = False, op_query = [], op_required = []\<rparr>"
  "doc_of (R_queryDocuments x14) =
     Some \<lparr>op_method = POST, op_path = ''/api/documents/<string>/query'', op_codes = [200],
       op_secured = False, op_query = [], op_required = []\<rparr>"
  "doc_of (R_updateDocument x15 x16) =
     Some \<lparr>op_method = PUT, op_path = ''/api/documents/<string>/<string>'', op_codes = [200],
       op_secured = False, op_query = [], op_required = []\<rparr>"
  "doc_of (R_deleteDocument x17 x18) =
     Some \<lparr>op_method = DELETE, op_path = ''/api/documents/<string>/<string>'', op_codes = [200],
       op_secured = False, op_query = [], op_required = []\<rparr>"
  by (simp_all add: doc_of_eval operations_eval)

fun undocumented :: "endpoint \<Rightarrow> bool" where
  "undocumented R_docs \<longleftrightarrow> True"
| "undocumented R_swagger \<longleftrightarrow> True"
| "undocumented R_health \<longleftrightarrow> True"
| "undocumented (R_fail _) \<longleftrightarrow> True"
| "undocumented _ \<longleftrightarrow> False"

lemma doc_of_secured:
  "map_option op_secured (doc_of e) = (if undocumented e then None else Some (needs_token e))"
  by (cases e) simp_all

lemma doc_of_codes:
  "map_option (\<lambda>op. filter (\<lambda>c. c < 400) (op_codes op)) (doc_of e) =
     (if undocumented e then None else Some [success_code e])"
  by (cases e) simp_all

text \<open>The routes in the order in which the document describes them.\<close>

lemma described_routes:
  "map Some api_operations = map doc_of
      [R_apiHealth, R_todos, R_createTodo, R_todo 0, R_updateTodo 0, R_deleteTodo 0, R_cacheGet
       [], R_cacheRemove [], R_cacheSet, R_cacheCleanup, R_publish, R_poll, R_ack 0, R_metrics,
       R_createDocument [], R_document [] [], R_updateDocument [] [], R_deleteDocument [] [],
       R_queryDocuments [], R_jwks, R_register, R_login, R_refresh, R_logout, R_logoutAll,
       R_googleUrl, R_googleCallback, R_google, R_setPassword, R_sessions, R_revokeSession [],
       R_adminSessions, R_adminRevokeSession [], R_adminRevokeAll [], R_openApi]"
  by (simp add: api_operations_eval operations_eval)

section \<open>Description and router\<close>

text \<open>The request with another \<^verbatim>\<open>Authorization\<close> header.\<close>

definition with_token :: "string \<Rightarrow> http_request \<Rightarrow> http_request" where
  "with_token v rq = rq\<lparr>hq_header := (hq_header rq)(''Authorization'' := v)\<rparr>"

lemma with_token_sel [simp]:
  "hq_body (with_token v rq) = hq_body rq" "hq_param (with_token v rq) = hq_param rq"
  "getClientIp (with_token v rq) = getClientIp rq" "getUserAgent (with_token v rq) = getUserAgent rq"
  "getDeviceName (with_token v rq) = getDeviceName rq" "hq_header (with_token v rq) ''Authorization'' = v"
  by (simp_all add: with_token_def getClientIp_def getUserAgent_def getDeviceName_def Let_def)

lemma guard_without_token:
  "\<exists>resp. guarded A E d (with_token [] rq) k = (Return resp, d) \<and> hr_code resp = 401"
  by (simp add: guarded_def require_def extractAuthenticatedUser_def)

lemma token_free_handlers:
  "auth_registerUser A E d (with_token v rq) = auth_registerUser A E d rq"
  "auth_login A E d (with_token v rq) = auth_login A E d rq"
  "auth_refresh A E d (with_token v rq) = auth_refresh A E d rq"
  "auth_getGoogleAuthUrl A E d (with_token v rq) = auth_getGoogleAuthUrl A E d rq"
  "auth_googleCallback A E d (with_token v rq) = auth_googleCallback A E d rq"
  "auth_googleLogin A E d (with_token v rq) = auth_googleLogin A E d rq"
  "todo_getAll A E d (with_token v rq) = todo_getAll A E d rq"
  "todo_create A E d (with_token v rq) = todo_create A E d rq"
  "todo_update A E d i (with_token v rq) = todo_update A E d i rq"
  "cache_setKey A E d (with_token v rq) = cache_setKey A E d rq"
  "queueC_publish A E d (with_token v rq) = queueC_publish A E d rq"
  "queueC_poll A E d (with_token v rq) = queueC_poll A E d rq"
  "documentC_create A E d c (with_token v rq) = documentC_create A E d c rq"
  "documentC_query A E d c (with_token v rq) = documentC_query A E d c rq"
  "documentC_update A E d c did (with_token v rq) = documentC_update A E d c did rq"
  unfolding auth_registerUser_def auth_login_def auth_refresh_def auth_getGoogleAuthUrl_def
    auth_googleCallback_def auth_googleLogin_def todo_getAll_def todo_create_def todo_update_def cache_setKey_def
    queueC_publish_def queueC_poll_def documentC_create_def documentC_query_def documentC_update_def with_token_sel
  by (rule refl)+

lemma guarded_handlers:
  "\<exists>resp. auth_logout A E d (with_token [] rq) = (Return resp, d) \<and> hr_code resp = 401"
  "\<exists>resp. auth_logoutAll A E d (with_token [] rq) = (Return resp, d) \<and> hr_code resp = 401"
  "\<exists>resp. auth_setPassword A E d (with_token [] rq) = (Return resp, d) \<and> hr_code resp = 401"
  "\<exists>resp. session_getSessions A E d (with_token [] rq) = (Return resp, d) \<and> hr_code resp = 401"
  "\<exists>resp. session_revokeSession A E d (with_token [] rq) i = (Return resp, d) \<and> hr_code resp = 401"
  "\<exists>resp. admin_getSessions A E d (with_token [] rq) = (Return resp, d) \<and> hr_code resp = 401"
  "\<exists>resp. admin_revokeSession A E d (with_token [] rq) i = (Return resp, d) \<and> hr_code resp = 401"
  "\<exists>resp. admin_revokeAllUserSessions A E d (with_token [] rq) i = (Return resp, d) \<and> hr_code resp = 401"
  unfolding auth_logout_def auth_logoutAll_def auth_setPassword_def session_getSessions_def session_revokeSession_def
    admin_getSessions_def admin_revokeSession_def admin_revokeAllUserSessions_def with_admin_def
  by (rule guard_without_token)+

lemma guard_by_route:
  "if needs_token e
   then \<exists>resp. handle A E d e (with_token [] rq) = (Return resp, d) \<and> hr_code resp = 401
   else handle A E d e (with_token v rq) = handle A E d e rq"
  by (cases e) (simp_all add: token_free_handlers guarded_handlers)

text \<open>
  C6. The description and the router fit together: every operation of the OpenAPI document is a
  route of the server, with the same method, path and kinds of parameters; every route is
  described except \<^verbatim>\<open>/docs\<close>, \<^verbatim>\<open>/swagger\<close>, \<^verbatim>\<open>/health\<close> and \<^verbatim>\<open>/api/queue/fail\<close>; and an operation is
  marked as needing a bearer token exactly when its handler asks the guard: without a token a
  marked one answers 401 and changes nothing, and the others pay no heed to the header.
\<close>

theorem openapi_matches_router:
  "map_option op_secured (doc_of e) = (if undocumented e then None else Some (needs_token e)) \<and>
   (op \<in> set api_operations \<longleftrightarrow> (\<exists>e. doc_of e = Some op)) \<and>
   (if needs_token e
    then \<exists>resp. handle A E d e (with_token [] rq) = (Return resp, d) \<and> hr_code resp = 401
    else handle A E d e (with_token v rq) = handle A E d e rq)"
proof (intro conjI guard_by_route)
  show "map_option op_secured (doc_of e) = (if undocumented e then None else Some (needs_token e))"
    by (cases e) simp_all
  have "\<exists>e. doc_of e = Some op" if "op \<in> set api_operations"
  proof -
    have "Some op \<in> set (map Some api_operations)" using that by simp
    then show ?thesis unfolding described_routes set_map by fastforce
  qed
  moreover have "op \<in> set api_operations" if "doc_of e = Some op" for e
    using that find_SomeD by (fastforce simp: doc_of_def)
  ultimately show "op \<in> set api_operations \<longleftrightarrow> (\<exists>e. doc_of e = Some op)" by blast
qed

section \<open>Answers\<close>

text \<open>
  C5. The answers are as described: with the services that \<^verbatim>\<open>main\<close> wires together, a described
  route answers with the one code of success that its description lists, or refuses with a
  code from 400 on; there is no third kind of answer.
\<close>

theorem answers_as_described:
  assumes "app_services A = core_services K J km cfg os t0" and "doc_of e = Some op"
    and "handle A E d e rq = (Return resp, d')"
  shows "filter (\<lambda>c. c < 400) (op_codes op) = [success_code e] \<and>
    (hr_code resp = success_code e \<or> 400 \<le> hr_code resp)"
proof
  show "filter (\<lambda>c. c < 400) (op_codes op) = [success_code e]"
    using doc_of_codes[of e] assms(2) by (simp split: if_splits)
  show "hr_code resp = success_code e \<or> 400 \<le> hr_code resp"
    using handle_code[OF assms(1), of e E d rq] assms(3) by (simp add: answers_with_def)
qed

lemma demo_app_services: "app_services demo_app = demo_core"
  by (simp add: demo_app_def)

lemma answers_as_described_witness:
  "\<exists>op resp. doc_of R_apiHealth = Some op \<and> filter (\<lambda>c. c < 400) (op_codes op) = [200] \<and>
     handle demo_app (demo_env 0) demo_db R_apiHealth (request_with []) = (Return resp, demo_db) \<and>
     (hr_code resp = 200 \<or> 400 \<le> hr_code resp)"
proof -
  obtain op where op: "doc_of R_apiHealth = Some op" by simp
  have h: "handle demo_app (demo_env 0) demo_db R_apiHealth (request_with []) =
      (Return (getHealth demo_app (demo_env 0)), demo_db)" by simp
  from answers_as_described[OF demo_app_services[unfolded demo_core_def] op h] h op
  show ?thesis by auto
qed

text \<open>
  Four of the guarded operations do not list the 401 with which the guard refuses.
\<close>

lemma undescribed_401:
  "{e. needs_token e \<and> (\<exists>op. doc_of e = Some op \<and> 401 \<notin> set (op_codes op))} =
     range R_revokeSession \<union> {R_adminSessions} \<union> range R_adminRevokeSession \<union> range R_adminRevokeAll"
proof (rule set_eqI)
  fix e
  show "e \<in> {e. needs_token e \<and> (\<exists>op. doc_of e = Some op \<and> 401 \<notin> set (op_codes op))} \<longleftrightarrow>
      e \<in> range R_revokeSession \<union> {R_adminSessions} \<union> range R_adminRevokeSession \<union> range R_adminRevokeAll"
    by (cases e) auto
qed

section \<open>Fields and parameters\<close>

text \<open>Reading a JSON body that lacks a field.\<close>

lemma missing_field:
  assumes "\<not> js_has J j k"
  shows "string_field J j k dflt = Return dflt" "has_string J j k = Return False"
  using assms by (simp_all add: string_field_def has_string_def)

lemma with_json_body:
  assumes "js_load J body = Some j"
  shows "with_json J body x y k = (if body = [] then bad_request (fst x) [snd x] else k j)"
  using assms by (simp add: with_json_def)

lemma require_answer:
  assumes "require E d p k = (Return resp, d')"
  shows "(\<exists>e. p = Return (Err e) \<and> hr_code resp = err_statusCode e \<and> d' = d) \<or>
    (\<exists>v. p = Return (Ok v) \<and> k v = (Return resp, d'))"
  using assms by (auto simp: require_def split: outcome.splits result.splits)

text \<open>\<open>rejected d h\<close>: if the handler answers at all, it answers 400 and leaves the database alone.\<close>

definition rejected :: "db \<Rightarrow> 'j handled \<Rightarrow> bool" where
  "rejected d h \<longleftrightarrow> (\<forall>resp d'. h = (Return resp, d') \<longrightarrow> hr_code resp = 400 \<and> d' = d)"

lemma rejected_require:
  assumes "\<And>e. p = Return (Err e) \<Longrightarrow> err_statusCode e = 400" and "\<And>v. p = Return (Ok v) \<Longrightarrow> rejected d (k v)"
  shows "rejected d (require E d p k)"
  using assms by (auto simp: rejected_def require_def split: outcome.splits result.splits)

lemma rejected_answered: "fst rd = Err e \<Longrightarrow> err_statusCode e = 400 \<Longrightarrow> snd rd = d \<Longrightarrow> rejected d (answered E ok rd)"
  by (simp add: rejected_def answered_def answer_def)

lemma bad_request_code [simp]: "bad_request m ds = Return (Err e) \<Longrightarrow> err_statusCode e = 400"
  "bad_request m ds \<noteq> Return (Ok v)"
  by (auto simp: bad_request_def)

text \<open>The parsers that ask for their fields.\<close>

lemma parser_rejects:
  assumes "js_load J body = Some j"
  shows "\<not> js_has J j ''title'' \<Longrightarrow> parseCreateTodoRequest J body \<noteq> Return (Ok v1)"
    "\<not> js_has J j ''key'' \<or> \<not> js_has J j ''value'' \<Longrightarrow> parseSetCacheRequest J body \<noteq> Return (Ok v2)"
    "\<not> js_has J j ''topic'' \<or> \<not> js_has J j ''payload'' \<Longrightarrow> parsePublishMessageRequest J body \<noteq> Return (Ok v3)"
    "\<not> js_has J j ''topic'' \<Longrightarrow> parsePollMessageRequest J body \<noteq> Return (Ok v4)"
    "\<not> js_has J j ''password'' \<Longrightarrow> parseSetPasswordRequest J body \<noteq> Return (Ok v5)"
  using assms
  by (auto simp: parseCreateTodoRequest_def parseSetCacheRequest_def parsePublishMessageRequest_def
      parsePollMessageRequest_def parseSetPasswordRequest_def with_json_body obind_Return_iff
      missing_field Let_def split: if_splits)

lemma parser_codes:
  "parseCreateTodoRequest J body = Return (Err e) \<Longrightarrow> err_statusCode e = 400"
  "parseSetCacheRequest J body = Return (Err e) \<Longrightarrow> err_statusCode e = 400"
  "parsePublishMessageRequest J body = Return (Err e) \<Longrightarrow> err_statusCode e = 400"
  "parsePollMessageRequest J body = Return (Err e) \<Longrightarrow> err_statusCode e = 400"
  "parseSetPasswordRequest J body = Return (Err e) \<Longrightarrow> err_statusCode e = 400"
  "parseRegisterRequest J body = Return (Err e) \<Longrightarrow> err_statusCode e = 400"
  "parseLoginRequest J body = Return (Err e) \<Longrightarrow> err_statusCode e = 400"
  "parseRefreshTokenRequest J body = Return (Err e) \<Longrightarrow> err_statusCode e = 400"
  by (auto simp: parseCreateTodoRequest_def parseSetCacheRequest_def parsePublishMessageRequest_def
      parsePollMessageRequest_def parseSetPasswordRequest_def parseRegisterRequest_def
      parseLoginRequest_def parseRefreshTokenRequest_def with_json_def obind_Return_iff Let_def
      split: if_splits option.splits)

lemma rejected_parser:
  "(\<And>v. p \<noteq> Return (Ok v)) \<Longrightarrow> (\<And>e. p = Return (Err e) \<Longrightarrow> err_statusCode e = 400) \<Longrightarrow> rejected d (require E d p k)"
  by (auto intro: rejected_require)

lemma asking_handler_rejects:
  assumes "js_load (app_json A) (hq_body rq) = Some j"
  shows "\<not> js_has (app_json A) j ''title'' \<Longrightarrow> rejected d (todo_create A E d rq)"
    "\<not> js_has (app_json A) j ''key'' \<or> \<not> js_has (app_json A) j ''value'' \<Longrightarrow> rejected d (cache_setKey A E d rq)"
    "\<not> js_has (app_json A) j ''topic'' \<or> \<not> js_has (app_json A) j ''payload'' \<Longrightarrow> rejected d (queueC_publish A E d rq)"
    "\<not> js_has (app_json A) j ''topic'' \<Longrightarrow> rejected d (queueC_poll A E d rq)"
    "\<not> js_has (app_json A) j ''password'' \<Longrightarrow>
       rejected d (require E d (parseSetPasswordRequest (app_json A) (hq_body rq)) k)"
  unfolding todo_create_def cache_setKey_def queueC_publish_def queueC_poll_def
  by (rule rejected_parser, erule parser_rejects[OF assms], erule parser_codes)+

text \<open>The three use cases whose validators see the missing field as an empty text.\<close>

lemma handler_rejects:
  assumes "js_load (app_json A) (hq_body rq) = Some j"
  shows "\<not> js_has (app_json A) j ''email'' \<or> \<not> js_has (app_json A) j ''password'' \<Longrightarrow> rejected d (auth_registerUser A E d rq)"
    "\<not> js_has (app_json A) j ''email'' \<or> \<not> js_has (app_json A) j ''password'' \<Longrightarrow> rejected d (auth_login A E d rq)"
    "\<not> js_has (app_json A) j ''refreshToken'' \<Longrightarrow> rejected d (auth_refresh A E d rq)"
proof -
  note W = with_json_body[OF assms] missing_field obind_Return_iff
  show "rejected d (auth_registerUser A E d rq)"
    if "\<not> js_has (app_json A) j ''email'' \<or> \<not> js_has (app_json A) j ''password''"
    unfolding auth_registerUser_def
  proof (rule rejected_require)
    fix v
    assume "parseRegisterRequest (app_json A) (hq_body rq) = Return (Ok v)"
    then have "rq_email v = [] \<or> rq_password v = []"
      using that by (auto simp: parseRegisterRequest_def W split: if_splits)
    then obtain e where "validateRegister v = Err e"
      using validateRegister_ok_iff[of v] by (cases "validateRegister v") (auto simp: auth_isAllWhitespace_def)
    then show "rejected d (answered E success_register (registerUser (app_pg A) (app_services A) (uc E) d v))"
      using validators_refuse(1) by (auto simp: registerUser_def intro!: rejected_answered)
  qed (rule parser_codes)
  show "rejected d (auth_login A E d rq)"
    if "\<not> js_has (app_json A) j ''email'' \<or> \<not> js_has (app_json A) j ''password''"
    unfolding auth_login_def
  proof (rule rejected_require)
    fix v
    assume "parseLoginRequest (app_json A) (hq_body rq) = Return (Ok v)"
    then have "lq_email v = [] \<or> lq_password v = []"
      using that by (auto simp: parseLoginRequest_def W split: if_splits)
    then obtain e where "validateLogin v = Err e"
      using validateLogin_ok_iff[of v] by (cases "validateLogin v") (auto simp: auth_isAllWhitespace_def)
    then show "rejected d (case login (app_pg A) (app_services A) (uc E) d v (getClientIp rq) (getUserAgent rq)
        (getDeviceName rq) ''browser'' of Throw \<Rightarrow> (Throw, d) | Return rd \<Rightarrow> answered E success_token rd)"
      using validators_refuse(2) by (auto simp: login_def login_check_def intro!: rejected_answered)
  qed (rule parser_codes)
  show "rejected d (auth_refresh A E d rq)" if "\<not> js_has (app_json A) j ''refreshToken''"
    unfolding auth_refresh_def
  proof (rule rejected_require)
    fix v
    assume "parseRefreshTokenRequest (app_json A) (hq_body rq) = Return (Ok v)"
    then have "v = []" using that by (auto simp: parseRefreshTokenRequest_def W split: if_splits)
    then show "rejected d (answered E success_token
        (refresh (app_pg A) (app_services A) (uc E) d v (getClientIp rq) (getUserAgent rq)))"
      by (auto simp: refresh_def validateRefreshToken_def auth_isAllWhitespace_def intro!: rejected_answered)
  qed (rule parser_codes)
qed

text \<open>The fields that the description lists as required.\<close>

lemma required_cases:
  assumes "doc_of e = Some op" and "f \<in> set (op_required op)"
  shows "e = R_setPassword \<and> f = ''password'' \<or> e = R_createTodo \<and> f = ''title'' \<or>
    e = R_cacheSet \<and> f \<in> {''key'', ''value''} \<or> e = R_publish \<and> f \<in> {''topic'', ''payload''} \<or>
    e = R_poll \<and> f = ''topic'' \<or> e \<in> {R_register, R_login} \<and> f \<in> {''email'', ''password''} \<or>
    e = R_refresh \<and> f = ''refreshToken''"
  using assms by (cases e) auto


definition empty_object :: http_request where
  "empty_object = (request_with [])\<lparr>hq_body := ''x''\<rparr>"


text \<open>
  Two documented filters do nothing: the description of the administrator's session list
  offers the query parameters \<^verbatim>\<open>userId\<close> and \<^verbatim>\<open>ipAddress\<close>, but the handler reads
  \<^verbatim>\<open>user_id\<close> and \<^verbatim>\<open>ip\<close>; whatever a client sends under the documented names, the answer is
  that of the unfiltered request.
\<close>

theorem documented_filters_ignored:
  "(\<exists>op. doc_of R_adminSessions = Some op \<and> {''userId'', ''ipAddress''} \<subseteq> set (op_query op)) \<and>
   handle A E d R_adminSessions (rq\<lparr>hq_param := (hq_param rq)(''userId'' := v, ''ipAddress'' := w)\<rparr>) =
     handle A E d R_adminSessions rq"
  by (simp add: admin_getSessions_def with_admin_def guarded_def int_param_def)

end
