(* ===== verification/Pool_Monitor.thy ===== *)
theory Pool_Monitor
  imports Connection_Pool
begin

text \<open>
  The condition variable of \<^verbatim>\<open>PostgresDb\<close>: which callers wait for a connection, and which calls
  of \<^verbatim>\<open>notify_one\<close> wake them. The pool itself is the one of \<open>Connection_Pool\<close>; here its
  threads are added.
\<close>

section \<open>Threads around the pool\<close>

text \<open>
  \<open>mo_sleeping\<close> callers are blocked in \<^verbatim>\<open>m_cv.wait\<close>; \<open>mo_woken\<close> have been woken and will take the
  mutex and test the condition again; \<open>mo_returning\<close> have left the locked block of
  \<^verbatim>\<open>returnConnection\<close> and not yet called \<^verbatim>\<open>notify_one\<close>.
\<close>

record monitor =
  mo_pool :: pool
  mo_out :: "conn list"
  mo_sleeping :: nat
  mo_woken :: nat
  mo_returning :: nat

definition new_monitor :: "nat \<Rightarrow> monitor" where
  "new_monitor m =
     \<lparr>mo_pool = new_pool m, mo_out = [], mo_sleeping = 0, mo_woken = 0, mo_returning = 0\<rparr>"

text \<open>A notification with nobody asleep is lost.\<close>

definition notify_one :: "monitor \<Rightarrow> monitor" where
  "notify_one s =
     (if 0 < mo_sleeping s
      then s\<lparr>mo_sleeping := mo_sleeping s - 1, mo_woken := mo_woken s + 1\<rparr> else s)"

text \<open>
  Whether a call that throws has called \<^verbatim>\<open>notify_one\<close> before: only when it had got a connection
  and that one could not be opened again.
\<close>

definition notifies_on_throw :: "conn outcome \<Rightarrow> pool \<Rightarrow> bool" where
  "notifies_on_throw create p = (po_pool p \<noteq> [] \<or> create \<noteq> Throw)"

text \<open>A caller in \<^verbatim>\<open>getConnection\<close> that holds the mutex, from the test of the condition on.\<close>

definition enter :: "(conn \<Rightarrow> bool) \<Rightarrow> conn outcome \<Rightarrow> conn outcome \<Rightarrow> monitor \<Rightarrow> monitor" where
  "enter is_open create reconnect s =
     (case getConnection is_open create reconnect (mo_pool s) of
        None \<Rightarrow> s\<lparr>mo_sleeping := mo_sleeping s + 1\<rparr>
      | Some (Return c, p) \<Rightarrow> s\<lparr>mo_pool := p, mo_out := c # mo_out s\<rparr>
      | Some (Throw, p) \<Rightarrow>
          (if notifies_on_throw create (mo_pool s) then notify_one (s\<lparr>mo_pool := p\<rparr>)
           else s\<lparr>mo_pool := p\<rparr>))"

text \<open>
  The steps of all threads. \<open>faults\<close> says whether opening a new connection may fail; reopening
  a broken one may always fail, and a waiting caller may wake without a notification.
\<close>

inductive monitor_step :: "bool \<Rightarrow> monitor \<Rightarrow> monitor \<Rightarrow> bool" for faults where
  call: "faults \<or> create \<noteq> Throw \<Longrightarrow> monitor_step faults s (enter is_open create reconnect s)"
| wake: "faults \<or> create \<noteq> Throw \<Longrightarrow> 0 < mo_woken s \<Longrightarrow>
    monitor_step faults s (enter is_open create reconnect (s\<lparr>mo_woken := mo_woken s - 1\<rparr>))"
| spurious: "0 < mo_sleeping s \<Longrightarrow> monitor_step faults s (notify_one s)"
| give_back: "c \<in> set (mo_out s) \<Longrightarrow>
    monitor_step faults s
      (s\<lparr>mo_pool := returnConnection is_open c (mo_pool s), mo_out := remove1 c (mo_out s),
         mo_returning := mo_returning s + 1\<rparr>)"
| notify: "0 < mo_returning s \<Longrightarrow>
    monitor_step faults s (notify_one (s\<lparr>mo_returning := mo_returning s - 1\<rparr>))"

section \<open>The threads respect the pool\<close>

lemma notify_one_sel [simp]:
  "mo_pool (notify_one s) = mo_pool s" "mo_out (notify_one s) = mo_out s"
  "mo_returning (notify_one s) = mo_returning s"
  by (simp_all add: notify_one_def)

definition monitor_inv :: "nat \<Rightarrow> monitor \<Rightarrow> bool" where
  "monitor_inv m s \<longleftrightarrow> pool_inv m (mo_pool s, mo_out s)"

lemma enter_inv: "monitor_inv m s \<Longrightarrow> monitor_inv m (enter is_open create reconnect s)"
  using getConnection_inv[of m "mo_pool s" "mo_out s" is_open create reconnect]
  by (auto simp: monitor_inv_def enter_def split: option.split outcome.splits)

lemma monitor_step_inv: "monitor_step faults s t \<Longrightarrow> monitor_inv m s \<Longrightarrow> monitor_inv m t"
proof (induction rule: monitor_step.induct)
  case (wake create s is_open reconnect)
  have "monitor_inv m (s\<lparr>mo_woken := mo_woken s - 1\<rparr>)"
    using wake.prems by (simp add: monitor_inv_def)
  then show ?case by (rule enter_inv)
qed (auto simp: monitor_inv_def[symmetric] intro: enter_inv, auto simp: monitor_inv_def returnConnection_inv)

section \<open>No lost wake-up without faults\<close>

text \<open>Somebody sleeps only while every free connection has a thread on its way to it.\<close>

definition attended :: "nat \<Rightarrow> monitor \<Rightarrow> bool" where
  "attended m s \<longleftrightarrow>
     0 < mo_sleeping s \<longrightarrow> m \<le> length (mo_out s) + mo_woken s + mo_returning s"

lemma enter_cases:
  assumes "monitor_inv m s" and "faults \<or> create \<noteq> Throw"
  obtains
    (waits) "length (mo_out s) = m" "enter is_open create reconnect s = s\<lparr>mo_sleeping := mo_sleeping s + 1\<rparr>"
  | (served) c p where "length (mo_out s) < m"
      "enter is_open create reconnect s = s\<lparr>mo_pool := p, mo_out := c # mo_out s\<rparr>"
  | (broken) p where "enter is_open create reconnect s = notify_one (s\<lparr>mo_pool := p\<rparr>)"
  | (failed) p where faults "enter is_open create reconnect s = s\<lparr>mo_pool := p\<rparr>"
proof (cases "getConnection is_open create reconnect (mo_pool s)")
  case None
  then show ?thesis
    using assms(1) getConnection_waits[of m "mo_pool s" "mo_out s" is_open create reconnect]
    by (intro waits) (auto simp: monitor_inv_def enter_def)
next
  case (Some rp)
  obtain r p where rp: "rp = (r, p)" by force
  have "length (mo_out s) \<noteq> m" and "length (mo_out s) \<le> m"
    using Some assms(1) getConnection_waits[of m "mo_pool s" "mo_out s" is_open create reconnect]
    by (auto simp: monitor_inv_def pool_inv_def)
  then have free: "length (mo_out s) < m" by simp
  show ?thesis
  proof (cases r)
    case (Return c)
    with Some rp free show ?thesis by (intro served) (auto simp: enter_def)
  next
    case Throw
    show ?thesis
    proof (cases "notifies_on_throw create (mo_pool s)")
      case True
      with Some rp Throw show ?thesis by (intro broken) (auto simp: enter_def)
    next
      case False
      with Some rp Throw assms(2) show ?thesis
        by (intro failed) (auto simp: enter_def notifies_on_throw_def)
    qed
  qed
qed

text \<open>One caller runs; he is enough to look after one free connection.\<close>

lemma enter_attended:
  assumes "monitor_inv m s" and "create \<noteq> Throw"
    and "0 < mo_sleeping s \<longrightarrow> m \<le> length (mo_out s) + mo_woken s + mo_returning s + 1"
  shows "attended m (enter is_open create reconnect s)"
proof -
  have "False \<or> create \<noteq> Throw" using assms(2) by simp
  from assms(1) this show ?thesis
    by (cases rule: enter_cases[where is_open = is_open and reconnect = reconnect])
      (use assms(3) in \<open>auto simp: attended_def notify_one_def\<close>)
qed

lemma monitor_step_attended:
  assumes "monitor_step False s t" and "monitor_inv m s" and "attended m s"
  shows "attended m t"
  using assms
proof (induction rule: monitor_step.induct)
  case (call create s is_open reconnect)
  then show ?case by (intro enter_attended) (auto simp: attended_def)
next
  case (wake create s is_open reconnect)
  then show ?case by (intro enter_attended) (auto simp: attended_def monitor_inv_def)
next
  case (give_back c s is_open)
  then have "length (mo_out s) = Suc (length (remove1 c (mo_out s)))"
    by (simp add: length_remove1) (metis Suc_pred length_pos_if_in_set)
  then show ?case using give_back.prems by (simp add: attended_def)
qed (auto simp: attended_def notify_one_def)

lemma monitor_steps_attended:
  assumes "(monitor_step False)\<^sup>*\<^sup>* (new_monitor m) s"
  shows "monitor_inv m s \<and> attended m s"
  using assms
proof (induction rule: rtranclp_induct)
  case base
  show ?case by (simp add: new_monitor_def monitor_inv_def attended_def pool_inv_def new_pool_def)
next
  case (step s t)
  then show ?case by (blast intro: monitor_step_inv monitor_step_attended)
qed

text \<open>
  C25. No caller is left asleep beside a free connection: as long as new connections can be
  opened, whatever the threads do, and whichever connections break on the way, a caller that
  sleeps in \<^verbatim>\<open>getConnection\<close> while not all connections are out has at least as many woken
  threads and coming notifications beside it as connections are free, and a thread that then
  enters does not go to sleep.
\<close>

theorem no_lost_wakeup:
  assumes "(monitor_step False)\<^sup>*\<^sup>* (new_monitor m) s" and "0 < mo_sleeping s"
  shows "m - length (mo_out s) \<le> mo_woken s + mo_returning s \<and>
    (mo_woken s = 0 \<and> mo_returning s = 0 \<longrightarrow> length (mo_out s) = m) \<and>
    (length (mo_out s) < m \<longrightarrow>
       (\<forall>is_open create reconnect. mo_sleeping (enter is_open create reconnect s) \<le> mo_sleeping s))"
proof -
  have inv: "monitor_inv m s" and att: "attended m s"
    using monitor_steps_attended[OF assms(1)] by simp_all
  have "length (mo_out s) \<le> m" using inv by (simp add: monitor_inv_def pool_inv_def)
  moreover have "mo_sleeping (enter is_open create reconnect s) \<le> mo_sleeping s"
    if "length (mo_out s) < m" for is_open create reconnect
  proof -
    have "True \<or> create \<noteq> Throw" by simp
    from inv this show ?thesis
      by (cases rule: enter_cases[where is_open = is_open and reconnect = reconnect])
        (use that in \<open>auto simp: notify_one_def\<close>)
  qed
  ultimately show ?thesis using att assms(2) by (auto simp: attended_def)
qed

text \<open>
  At a concrete run: one connection, taken; two more callers sleep; it comes back broken.
\<close>

definition opened :: "conn outcome" where
  "opened = Return 1"

lemmas monitor_eval =
  new_monitor_def new_pool_def enter_def getConnection_def notify_one_def returnConnection_def
  dropped_def notifies_on_throw_def opened_def

lemma demo_crowded:
  "(monitor_step faults)\<^sup>*\<^sup>* (new_monitor 1)
     \<lparr>mo_pool = \<lparr>po_maxPoolSize = 1, po_createdCount = 1, po_pool = []\<rparr>, mo_out = [1],
      mo_sleeping = 2, mo_woken = 0, mo_returning = 0\<rparr>"
proof -
  let ?s = "\<lparr>mo_pool = \<lparr>po_maxPoolSize = 1, po_createdCount = 1, po_pool = []\<rparr>, mo_out = [1],
      mo_sleeping = 2, mo_woken = 0, mo_returning = 0\<rparr>"
  define go where "go = enter (\<lambda>_. True) opened Throw"
  have step: "monitor_step faults s (go s)" for s
    unfolding go_def by (rule monitor_step.call) (simp add: opened_def)
  have "(monitor_step faults)\<^sup>*\<^sup>* (new_monitor 1) (go (go (go (new_monitor 1))))"
    by (blast intro: step rtranclp.rtrancl_into_rtrancl rtranclp.rtrancl_refl)
  also have "go (go (go (new_monitor 1))) = ?s"
    by (simp add: go_def monitor_eval)
  finally show ?thesis .
qed

lemma demo_broken:
  "(monitor_step faults)\<^sup>*\<^sup>* (new_monitor 1)
     \<lparr>mo_pool = \<lparr>po_maxPoolSize = 1, po_createdCount = 0, po_pool = []\<rparr>, mo_out = [],
      mo_sleeping = 1, mo_woken = 1, mo_returning = 0\<rparr>"
proof -
  let ?s = "\<lparr>mo_pool = \<lparr>po_maxPoolSize = 1, po_createdCount = 1, po_pool = []\<rparr>, mo_out = [1],
      mo_sleeping = 2, mo_woken = 0, mo_returning = 0\<rparr>"
  let ?t = "\<lparr>mo_pool = \<lparr>po_maxPoolSize = 1, po_createdCount = 0, po_pool = []\<rparr>, mo_out = [],
      mo_sleeping = 2, mo_woken = 0, mo_returning = 1\<rparr>"
  have "monitor_step faults ?s ?t"
    using monitor_step.give_back[of 1 ?s faults "\<lambda>_. False"] by (simp add: monitor_eval)
  moreover have "monitor_step faults ?t (notify_one (?t\<lparr>mo_returning := 0\<rparr>))"
    using monitor_step.notify[of ?t faults] by simp
  ultimately show ?thesis
    using demo_crowded[of faults] by (simp add: monitor_eval)
qed

lemma no_lost_wakeup_witness:
  "mo_sleeping (enter (\<lambda>_. True) opened Throw
     \<lparr>mo_pool = \<lparr>po_maxPoolSize = 1, po_createdCount = 0, po_pool = []\<rparr>, mo_out = [],
      mo_sleeping = 1, mo_woken = 1, mo_returning = 0\<rparr>) \<le> 1"
  using no_lost_wakeup[OF demo_broken[of False]] by simp

section \<open>A lost wake-up when the database is away\<close>

text \<open>
  A woken caller whose new connection cannot be opened leaves with the exception and wakes
  nobody: the other one sleeps on beside a pool that could open a connection for it.
\<close>

lemma lost_wakeup:
  "(monitor_step True)\<^sup>*\<^sup>* (new_monitor 1)
     \<lparr>mo_pool = \<lparr>po_maxPoolSize = 1, po_createdCount = 0, po_pool = []\<rparr>, mo_out = [],
      mo_sleeping = 1, mo_woken = 0, mo_returning = 0\<rparr>"
proof -
  let ?s = "\<lparr>mo_pool = \<lparr>po_maxPoolSize = 1, po_createdCount = 0, po_pool = []\<rparr>, mo_out = [],
      mo_sleeping = 1, mo_woken = 1, mo_returning = 0\<rparr>"
  have "monitor_step True ?s (enter (\<lambda>_. True) Throw Throw (?s\<lparr>mo_woken := 0\<rparr>))"
    using monitor_step.wake[of True Throw ?s "\<lambda>_. True" Throw] by simp
  with demo_broken[of True] show ?thesis by (simp add: monitor_eval)
qed

end
