(* ===== verification/Win_Http.thy ===== *)
theory Win_Http
  imports Google_Service
begin

text \<open>
  The HTTP client of \<^verbatim>\<open>GoogleAuthService.cpp\<close> in the build for Windows, on WinHTTP. No command
  line is built here; what there is to get right is that every handle is closed on every way
  out, and when the loop that reads the answer ends.
\<close>

section \<open>WinHTTP\<close>

text \<open>
  A handle is what it was opened for. The calls are recorded in order, the ones that open a
  handle only when they do.
\<close>

datatype handle = Session | Connection string | Request string string

datatype win_call = Opens handle | Sends string string | Closes handle

text \<open>
  One turn of the loop: what \<^verbatim>\<open>WinHttpQueryDataAvailable\<close> returns, the size it stores, and the
  bytes of \<^verbatim>\<open>WinHttpReadData\<close>, \<open>None\<close> when it fails. The service is a record of answers:
  whether the handles are given, for headers and body whether the request is sent and answered,
  and the turns.
\<close>

type_synonym win_turn = "bool \<times> 32 word \<times> string option"

record winhttp =
  wh_session :: bool
  wh_connection :: "string \<Rightarrow> bool"
  wh_request :: "string \<Rightarrow> string \<Rightarrow> bool"
  wh_answered :: "string \<Rightarrow> string \<Rightarrow> bool"
  wh_turns :: "nat \<Rightarrow> win_turn"

section \<open>The client\<close>

definition turn_piece :: "win_turn \<Rightarrow> string" where
  "turn_piece t =
     (case t of (available, dwSize, downloaded) \<Rightarrow>
        if available \<and> dwSize > 0 then (case downloaded of None \<Rightarrow> [] | Some bytes \<Rightarrow> bytes) else [])"

text \<open>
  \<^verbatim>\<open>do \<dots> while (dwSize > 0)\<close>: a turn with a positive size is followed by another one, also when
  nothing could be read, so the loop need not end; \<open>None\<close> is then its value.
\<close>

partial_function (option) read_answer :: "(nat \<Rightarrow> win_turn) \<Rightarrow> nat \<Rightarrow> string option" where
  "read_answer turns n =
     (if fst (snd (turns n)) > 0
      then Option.bind (read_answer turns (Suc n)) (\<lambda>later. Some (turn_piece (turns n) @ later))
      else Some (turn_piece (turns n)))"

text \<open>
  The answer of a request, when the client returns, and the calls it made. A method that stays in
  its loop has made the calls before it.
\<close>

type_synonym win_result = "string option \<times> win_call list"

definition win_httpsGet :: "winhttp \<Rightarrow> string \<Rightarrow> string \<Rightarrow> win_result" where
  "win_httpsGet W host path =
     (if \<not> wh_session W then (Some [], [])
      else if \<not> wh_connection W host then (Some [], [Opens Session, Closes Session])
      else
        (let opened = [Opens Session, Opens (Connection host)];
             closed = [Closes (Connection host), Closes Session]
         in if \<not> wh_request W ''GET'' path then (Some [], opened @ closed)
            else
              (let sent = opened @ [Opens (Request ''GET'' path), Sends [] []];
                   closed = Closes (Request ''GET'' path) # closed
               in if \<not> wh_answered W [] [] then (Some [], sent @ closed)
                  else case read_answer (wh_turns W) 0 of
                    None \<Rightarrow> (None, sent)
                  | Some response \<Rightarrow> (Some response, sent @ closed))))"

definition win_httpsPost :: "winhttp \<Rightarrow> string \<Rightarrow> string \<Rightarrow> string \<Rightarrow> string \<Rightarrow> win_result" where
  "win_httpsPost W host path reqBody contentType =
     (if \<not> wh_session W then (Some [], [])
      else if \<not> wh_connection W host then (Some [], [Opens Session, Closes Session])
      else
        (let opened = [Opens Session, Opens (Connection host)];
             closed = [Closes (Connection host), Closes Session]
         in if \<not> wh_request W ''POST'' path then (Some [], opened @ closed)
            else
              (let headers = ''Content-Type: '' @ contentType @ [CHR 0x0D, CHR 0x0A];
                   sent = opened @ [Opens (Request ''POST'' path), Sends headers reqBody];
                   closed = Closes (Request ''POST'' path) # closed
               in if \<not> wh_answered W headers reqBody then (Some [], sent @ closed)
                  else case read_answer (wh_turns W) 0 of
                    None \<Rightarrow> (None, sent)
                  | Some response \<Rightarrow> (Some response, sent @ closed))))"

section \<open>When the loop ends, and with what\<close>

definition last_answer :: "win_turn \<Rightarrow> bool" where
  "last_answer t \<longleftrightarrow> fst (snd t) = 0"

lemma read_answer_turn:
  "read_answer turns n =
     (if last_answer (turns n) then Some (turn_piece (turns n))
      else map_option ((@) (turn_piece (turns n))) (read_answer turns (Suc n)))"
  by (subst read_answer.simps)
    (cases "read_answer turns (Suc n)"; simp add: last_answer_def word_gt_0)

lemma turn_piece_last [simp]: "last_answer t \<Longrightarrow> turn_piece t = []"
  by (cases t) (simp add: last_answer_def turn_piece_def)

lemma read_answer_returns:
  assumes "last_answer (turns n)" and "m \<le> n" and "\<forall>i. m \<le> i \<and> i < n \<longrightarrow> \<not> last_answer (turns i)"
  shows "read_answer turns m = Some (concat (map (\<lambda>i. turn_piece (turns i)) [m..<n]))"
  using assms(2,3)
proof (induction "n - m" arbitrary: m)
  case 0
  then have "m = n" by simp
  then show ?case using assms(1) by (simp add: read_answer_turn[of turns n])
next
  case (Suc k)
  then have m: "m < n" and now: "\<not> last_answer (turns m)" by simp_all
  have "read_answer turns (Suc m) = Some (concat (map (\<lambda>i. turn_piece (turns i)) [Suc m..<n]))"
    using Suc by (intro Suc.hyps) simp_all
  then show ?case
    using m now by (simp add: read_answer_turn[of turns m] upt_conv_Cons[of m n])
qed

lemma read_answer_ends:
  assumes "read_answer turns m = Some s"
  shows "\<exists>n\<ge>m. last_answer (turns n)"
proof (rule read_answer.raw_induct[OF _ assms])
  fix rec turns m s
  assume IH: "\<And>turns m s. rec turns m = Some s \<Longrightarrow> \<exists>n\<ge>m. last_answer (turns n)"
    and body: "(if fst (snd (turns m)) > 0
        then Option.bind (rec turns (Suc m)) (\<lambda>later. Some (turn_piece (turns m) @ later))
        else Some (turn_piece (turns m))) = Some s"
  show "\<exists>n\<ge>m. last_answer (turns n)"
  proof (cases "last_answer (turns m)")
    case False
    then obtain later where "rec turns (Suc m) = Some later"
      using body by (auto simp: last_answer_def word_gt_0 split: if_splits Option.bind_splits)
    from IH[OF this] show ?thesis using Suc_leD by blast
  qed auto
qed

lemma read_answer_iff: "read_answer turns 0 = None \<longleftrightarrow> (\<forall>n. \<not> last_answer (turns n))"
proof
  assume none: "read_answer turns 0 = None"
  show "\<forall>n. \<not> last_answer (turns n)"
  proof (rule ccontr)
    assume "\<not> (\<forall>n. \<not> last_answer (turns n))"
    then obtain n where "last_answer (turns n)" "\<forall>i<n. \<not> last_answer (turns i)"
      using exists_least_iff[of "\<lambda>n. last_answer (turns n)"] by auto
    then show False using read_answer_returns[of turns n 0] none by simp
  qed
next
  assume "\<forall>n. \<not> last_answer (turns n)"
  then show "read_answer turns 0 = None"
    using read_answer_ends[of turns 0] by (cases "read_answer turns 0") auto
qed

section \<open>Handles\<close>

text \<open>
  The handles still open after a sequence of calls, the last opened first; \<open>None\<close> when a call
  closes one that is not the last opened.
\<close>

fun open_handles :: "handle list \<Rightarrow> win_call list \<Rightarrow> handle list option" where
  "open_handles hs [] = Some hs"
| "open_handles hs (Opens h # cs) = open_handles (h # hs) cs"
| "open_handles hs (Sends a b # cs) = open_handles hs cs"
| "open_handles (h # hs) (Closes h' # cs) = (if h = h' then open_handles hs cs else None)"
| "open_handles [] (Closes h' # cs) = None"

text \<open>
  C40. The Windows client, for a request of either kind. It returns exactly when it fails before the
  loop or the service announces, at some turn, that nothing is left; it then has closed every
  handle it opened, each once and the last opened first. What it returns is empty when the
  session, the connection or the request cannot be opened or the request is not answered, and
  otherwise the bytes of all turns before the first with nothing left, in order. While it is in a
  loop that does not end, all its three handles stay open.
\<close>

theorem windows_client:
  assumes R: "(v, h, b) \<in> {(''GET'', [], []),
      (''POST'', ''Content-Type: '' @ contentType @ [CHR 0x0D, CHR 0x0A], reqBody)}"
    and res: "(result, calls) =
      (if v = ''GET'' then win_httpsGet W host path else win_httpsPost W host path reqBody contentType)"
    and reached: "reached \<longleftrightarrow> wh_session W \<and> wh_connection W host \<and> wh_request W v path \<and> wh_answered W h b"
  shows "(result = None \<longleftrightarrow> reached \<and> (\<forall>n. \<not> last_answer (wh_turns W n))) \<and>
    (\<not> reached \<longrightarrow> result = Some []) \<and>
    (reached \<and> last_answer (wh_turns W n) \<and> (\<forall>i<n. \<not> last_answer (wh_turns W i)) \<longrightarrow>
       result = Some (concat (map (\<lambda>i. turn_piece (wh_turns W i)) [0..<n]))) \<and>
    open_handles [] calls =
      (if result = None then Some [Request v path, Connection host, Session] else Some [])"
proof -
  have form: "(result, calls) =
     (if \<not> wh_session W then (Some [], [])
      else if \<not> wh_connection W host then (Some [], [Opens Session, Closes Session])
      else if \<not> wh_request W v path then
        (Some [], [Opens Session, Opens (Connection host), Closes (Connection host), Closes Session])
      else let sent = [Opens Session, Opens (Connection host), Opens (Request v path), Sends h b];
               closed = [Closes (Request v path), Closes (Connection host), Closes Session]
        in if \<not> wh_answered W h b then (Some [], sent @ closed)
           else (read_answer (wh_turns W) 0,
             sent @ (if read_answer (wh_turns W) 0 = None then [] else closed)))"
    using R res by (auto simp: win_httpsGet_def win_httpsPost_def Let_def split: option.split)
  have result: "result = (if reached then read_answer (wh_turns W) 0 else Some [])"
    using form by (auto simp: reached Let_def split: if_splits)
  have "open_handles [] calls =
      (if result = None then Some [Request v path, Connection host, Session] else Some [])"
    using form by (auto simp: Let_def split: if_splits)
  then show ?thesis
    using read_answer_iff[of "wh_turns W"] read_answer_returns[of "wh_turns W" n 0]
    by (simp add: result)
qed

text \<open>An answer in two pieces, with a turn between them at which the read fails.\<close>

definition demo_winhttp :: winhttp where
  "demo_winhttp =
     \<lparr>wh_session = True, wh_connection = (\<lambda>h. h \<noteq> []), wh_request = (\<lambda>v p. True),
      wh_answered = (\<lambda>h b. True),
      wh_turns = (\<lambda>n. if n = 0 then (True, 2, Some ''{}'') else if n = 1 then (True, 3, None)
                      else if n = 2 then (True, 1, Some ''x'') else (True, 0, None))\<rparr>"

lemma windows_client_witness:
  "fst (win_httpsGet demo_winhttp ''oauth2.googleapis.com'' ''/'') = Some ''{}x'' \<and>
   open_handles [] (snd (win_httpsGet demo_winhttp ''oauth2.googleapis.com'' ''/'')) = Some []"
proof -
  let ?r = "win_httpsGet demo_winhttp ''oauth2.googleapis.com'' ''/''"
  have "\<forall>i<3. \<not> last_answer (wh_turns demo_winhttp i)" "last_answer (wh_turns demo_winhttp 3)"
    by (auto simp: demo_winhttp_def last_answer_def)
  then have "fst ?r = Some (concat (map (\<lambda>i. turn_piece (wh_turns demo_winhttp i)) [0..<3])) \<and>
      open_handles [] (snd ?r) = (if fst ?r = None
        then Some [Request ''GET'' ''/'', Connection ''oauth2.googleapis.com'', Session] else Some [])"
    using windows_client[of "''GET''" "[]" "[]" "[]" "[]" "fst ?r" "snd ?r" demo_winhttp
        "''oauth2.googleapis.com''" "''/''" True 3]
    by (simp add: demo_winhttp_def)
  then show ?thesis by (simp add: demo_winhttp_def turn_piece_def upt_rec)
qed

text \<open>
  A service whose reads keep failing while it announces data holds the thread for ever; the
  client of the other systems has a limit of fifteen seconds instead. And where the other client
  cuts each piece at its first zero byte, this one keeps all bytes.
\<close>

lemma windows_client_hangs:
  "\<forall>n. wh_turns W n = (True, 1, None) \<Longrightarrow> read_answer (wh_turns W) 0 = None"
  by (simp add: read_answer_iff last_answer_def)

end
