(* ===== verification/Test_Harness.thy ===== *)
theory Test_Harness
  imports Std_Text
begin

text \<open>
  The test runner of the repository (\<^verbatim>\<open>Tests/include/TestHarness.h\<close>, \<^verbatim>\<open>Tests/main.cpp\<close>): the
  context a test case records its expectations in, the \<^verbatim>\<open>EXPECT_\<close> macros, the loop over the
  registered test cases, and the exit code. A test case also reads and changes the world it runs
  in (a database, the environment), which is a type parameter \<open>'w\<close>; the run starts in the world
  that loading \<^verbatim>\<open>.env.test\<close> leaves. The registry is the list of test cases.
\<close>

section \<open>The context\<close>

text \<open>
  A place is the file and the line of a macro. Of a failure's message the model keeps which macro
  it is from; the text of the expression and of the values is left out.
\<close>

type_synonym place = "string \<times> nat"

datatype failure_kind =
    Expect_true | Expect_false | Expect_eq | Expect_ne | Expect_no_throw | Unhandled_exception

record test_failure =
  tf_place :: place
  tf_kind :: failure_kind

record test_context =
  cx_assertions :: nat
  cx_failures :: "test_failure list"

definition recordPass :: "test_context \<Rightarrow> test_context" where
  "recordPass ctx = ctx\<lparr>cx_assertions := cx_assertions ctx + 1\<rparr>"

definition recordFailure :: "place \<Rightarrow> failure_kind \<Rightarrow> test_context \<Rightarrow> test_context" where
  "recordFailure p k ctx =
     ctx\<lparr>cx_failures := cx_failures ctx @ [\<lparr>tf_place = p, tf_kind = k\<rparr>]\<rparr>"

definition hasFailed :: "test_context \<Rightarrow> bool" where
  "hasFailed ctx \<longleftrightarrow> cx_failures ctx \<noteq> []"

definition resetForTest :: "test_context \<Rightarrow> test_context" where
  "resetForTest ctx = ctx\<lparr>cx_assertions := 0, cx_failures := []\<rparr>"

section \<open>The macros\<close>

text \<open>
  A check runs in a context and either goes on (\<open>Return\<close> of the new context) or lets an
  exception pass, with the context as it is then. The arguments of a macro are evaluated inside
  it and may throw: only \<^verbatim>\<open>EXPECT_NO_THROW\<close> catches.
\<close>

type_synonym check = "test_context \<Rightarrow> bool \<times> test_context"

definition expect :: "place \<Rightarrow> failure_kind \<Rightarrow> bool outcome \<Rightarrow> check" where
  "expect p k v ctx =
     (case v of
        Throw \<Rightarrow> (False, ctx)
      | Return b \<Rightarrow> (True, if b then recordPass ctx else recordFailure p k ctx))"

definition EXPECT_TRUE :: "place \<Rightarrow> bool outcome \<Rightarrow> check" where
  "EXPECT_TRUE p v = expect p Expect_true v"

definition EXPECT_FALSE :: "place \<Rightarrow> bool outcome \<Rightarrow> check" where
  "EXPECT_FALSE p v = expect p Expect_false (obind v (\<lambda>b. Return (\<not> b)))"

definition EXPECT_EQ :: "place \<Rightarrow> 'a outcome \<Rightarrow> 'a outcome \<Rightarrow> check" where
  "EXPECT_EQ p a b = expect p Expect_eq (obind a (\<lambda>x. obind b (\<lambda>y. Return (x = y))))"

definition EXPECT_NE :: "place \<Rightarrow> 'a outcome \<Rightarrow> 'a outcome \<Rightarrow> check" where
  "EXPECT_NE p a b = expect p Expect_ne (obind a (\<lambda>x. obind b (\<lambda>y. Return (x \<noteq> y))))"

definition EXPECT_NO_THROW :: "place \<Rightarrow> 'a outcome \<Rightarrow> check" where
  "EXPECT_NO_THROW p v = expect p Expect_no_throw (Return (v \<noteq> Throw))"

text \<open>
  The statements of a test case in order: an exception ends it. \<open>abort\<close> stands for a
  statement outside the macros that throws.
\<close>

fun run_checks :: "check list \<Rightarrow> check" where
  "run_checks [] ctx = (True, ctx)"
| "run_checks (c # cs) ctx =
     (case c ctx of (True, ctx') \<Rightarrow> run_checks cs ctx' | (False, ctx') \<Rightarrow> (False, ctx'))"

definition abort :: check where
  "abort ctx = (False, ctx)"

section \<open>The run\<close>

text \<open>
  A test case is its name and what it does to the world, with the checks it makes on the way.
\<close>

record 'w test_case =
  ts_category :: string
  ts_name :: string
  ts_func :: "'w \<Rightarrow> check list \<times> 'w"

definition TEST_CASE :: "string \<Rightarrow> string \<Rightarrow> ('w \<Rightarrow> check list \<times> 'w) \<Rightarrow> 'w test_case" where
  "TEST_CASE cat nm f = \<lparr>ts_category = cat, ts_name = nm, ts_func = f\<rparr>"

text \<open>
  The filter of the command line. \<^verbatim>\<open>arg.front()\<close> of an empty first argument reads its
  terminator; the filter is empty then as before.
\<close>

definition filter_argument :: "string \<Rightarrow> nat \<times> string \<Rightarrow> string" where
  "filter_argument flt iarg =
     (case iarg of (i, arg) \<Rightarrow>
        if starts_with ''--filter='' arg then drop 9 arg
        else if starts_with ''-f='' arg then drop 3 arg
        else if i = 1 \<and> (arg = [] \<or> hd arg \<noteq> CHR ''-'') then arg
        else flt)"

definition filter_of :: "string list \<Rightarrow> string" where
  "filter_of args = foldl filter_argument [] (enumerate 1 args)"

definition selected :: "string \<Rightarrow> 'w test_case \<Rightarrow> bool" where
  "selected flt t \<longleftrightarrow> flt = [] \<or> contains_str flt (ts_category t) \<or> contains_str flt (ts_name t)"

text \<open>
  The printed lines: a heading whenever the category changes, then one line per test case, with
  the failures of a failed one. Durations are left out.
\<close>

datatype report_line = Heading string | Passed string | Failed string "test_failure list"

record suite =
  su_passed :: nat
  su_failed :: nat
  su_assertions :: nat
  su_category :: string
  su_lines :: "report_line list"

definition no_suite :: suite where
  "no_suite = \<lparr>su_passed = 0, su_failed = 0, su_assertions = 0, su_category = [], su_lines = []\<rparr>"

definition main_place :: place where
  "main_place = (''Tests/main.cpp'', 66)"

definition run_func :: "'w test_case \<Rightarrow> 'w \<Rightarrow> test_context \<Rightarrow> test_context \<times> 'w" where
  "run_func t w ctx =
     (let (cs, w') = ts_func t w in
      case run_checks cs (resetForTest ctx) of
        (True, ctx') \<Rightarrow> (ctx', w')
      | (False, ctx') \<Rightarrow> (recordFailure main_place Unhandled_exception ctx', w'))"

definition print_heading :: "string \<Rightarrow> suite \<Rightarrow> suite" where
  "print_heading cat s =
     (if cat = su_category s then s
      else s\<lparr>su_category := cat, su_lines := su_lines s @ [Heading cat]\<rparr>)"

definition print_verdict :: "string \<Rightarrow> test_context \<Rightarrow> suite \<Rightarrow> suite" where
  "print_verdict nm ctx s =
     (if hasFailed ctx
      then s\<lparr>su_failed := su_failed s + 1, su_lines := su_lines s @ [Failed nm (cx_failures ctx)]\<rparr>
      else s\<lparr>su_passed := su_passed s + 1, su_lines := su_lines s @ [Passed nm]\<rparr>)"

fun run_tests ::
    "string \<Rightarrow> 'w test_case list \<Rightarrow> 'w \<Rightarrow> test_context \<Rightarrow> suite \<Rightarrow> suite \<times> 'w" where
  "run_tests flt [] w ctx s = (s, w)"
| "run_tests flt (t # ts) w ctx s =
     (if \<not> selected flt t then run_tests flt ts w ctx s
      else let s1 = print_heading (ts_category t) s;
               (ctx', w') = run_func t w ctx;
               s2 = s1\<lparr>su_assertions := su_assertions s1 + cx_assertions ctx'\<rparr>
           in run_tests flt ts w' ctx' (print_verdict (ts_name t) ctx' s2))"

definition exit_code :: "suite \<Rightarrow> int" where
  "exit_code s = (if su_failed s > 0 then 1 else 0)"

definition test_main :: "'w test_case list \<Rightarrow> string list \<Rightarrow> 'w \<Rightarrow> int \<times> suite \<times> 'w" where
  "test_main tests args w =
     (let (s, w') = run_tests (filter_of args) tests w \<lparr>cx_assertions = 0, cx_failures = []\<rparr> no_suite
      in (exit_code s, s, w'))"

section \<open>What a passed check is\<close>

definition passes :: "check \<Rightarrow> bool" where
  "passes c \<longleftrightarrow> (\<forall>ctx. c ctx = (True, recordPass ctx))"

lemma recordPass_not_recordFailure [simp]:
  "recordPass ctx \<noteq> recordFailure p k ctx" "recordFailure p k ctx \<noteq> recordPass ctx"
  by (cases ctx; simp add: recordPass_def recordFailure_def)+

lemma expect_passes: "passes (expect p k v) \<longleftrightarrow> v = Return True"
proof
  assume "passes (expect p k v)"
  then have "expect p k v \<lparr>cx_assertions = 0, cx_failures = []\<rparr> =
      (True, recordPass \<lparr>cx_assertions = 0, cx_failures = []\<rparr>)"
    by (simp add: passes_def)
  then show "v = Return True"
    by (auto simp: expect_def split: outcome.splits if_splits)
qed (simp add: passes_def expect_def)

lemma passes_simps [simp]:
  "passes (EXPECT_TRUE p v) \<longleftrightarrow> v = Return True"
  "passes (EXPECT_FALSE p v) \<longleftrightarrow> v = Return False"
  "passes (EXPECT_EQ p a b) \<longleftrightarrow> (\<exists>x. a = Return x \<and> b = Return x)"
  "passes (EXPECT_NE p a b) \<longleftrightarrow> (\<exists>x y. a = Return x \<and> b = Return y \<and> x \<noteq> y)"
  "passes (EXPECT_NO_THROW p c) \<longleftrightarrow> c \<noteq> Throw"
  "\<not> passes abort"
  by (auto simp: EXPECT_TRUE_def EXPECT_FALSE_def EXPECT_EQ_def EXPECT_NE_def EXPECT_NO_THROW_def
      expect_passes obind_Return_iff)
    (simp add: passes_def abort_def)

lemma run_checks_all_pass:
  assumes "\<forall>c\<in>set cs. passes c"
  shows "run_checks cs ctx = (True, ctx\<lparr>cx_assertions := cx_assertions ctx + length cs\<rparr>)"
  using assms by (induction cs arbitrary: ctx) (simp_all add: passes_def recordPass_def)

section \<open>What the run reports\<close>

abbreviation empty_context :: test_context where
  "empty_context \<equiv> \<lparr>cx_assertions = 0, cx_failures = []\<rparr>"

text \<open>A test case succeeds in a world when its context has no failure at its end.\<close>

definition case_context :: "'w test_case \<Rightarrow> 'w \<Rightarrow> test_context" where
  "case_context t w = fst (run_func t w empty_context)"

definition case_ok :: "'w test_case \<Rightarrow> 'w \<Rightarrow> bool" where
  "case_ok t w \<longleftrightarrow> \<not> hasFailed (case_context t w)"

text \<open>The selected test cases, each with the world the ones before it leave.\<close>

fun executed :: "string \<Rightarrow> 'w test_case list \<Rightarrow> 'w \<Rightarrow> ('w test_case \<times> 'w) list" where
  "executed flt [] w = []"
| "executed flt (t # ts) w =
     (if selected flt t then (t, w) # executed flt ts (snd (ts_func t w)) else executed flt ts w)"

lemma map_fst_executed [simp]: "map fst (executed flt ts w) = filter (selected flt) ts"
  by (induction ts arbitrary: w) simp_all

lemma resetForTest_empty [simp]: "resetForTest ctx = empty_context"
  by (simp add: resetForTest_def)

lemma run_func_case [simp]: "run_func t w ctx = (case_context t w, snd (ts_func t w))"
  by (simp add: case_context_def run_func_def split: prod.split bool.split)

lemma print_simps [simp]:
  "su_passed (print_heading cat s) = su_passed s" "su_failed (print_heading cat s) = su_failed s"
  "su_assertions (print_heading cat s) = su_assertions s"
  "su_passed (print_verdict nm ctx s) = su_passed s + of_bool (\<not> hasFailed ctx)"
  "su_failed (print_verdict nm ctx s) = su_failed s + of_bool (hasFailed ctx)"
  "su_assertions (print_verdict nm ctx s) = su_assertions s"
  by (simp_all add: print_heading_def print_verdict_def)

lemma run_tests_counts:
  assumes "run_tests flt ts w ctx s = (s', w')" and "runs = executed flt ts w"
  shows "su_passed s' = su_passed s + length (filter (\<lambda>(t, w). case_ok t w) runs) \<and>
    su_failed s' = su_failed s + length (filter (\<lambda>(t, w). \<not> case_ok t w) runs) \<and>
    su_assertions s' = su_assertions s + (\<Sum>(t, w)\<leftarrow>runs. cx_assertions (case_context t w))"
  using assms
proof (induction ts arbitrary: w ctx s runs)
  case (Cons t ts)
  show ?case
  proof (cases "selected flt t")
    case True
    let ?s = "(print_heading (ts_category t) s)\<lparr>su_assertions :=
      su_assertions (print_heading (ts_category t) s) + cx_assertions (case_context t w)\<rparr>"
    have "run_tests flt ts (snd (ts_func t w)) (case_context t w)
        (print_verdict (ts_name t) (case_context t w) ?s) = (s', w')"
      using Cons.prems(1) True by simp
    from Cons.IH[OF this refl] show ?thesis
      using True by (simp add: Cons.prems(2) case_ok_def)
  qed (use Cons in simp)
qed simp

lemma case_ok_passes:
  assumes "\<forall>c\<in>set (fst (ts_func t w)). passes c"
  shows "case_ok t w" and "cx_assertions (case_context t w) = length (fst (ts_func t w))"
  using run_checks_all_pass[OF assms, of empty_context]
  by (simp_all add: case_ok_def case_context_def run_func_def hasFailed_def split_def Let_def del: run_func_case)

lemma case_ok_abort: "ts_func t w = (cs @ abort # ds, w') \<Longrightarrow> \<not> case_ok t w"
proof -
  have "\<exists>ctx'. run_checks (cs @ abort # ds) ctx = (False, ctx')" for ctx
    by (induction cs arbitrary: ctx) (auto simp: abort_def split: prod.split bool.split)
  then obtain ctx' where "run_checks (cs @ abort # ds) empty_context = (False, ctx')" by blast
  then show "\<not> case_ok t w" if "ts_func t w = (cs @ abort # ds, w')"
    using that
    by (simp add: case_ok_def case_context_def run_func_def hasFailed_def recordFailure_def del: run_func_case)
qed

text \<open>
  The verdict of the test runner is that of its test cases: every test case the filter
  selects is run once, in the order of registration, in the world its predecessors leave; it
  counts as passed exactly when it records no failure and lets no exception pass; and the exit
  code is 0 exactly when all of them pass, in particular when the filter selects none.
\<close>

theorem suite_verdict:
  assumes "test_main tests args w = (code, s, w')" and runs: "runs = executed (filter_of args) tests w"
  shows "map fst runs = filter (selected (filter_of args)) tests \<and>
    su_passed s = length (filter (\<lambda>(t, w). case_ok t w) runs) \<and>
    su_failed s = length (filter (\<lambda>(t, w). \<not> case_ok t w) runs) \<and>
    su_passed s + su_failed s = length runs \<and>
    (code = 0 \<longleftrightarrow> (\<forall>(t, w)\<in>set runs. case_ok t w)) \<and> (code \<noteq> 0 \<longrightarrow> code = 1)"
proof -
  have run: "run_tests (filter_of args) tests w empty_context no_suite = (s, w')"
    and code: "code = exit_code s"
    using assms(1) by (auto simp: test_main_def split: prod.splits)
  note c = run_tests_counts[OF run runs]
  have "su_passed s + su_failed s = length runs"
    using c sum_length_filter_compl[of "\<lambda>(t, w). case_ok t w" runs]
    by (simp add: no_suite_def split_def)
  moreover have "code = 0 \<longleftrightarrow> (\<forall>(t, w)\<in>set runs. case_ok t w)"
    using c by (auto simp: code exit_code_def no_suite_def filter_empty_conv)
  moreover have "code \<noteq> 0 \<longrightarrow> code = 1" by (simp add: code exit_code_def)
  moreover have "map fst runs = filter (selected (filter_of args)) tests" by (simp add: runs)
  ultimately show ?thesis using c by (simp add: no_suite_def)
qed

text \<open>A run of two test cases, of which the filter selects the failing one.\<close>

definition demo_tests :: "nat test_case list" where
  "demo_tests =
     [TEST_CASE ''Demo'' ''Counts'' (\<lambda>w. ([EXPECT_EQ (''Demo.cpp'', 4) (Return w) (Return 0)], w + 1)),
      TEST_CASE ''Demo'' ''Throws'' (\<lambda>w. ([EXPECT_TRUE (''Demo.cpp'', 9) (Return (w = 1)), abort], w))]"

lemma suite_verdict_witness: "fst (test_main demo_tests [''--filter=Throws''] 1) = 1"
proof -
  have t: "executed (filter_of [''--filter=Throws'']) demo_tests 1 = [(demo_tests ! 1, 1)]"
    by (simp add: demo_tests_def TEST_CASE_def filter_of_def filter_argument_def selected_def
        enumerate_eq_zip upt_rec starts_with_def)
  have "\<not> case_ok (demo_tests ! 1) (1 :: nat)"
    by (rule case_ok_abort[where cs = "[EXPECT_TRUE (''Demo.cpp'', 9) (Return True)]" and ds = "[]"])
      (simp add: demo_tests_def TEST_CASE_def)
  then show ?thesis
    using suite_verdict[of demo_tests "[''--filter=Throws'']" 1
        "fst (test_main demo_tests [''--filter=Throws''] 1)" _ _ "[(demo_tests ! 1, 1)]"] t
    by (auto simp: prod_eq_iff split: prod.splits)
qed

text \<open>
  Two things the summary does not say. An expectation that fails is not among the assertions it
  counts; and a filter that matches nothing is reported as a run in which all tests pass.
\<close>

lemma assertions_are_passes:
  "cx_assertions (recordFailure p k ctx) = cx_assertions ctx"
  by (simp add: recordFailure_def)

lemma empty_selection_passes:
  "\<forall>t\<in>set tests. \<not> selected (filter_of args) t \<Longrightarrow> fst (test_main tests args w) = 0"
proof -
  assume "\<forall>t\<in>set tests. \<not> selected (filter_of args) t"
  then have "run_tests (filter_of args) tests w ctx s = (s, w)" for ctx s
    by (induction tests) simp_all
  then show "fst (test_main tests args w) = 0"
    by (simp add: test_main_def exit_code_def no_suite_def)
qed

section \<open>Suites that pass\<close>

text \<open>
  The contract of a suite: in every world that meets the precondition each test case makes only
  checks that pass, and leaves such a world to the next.
\<close>

locale passing_suite =
  fixes tests :: "'w test_case list"
    and ready :: "'w \<Rightarrow> bool"
  assumes case_passes: "\<lbrakk>t \<in> set tests; ready w; c \<in> set (fst (ts_func t w))\<rbrakk> \<Longrightarrow> passes c"
    and case_ready: "\<lbrakk>t \<in> set tests; ready w\<rbrakk> \<Longrightarrow> ready (snd (ts_func t w))"
begin

lemma executed_ok: "ready w \<Longrightarrow> set ts \<subseteq> set tests \<Longrightarrow> \<forall>(t, w)\<in>set (executed flt ts w). case_ok t w"
proof (induction ts arbitrary: w)
  case (Cons t ts)
  then have "case_ok t w" by (intro case_ok_passes(1)) (auto intro: case_passes)
  moreover have "ready (snd (ts_func t w))" using Cons.prems by (auto intro: case_ready)
  ultimately show ?case using Cons by simp
qed simp

lemma all_pass:
  assumes "ready w" and "test_main tests args w = (code, s, w')"
  shows "code = 0 \<and> su_failed s = 0 \<and> su_passed s = length (filter (selected (filter_of args)) tests)"
proof -
  let ?runs = "executed (filter_of args) tests w"
  have run: "run_tests (filter_of args) tests w empty_context no_suite = (s, w')"
    and code: "code = exit_code s"
    using assms(2) by (auto simp: test_main_def split: prod.splits)
  have "filter (\<lambda>(t, w). case_ok t w) ?runs = ?runs" "filter (\<lambda>(t, w). \<not> case_ok t w) ?runs = []"
    using executed_ok[OF assms(1) subset_refl, of "filter_of args"]
    by (auto simp: filter_id_conv filter_empty_conv)
  moreover have "length ?runs = length (filter (selected (filter_of args)) tests)"
    by (metis length_map map_fst_executed)
  ultimately show ?thesis
    using run_tests_counts[OF run refl] by (simp add: code exit_code_def no_suite_def)
qed

end

end
