(* ===== verification/Unit_Tests.thy ===== *)
theory Unit_Tests
  imports Test_Harness Validation Authorization Todo_UseCases Env_Config Logging
begin

text \<open>
  The test cases of \<^verbatim>\<open>Tests/Unit\<close> that need no database and no cryptography, translated
  statement by statement and run on the model: validators, domain types, the authorization
  service, the todo use cases over the in-memory repository, the environment loader and the log
  levels. They share one world, the environment, since \<^verbatim>\<open>EnvLoader\<close> is global.
\<close>

section \<open>Accessors of results\<close>

text \<open>
  \<^verbatim>\<open>res.error().details.empty()\<close>, \<^verbatim>\<open>res.value().data.has_value()\<close>, and a field of
  \<^verbatim>\<open>res.value().data-><field>\<close>. To read through an empty optional is undefined; here it counts as a
  throw, so that no test passes by it.
\<close>

definition no_details :: "'a dresult \<Rightarrow> bool outcome" where
  "no_details res = obind (result_error res) (\<lambda>e. Return (err_details e = []))"

definition has_data :: "'a api_result \<Rightarrow> bool outcome" where
  "has_data res = obind (result_value res) (\<lambda>r. Return (r_data r \<noteq> None))"

definition data_field :: "('a \<Rightarrow> 'b) \<Rightarrow> 'a api_result \<Rightarrow> 'b outcome" where
  "data_field f res =
     obind (result_value res) (\<lambda>r. case r_data r of None \<Rightarrow> Throw | Some x \<Rightarrow> Return (f x))"

lemma accessors_Ok [simp]:
  "has_data (Ok (api_ok now v msg code)) = Return True"
  "data_field f (Ok (api_ok now v msg code)) = Return (f v)"
  by (simp_all add: has_data_def data_field_def api_ok_def)

lemma no_details_mk_error [simp]: "no_details (Err (mk_error m c ds)) = Return (ds = [])"
  by (simp add: no_details_def mk_error_def)

section \<open>Unit/Application/ValidationTest.cpp\<close>

abbreviation in_validation :: "nat \<Rightarrow> place" where
  "in_validation n \<equiv> (''Unit/Application/ValidationTest.cpp'', n)"

definition TodoInputValidatorSuccess :: "'w test_case" where
  "TodoInputValidatorSuccess = TEST_CASE ''Application::Validation'' ''TodoInputValidatorSuccess''
     (\<lambda>w. let res = validateCreate \<lparr>ct_title = ''Valid Title'', ct_description = ''Optional description''\<rparr>
          in ([EXPECT_TRUE (in_validation 11) (Return (isOk res))], w))"

definition TodoInputValidatorEmptyTitle :: "'w test_case" where
  "TodoInputValidatorEmptyTitle = TEST_CASE ''Application::Validation'' ''TodoInputValidatorEmptyTitle''
     (\<lambda>w. let res = validateCreate \<lparr>ct_title = [], ct_description = ''description''\<rparr>
          in ([EXPECT_FALSE (in_validation 20) (Return (isOk res)),
               EXPECT_FALSE (in_validation 21) (no_details res)], w))"

definition TodoInputValidatorWhitespaceTitle :: "'w test_case" where
  "TodoInputValidatorWhitespaceTitle =
     TEST_CASE ''Application::Validation'' ''TodoInputValidatorWhitespaceTitle''
     (\<lambda>w. let res = validateCreate \<lparr>ct_title = ''    '', ct_description = ''description''\<rparr>
          in ([EXPECT_FALSE (in_validation 30) (Return (isOk res)),
               EXPECT_FALSE (in_validation 31) (no_details res)], w))"

text \<open>\<^verbatim>\<open>RegisterRequest\<close> with the default role of its declaration.\<close>

definition registration :: "string \<Rightarrow> string \<Rightarrow> register_request" where
  "registration em pw = \<lparr>rq_email = em, rq_password = pw, rq_role = ''user''\<rparr>"

definition AuthInputValidatorEmailSuccess :: "'w test_case" where
  "AuthInputValidatorEmailSuccess =
     TEST_CASE ''Application::Validation'' ''AuthInputValidatorEmailSuccess''
     (\<lambda>w. let res = validateRegister (registration ''alice@example.com'' ''SecurePassword123!'')
          in ([EXPECT_TRUE (in_validation 40) (Return (isOk res))], w))"

definition AuthInputValidatorInvalidEmail :: "'w test_case" where
  "AuthInputValidatorInvalidEmail =
     TEST_CASE ''Application::Validation'' ''AuthInputValidatorInvalidEmail''
     (\<lambda>w. let res1 = validateRegister (registration ''invalid-email'' ''SecurePassword123!'');
              res2 = validateRegister (registration ''@missinguser.com'' ''SecurePassword123!'');
              res3 = validateRegister (registration ''alice@'' ''SecurePassword123!'')
          in ([EXPECT_FALSE (in_validation 49) (Return (isOk res1)),
               EXPECT_FALSE (in_validation 56) (Return (isOk res2)),
               EXPECT_FALSE (in_validation 63) (Return (isOk res3))], w))"

definition AuthInputValidatorShortPassword :: "'w test_case" where
  "AuthInputValidatorShortPassword =
     TEST_CASE ''Application::Validation'' ''AuthInputValidatorShortPassword''
     (\<lambda>w. let res = validateRegister (registration ''alice@example.com'' ''short'')
          in ([EXPECT_FALSE (in_validation 72) (Return (isOk res)),
               EXPECT_FALSE (in_validation 73) (no_details res)], w))"

definition AuthInputValidatorEmptyPassword :: "'w test_case" where
  "AuthInputValidatorEmptyPassword =
     TEST_CASE ''Application::Validation'' ''AuthInputValidatorEmptyPassword''
     (\<lambda>w. let res = validateRegister (registration ''alice@example.com'' [])
          in ([EXPECT_FALSE (in_validation 82) (Return (isOk res))], w))"

definition ValidationTest :: "'w test_case list" where
  "ValidationTest =
     [TodoInputValidatorSuccess, TodoInputValidatorEmptyTitle, TodoInputValidatorWhitespaceTitle,
      AuthInputValidatorEmailSuccess, AuthInputValidatorInvalidEmail,
      AuthInputValidatorShortPassword, AuthInputValidatorEmptyPassword]"

section \<open>Unit/Domain/DomainEntitiesTest.cpp\<close>

abbreviation in_domain :: "nat \<Rightarrow> place" where
  "in_domain n \<equiv> (''Unit/Domain/DomainEntitiesTest.cpp'', n)"

definition SuccessResultHoldsValue :: "'w test_case" where
  "SuccessResultHoldsValue = TEST_CASE ''Domain::Result'' ''SuccessResultHoldsValue''
     (\<lambda>w. let res = Ok 42 :: int dresult
          in ([EXPECT_TRUE (in_domain 14) (Return (isOk res)),
               EXPECT_TRUE (in_domain 15) (Return (isOk res)),
               EXPECT_FALSE (in_domain 16) (Return (isErr res)),
               EXPECT_EQ (in_domain 17) (result_value res) (Return 42)], w))"

definition FailureResultHoldsError :: "'w test_case" where
  "FailureResultHoldsError = TEST_CASE ''Domain::Result'' ''FailureResultHoldsError''
     (\<lambda>w. let res = Err (mk_error ''Item not found in repository'' 404 []) :: int dresult
          in ([EXPECT_FALSE (in_domain 23) (Return (isOk res)),
               EXPECT_FALSE (in_domain 24) (Return (isOk res)),
               EXPECT_TRUE (in_domain 25) (Return (isErr res)),
               EXPECT_EQ (in_domain 26) (obind (result_error res) (\<lambda>e. Return (err_statusCode e)))
                 (Return 404),
               EXPECT_EQ (in_domain 27) (obind (result_error res) (\<lambda>e. Return (err_message e)))
                 (Return ''Item not found in repository'')], w))"

definition RoleHierarchyAndPermissions :: "'w test_case" where
  "RoleHierarchyAndPermissions = TEST_CASE ''Domain::Permissions'' ''RoleHierarchyAndPermissions''
     (\<lambda>w. ([EXPECT_TRUE (in_domain 31) (Return (roleHasPermission ''admin'' SessionReadAll)),
            EXPECT_TRUE (in_domain 32) (Return (roleHasPermission ''admin'' SessionRevokeAll)),
            EXPECT_TRUE (in_domain 33) (Return (roleHasPermission ''admin'' SessionReadSelf)),
            EXPECT_TRUE (in_domain 34) (Return (roleHasPermission ''admin'' UserManage)),
            EXPECT_FALSE (in_domain 36) (Return (roleHasPermission ''user'' SessionReadAll)),
            EXPECT_FALSE (in_domain 37) (Return (roleHasPermission ''user'' SessionRevokeAll)),
            EXPECT_TRUE (in_domain 38) (Return (roleHasPermission ''user'' SessionReadSelf)),
            EXPECT_TRUE (in_domain 39) (Return (roleHasPermission ''user'' SessionRevokeSelf)),
            EXPECT_FALSE (in_domain 40) (Return (roleHasPermission ''user'' UserManage)),
            EXPECT_EQ (in_domain 42) (Return (permissionToString SessionReadSelf))
              (Return ''session:read:self''),
            EXPECT_EQ (in_domain 43) (Return (permissionToString UserManage))
              (Return ''user:manage'')], w))"

text \<open>The remaining cases of the file build an entity and read its members back.\<close>

definition TodoValidationAndProperties :: "time \<Rightarrow> 'w test_case" where
  "TodoValidationAndProperties now = TEST_CASE ''Domain::Entities'' ''TodoValidationAndProperties''
     (\<lambda>w. let x = \<lparr>t_id = 101, t_title = ''Test Domain Todo'',
                   t_description = ''Detailed description'', t_completed = False,
                   t_createdAt = now, t_updatedAt = now\<rparr>
          in ([EXPECT_EQ (in_domain 54) (Return (t_id x)) (Return 101),
               EXPECT_EQ (in_domain 55) (Return (t_title x)) (Return ''Test Domain Todo''),
               EXPECT_FALSE (in_domain 56) (Return (t_completed x))], w))"

definition UserEntityInvariants :: "time \<Rightarrow> 'w test_case" where
  "UserEntityInvariants now = TEST_CASE ''Domain::Entities'' ''UserEntityInvariants''
     (\<lambda>w. let x = (default_user now)\<lparr>u_id := ''usr-12345'', u_email := ''test@example.com'',
                   u_passwordHash := Some ''hash123'', u_role := ''admin'', u_isActive := True,
                   u_failedLoginAttempts := 0\<rparr>
          in ([EXPECT_EQ (in_domain 69) (Return (u_id x)) (Return ''usr-12345''),
               EXPECT_EQ (in_domain 70) (Return (u_email x)) (Return ''test@example.com''),
               EXPECT_TRUE (in_domain 71) (Return (u_isActive x)),
               EXPECT_EQ (in_domain 72) (Return (u_role x)) (Return ''admin''),
               EXPECT_EQ (in_domain 73) (Return (u_failedLoginAttempts x)) (Return 0)], w))"

definition SessionEntityProperties :: "time \<Rightarrow> 'w test_case" where
  "SessionEntityProperties now = TEST_CASE ''Domain::Entities'' ''SessionEntityProperties''
     (\<lambda>w. let x = \<lparr>s_id = ''sess-abc-123'', s_userId = ''usr-12345'', s_jti = ''jti-uuid-789'',
                   s_refreshTokenHash = ''sha256hash'', s_createdAt = now, s_lastSeenAt = now,
                   s_expiresAt = now + seconds (24 * 3600), s_revokedAt = None,
                   s_revocationReason = None, s_ipAddress = ''192.168.1.100'',
                   s_userAgent = ''Mozilla/5.0 TestBrowser'', s_deviceName = ''Developer MacBook'',
                   s_clientType = ''desktop''\<rparr>
          in ([EXPECT_EQ (in_domain 94) (Return (s_id x)) (Return ''sess-abc-123''),
               EXPECT_EQ (in_domain 95) (Return (s_userId x)) (Return ''usr-12345''),
               EXPECT_EQ (in_domain 96) (Return (s_jti x)) (Return ''jti-uuid-789''),
               EXPECT_FALSE (in_domain 97) (Return (s_revokedAt x \<noteq> None)),
               EXPECT_EQ (in_domain 98) (Return (s_clientType x)) (Return ''desktop'')], w))"

definition AuditLogCreation :: "time \<Rightarrow> 'w test_case" where
  "AuditLogCreation now = TEST_CASE ''Domain::Entities'' ''AuditLogCreation''
     (\<lambda>w. let x = \<lparr>a_id = 1, a_eventType = ''LOGIN_SUCCESS'', a_userId = Some ''usr-123'',
                   a_adminUserId = None, a_sessionId = Some ''sess-123'',
                   a_ipAddress = ''127.0.0.1'', a_userAgent = ''TestAgent'',
                   a_reason = ''Successful authentication'', a_createdAt = now\<rparr>
          in ([EXPECT_EQ (in_domain 115) (Return (a_eventType x)) (Return ''LOGIN_SUCCESS''),
               EXPECT_TRUE (in_domain 116) (Return (a_userId x \<noteq> None)),
               EXPECT_EQ (in_domain 117) (case a_userId x of None \<Rightarrow> Throw | Some u \<Rightarrow> Return u)
                 (Return ''usr-123''),
               EXPECT_FALSE (in_domain 118) (Return (a_adminUserId x \<noteq> None))], w))"

definition DomainEntitiesTest :: "time \<Rightarrow> 'w test_case list" where
  "DomainEntitiesTest now =
     [SuccessResultHoldsValue, FailureResultHoldsError, RoleHierarchyAndPermissions,
      TodoValidationAndProperties now, UserEntityInvariants now, SessionEntityProperties now,
      AuditLogCreation now]"

section \<open>Unit/Application/SecurityServiceTest.cpp\<close>

abbreviation in_security :: "nat \<Rightarrow> place" where
  "in_security n \<equiv> (''Unit/Application/SecurityServiceTest.cpp'', n)"

definition AuthorizationServiceRoleCheck :: "'w test_case" where
  "AuthorizationServiceRoleCheck =
     TEST_CASE ''Application::Security'' ''AuthorizationServiceRoleCheck''
     (\<lambda>w. ([EXPECT_TRUE (in_security 8) (Return (hasPermission_role ''admin'' SessionReadAll)),
            EXPECT_TRUE (in_security 9) (Return (hasPermission_role ''admin'' SessionRevokeAll)),
            EXPECT_TRUE (in_security 10) (Return (hasPermission_role ''admin'' UserManage)),
            EXPECT_TRUE (in_security 13) (Return (hasPermission_role ''user'' SessionReadSelf)),
            EXPECT_TRUE (in_security 14) (Return (hasPermission_role ''user'' SessionRevokeSelf)),
            EXPECT_FALSE (in_security 15) (Return (hasPermission_role ''user'' SessionReadAll)),
            EXPECT_FALSE (in_security 16) (Return (hasPermission_role ''user'' SessionRevokeAll))],
           w))"

definition AuthorizationServiceSessionAccessAndRevoke :: "time \<Rightarrow> 'w test_case" where
  "AuthorizationServiceSessionAccessAndRevoke now =
     TEST_CASE ''Application::Security'' ''AuthorizationServiceSessionAccessAndRevoke''
     (\<lambda>w. let usr = (default_user now)\<lparr>u_id := ''usr-1'', u_role := ''user''\<rparr>;
              admin = (default_user now)\<lparr>u_id := ''adm-1'', u_role := ''admin''\<rparr>;
              ownSession = (default_session now)\<lparr>s_id := ''s-1'', s_userId := ''usr-1''\<rparr>;
              otherSession = (default_session now)\<lparr>s_id := ''s-2'', s_userId := ''usr-2''\<rparr>
          in ([EXPECT_TRUE (in_security 29) (Return (canAccessSession usr ownSession)),
               EXPECT_TRUE (in_security 30) (Return (canRevokeSession usr ownSession)),
               EXPECT_FALSE (in_security 33) (Return (canAccessSession usr otherSession)),
               EXPECT_FALSE (in_security 34) (Return (canRevokeSession usr otherSession)),
               EXPECT_TRUE (in_security 37) (Return (canAccessSession admin otherSession)),
               EXPECT_TRUE (in_security 38) (Return (canRevokeSession admin otherSession))], w))"

definition SecurityServiceTest :: "time \<Rightarrow> 'w test_case list" where
  "SecurityServiceTest now =
     [AuthorizationServiceRoleCheck, AuthorizationServiceSessionAccessAndRevoke now]"

section \<open>Unit/Application/UseCasesTest.cpp\<close>

text \<open>
  Each case makes a new in-memory repository, at \<open>now\<close>; \<open>E n\<close> has the answers of the
  environment for its n-th use case. A statement outside the macros that throws ends the case.
\<close>

abbreviation in_use_cases :: "nat \<Rightarrow> place" where
  "in_use_cases n \<equiv> (''Unit/Application/UseCasesTest.cpp'', n)"

definition TodoUseCasesCreateAndRetrieve :: "time \<Rightarrow> (nat \<Rightarrow> sites) \<Rightarrow> 'w test_case" where
  "TodoUseCasesCreateAndRetrieve now E =
     TEST_CASE ''Application::UseCases'' ''TodoUseCasesCreateAndRetrieve''
     (\<lambda>w. let (created, s1) = createTodo memory_repository (E 0) (mem_new now)
                \<lparr>ct_title = ''Learn Clean Architecture'', ct_description = ''Test Description''\<rparr>;
              cs1 = [EXPECT_TRUE (in_use_cases 17) (Return (isOk created)),
                     EXPECT_TRUE (in_use_cases 18) (has_data created),
                     EXPECT_TRUE (in_use_cases 19) (data_field (\<lambda>d. tr_id d > 0) created),
                     EXPECT_EQ (in_use_cases 20) (data_field tr_title created)
                       (Return ''Learn Clean Architecture'')]
          in case data_field tr_id created of
               Throw \<Rightarrow> (cs1 @ [abort], w)
             | Return i \<Rightarrow>
                 let fetched = getTodoById memory_repository (E 1) s1 i;
                     lst = listTodos memory_repository (E 2) s1 None
                 in (cs1 @
                     [EXPECT_TRUE (in_use_cases 24) (Return (isOk fetched)),
                      EXPECT_TRUE (in_use_cases 25) (has_data fetched),
                      EXPECT_EQ (in_use_cases 26) (data_field tr_id fetched) (Return i),
                      EXPECT_EQ (in_use_cases 27) (data_field tr_title fetched)
                        (Return ''Learn Clean Architecture''),
                      EXPECT_TRUE (in_use_cases 30) (Return (r_data lst \<noteq> None)),
                      EXPECT_TRUE (in_use_cases 31)
                        (case r_data lst of None \<Rightarrow> Throw | Some ts \<Rightarrow> Return (length ts \<ge> 1))], w))"

definition TodoUseCasesUpdate :: "time \<Rightarrow> (nat \<Rightarrow> sites) \<Rightarrow> 'w test_case" where
  "TodoUseCasesUpdate now E = TEST_CASE ''Application::UseCases'' ''TodoUseCasesUpdate''
     (\<lambda>w. let (created, s1) = createTodo memory_repository (E 0) (mem_new now)
                \<lparr>ct_title = ''Original Title'', ct_description = ''Original Desc''\<rparr>;
              cs1 = [EXPECT_TRUE (in_use_cases 40) (Return (isOk created))]
          in case data_field tr_id created of
               Throw \<Rightarrow> (cs1 @ [abort], w)
             | Return i \<Rightarrow>
                 let (updated, s2) = updateTodo memory_repository (E 1) s1 i
                       \<lparr>ut_title = Some ''Updated Title'', ut_description = Some ''Updated Desc'',
                        ut_completed = Some True\<rparr>
                 in (cs1 @
                     [EXPECT_TRUE (in_use_cases 50) (Return (isOk updated)),
                      EXPECT_TRUE (in_use_cases 51) (has_data updated),
                      EXPECT_EQ (in_use_cases 52) (data_field tr_title updated) (Return ''Updated Title''),
                      EXPECT_TRUE (in_use_cases 53) (data_field tr_completed updated)], w))"

definition TodoUseCasesDelete :: "time \<Rightarrow> (nat \<Rightarrow> sites) \<Rightarrow> 'w test_case" where
  "TodoUseCasesDelete now E = TEST_CASE ''Application::UseCases'' ''TodoUseCasesDelete''
     (\<lambda>w. let (created, s1) = createTodo memory_repository (E 0) (mem_new now)
                \<lparr>ct_title = ''To be deleted'', ct_description = []\<rparr>;
              cs1 = [EXPECT_TRUE (in_use_cases 63) (Return (isOk created))]
          in case data_field tr_id created of
               Throw \<Rightarrow> (cs1 @ [abort], w)
             | Return i \<Rightarrow>
                 let (deletedRes, s2) = deleteTodo memory_repository (E 1) s1 i;
                     fetched = getTodoById memory_repository (E 2) s2 i
                 in (cs1 @
                     [EXPECT_TRUE (in_use_cases 67) (Return (isOk deletedRes)),
                      EXPECT_FALSE (in_use_cases 70) (Return (isOk fetched))], w))"

definition UseCasesTest :: "time \<Rightarrow> (nat \<Rightarrow> sites) \<Rightarrow> 'w test_case list" where
  "UseCasesTest now E =
     [TodoUseCasesCreateAndRetrieve now E, TodoUseCasesUpdate now E, TodoUseCasesDelete now E]"

section \<open>Unit/Infrastructure/EnvLoaderTest.cpp\<close>

abbreviation in_env :: "nat \<Rightarrow> place" where
  "in_env n \<equiv> (''Unit/Infrastructure/EnvLoaderTest.cpp'', n)"

definition EnvLoaderSetAndGet :: "env test_case" where
  "EnvLoaderSetAndGet = TEST_CASE ''Infrastructure::Config'' ''EnvLoaderSetAndGet''
     (\<lambda>e. let e1 = env_set e ''TEST_CUSTOM_KEY'' ''custom_value_123''
          in ([EXPECT_EQ (in_env 6) (Return (env_get e1 ''TEST_CUSTOM_KEY'' []))
                 (Return ''custom_value_123'')], e1))"

definition EnvLoaderDefaultFallback :: "env test_case" where
  "EnvLoaderDefaultFallback = TEST_CASE ''Infrastructure::Config'' ''EnvLoaderDefaultFallback''
     (\<lambda>e. ([EXPECT_EQ (in_env 10) (Return (env_get e ''NON_EXISTENT_KEY_XYZ'' ''fallback_val''))
              (Return ''fallback_val'')], e))"

definition EnvLoaderTypeConversions :: "env test_case" where
  "EnvLoaderTypeConversions = TEST_CASE ''Infrastructure::Config'' ''EnvLoaderTypeConversions''
     (\<lambda>e. let e1 = env_set e ''TEST_INT_VAL'' ''42'';
              e2 = env_set e1 ''TEST_BOOL_TRUE'' ''true'';
              e3 = env_set e2 ''TEST_BOOL_FALSE'' ''false''
          in ([EXPECT_EQ (in_env 15) (Return (env_getInt e1 ''TEST_INT_VAL'' 0)) (Return 42),
               EXPECT_TRUE (in_env 18) (Return (env_getBool e2 ''TEST_BOOL_TRUE'' False)),
               EXPECT_FALSE (in_env 21) (Return (env_getBool e3 ''TEST_BOOL_FALSE'' False))], e3))"

definition AppConfigFromEnv :: "env test_case" where
  "AppConfigFromEnv = TEST_CASE ''Infrastructure::Config'' ''AppConfigFromEnv''
     (\<lambda>e. let origPort = env_get e ''SERVER_PORT'' ''8085'';
              origLogLevel = env_get e ''LOG_LEVEL'' ''warning'';
              origDbName = env_get e ''DB_NAME'' ''crowapi_db'';
              e1 = env_set (env_set (env_set e ''SERVER_PORT'' ''9090'') ''LOG_LEVEL'' ''debug'')
                     ''DB_NAME'' ''custom_test_db'';
              cfg = fromEnv e1
          in ([EXPECT_EQ (in_env 34) (Return (cfg_serverPort cfg)) (Return 9090),
               EXPECT_EQ (in_env 35) (Return (cfg_logLevel cfg)) (Return ''debug''),
               EXPECT_EQ (in_env 36) (Return (cfg_dbName cfg)) (Return ''custom_test_db''),
               EXPECT_TRUE (in_env 37)
                 (Return (contains_str ''dbname=custom_test_db'' (toDbConnectionString cfg)))],
              env_set (env_set (env_set e1 ''SERVER_PORT'' origPort) ''LOG_LEVEL'' origLogLevel)
                ''DB_NAME'' origDbName))"

definition EnvLoaderTest :: "env test_case list" where
  "EnvLoaderTest =
     [EnvLoaderSetAndGet, EnvLoaderDefaultFallback, EnvLoaderTypeConversions, AppConfigFromEnv]"

section \<open>Unit/Presentation/LoggingMiddlewareTest.cpp\<close>

abbreviation in_logging :: "nat \<Rightarrow> place" where
  "in_logging n \<equiv> (''Unit/Presentation/LoggingMiddlewareTest.cpp'', n)"

definition LogLevelParsing :: "'w test_case" where
  "LogLevelParsing = TEST_CASE ''Presentation::Logging'' ''LogLevelParsing''
     (\<lambda>w. ([EXPECT_TRUE (in_logging 5) (Return (parseLogLevel ''verbose'' = Verbose)),
            EXPECT_TRUE (in_logging 6) (Return (parseLogLevel ''debug'' = Debug)),
            EXPECT_TRUE (in_logging 7) (Return (parseLogLevel ''info'' = Info)),
            EXPECT_TRUE (in_logging 8) (Return (parseLogLevel ''warning'' = Warning)),
            EXPECT_TRUE (in_logging 9) (Return (parseLogLevel ''error'' = Error)),
            EXPECT_TRUE (in_logging 10) (Return (parseLogLevel ''critical'' = Critical)),
            EXPECT_TRUE (in_logging 13) (Return (parseLogLevel ''DEBUG'' = Debug)),
            EXPECT_TRUE (in_logging 14) (Return (parseLogLevel ''InFo'' = Info)),
            EXPECT_TRUE (in_logging 17) (Return (parseLogLevel ''unknown_val'' = Info))], w))"

text \<open>
  The case above calls the parser insensitive to the case of letters. It knows two spellings of
  each name, and every other text is \<open>Info\<close>, as is the test's own example of mixed case.
\<close>

lemma mixed_case_is_not_parsed: "parseLogLevel ''DeBug'' = Info \<and> parseLogLevel ''InFo'' = Info"
  by (simp add: parseLogLevel_def)

section \<open>The suite passes\<close>

definition unit_tests :: "time \<Rightarrow> (nat \<Rightarrow> sites) \<Rightarrow> env test_case list" where
  "unit_tests now E =
     DomainEntitiesTest now @ ValidationTest @ SecurityServiceTest now @ UseCasesTest now E @
     EnvLoaderTest @ [LogLevelParsing]"

text \<open>What a case asks for, one lemma each file: the checks pass, and what is left of the world.\<close>

definition passes_in :: "('w \<Rightarrow> bool) \<Rightarrow> 'w test_case \<Rightarrow> bool" where
  "passes_in ready t \<longleftrightarrow>
     (\<forall>w. ready w \<longrightarrow> list_all passes (fst (ts_func t w)) \<and> ready (snd (ts_func t w)))"

lemma TEST_CASE_func [simp]: "ts_func (TEST_CASE cat nm f) = f"
  by (simp add: TEST_CASE_def)

lemma passes_in_pure: "\<lbrakk>\<And>w. list_all passes (fst (ts_func t w)); \<And>w. snd (ts_func t w) = w\<rbrakk> \<Longrightarrow> passes_in ready t"
  by (simp add: passes_in_def)

lemma validation_passes: "list_all (passes_in ready) ValidationTest"
  unfolding ValidationTest_def list.pred_inject
  by (intro conjI; (rule passes_in_pure)?)
    (simp_all add: TodoInputValidatorSuccess_def TodoInputValidatorEmptyTitle_def
      TodoInputValidatorWhitespaceTitle_def AuthInputValidatorEmailSuccess_def
      AuthInputValidatorInvalidEmail_def AuthInputValidatorShortPassword_def
      AuthInputValidatorEmptyPassword_def validateCreate_def create_todo_errors_def
      todo_isAllWhitespace_def isspace_def validateRegister_def register_errors_def registration_def
      auth_isAllWhitespace_def is_blank_char_def isValidEmail_def str_find_def Let_def)

lemma domain_passes: "list_all (passes_in ready) (DomainEntitiesTest now)"
  unfolding DomainEntitiesTest_def list.pred_inject
  by (intro conjI; (rule passes_in_pure)?)
    (simp_all add: SuccessResultHoldsValue_def FailureResultHoldsError_def
      RoleHierarchyAndPermissions_def roleHasPermission_iff TodoValidationAndProperties_def
      UserEntityInvariants_def SessionEntityProperties_def AuditLogCreation_def mk_error_def)

lemma security_passes: "list_all (passes_in ready) (SecurityServiceTest now)"
  unfolding SecurityServiceTest_def list.pred_inject
  by (intro conjI; (rule passes_in_pure)?)
    (simp_all add: AuthorizationServiceRoleCheck_def AuthorizationServiceSessionAccessAndRevoke_def
      hasPermission_role_def canAccessSession_def canRevokeSession_def hasPermission_def
      roleHasPermission_iff default_user_def default_session_def)

lemma logging_passes: "passes_in ready LogLevelParsing"
  by (rule passes_in_pure) (simp_all add: LogLevelParsing_def parseLogLevel_def)

lemma use_cases_pass: "list_all (passes_in ready) (UseCasesTest now E)"
  unfolding UseCasesTest_def list.pred_inject
  by (intro conjI; (rule passes_in_pure)?)
    (simp_all add: TodoUseCasesCreateAndRetrieve_def TodoUseCasesUpdate_def TodoUseCasesDelete_def
      createTodo_def getTodoById_def listTodos_def updateTodo_def deleteTodo_def memory_repository_def
      mem_save_def mem_findById_def mem_findAll_def mem_update_def mem_remove_def mem_new_def mem_push_def
      apply_update_def validateCreate_def create_todo_errors_def validateUpdate_def update_todo_errors_def
      todo_isAllWhitespace_def isspace_def todoResponse_fromDomain_def api_void_ok_def Let_def
      word_gt_0)

lemma known_env_set [simp]: "known (env_set e k v) k' = (if k' = k then Some v else known e k')"
  by (simp add: known_def env_set_def split: option.split)

lemma fromEnv_sel:
  "cfg_serverPort (fromEnv e) = word_of_int (env_getInt e ''SERVER_PORT'' 8080)"
  "cfg_logLevel (fromEnv e) = env_get e ''LOG_LEVEL'' ''info''"
  "cfg_dbName (fromEnv e) = env_get e ''DB_NAME'' ''crowapi_db''"
  by (simp_all add: fromEnv_def)

text \<open>
  The last case announces to restore the configuration. A variable that was not set before is set
  afterwards, to the value the case reads as its default, which is not the program's.
\<close>

lemma configuration_not_restored:
  "known e ''LOG_LEVEL'' = None \<Longrightarrow>
     cfg_logLevel (fromEnv e) = ''info'' \<and>
     cfg_logLevel (fromEnv (snd (ts_func AppConfigFromEnv e))) = ''warning''"
  by (simp add: AppConfigFromEnv_def fromEnv_sel env_get_known Let_def)

text \<open>The one thing the tests ask of the environment: that a key of theirs is not set.\<close>

definition env_ready :: "env \<Rightarrow> bool" where
  "env_ready e \<longleftrightarrow> known e ''NON_EXISTENT_KEY_XYZ'' = None"

lemma contains_str_middle: "contains_str t (a @ t @ b)"
proof (induction a)
  case Nil
  have "starts_with t (t @ b)" by simp
  then show ?case by (cases "t @ b") auto
qed simp

lemma connection_string_has_name:
  "contains_str (''dbname='' @ cfg_dbName cfg) (toDbConnectionString cfg)"
proof -
  have "toDbConnectionString cfg =
      (''host='' @ cfg_dbHost cfg @ '' port='' @ cfg_dbPort cfg @ '' '') @ (''dbname='' @ cfg_dbName cfg) @
      '' user='' @ cfg_dbUser cfg @ '' password='' @ cfg_dbPassword cfg @ '' connect_timeout='' @
      string_of_int (cfg_dbConnectTimeout cfg)"
    by (simp add: toDbConnectionString_def)
  then show ?thesis using contains_str_middle by metis
qed

lemma env_loader_passes: "list_all (passes_in env_ready) EnvLoaderTest"
proof -
  have t: "stoi ''42'' = Return 42" "stoi ''9090'' = Return 9090"
    by (simp_all add: stoi_def read_sign_def isspace_def is_digit_def digits_value_def)
  have "contains_str ''dbname=custom_test_db'' (toDbConnectionString cfg)"
    if "cfg_dbName cfg = ''custom_test_db''" for cfg
    using connection_string_has_name[of cfg] by (simp add: that)
  then show ?thesis
    by (simp add: EnvLoaderTest_def passes_in_def EnvLoaderSetAndGet_def EnvLoaderDefaultFallback_def
        EnvLoaderTypeConversions_def AppConfigFromEnv_def env_ready_def env_get_known env_getInt_def
        env_getBool_def fromEnv_sel tolower_def Let_def t)
qed

interpretation unit_suite: passing_suite "unit_tests now E" env_ready for now E
proof -
  have "list_all (passes_in env_ready) (unit_tests now E)"
    by (simp add: unit_tests_def domain_passes validation_passes security_passes use_cases_pass
        env_loader_passes logging_passes)
  then show "passing_suite (unit_tests now E) env_ready"
    by unfold_locales (auto simp: list_all_iff passes_in_def)
qed

end
