(* ===== verification/Crypto_Tests.thy ===== *)
theory Crypto_Tests
  imports Unit_Tests Jwks Jwt_Service Google_Service
begin

text \<open>
  The test cases on cryptography, keys and tokens: \<^verbatim>\<open>OpenSslCryptoTest.cpp\<close>,
  \<^verbatim>\<open>RsaKeyManagerTest.cpp\<close>, \<^verbatim>\<open>JwtServiceTest.cpp\<close> and the attacks of
  \<^verbatim>\<open>Tests/Security/CyberAttacksTest.cpp\<close> that need no database. What they run on is a rig: the
  library calls, the random bytes of each draw and the clock of each reading. The rig is not
  fixed: \<open>rig_ok\<close> says what the tests ask of OpenSSL, of the JSON library and of the clock, and
  the suite passes on every rig that satisfies it.
\<close>

record 'j rig =
  rg_crypto :: crypto
  rg_json :: "'j json_api"
  rg_load :: "string \<Rightarrow> json_value option"
  rg_random :: "nat \<Rightarrow> nat \<Rightarrow> byte"
  rg_clock :: "nat \<Rightarrow> time"

section \<open>Unit/Infrastructure/OpenSslCryptoTest.cpp\<close>

abbreviation in_crypto :: "nat \<Rightarrow> place" where
  "in_crypto n \<equiv> (''Unit/Infrastructure/OpenSslCryptoTest.cpp'', n)"

definition Base64UrlEncodeAndDecodeRoundtrip :: "'w test_case" where
  "Base64UrlEncodeAndDecodeRoundtrip =
     TEST_CASE ''Infrastructure::Crypto'' ''Base64UrlEncodeAndDecodeRoundtrip''
     (\<lambda>w. let original = ''Hello World! Standard C++20 Base64URL test.'';
              encoded = b64_text original;
              decodedOpt = base64UrlDecode encoded
          in ([EXPECT_TRUE (in_crypto 9) (Return (str_find (CHR ''='') 0 encoded = None)),
               EXPECT_TRUE (in_crypto 10) (Return (str_find (CHR ''+'') 0 encoded = None)),
               EXPECT_TRUE (in_crypto 11) (Return (str_find (CHR ''/'') 0 encoded = None)),
               EXPECT_TRUE (in_crypto 14) (Return (decodedOpt \<noteq> None)),
               EXPECT_EQ (in_crypto 15) (Return original)
                 (case decodedOpt of None \<Rightarrow> Throw | Some d \<Rightarrow> Return d)], w))"

definition Sha256HashDeterministic :: "'j rig \<Rightarrow> 'w test_case" where
  "Sha256HashDeterministic R = TEST_CASE ''Infrastructure::Crypto'' ''Sha256HashDeterministic''
     (\<lambda>w. let input = ''deterministic_refresh_token_string'';
              hash1 = sha256Hex (rg_crypto R) input;
              hash2 = sha256Hex (rg_crypto R) input
          in ([EXPECT_EQ (in_crypto 23) (Return hash1) (Return hash2),
               EXPECT_EQ (in_crypto 24) (Return (length hash1)) (Return 64)], w))"

definition Pbkdf2PasswordHashAndVerify :: "'j rig \<Rightarrow> 'w test_case" where
  "Pbkdf2PasswordHashAndVerify R =
     TEST_CASE ''Infrastructure::Crypto'' ''Pbkdf2PasswordHashAndVerify''
     (\<lambda>w. let pw = ''SuperSecretPassword2026!'';
              hash = hashPassword (rg_crypto R) (rg_random R 0) pw
          in ([EXPECT_FALSE (in_crypto 31) (Return (hash = [])),
               EXPECT_TRUE (in_crypto 32) (Return (str_find (CHR ''$'') 0 hash \<noteq> None)),
               EXPECT_TRUE (in_crypto 35) (verifyPassword (rg_crypto R) pw hash),
               EXPECT_FALSE (in_crypto 38) (verifyPassword (rg_crypto R) ''WrongPassword!'' hash)], w))"

definition SecureRandomTokenGeneration :: "'j rig \<Rightarrow> 'w test_case" where
  "SecureRandomTokenGeneration R =
     TEST_CASE ''Infrastructure::Crypto'' ''SecureRandomTokenGeneration''
     (\<lambda>w. let token1 = generateSecureToken (rg_random R 0) 32;
              token2 = generateSecureToken (rg_random R 1) 32
          in ([EXPECT_FALSE (in_crypto 45) (Return (token1 = [])),
               EXPECT_FALSE (in_crypto 46) (Return (token2 = [])),
               EXPECT_NE (in_crypto 47) (Return token1) (Return token2)], w))"

definition OpenSslCryptoTest :: "'j rig \<Rightarrow> 'w test_case list" where
  "OpenSslCryptoTest R =
     [Base64UrlEncodeAndDecodeRoundtrip, Sha256HashDeterministic R, Pbkdf2PasswordHashAndVerify R,
      SecureRandomTokenGeneration R]"

section \<open>Unit/Infrastructure/RsaKeyManagerTest.cpp\<close>

abbreviation in_keys :: "nat \<Rightarrow> place" where
  "in_keys n \<equiv> (''Unit/Infrastructure/RsaKeyManagerTest.cpp'', n)"

text \<open>The key set is read with Crow's reader, here \<open>rg_load\<close> into \<open>json_value\<close>.\<close>

fun json_member :: "string \<Rightarrow> json_value \<Rightarrow> json_value outcome" where
  "json_member k (V_obj kvs) = (case map_of kvs k of None \<Rightarrow> Throw | Some v \<Rightarrow> Return v)"
| "json_member k _ = Throw"

fun json_size :: "json_value \<Rightarrow> nat outcome" where
  "json_size (V_list vs) = Return (length vs)"
| "json_size (V_obj kvs) = Return (length kvs)"
| "json_size _ = Throw"

fun json_nth :: "nat \<Rightarrow> json_value \<Rightarrow> json_value outcome" where
  "json_nth n (V_list vs) = (if n < length vs then Return (vs ! n) else Throw)"
| "json_nth n _ = Throw"

fun json_text :: "json_value \<Rightarrow> string outcome" where
  "json_text (V_str s) = Return s"
| "json_text _ = Throw"

definition loaded :: "json_value option \<Rightarrow> json_value outcome" where
  "loaded v = (case v of None \<Rightarrow> Throw | Some j \<Rightarrow> Return j)"

definition RsaKeyManagerGeneratesAndExportsJwks :: "'j rig \<Rightarrow> 'w test_case" where
  "RsaKeyManagerGeneratesAndExportsJwks R =
     TEST_CASE ''Infrastructure::Security'' ''RsaKeyManagerGeneratesAndExportsJwks''
     (\<lambda>w. let keyMgr = new_key_manager (rg_crypto R) (rg_random R 0) ''test-key-2026'' [] [];
              jwksJson = getJwksJson keyMgr;
              parsed = rg_load R jwksJson;
              keys = obind (loaded parsed) (json_member ''keys'');
              key = obind keys (json_nth 0)
          in ([EXPECT_EQ (in_keys 8) (Return (sk_kid (getActiveSigningKey keyMgr))) (Return ''test-key-2026''),
               EXPECT_FALSE (in_keys 11) (Return (jwksJson = [])),
               EXPECT_TRUE (in_keys 14) (Return (parsed \<noteq> None)),
               EXPECT_TRUE (in_keys 15) (obind (loaded parsed) (\<lambda>j. Return (json_member ''keys'' j \<noteq> Throw))),
               EXPECT_TRUE (in_keys 16) (obind keys (\<lambda>ks. obind (json_size ks) (\<lambda>n. Return (n \<ge> 1)))),
               EXPECT_EQ (in_keys 19) (obind (obind key (json_member ''kty'')) json_text) (Return ''RSA''),
               EXPECT_EQ (in_keys 20) (obind (obind key (json_member ''use'')) json_text) (Return ''sig''),
               EXPECT_EQ (in_keys 21) (obind (obind key (json_member ''alg'')) json_text) (Return ''RS256''),
               EXPECT_EQ (in_keys 22) (obind (obind key (json_member ''kid'')) json_text)
                 (Return ''test-key-2026''),
               EXPECT_TRUE (in_keys 23) (obind key (\<lambda>j. Return (json_member ''n'' j \<noteq> Throw))),
               EXPECT_TRUE (in_keys 24) (obind key (\<lambda>j. Return (json_member ''e'' j \<noteq> Throw)))], w))"

definition RsaKeyManagerRotateKey :: "'j rig \<Rightarrow> 'w test_case" where
  "RsaKeyManagerRotateKey R = TEST_CASE ''Infrastructure::Security'' ''RsaKeyManagerRotateKey''
     (\<lambda>w. let km1 = new_key_manager (rg_crypto R) (rg_random R 0) ''test-key-v1'' [] [];
              km2 = rotateKey (rg_crypto R) (rg_random R 1) (rg_clock R 0) ''test-key-v2'' km1;
              parsed = rg_load R (getJwksJson km2);
              keys = obind (loaded parsed) (json_member ''keys'')
          in ([EXPECT_EQ (in_keys 29) (Return (sk_kid (getActiveSigningKey km1))) (Return ''test-key-v1''),
               EXPECT_EQ (in_keys 32) (Return (sk_kid (getActiveSigningKey km2))) (Return ''test-key-v2''),
               EXPECT_TRUE (in_keys 36) (obind keys (\<lambda>ks. obind (json_size ks) (\<lambda>n. Return (n \<ge> 2))))], w))"

definition RsaKeyManagerTest :: "'j rig \<Rightarrow> 'w test_case list" where
  "RsaKeyManagerTest R = [RsaKeyManagerGeneratesAndExportsJwks R, RsaKeyManagerRotateKey R]"

section \<open>Unit/Infrastructure/JwtServiceTest.cpp\<close>

abbreviation in_jwt :: "nat \<Rightarrow> place" where
  "in_jwt n \<equiv> (''Unit/Infrastructure/JwtServiceTest.cpp'', n)"

text \<open>
  The token is made at the first reading of the clock and checked at the second. A validation
  that throws, or whose value is taken although it is an error, ends the case.
\<close>

definition JwtServiceCreateAndValidateToken :: "'j rig \<Rightarrow> 'w test_case" where
  "JwtServiceCreateAndValidateToken R =
     TEST_CASE ''Infrastructure::Security'' ''JwtServiceCreateAndValidateToken''
     (\<lambda>w. let keyMgr = new_key_manager (rg_crypto R) (rg_random R 0) ''test-jwt-key'' [] [];
              token = createAccessToken (rg_crypto R) (rg_json R) ''test-issuer'' ''test-audience''
                keyMgr (rg_clock R 0) ''usr-uuid-42'' ''user'' ''sess-uuid-99'' ''jti-uuid-101'' 60;
              firstDot = str_find (CHR ''.'') 0 token;
              secondDot = str_rfind (CHR ''.'') token;
              cs1 = [EXPECT_FALSE (in_jwt 17) (Return (token = [])),
                     EXPECT_TRUE (in_jwt 22) (Return (firstDot \<noteq> None)),
                     EXPECT_TRUE (in_jwt 23) (Return (secondDot \<noteq> None)),
                     EXPECT_NE (in_jwt 24) (Return firstDot) (Return secondDot)]
          in case validateAccessToken (rg_crypto R) (rg_json R) ''test-issuer'' ''test-audience''
                    keyMgr (rg_clock R 1) token of
               Throw \<Rightarrow> (cs1 @ [abort], w)
             | Return claimsRes \<Rightarrow>
                 (case result_value claimsRes of
                    Throw \<Rightarrow> (cs1 @ [EXPECT_TRUE (in_jwt 28) (Return (isOk claimsRes)), abort], w)
                  | Return claims \<Rightarrow>
                      (cs1 @
                       [EXPECT_TRUE (in_jwt 28) (Return (isOk claimsRes)),
                        EXPECT_EQ (in_jwt 31) (Return (jc_sub claims)) (Return ''usr-uuid-42''),
                        EXPECT_EQ (in_jwt 32) (Return (jc_sid claims)) (Return ''sess-uuid-99''),
                        EXPECT_EQ (in_jwt 33) (Return (jc_jti claims)) (Return ''jti-uuid-101''),
                        EXPECT_EQ (in_jwt 34) (Return (jc_role claims)) (Return ''user'')], w)))"

text \<open>The last check of several cases: a token is not accepted.\<close>

definition not_accepted :: "place \<Rightarrow> jwt_claims dresult outcome \<Rightarrow> check list" where
  "not_accepted p v =
     (case v of Throw \<Rightarrow> [abort] | Return claims \<Rightarrow> [EXPECT_FALSE p (Return (isOk claims))])"

definition JwtServiceRejectsExpiredToken :: "'j rig \<Rightarrow> 'w test_case" where
  "JwtServiceRejectsExpiredToken R =
     TEST_CASE ''Infrastructure::Security'' ''JwtServiceRejectsExpiredToken''
     (\<lambda>w. let keyMgr = new_key_manager (rg_crypto R) (rg_random R 0) ''test-jwt-key'' [] [];
              expiredToken = createAccessToken (rg_crypto R) (rg_json R) ''test-issuer''
                ''test-audience'' keyMgr (rg_clock R 0) ''usr-expired'' ''user'' ''sess-expired''
                ''jti-expired'' (- 5)
          in (not_accepted (in_jwt 51) (validateAccessToken (rg_crypto R) (rg_json R)
                ''test-issuer'' ''test-audience'' keyMgr (rg_clock R 1) expiredToken), w))"

definition JwtServiceTest :: "'j rig \<Rightarrow> 'w test_case list" where
  "JwtServiceTest R = [JwtServiceCreateAndValidateToken R, JwtServiceRejectsExpiredToken R]"

section \<open>Security/CyberAttacksTest.cpp\<close>

abbreviation in_attacks :: "nat \<Rightarrow> place" where
  "in_attacks n \<equiv> (''Security/CyberAttacksTest.cpp'', n)"

definition sqlPayloads :: "string list" where
  "sqlPayloads =
     [''admin'' @ [CHR 0x27] @ ''--'',
      [CHR 0x27] @ '' OR '' @ [CHR 0x27] @ ''1'' @ [CHR 0x27] @ ''='' @ [CHR 0x27] @ ''1'',
      [CHR 0x27] @ ''; DROP TABLE users; --'',
      [CHR 0x27] @ '' UNION SELECT * FROM users --'',
      ''test'' @ [CHR 0x27] @ '' OR 1=1;--'']"

definition SqlInjectionInRegistrationEmailBlocked :: "'w test_case" where
  "SqlInjectionInRegistrationEmailBlocked =
     TEST_CASE ''Security::CyberAttacks'' ''SqlInjectionInRegistrationEmailBlocked''
     (\<lambda>w. (map (\<lambda>payload. EXPECT_FALSE (in_attacks 41)
                  (Return (isOk (validateRegister (registration payload ''SecurePass123!''))))) sqlPayloads, w))"

definition XssPayloadsHandledAsLiteralStrings :: "'w test_case" where
  "XssPayloadsHandledAsLiteralStrings =
     TEST_CASE ''Security::CyberAttacks'' ''XssPayloadsHandledAsLiteralStrings''
     (\<lambda>w. let xssPayload = ''<script>alert('' @ [CHR 0x27] @ ''XSS_ATTACK'' @ [CHR 0x27] @
                '')</script><svg/onload=alert(1)>'';
              valRes = validateCreate \<lparr>ct_title = xssPayload, ct_description = xssPayload\<rparr>;
              decodedOpt = base64UrlDecode (b64_text xssPayload)
          in ([EXPECT_TRUE (in_attacks 61) (Return (isOk valRes)),
               EXPECT_TRUE (in_attacks 66) (Return (decodedOpt \<noteq> None)),
               EXPECT_EQ (in_attacks 67) (case decodedOpt of None \<Rightarrow> Throw | Some d \<Rightarrow> Return d)
                 (Return xssPayload)], w))"

definition forged_none_header :: string where
  "forged_none_header = ''{'' @ dq ''alg'' @ '':'' @ dq ''none'' @ '','' @ dq ''typ'' @ '':'' @ dq ''JWT'' @ ''}''"

definition forged_none_payload :: string where
  "forged_none_payload =
     ''{'' @ dq ''sub'' @ '':'' @ dq ''admin-usr'' @ '','' @ dq ''role'' @ '':'' @ dq ''admin'' @ '','' @
     dq ''iss'' @ '':'' @ dq ''test-issuer'' @ '','' @ dq ''aud'' @ '':'' @ dq ''test-aud'' @ '','' @
     dq ''exp'' @ '':9999999999}''"

definition JwtAlgNoneVulnerabilityBlocked :: "'j rig \<Rightarrow> 'w test_case" where
  "JwtAlgNoneVulnerabilityBlocked R =
     TEST_CASE ''Security::CyberAttacks'' ''JwtAlgNoneVulnerabilityBlocked''
     (\<lambda>w. let keyMgr = new_key_manager (rg_crypto R) (rg_random R 0) ''security-test-key'' [] [];
              noneToken = b64_text forged_none_header @ ''.'' @ b64_text forged_none_payload @ ''.''
          in (not_accepted (in_attacks 121) (validateAccessToken (rg_crypto R) (rg_json R)
                ''test-issuer'' ''test-aud'' keyMgr (rg_clock R 1) noneToken), w))"

definition JwtUnknownKeyIdRejected :: "'j rig \<Rightarrow> 'w test_case" where
  "JwtUnknownKeyIdRejected R =
     TEST_CASE ''Security::CyberAttacks'' ''JwtUnknownKeyIdRejected''
     (\<lambda>w. let keyMgr = new_key_manager (rg_crypto R) (rg_random R 0) ''security-test-key'' [] [];
              attackerKeyMgr = new_key_manager (rg_crypto R) (rg_random R 1) ''attacker-evil-kid'' [] [];
              attackerToken = createAccessToken (rg_crypto R) (rg_json R) ''test-issuer'' ''test-aud''
                attackerKeyMgr (rg_clock R 0) ''usr-target'' ''admin'' ''sess-1'' ''jti-1'' 3600
          in (not_accepted (in_attacks 137) (validateAccessToken (rg_crypto R) (rg_json R)
                ''test-issuer'' ''test-aud'' keyMgr (rg_clock R 1) attackerToken), w))"

definition IdorAuthorizationBypassBlocked :: "time \<Rightarrow> 'w test_case" where
  "IdorAuthorizationBypassBlocked now =
     TEST_CASE ''Security::CyberAttacks'' ''IdorAuthorizationBypassBlocked''
     (\<lambda>w. let victimUser = (default_user now)\<lparr>u_id := ''usr-victim-1001'', u_role := ''user''\<rparr>;
              attackerUser = (default_user now)\<lparr>u_id := ''usr-attacker-9999'', u_role := ''user''\<rparr>;
              victimSession = (default_session now)\<lparr>s_id := ''sess-1001'', s_userId := u_id victimUser\<rparr>
          in ([EXPECT_FALSE (in_attacks 214) (Return (canAccessSession attackerUser victimSession)),
               EXPECT_FALSE (in_attacks 218) (Return (canRevokeSession attackerUser victimSession))], w))"

text \<open>The decoder is total in the model, with \<open>None\<close> for what it refuses.\<close>

definition malformedInputs :: "string list" where
  "malformedInputs =
     [''!!!invalid_base64!!!'', ''==='', ''abc%20def'', ''a'', ''ab'', replicate 1000 (CHR ''~'')]"

definition MalformedBase64DoesNotCrash :: "'w test_case" where
  "MalformedBase64DoesNotCrash =
     TEST_CASE ''Security::CyberAttacks'' ''MalformedBase64DoesNotCrash''
     (\<lambda>w. (map (\<lambda>input. EXPECT_NO_THROW (in_attacks 254) (Return (base64UrlDecode input))) malformedInputs, w))"

definition CyberAttacksTest :: "'j rig \<Rightarrow> 'w test_case list" where
  "CyberAttacksTest R =
     [SqlInjectionInRegistrationEmailBlocked, XssPayloadsHandledAsLiteralStrings,
      JwtAlgNoneVulnerabilityBlocked R, JwtUnknownKeyIdRejected R,
      IdorAuthorizationBypassBlocked (rg_clock R 0), MalformedBase64DoesNotCrash]"

section \<open>What the tests ask of the rig\<close>

text \<open>
  Of OpenSSL: digests of 32 bytes, generated keys that sign, with a public key that accepts the
  signatures, and two passwords of the tests that do not collide. Of the JSON library: that it
  reads back the flat objects it printed, reads the key set as \<open>parse_json\<close> does, and does not
  read another algorithm than the one written in a header. Of the random source: two draws that
  differ. Of the clock: readings that do not go back, less than a minute apart.
\<close>

definition rig_ok :: "'j rig \<Rightarrow> bool" where
  "rig_ok R \<longleftrightarrow>
     crypto_laws (rg_crypto R) \<and>
     (\<forall>i. key_pair (rg_crypto R) (fst (cr_generateRsaKeypair (rg_crypto R) (rg_random R i) 2048))
            (snd (cr_generateRsaKeypair (rg_crypto R) (rg_random R i) 2048)) \<and>
        (\<forall>m. cr_sign (rg_crypto R) (fst (cr_generateRsaKeypair (rg_crypto R) (rg_random R i) 2048)) m \<noteq> None)) \<and>
     (\<forall>salt. derive_key (rg_crypto R) ''WrongPassword!'' salt 100000 32 \<noteq>
        derive_key (rg_crypto R) ''SuperSecretPassword2026!'' salt 100000 32) \<and>
     json_roundtrip (rg_json R) \<and>
     (\<forall>t v. parse_json t = Some v \<longrightarrow> rg_load R t = Some v) \<and>
     (\<forall>j. js_load (rg_json R) forged_none_header = Some j \<and> js_has (rg_json R) j ''alg'' \<longrightarrow>
        read_string (rg_json R) j ''alg'' = Return ''none'') \<and>
     randomBytes (rg_random R 0) 32 \<noteq> randomBytes (rg_random R 1) 32 \<and>
     int8 (to_epoch (rg_clock R 0) - 5) \<and> int8 (to_epoch (rg_clock R 0) + 3600) \<and>
     to_epoch (rg_clock R 0) \<le> to_epoch (rg_clock R 1) \<and>
     to_epoch (rg_clock R 1) < to_epoch (rg_clock R 0) + 60"

lemma rig_okD:
  assumes "rig_ok R"
  shows "crypto_laws (rg_crypto R)" "json_roundtrip (rg_json R)"
    "parse_json t = Some v \<Longrightarrow> rg_load R t = Some v"
    "randomBytes (rg_random R 0) 32 \<noteq> randomBytes (rg_random R 1) 32"
    "int8 (to_epoch (rg_clock R 0))" "int8 (to_epoch (rg_clock R 0) - 5)" "int8 (to_epoch (rg_clock R 0) + 60)"
    "int8 (to_epoch (rg_clock R 0) + 3600)"
    "to_epoch (rg_clock R 0) \<le> to_epoch (rg_clock R 1)"
    "to_epoch (rg_clock R 1) < to_epoch (rg_clock R 0) + 60"
  using assms by (auto simp: rig_ok_def int8_def)

lemma rig_keys:
  assumes "rig_ok R" and km: "km = new_key_manager (rg_crypto R) (rg_random R i) kid [] []"
  shows "sk_kid (km_activeKey km) = kid"
    "key_pair (rg_crypto R) (sk_privateKeyPem (km_activeKey km)) (sk_publicKeyPem (km_activeKey km))"
    "cr_sign (rg_crypto R) (sk_privateKeyPem (km_activeKey km)) m \<noteq> None"
    "getVerificationPublicKeyPem km k = (if k = kid then Some (sk_publicKeyPem (km_activeKey km)) else None)"
proof -
  obtain priv pub where k: "cr_generateRsaKeypair (rg_crypto R) (rg_random R i) 2048 = (priv, pub)" by force
  then have "key_pair (rg_crypto R) priv pub" "cr_sign (rg_crypto R) priv m \<noteq> None"
    using assms(1) unfolding rig_ok_def by (metis fst_conv snd_conv)+
  then show "sk_kid (km_activeKey km) = kid"
    "key_pair (rg_crypto R) (sk_privateKeyPem (km_activeKey km)) (sk_publicKeyPem (km_activeKey km))"
    "cr_sign (rg_crypto R) (sk_privateKeyPem (km_activeKey km)) m \<noteq> None"
    "getVerificationPublicKeyPem km k = (if k = kid then Some (sk_publicKeyPem (km_activeKey km)) else None)"
    by (simp_all add: km k new_key_manager_def rebuildJwksJsonLocked_def getVerificationPublicKeyPem_def)
qed

section \<open>The suites pass\<close>

lemma str_find_None [simp]: "str_find c 0 s = None \<longleftrightarrow> c \<notin> set s"
  by (auto simp: str_find_def)

lemma base64UrlEncode_inject: "base64UrlEncode a = base64UrlEncode b \<longleftrightarrow> a = b"
proof
  assume "base64UrlEncode a = base64UrlEncode b"
  then have "map char_of_byte a = map char_of_byte b"
    using base64Url_roundtrip[of a] base64Url_roundtrip[of b] by simp
  then have "map byte_of_char (map char_of_byte a) = map byte_of_char (map char_of_byte b)" by (rule arg_cong)
  then show "a = b" by (simp add: comp_def)
qed simp

lemma wrong_password_refused:
  assumes "derive_key K pw' (randomBytes r 32) 100000 32 \<noteq> derive_key K pw (randomBytes r 32) 100000 32"
  shows "verifyPassword K pw' (hashPassword K r pw) = Return False"
  using assms by (simp add: hashPassword_def Let_def verifyPassword_fields stoi_string_of_nat)

lemma openssl_passes:
  assumes "rig_ok R"
  shows "list_all (passes_in ready) (OpenSslCryptoTest R)"
proof -
  let ?K = "rg_crypto R"
  have alphabet: "CHR ''='' \<notin> set (b64_text s)" "CHR ''+'' \<notin> set (b64_text s)" "CHR ''/'' \<notin> set (b64_text s)" for s
    using base64UrlEncode_alphabet[of "map byte_of_char s"] by (auto simp: b64_text_def b64Chars_def)
  have wrong: "verifyPassword ?K ''WrongPassword!'' (hashPassword ?K (rg_random R 0) ''SuperSecretPassword2026!'') = Return False"
    using assms by (intro wrong_password_refused) (simp add: rig_ok_def)
  have dollar: "CHR ''$'' \<in> set (hashPassword ?K r pw)" "hashPassword ?K r pw \<noteq> []" for r pw
    by (auto simp: hashPassword_def hash_prefix_def Let_def)
  have token: "generateSecureToken r 32 \<noteq> []" for r
    using length_base64UrlEncode[of "randomBytes r 32"] by (auto simp: generateSecureToken_def)
  have differ: "generateSecureToken (rg_random R 0) 32 \<noteq> generateSecureToken (rg_random R 1) 32"
    using rig_okD(4)[OF assms] by (simp add: generateSecureToken_def base64UrlEncode_inject del: One_nat_def)
  show ?thesis
    unfolding OpenSslCryptoTest_def list.pred_inject
    by (intro conjI; (rule passes_in_pure)?)
      (simp_all add: Base64UrlEncodeAndDecodeRoundtrip_def alphabet Sha256HashDeterministic_def rig_okD(1)[OF assms]
        Pbkdf2PasswordHashAndVerify_def verify_hashPassword wrong dollar SecureRandomTokenGeneration_def token
        differ Let_def del: One_nat_def)
qed

lemma rig_loads_keys:
  assumes "rig_ok R" and "km_wf (rg_crypto R) km" and "\<forall>k\<in>set (km_keys km). plain (sk_kid k)"
  shows "rg_load R (getJwksJson km) =
    Some (V_obj [(''keys'', V_list (map (\<lambda>k. jwk_value (sk_jwk k)) (km_keys km)))])"
  using rig_okD(3)[OF assms(1)] jwks_parses[OF assms(2,3)] by blast

lemma keys_pass:
  assumes "rig_ok R"
  shows "list_all (passes_in ready) (RsaKeyManagerTest R)"
proof -
  let ?km = "\<lambda>kid. new_key_manager (rg_crypto R) (rg_random R 0) kid [] []"
  let ?km2 = "rotateKey (rg_crypto R) (rg_random R 1) (rg_clock R 0) ''test-key-v2'' (?km ''test-key-v1'')"
  have one: "km_keys (?km kid) = [km_activeKey (?km kid)]" for kid
    by (simp add: km_keys_def new_key_manager_def rebuildJwksJsonLocked_def split: prod.split)
  have two: "map sk_kid (km_keys ?km2) = [''test-key-v2'', ''test-key-v1'']"
    by (simp add: km_keys_def new_key_manager_def rotateKey_def rebuildJwksJsonLocked_def Let_def split: prod.split)
  have plain: "plain ''test-key-2026''" "plain ''test-key-v1''" "plain ''test-key-v2''"
    by (simp_all add: plain_def)
  have kid: "sk_kid (km_activeKey (?km kid)) = kid" for kid using rig_keys(1)[OF assms refl] .
  have load1: "rg_load R (getJwksJson (?km ''test-key-2026'')) =
      Some (V_obj [(''keys'', V_list [jwk_value (sk_jwk (km_activeKey (?km ''test-key-2026'')))])])"
    using rig_loads_keys[OF assms new_key_manager_wf, of "rg_random R 0" "''test-key-2026''"] plain
    by (simp add: one kid)
  have "list_all plain (map sk_kid (km_keys ?km2))" unfolding two using plain by simp
  then have "\<forall>k\<in>set (km_keys ?km2). plain (sk_kid k)" by (simp add: list_all_iff)
  from rig_loads_keys[OF assms rotateKey_wf[OF new_key_manager_wf] this]
  have load2: "obind (loaded (rg_load R (getJwksJson ?km2))) (json_member ''keys'') =
      Return (V_list (map (\<lambda>k. jwk_value (sk_jwk k)) (km_keys ?km2)))"
    by (simp add: loaded_def)
  have len2: "length (km_keys ?km2) = 2" using arg_cong[OF two, of length] by simp
  have jwk: "jwk_value (sk_jwk (km_activeKey (?km kid))) = V_obj [(''kty'', V_str ''RSA''), (''use'', V_str ''sig''),
      (''alg'', V_str ''RS256''), (''kid'', V_str kid), (''n'', V_str (jw_n (sk_jwk (km_activeKey (?km kid))))),
      (''e'', V_str (jw_e (sk_jwk (km_activeKey (?km kid)))))]" for kid
    by (simp add: jwk_value_def jwk_fields_def new_key_manager_def rebuildJwksJsonLocked_def createKeyRecord_def
        split: prod.split)
  have active2: "sk_kid (km_activeKey ?km2) = ''test-key-v2''" using two by (simp add: km_keys_def)
  have nonempty: "getJwksJson (?km kid) \<noteq> []" for kid
    by (simp add: getJwksJson_def new_key_manager_def rebuildJwksJsonLocked_def jwks_json_def split: prod.split)
  have "passes_in ready (RsaKeyManagerGeneratesAndExportsJwks R)"
    by (rule passes_in_pure) (simp_all add: RsaKeyManagerGeneratesAndExportsJwks_def getActiveSigningKey_def
        kid load1 jwk nonempty loaded_def Let_def)
  moreover have "passes_in ready (RsaKeyManagerRotateKey R)"
    by (rule passes_in_pure) (simp_all add: RsaKeyManagerRotateKey_def getActiveSigningKey_def
        kid load2 len2 active2 Let_def del: One_nat_def)
  ultimately show ?thesis by (simp add: RsaKeyManagerTest_def)
qed

lemma str_rfind_dots:
  "c \<notin> set s \<Longrightarrow> str_rfind c (h @ c # s) = Some (length h)"
proof -
  assume "c \<notin> set s"
  then have "index_of ((=) c) (rev s @ c # rev h) = Some (length s)"
    by (subst index_of_append) auto
  then show "str_rfind c (h @ c # s) = Some (length h)" by (simp add: str_rfind_def)
qed

lemma jwt_passes:
  assumes "rig_ok R"
  shows "list_all (passes_in ready) (JwtServiceTest R)"
proof -
  let ?km = "new_key_manager (rg_crypto R) (rg_random R 0) ''test-jwt-key'' [] []"
  note K = rig_keys[OF assms refl] and D = rig_okD[OF assms]
  have created: "validateAccessToken (rg_crypto R) (rg_json R) iss aud ?km (rg_clock R 1)
      (createAccessToken (rg_crypto R) (rg_json R) iss aud ?km (rg_clock R 0) uid rl sid jti ttl) =
    (if to_epoch (rg_clock R 1) < to_epoch (rg_clock R 0) + ttl
     then Return (Ok (issued_claims iss aud (to_epoch (rg_clock R 0)) uid rl sid jti ttl ''test-jwt-key''))
     else jwt_refused ''Token has expired'' ''Token expiration timestamp has passed.'')"
    if "int8 (to_epoch (rg_clock R 0) + ttl)" for iss aud uid rl sid jti ttl
    using created_token[OF D(2,5) that K(2,3) _ D(9), where km' = ?km] by (simp add: K(1,4))
  let ?tok = "createAccessToken (rg_crypto R) (rg_json R) ''test-issuer'' ''test-audience'' ?km (rg_clock R 0)
    ''usr-uuid-42'' ''user'' ''sess-uuid-99'' ''jti-uuid-101'' 60"
  have valid: "validateAccessToken (rg_crypto R) (rg_json R) ''test-issuer'' ''test-audience'' ?km (rg_clock R 1) ?tok =
      Return (Ok (issued_claims ''test-issuer'' ''test-audience'' (to_epoch (rg_clock R 0)) ''usr-uuid-42'' ''user''
        ''sess-uuid-99'' ''jti-uuid-101'' 60 ''test-jwt-key''))"
    using created D(7,10) by simp
  have "\<exists>h p s. ?tok = h @ ''.'' @ p @ ''.'' @ s \<and> CHR ''.'' \<notin> set h \<and> CHR ''.'' \<notin> set s"
    by (rule created_segments[OF D(2) K(3)]) fastforce
  then obtain h p s where tok: "?tok = h @ CHR ''.'' # p @ CHR ''.'' # s" "CHR ''.'' \<notin> set h" "CHR ''.'' \<notin> set s"
    by auto
  have dots: "str_find (CHR ''.'') 0 ?tok = Some (length h)" "str_rfind (CHR ''.'') ?tok = Some (length h + 1 + length p)"
    using str_find_hit[of 0 h "CHR ''.''"] tok(2) str_rfind_dots[OF tok(3), of "h @ CHR ''.'' # p"] by (simp_all add: tok(1))
  have nonempty: "?tok \<noteq> []" by (simp add: tok(1))
  have "passes_in ready (JwtServiceCreateAndValidateToken R)"
    by (rule passes_in_pure) (simp_all add: JwtServiceCreateAndValidateToken_def valid dots nonempty Let_def
        issued_claims_def del: One_nat_def)
  moreover have "passes_in ready (JwtServiceRejectsExpiredToken R)"
    using created[of "- 5"] D(6,9)
    by (intro passes_in_pure) (simp_all add: JwtServiceRejectsExpiredToken_def not_accepted_def jwt_refused_def
        Let_def del: One_nat_def)
  ultimately show ?thesis by (simp add: JwtServiceTest_def)
qed

lemma none_header_refused:
  assumes "\<And>j. js_load J forged_none_header = Some j \<Longrightarrow> js_has J j ''alg'' \<Longrightarrow> read_string J j ''alg'' = Return ''none''"
  shows "\<exists>e. validateAccessToken K J iss aud km now (b64_text forged_none_header @ ''.'' @ b64_text p @ ''.'') = Return (Err e)"
proof -
  have "\<exists>e. jwt_kid J (b64_text forged_none_header) = Return (Err e)"
    using assms by (auto simp: jwt_kid_def jwt_refused_def split: option.split)
  moreover have "jwt_dots (b64_text forged_none_header @ ''.'' @ b64_text p @ ''.'' @ []) =
      Ok (Some (length (b64_text forged_none_header), length (b64_text forged_none_header) + 1 + length (b64_text p)))"
    by (rule iffD2[OF jwt_dots_Some]) (metis b64_text_no_dot empty_iff list.set(1))
  ultimately show ?thesis by (auto simp: validateAccessToken_def substr_def)
qed

lemma unknown_kid_refused:
  assumes "json_roundtrip J" and "\<And>m. cr_sign K (sk_privateKeyPem (km_activeKey km)) m \<noteq> None"
    and "getVerificationPublicKeyPem km' (sk_kid (km_activeKey km)) = None"
  shows "\<exists>e. validateAccessToken K J iss aud km' now' (createAccessToken K J iss aud km now uid rl sid jti ttl) =
    Return (Err e)"
proof (rule created_segments[where km = km and iss = iss and aud = aud and now = now and uid = uid and rl = rl and
      sid = sid and jti = jti and ttl = ttl, OF assms(1,2)])
  fix h sig
  let ?p = "b64_text (js_dump J (W_obj (jwt_payload iss aud (to_epoch now) uid rl sid jti ttl)))"
  assume t: "createAccessToken K J iss aud km now uid rl sid jti ttl = h @ ''.'' @ ?p @ ''.'' @ sig"
    and "jwt_kid J h = Return (Ok (sk_kid (km_activeKey km)))" "CHR ''.'' \<notin> set h" "CHR ''.'' \<notin> set sig"
  then have "validateAccessToken K J iss aud km' now' (h @ ''.'' @ ?p @ ''.'' @ sig) =
      jwt_refused ''Unknown signing key'' (''Key ID '' @ quoted (sk_kid (km_activeKey km)) @ '' not recognized.'')"
    using validate_segments[of h ?p sig J "sk_kid (km_activeKey km)"] assms(3) by simp
  then show ?thesis by (simp add: t jwt_refused_def)
qed

lemma attacks_pass:
  assumes "rig_ok R"
  shows "list_all (passes_in ready) (CyberAttacksTest R)"
proof -
  note K = rig_keys[OF assms refl] and D = rig_okD[OF assms]
  have "js_load (rg_json R) forged_none_header = Some j \<Longrightarrow> js_has (rg_json R) j ''alg'' \<Longrightarrow>
      read_string (rg_json R) j ''alg'' = Return ''none''" for j
    using assms by (simp add: rig_ok_def)
  from none_header_refused[of "rg_json R", OF this] obtain e where
    "validateAccessToken (rg_crypto R) (rg_json R) ''test-issuer'' ''test-aud''
       (new_key_manager (rg_crypto R) (rg_random R 0) ''security-test-key'' [] []) (rg_clock R 1)
       (b64_text forged_none_header @ ''.'' @ b64_text forged_none_payload @ ''.'') = Return (Err e)"
    by blast
  then have none: "passes_in ready (JwtAlgNoneVulnerabilityBlocked R)"
    by (intro passes_in_pure)
      (simp_all add: JwtAlgNoneVulnerabilityBlocked_def not_accepted_def Let_def del: One_nat_def)
  obtain e' where "validateAccessToken (rg_crypto R) (rg_json R) ''test-issuer'' ''test-aud''
      (new_key_manager (rg_crypto R) (rg_random R 0) ''security-test-key'' [] []) (rg_clock R 1)
      (createAccessToken (rg_crypto R) (rg_json R) ''test-issuer'' ''test-aud''
        (new_key_manager (rg_crypto R) (rg_random R 1) ''attacker-evil-kid'' [] []) (rg_clock R 0)
        ''usr-target'' ''admin'' ''sess-1'' ''jti-1'' 3600) = Return (Err e')"
    using unknown_kid_refused[OF D(2) K(3)] by (fastforce simp: K(1,4))
  then have kid: "passes_in ready (JwtUnknownKeyIdRejected R)"
    by (intro passes_in_pure) (simp_all add: JwtUnknownKeyIdRejected_def not_accepted_def Let_def del: One_nat_def)
  have sql: "passes_in ready SqlInjectionInRegistrationEmailBlocked"
    by (rule passes_in_pure) (simp_all add: SqlInjectionInRegistrationEmailBlocked_def sqlPayloads_def
        validateRegister_def register_errors_def registration_def auth_isAllWhitespace_def is_blank_char_def
        isValidEmail_def str_find_def)
  have xss: "passes_in ready XssPayloadsHandledAsLiteralStrings"
    by (rule passes_in_pure) (simp_all add: XssPayloadsHandledAsLiteralStrings_def validateCreate_def
        create_todo_errors_def todo_isAllWhitespace_def isspace_def Let_def)
  have idor: "passes_in ready (IdorAuthorizationBypassBlocked now)" for now
    by (rule passes_in_pure) (simp_all add: IdorAuthorizationBypassBlocked_def canAccessSession_def
        canRevokeSession_def hasPermission_def hasPermission_role_def roleHasPermission_iff default_user_def
        default_session_def Let_def)
  have b64: "passes_in ready MalformedBase64DoesNotCrash"
    by (rule passes_in_pure) (simp_all add: MalformedBase64DoesNotCrash_def malformedInputs_def)
  show ?thesis by (simp add: CyberAttacksTest_def none kid sql xss idor b64)
qed

section \<open>The whole suite\<close>

text \<open>
  The test files in the order of \<^verbatim>\<open>Tests/CMakeLists.txt\<close>, without the ones that need a database,
  the network or a server.
\<close>

definition modelled_tests :: "time \<Rightarrow> (nat \<Rightarrow> sites) \<Rightarrow> 'j rig \<Rightarrow> env test_case list" where
  "modelled_tests now E R =
     DomainEntitiesTest now @ ValidationTest @ SecurityServiceTest now @ UseCasesTest now E @
     EnvLoaderTest @ OpenSslCryptoTest R @ RsaKeyManagerTest R @ JwtServiceTest R @
     [LogLevelParsing] @ CyberAttacksTest R"

lemma modelled_tests_pass: "rig_ok R \<Longrightarrow> passing_suite (modelled_tests now E R) env_ready"
proof -
  assume "rig_ok R"
  then have "list_all (passes_in env_ready) (modelled_tests now E R)"
    by (simp add: modelled_tests_def domain_passes validation_passes security_passes use_cases_pass
        env_loader_passes logging_passes openssl_passes keys_pass jwt_passes attacks_pass)
  then show "passing_suite (modelled_tests now E R) env_ready"
    by unfold_locales (auto simp: list_all_iff passes_in_def)
qed

lemma passing_suite_subset: "passing_suite tests ready \<Longrightarrow> set ts \<subseteq> set tests \<Longrightarrow> passing_suite ts ready"
  unfolding passing_suite_def by blast


definition demo_rig :: "demo_json rig" where
  "demo_rig =
     \<lparr>rg_crypto = demo_crypto,
      rg_json = demo_json_api, rg_load = parse_json, rg_random = (\<lambda>i _. of_nat i),
      rg_clock = (\<lambda>_. 0)\<rparr>"

lemma demo_rig_ok: "rig_ok demo_rig"
proof -
  have none: "\<not> js_has demo_json_api j ''alg''" if "js_load demo_json_api forged_none_header = Some j" for j
    using that by (auto simp: demo_json_api_def forged_none_header_def dq_def eval_nat_numeral)
  have "randomBytes (\<lambda>_. 0) 32 \<noteq> randomBytes (\<lambda>_. 1) 32"
    by (simp add: randomBytes_def map_replicate_const)
  then show ?thesis
    by (auto simp: rig_ok_def demo_rig_def crypto_laws_def key_pair_def demo_crypto_def demo_json_roundtrip
        derive_key_def int8_def to_epoch_def byte_of_char_def min_def dest: none)
qed


end
