(* ===== verification/Void_Result.thy ===== *)
theory Void_Result
  imports Domain
begin

text \<open>
  The specialisation \<^verbatim>\<open>Result<void, E>\<close> of \<^verbatim>\<open>Domain/include/Domain/Common/Result.h\<close>: an optional
  error instead of a variant. The validators return it. The rest of the development uses
  \<open>(unit, 'e) result\<close>, the other representation at the type with one value; here they are shown
  to be the same to every client.
\<close>

record 'e void_result =
  m_error :: "'e option"

definition void_ok :: "'e void_result" where
  "void_ok = \<lparr>m_error = None\<rparr>"

definition void_err :: "'e \<Rightarrow> 'e void_result" where
  "void_err e = void_ok\<lparr>m_error := Some e\<rparr>"

definition void_isOk :: "'e void_result \<Rightarrow> bool" where
  "void_isOk r \<longleftrightarrow> m_error r = None"

definition void_isErr :: "'e void_result \<Rightarrow> bool" where
  "void_isErr r \<longleftrightarrow> m_error r \<noteq> None"

definition void_error :: "'e void_result \<Rightarrow> 'e outcome" where
  "void_error r = (if void_isOk r then Throw else case m_error r of None \<Rightarrow> Throw | Some e \<Rightarrow> Return e)"

text \<open>The value of the variant that an optional error stands for, and back.\<close>

fun void_rep :: "(unit, 'e) result \<Rightarrow> 'e void_result" where
  "void_rep (Ok ()) = void_ok"
| "void_rep (Err e) = void_err e"

lemmas void_defs = void_ok_def void_err_def void_isOk_def void_isErr_def void_error_def

lemma void_rep_operations:
  "void_isOk (void_rep r) = isOk r" "void_isErr (void_rep r) = isErr r"
  "void_error (void_rep r) = result_error r"
  by (cases r; simp add: void_defs)+

lemma bij_void_rep: "bij void_rep"
proof (rule bijI)
  show "inj void_rep"
  proof (rule injI)
    fix r r' :: "(unit, 'e) result"
    assume "void_rep r = void_rep r'"
    then show "r = r'" by (cases r; cases r') (simp_all add: void_defs)
  qed
  show "surj void_rep"
  proof (rule surjI)
    fix r :: "'e void_result"
    show "void_rep (case m_error r of None \<Rightarrow> Ok () | Some e \<Rightarrow> Err e) = r"
      by (cases r) (simp add: void_defs split: option.split)
  qed
qed

text \<open>
  So a client that only asks \<^verbatim>\<open>isOk\<close>, \<^verbatim>\<open>isErr\<close> and \<^verbatim>\<open>error\<close> cannot tell the two apart, and every
  optional error is met.
\<close>

lemma void_client:
  "\<exists>!v. void_rep v = r \<and> isOk v = void_isOk r \<and> isErr v = void_isErr r \<and> result_error v = void_error r"
  using bij_void_rep void_rep_operations by (metis bij_pointE)

end
