(* ===== verification/Spec2Isabelle.thy ===== *)
theory Spec2Isabelle
  imports Startup Banner Todo_Refinement Queue_Refinement Store_Refinement Api_Contract Pool_Monitor
    Win_Http Crypto_Tests Void_Result
begin

text \<open>
  CPPBackendApi: a verification development.

  The program is a REST server in C++ with four data services (todos, cache, message queue,
  JSON documents) and an identity service (accounts, sessions, rotating refresh tokens, RS256
  access tokens, Google sign-in), all on one PostgreSQL database. It has four layers: Domain
  (entities), Application (validators, use cases), Infrastructure (repositories, security,
  configuration) and Presentation (Crow controllers, router, middleware); \<^verbatim>\<open>Core/Core.cpp\<close>
  wires them. A request reaches a controller by the router; the controller reads the body,
  asks the guard where the route needs a session, runs one use case, and prints its result;
  a use case validates, then calls repositories and security services; every repository call
  is one database transaction.
\<close>

text \<open>
  How the model reads.

  \<^item> State: \<open>db\<close> has one list of rows per table. A repository method is a function from the
    environment's answers and \<open>db\<close> to the method's result and the new \<open>db\<close>; its SQL is
    written out where it occurs. Every \<^verbatim>\<open>catch\<close> is a branch, and a rollback restores \<open>db\<close>.
  \<^item> Errors: \<open>Err e\<close> and \<open>Ok x\<close> are the program's \<^verbatim>\<open>Result<T>\<close>, with the message,
    details and status code of the source; \<open>Throw\<close> is a C++ exception that leaves the call.
  \<^item> Environment: a use case takes \<open>E :: sites\<close>, and \<open>E n\<close> answers its n-th call (clock of
    the process, clock of the database, generated keys, random bytes, whether the transaction
    commits). In a request the guard has the places 0 to 4, the look-up of the administrator 5,
    the clock of the answer 9, and the use case those from 10, so no two calls share an answer.
  \<^item> Integers: ids of todos and messages are \<open>64 word\<close>, bytes \<open>8 word\<close>, the encoder's
    groups \<open>32 word\<close>; a column's range is a check that may refuse the row. Time is an
    \<open>int\<close> of nanoseconds.
\<close>

text \<open>
  Which theory models what (paths under \<^verbatim>\<open>src/\<close>).

  \<^item> \<open>Prelude\<close>, \<open>Std_Text\<close>: shared vocabulary, the parts of the C++ standard library that are
    used, generic lemmas, and the locale \<open>directed_steps\<close> (what a run of steps keeps).
  \<^item> \<open>Domain\<close>, \<open>Api\<close>: \<^verbatim>\<open>Domain/\<close>, the transfer objects and response envelopes. \<open>Void_Result\<close>:
    the separate class for results without a value, and that \<open>(unit, 'e) result\<close> stands for it.
  \<^item> \<open>Validation\<close>, \<open>Authorization\<close>, \<open>Security_Interfaces\<close>: \<^verbatim>\<open>Application/src/Validation\<close>,
    \<^verbatim>\<open>Application/src/Security\<close>, and the interfaces of \<^verbatim>\<open>Application/Security\<close> as the record
    \<open>services\<close>, with the contract of a password hasher (locale \<open>password_hasher\<close>).
  \<^item> \<open>Database\<close>, \<open>Users\<close>, \<open>Session_Store\<close>, \<open>Todo_Repository\<close>, \<open>Cache\<close>,
    \<open>Message_Queue\<close>, \<open>Documents\<close>: the tables and the classes \<^verbatim>\<open>Postgres*Repository\<close> and
    \<^verbatim>\<open>InMemoryTodoRepository\<close> of \<^verbatim>\<open>Infrastructure/src/Persistence\<close>; each shows what its
    operations keep of its table. The use cases of cache, queue and documents are with their
    tables. The
    locales \<open>todo_contract\<close> and \<open>expiring_store\<close> are the contracts their clients rely on.
  \<^item> \<open>Transactions\<close>: the invariant \<open>db_wf\<close> of all tables, the order \<open>db_le\<close> of what never
    goes backwards, and the step relation \<open>txn\<close>. Since each repository call is a transaction,
    \<open>txn\<^sup>*\<^sup>*\<close> covers every interleaving of every request of every thread.
  \<^item> \<open>Auth_UseCases\<close>, \<open>Session_UseCases\<close>, \<open>Todo_UseCases\<close>: \<^verbatim>\<open>Application/src/UseCases\<close>, each
    with the lemma that a use case is a run of \<open>txn\<close>; the guard \<open>extractAuthenticatedUser\<close>.
    \<open>Token_Lifecycle\<close> holds the properties of registration, rotation and Google sign-in,
    \<open>Data_Services\<close> those of the four data services.
  \<^item> \<open>Todo_Refinement\<close>: an abstract machine on a map, refined by the use cases over both todo
    repositories (locale \<open>todo_contract_id\<close>, which adds fresh ids to \<open>todo_contract\<close>).
    \<open>Queue_Refinement\<close>, \<open>Store_Refinement\<close>: the abstract machines of the other data services (one
    first-in-first-out queue per topic, a map with expiry, a map from collection and id), each
    refined by its use cases, on every branch.
  \<^item> \<open>Encoding\<close>, \<open>Openssl\<close>, \<open>Key_Manager\<close>, \<open>Jwt_Service\<close>, \<open>Google_Service\<close>:
    \<^verbatim>\<open>OpenSslCrypto.cpp\<close>, \<^verbatim>\<open>RsaKeyManager.cpp\<close>, \<^verbatim>\<open>JwtService.cpp\<close> and
    \<^verbatim>\<open>GoogleAuthService.cpp\<close> of \<^verbatim>\<open>Infrastructure/src/Security\<close>. \<open>Encoding\<close> has the program's own
    encoders over a record \<open>crypto\<close>; \<open>Openssl\<close> has the bodies that call OpenSSL, each early
    return included, over a record of the single calls, and builds that \<open>crypto\<close>. \<open>Jwks\<close> shows
    that the published key set is JSON. \<open>Google_Identity\<close> holds what the Google service promises
    and where it does not check.
  \<^item> \<open>Json\<close>, \<open>Controllers\<close>, \<open>Router\<close>, \<open>Logging\<close>: \<^verbatim>\<open>HttpResponseHelper.cpp\<close>, the controllers,
    \<^verbatim>\<open>Router.cpp\<close> and \<^verbatim>\<open>LoggingMiddleware.h\<close> of \<^verbatim>\<open>Presentation\<close>. \<open>handle_txns\<close> shows that any
    request is a run of \<open>txn\<close>, \<open>handle_guarded\<close> which routes pass the guard first.
  \<^item> \<open>Json_Text\<close>, \<open>OpenApi\<close>, \<open>Answer_Codes\<close>, \<open>Api_Contract\<close>: a printer and a reader of JSON
    texts that are inverse to each other; \<^verbatim>\<open>OpenApiSpec.cpp\<close>, whose literals are the printed
    document and the page; the code of every answer of every route; and that the document is
    true of the server: its operations are the routes, its marks for tokens the guarded
    handlers, its codes the codes of success, its required fields the ones asked for.
  \<^item> \<open>Server\<close>: the services as \<^verbatim>\<open>Core/Core.cpp\<close> wires them, and the properties that span the
    layers: which token a protected route admits, that a login's token opens the guard, that a
    password set is a password that signs in, what any sequence of requests keeps.
  \<^item> \<open>Env_Config\<close>: \<^verbatim>\<open>EnvLoader.cpp\<close> and the command line of \<^verbatim>\<open>Core.cpp\<close>.
  \<^item> \<open>Connection_Pool\<close>, \<open>Pool_Monitor\<close>: \<^verbatim>\<open>PostgresDb.cpp\<close>, first one step per method, since each
    runs under the pool's mutex; then with the condition variable, the callers that sleep on it
    and the notifications that wake them. \<open>Revocation_Listener\<close>:
    \<^verbatim>\<open>PostgresSessionRevocationListener.cpp\<close>, whose worker may run for ever.
  \<^item> \<open>Startup\<close>: \<^verbatim>\<open>main\<close> as a function from configuration, command line and key randomness to
    a node (its controllers' data, port, log level, pool and listener); what two nodes share.
    \<open>Banner\<close>: what \<^verbatim>\<open>main\<close> prints, and that its list of endpoints is the table of routes but
    for seven routes.
  \<^item> \<open>Win_Http\<close>: the HTTP client of \<^verbatim>\<open>GoogleAuthService.cpp\<close> in the build for Windows: which
    handles are open after each way out, and when its loop ends.
  \<^item> \<open>Test_Harness\<close>, \<open>Unit_Tests\<close>, \<open>Crypto_Tests\<close>: \<^verbatim>\<open>Tests/include/TestHarness.h\<close> and
    \<^verbatim>\<open>Tests/main.cpp\<close> with what a verdict means, and the test cases on everything but the database
    and the server, statement by statement. The model passes the tests the code is tested with
    (locale \<open>passing_suite\<close>), for all environments and libraries the tests can be run with.
  \<^item> \<open>Examples\<close>, \<open>Json_Example\<close>: concrete instances at which the witnesses are evaluated.
\<close>

text \<open>
  Parameters: the code that is not in the repository.

  \<^item> \<open>pg\<close>: PostgreSQL's casts, column limits, collation, channel names and JSON operators.
  \<^item> \<open>openssl\<close>: the single calls of OpenSSL, with their documented behaviour \<open>openssl_laws\<close>. From
    it follow the laws that the properties over \<open>crypto\<close> ask for: \<open>key_pair\<close> (the public key
    accepts what the private key signed) and \<open>crypto_laws\<close> (the length of a digest).
  \<^item> \<open>json_api\<close>: Crow's JSON library. \<open>json_roundtrip\<close> says that loading a printed object gives
    its fields back; \<open>Json_Example\<close> is a library that satisfies it.
  \<^item> \<open>host_os\<close>, \<open>file_system\<close>: \<^verbatim>\<open>popen\<close>, \<^verbatim>\<open>mkstemp\<close>, \<^verbatim>\<open>write\<close>; existence and lines of files.
  \<^item> \<open>winhttp\<close>: what WinHTTP answers to the calls of the Windows client.
  \<^item> Crow's matching of a URL against the rules: an \<open>endpoint\<close> is the rule that matched.
  \<^item> In the pool, what \<^verbatim>\<open>pqxx::connection\<close> answers, and in a poll the rows others hold locked.
\<close>

text \<open>
  Bounds. Every loop of the source that ends is structural or has a measure; the listener's loop
  and the one of the Windows client, which may not end, are partial functions with the value
  \<open>None\<close> then. The only fuel is that of the reader of JSON texts, which is no part of the
  program: it gets the length of the text, and \<open>parse_print\<close> shows that this is enough for
  every printed document. The numbers are those of the source: the loader climbs at most five
  directories (\<^verbatim>\<open>findEnvFile\<close>), the key manager keeps the active key and five before it, the
  pipe of \<^verbatim>\<open>curl\<close> is read in pieces of 4095 characters, listings and queries have 100 or 200
  entries.

  Not modelled: of the branches for Windows, the calls that differ in their name only
  (variables of the process, broken-down time); in \<^verbatim>\<open>Core.cpp\<close> the event loop of Crow;
  memory management (the deleters and reference counts, whose only visible effect, a connection
  that goes back to the pool, is modelled); the SQL of the migrations beyond the constraints of the tables; class
  declarations, which repeat the signatures of what they declare, and the overloads on
  \<^verbatim>\<open>std::string_view\<close>; the tests that need a database, a server, mocks or Crow's own printer,
  the benchmarks, and build files.
\<close>

end
